(* ===== verification/Gateway_Prelude.thy ===== *)
theory Gateway_Prelude
  imports Main "HOL-Library.Word" "HOL-Library.AList" "HOL-Library.Signed_Division"
begin

text \<open>
  Shared vocabulary of the development: Go's fixed-width integers, instants and durations,
  the outcome of a call (a value, an error, a panic or a call that never returns), the byte
  strings the gateway stores, and \<open>sync.Map\<close> as an association list behind a map interface.

  Conventions used by every component.
  \<^item> \<open>time.Time\<close> is the number of nanoseconds since Go's zero instant (1 January of year 1,
    UTC), so \<open>IsZero\<close> is equality with 0. \<open>time.Duration\<close> is a number of nanoseconds.
    Both are unbounded here; the gateway's instants and durations are far from 64 bits.
  \<^item> A call reads the clock once: the reading is the argument \<open>now\<close> of its definition.
  \<^item> Log lines have no effect on the state and are left out.
\<close>

named_theorems gw_defs \<open>definitions of the operations of a component\<close>
named_theorems gw_frame \<open>fields an operation leaves alone\<close>

section \<open>Integers, instants, durations\<close>

type_synonym int32 = "32 word"
type_synonym int64 = "64 word"
type_synonym gotime = int
type_synonym duration = int

definition Millisecond :: duration where
  "Millisecond = 1000000"

definition Second :: duration where
  "Second = 1000 * Millisecond"

definition Minute :: duration where
  "Minute = 60 * Second"

definition Hour :: duration where
  "Hour = 60 * Minute"

lemmas duration_defs = Millisecond_def Second_def Minute_def Hour_def

definition IsZero :: "gotime \<Rightarrow> bool" where
  "IsZero t \<longleftrightarrow> t = 0"

definition Before :: "gotime \<Rightarrow> gotime \<Rightarrow> bool" where
  "Before t u \<longleftrightarrow> t < u"

lemmas time_defs = IsZero_def Before_def

text \<open>Seconds between Go's zero instant and the Unix epoch.\<close>

definition unixToInternal :: int where
  "unixToInternal = 62135596800"

definition Time_Unix :: "gotime \<Rightarrow> int" where
  "Time_Unix t = t div Second - unixToInternal"

definition Unix_Time :: "int \<Rightarrow> gotime" where
  "Unix_Time s = (s + unixToInternal) * Second"

lemma Unix_Time_Time_Unix: "Unix_Time (Time_Unix t) = t - t mod Second"
  by (simp add: Unix_Time_def Time_Unix_def Second_def Millisecond_def minus_mod_eq_div_mult)

lemma Unix_Time_le: "Unix_Time (Time_Unix t) \<le> t"
  by (simp add: Unix_Time_Time_Unix Second_def Millisecond_def)

lemma Unix_Time_gt: "t - Second < Unix_Time (Time_Unix t)"
  by (simp add: Unix_Time_Time_Unix Second_def Millisecond_def)

text \<open>Go's \<open>%\<close> truncates; on a non-negative dividend it is the usual remainder.\<close>

lemma smod_nonneg:
  assumes "0 \<le> (a :: int)" and "0 < n"
  shows "a smod n = a mod n"
proof (cases "a = 0")
  case False
  with assms have "sgn a = 1" by simp
  with assms show ?thesis by (simp add: smod_int_alt_def)
qed (simp add: smod_int_alt_def)

text \<open>Decimal notation, as \<open>fmt\<close>'s \<open>%d\<close> prints it.\<close>

function decimal :: "int \<Rightarrow> string" where
  "decimal n = (if n < 10 then [char_of (48 + nat n)] else decimal (n div 10) @ [char_of (48 + nat (n mod 10))])"
  by pat_completeness auto
termination
  by (relation "measure nat") auto

declare decimal.simps [simp del]

definition fmt_d :: "int \<Rightarrow> string" where
  "fmt_d i = (if i < 0 then CHR ''-'' # decimal (- i) else decimal i)"

definition UnixNano :: "gotime \<Rightarrow> int" where
  "UnixNano t = t - unixToInternal * Second"

text \<open>\<open>bytes.TrimSpace\<close> and \<open>strings.TrimSpace\<close>, on the ASCII white space.\<close>

definition is_space :: "char \<Rightarrow> bool" where
  "is_space c \<longleftrightarrow> c \<in> {CHR '' '', CHR ''\<newline>'', CHR 0x09, CHR 0x0B, CHR 0x0C, CHR 0x0D}"

definition TrimSpace :: "string \<Rightarrow> string" where
  "TrimSpace s = rev (dropWhile is_space (rev (dropWhile is_space s)))"

definition CR :: char where
  "CR = CHR 0x0D"

definition LF :: char where
  "LF = CHR 0x0A"

definition crlf :: string where
  "crlf = [CR, LF]"

text \<open>Case folding on ASCII letters.\<close>

definition lower :: "char \<Rightarrow> char" where
  "lower c = (if c \<in> set ''ABCDEFGHIJKLMNOPQRSTUVWXYZ'' then char_of (of_char c + (32 :: nat)) else c)"

section \<open>Outcomes of a call\<close>

text \<open>
  A Go call returns a value, returns an error, panics, or blocks for ever (here: on a mutex
  its own goroutine already holds).
\<close>

datatype panic = IndexOutOfRange | NilDereference | CloseOfClosedChannel | TypeAssertion | AlreadyRegistered

datatype ('e, 'a) outcome = Ret 'a | Fail 'e | Panic panic | Blocked

fun returns :: "('e, 'a) outcome \<Rightarrow> bool" where
  "returns (Ret a) = True"
| "returns (Fail e) = True"
| "returns _ = False"

text \<open>Indexing a slice: out of range is a panic.\<close>

definition slice_get :: "'a list \<Rightarrow> int \<Rightarrow> 'a option" where
  "slice_get xs i = (if 0 \<le> i \<and> i < int (length xs) then Some (xs ! nat i) else None)"

lemma slice_get_Some [simp]: "0 \<le> i \<Longrightarrow> i < int (length xs) \<Longrightarrow> slice_get xs i = Some (xs ! nat i)"
  by (simp add: slice_get_def)

lemma slice_get_in_set: "slice_get xs i = Some x \<Longrightarrow> x \<in> set xs"
  by (auto simp: slice_get_def split: if_splits)

lemma slice_get_None_iff: "slice_get xs i = None \<longleftrightarrow> i < 0 \<or> int (length xs) \<le> i"
  by (auto simp: slice_get_def)

section \<open>Stored bytes\<close>

text \<open>
  A stored \<open>[]byte\<close> is either plain text or what \<open>json.Marshal\<close> made of an object. The model
  keeps the object: decoding the output of \<open>json.Marshal\<close> gives the object back. Numbers are
  whole (the gateway stores Unix seconds, which a \<open>float64\<close> holds exactly).
\<close>

datatype jval = JNum int | JStr string | JBool bool | JArr "jval list" | JObj "(string \<times> jval) list"

type_synonym jobj = "(string \<times> jval) list"

datatype bytes = Text string | Json jobj

fun json_Unmarshal :: "bytes \<Rightarrow> jobj option" where
  "json_Unmarshal (Json m) = Some m"
| "json_Unmarshal (Text s) = None"

fun as_string :: "jval option \<Rightarrow> string option" where
  "as_string (Some (JStr s)) = Some s"
| "as_string _ = None"

fun as_number :: "jval option \<Rightarrow> int option" where
  "as_number (Some (JNum n)) = Some n"
| "as_number _ = None"

section \<open>sync.Map\<close>

text \<open>
  The map interface: what \<open>Load\<close> returns after a \<open>Store\<close> or a \<open>Delete\<close>. \<open>entries\<close> is what
  \<open>Range\<close> visits; the order is not part of the interface.
\<close>

locale sync_map_spec =
  fixes Load :: "'m \<Rightarrow> 'k \<Rightarrow> 'v option"
    and Store :: "'k \<Rightarrow> 'v \<Rightarrow> 'm \<Rightarrow> 'm"
    and Delete :: "'k \<Rightarrow> 'm \<Rightarrow> 'm"
    and entries :: "'m \<Rightarrow> ('k \<times> 'v) list"
    and invar :: "'m \<Rightarrow> bool"
  assumes Load_Store: "Load (Store k v m) = (Load m)(k \<mapsto> v)"
    and Load_Delete: "Load (Delete k m) = (Load m)(k := None)"
    and Load_entries: "invar m \<Longrightarrow> Load m k = Some v \<longleftrightarrow> (k, v) \<in> set (entries m)"
    and distinct_entries: "invar m \<Longrightarrow> distinct (map fst (entries m))"
    and invar_Store: "invar m \<Longrightarrow> invar (Store k v m)"
    and invar_Delete: "invar m \<Longrightarrow> invar (Delete k m)"
begin

lemma dom_Load: "invar m \<Longrightarrow> dom (Load m) = fst ` set (entries m)"
  by (force simp: dom_def Load_entries)

lemma card_dom_Load: "invar m \<Longrightarrow> card (dom (Load m)) = length (entries m)"
  using distinct_card [OF distinct_entries, of m] by (simp add: dom_Load)

end

text \<open>
  The model of \<open>sync.Map\<close> with string keys: an association list with at most one entry per
  key. The six typed stores and the shards of the key-value store are such lists.
\<close>

type_synonym 'v syncmap = "(string \<times> 'v) list"

abbreviation sm_Load :: "'v syncmap \<Rightarrow> string \<Rightarrow> 'v option" where
  "sm_Load \<equiv> map_of"

abbreviation sm_Store :: "string \<Rightarrow> 'v \<Rightarrow> 'v syncmap \<Rightarrow> 'v syncmap" where
  "sm_Store \<equiv> AList.update"

abbreviation sm_Delete :: "string \<Rightarrow> 'v syncmap \<Rightarrow> 'v syncmap" where
  "sm_Delete \<equiv> AList.delete"

definition sm_ok :: "'v syncmap \<Rightarrow> bool" where
  "sm_ok m \<longleftrightarrow> distinct (map fst m)"

lemma sm_ok_Nil [simp]: "sm_ok []"
  by (simp add: sm_ok_def)

interpretation sm: sync_map_spec sm_Load sm_Store sm_Delete "\<lambda>m. m" sm_ok
proof (unfold_locales, goal_cases)
  case (1 k v m)
  show ?case by (rule update_conv')
next
  case (2 k m)
  show ?case by (rule delete_conv')
next
  case (3 m k v)
  then show ?case by (simp add: sm_ok_def)
next
  case (4 m)
  then show ?case by (simp add: sm_ok_def)
next
  case (5 m k v)
  then show ?case by (simp add: sm_ok_def distinct_update)
next
  case (6 m k)
  then show ?case by (simp add: sm_ok_def distinct_delete)
qed

declare sm.Load_Store [simp] sm.Load_Delete [simp] sm.invar_Store [simp, intro] sm.invar_Delete [simp, intro]

text \<open>How the number of entries moves.\<close>

lemma sm_length_Store:
  "length (sm_Store k v m) = (if sm_Load m k = None then Suc (length m) else length m)"
  by (induction m) auto

lemma sm_length_Delete:
  assumes "sm_ok m"
  shows "length (sm_Delete k m) = (if sm_Load m k = None then length m else length m - 1)"
proof -
  have "length (sm_Delete k m) = card (dom (sm_Load m) - {k})"
    using sm.card_dom_Load [OF sm.invar_Delete [OF assms], of k] by simp
  also have "\<dots> = (if k \<in> dom (sm_Load m) then card (dom (sm_Load m)) - 1 else card (dom (sm_Load m)))"
    by (simp add: finite_dom_map_of)
  finally show ?thesis
    using sm.card_dom_Load [OF assms] by (auto simp: dom_def)
qed

lemma sm_length_Delete_int:
  assumes "sm_ok m" and "sm_Load m k = Some v"
  shows "int (length (sm_Delete k m)) = int (length m) - 1"
  using assms sm_length_Delete [OF assms(1), of k] by (cases m) auto

lemma sm_Load_filter:
  "sm_ok m \<Longrightarrow> sm_Load (filter (\<lambda>(k, v). P k v) m) k =
     (case sm_Load m k of None \<Rightarrow> None | Some v \<Rightarrow> if P k v then Some v else None)"
  by (induction m) (force simp: sm_ok_def map_of_eq_None_iff split: option.splits)+

text \<open>Deleting the keys of the entries that satisfy \<open>P\<close> deletes exactly those entries.\<close>

lemma filter_keys_of:
  assumes "sm_ok m"
  shows "filter (\<lambda>(k, v). k \<notin> fst ` set (filter (\<lambda>(k, v). P v) m)) m = filter (\<lambda>(k, v). \<not> P v) m"
proof (rule filter_cong [OF refl])
  fix e assume e: "e \<in> set m"
  have uniq: "x = e" if "x \<in> set m" and "fst x = fst e" for x
    using inj_onD [of fst "set m" x e] assms e that by (simp add: sm_ok_def distinct_map)
  have "fst e \<in> fst ` set (filter (\<lambda>(k, v). P v) m) \<longleftrightarrow> P (snd e)"
  proof
    assume "fst e \<in> fst ` set (filter (\<lambda>(k, v). P v) m)"
    then obtain x where "x \<in> set m" and "fst x = fst e" and "P (snd x)"
      by (auto simp: split_beta)
    then show "P (snd e)" using uniq by blast
  next
    assume "P (snd e)"
    then show "fst e \<in> fst ` set (filter (\<lambda>(k, v). P v) m)"
      using e by (auto simp: split_beta)
  qed
  then show "(case e of (k, v) \<Rightarrow> k \<notin> fst ` set (filter (\<lambda>(k, v). P v) m)) = (case e of (k, v) \<Rightarrow> \<not> P v)"
    by (simp add: split_beta)
qed

lemma fold_sm_Delete: "fold sm_Delete ks m = filter (\<lambda>(k, v). k \<notin> set ks) m"
  by (induction ks arbitrary: m) (auto simp: AList.delete_eq intro!: filter_cong)

lemma sm_ok_filter [simp, intro]: "sm_ok m \<Longrightarrow> sm_ok (filter P m)"
  by (auto simp: sm_ok_def distinct_map_filter)

section \<open>Functional refinement of a step\<close>

text \<open>
  A component is driven by a sequence of calls, each of which changes the state and gives a
  reply. A detailed step implements an abstract one when, on the states that satisfy the
  invariant, it gives the same reply and its state is mapped to the abstract state; then whole
  runs do too.
\<close>

fun run_calls :: "('c \<Rightarrow> 's \<Rightarrow> 's \<times> 'r) \<Rightarrow> 'c list \<Rightarrow> 's \<Rightarrow> 's \<times> 'r list" where
  "run_calls step [] s = (s, [])"
| "run_calls step (c # cs) s =
     (let (s', r) = step c s; (s'', rs) = run_calls step cs s' in (s'', r # rs))"

locale functional_refinement =
  fixes step :: "'c \<Rightarrow> 's \<Rightarrow> 's \<times> 'r"
    and spec :: "'c \<Rightarrow> 'a \<Rightarrow> 'a \<times> 'r"
    and abs :: "'s \<Rightarrow> 'a"
    and ok :: "'s \<Rightarrow> bool"
  assumes step_ok: "ok s \<Longrightarrow> ok (fst (step c s))"
    and step_refines: "ok s \<Longrightarrow> map_prod abs id (step c s) = spec c (abs s)"
begin

lemma run_ok: "ok s \<Longrightarrow> ok (fst (run_calls step cs s))"
  by (induction cs arbitrary: s) (auto simp: split_beta Let_def dest: step_ok)

lemma run_refines: "ok s \<Longrightarrow> map_prod abs id (run_calls step cs s) = run_calls spec cs (abs s)"
proof (induction cs arbitrary: s)
  case (Cons c cs)
  have step: "spec c (abs s) = (abs (fst (step c s)), snd (step c s))"
    using step_refines [OF Cons.prems, of c] by (metis id_apply map_prod_simp prod.collapse)
  show ?case
    using Cons.IH [OF step_ok [OF Cons.prems, of c]]
    by (simp add: step split_beta Let_def prod_eq_iff)
qed simp

end

section \<open>Pools with an active member\<close>

text \<open>
  The gateway keeps several pools (RTPEngine instances, AMI clients, SIP backends) of which one
  member is active, by index. The contract of a pool: its well-formed states have the index in
  range, and every call keeps them so, keeps the number of members, and returns.
\<close>

locale active_pool =
  fixes step :: "'c \<Rightarrow> 's \<Rightarrow> 's \<times> ('e, 'r) outcome"
    and members :: "'s \<Rightarrow> 'm list"
    and active :: "'s \<Rightarrow> int"
    and ok :: "'s \<Rightarrow> bool"
  assumes ok_active: "ok s \<Longrightarrow> 0 \<le> active s \<and> active s < int (length (members s))"
    and step_ok: "ok s \<Longrightarrow> ok (fst (step c s))"
    and step_size: "ok s \<Longrightarrow> length (members (fst (step c s))) = length (members s)"
begin

lemma active_member: "ok s \<Longrightarrow> slice_get (members s) (active s) = Some (members s ! nat (active s))"
  using ok_active by simp

lemma run_pool:
  assumes "ok s"
  shows "ok (fst (run_calls step cs s)) \<and> length (members (fst (run_calls step cs s))) = length (members s)"
  using assms
proof (induction cs arbitrary: s)
  case (Cons c cs)
  then show ?case
    using step_ok [OF Cons.prems, of c] step_size [OF Cons.prems, of c] by (simp add: split_beta Let_def)
qed simp

end

text \<open>A pool none of whose calls panics or blocks.\<close>

locale failover_pool = active_pool +
  assumes step_returns: "ok s \<Longrightarrow> returns (snd (step c s))"
begin

lemma run_returns:
  assumes "ok s"
  shows "list_all returns (snd (run_calls step cs s))"
  using assms
proof (induction cs arbitrary: s)
  case (Cons c cs)
  then show ?case
    using step_ok [OF Cons.prems, of c] step_returns [OF Cons.prems, of c] by (simp add: split_beta Let_def)
qed simp

end

section \<open>Properties that only some calls grant\<close>

text \<open>
  \<open>has s k\<close> can become true only in a call that grants it; then whatever has it at the end of a
  run was granted it by some call of that run.
\<close>

locale granted =
  fixes step :: "'c \<Rightarrow> 's \<Rightarrow> 's \<times> 'r"
    and has :: "'s \<Rightarrow> 'k \<Rightarrow> bool"
    and grant :: "'c \<Rightarrow> 's \<Rightarrow> 'k \<Rightarrow> bool"
  assumes step_grant: "has (fst (step c s)) k \<Longrightarrow> has s k \<or> grant c s k"
begin

lemma run_granted:
  assumes "has (fst (run_calls step cs s)) k" and "\<not> has s k"
  shows "\<exists>before c after. cs = before @ c # after \<and> grant c (fst (run_calls step before s)) k"
  using assms
proof (induction cs arbitrary: s)
  case (Cons c cs)
  show ?case
  proof (cases "has (fst (step c s)) k")
    case True
    then have "grant c s k" using step_grant Cons.prems(2) by blast
    then have "c # cs = [] @ c # cs \<and> grant c (fst (run_calls step [] s)) k" by simp
    then show ?thesis by blast
  next
    case False
    have "has (fst (run_calls step cs (fst (step c s)))) k" using Cons.prems(1) by (simp add: split_beta Let_def)
    then obtain before c' after where split: "cs = before @ c' # after"
        "grant c' (fst (run_calls step before (fst (step c s)))) k"
      using Cons.IH False by blast
    then have "c # cs = (c # before) @ c' # after \<and> grant c' (fst (run_calls step (c # before) s)) k"
      by (simp add: split_beta Let_def)
    then show ?thesis by blast
  qed
qed simp

end

section \<open>Buffered channels\<close>

text \<open>
  A buffered channel inside a larger state: every call appends what it sends, takes what it
  receives from the front, and respects the capacity. Then over a run the messages come out in
  the order in which they went in, none twice and none invented.
\<close>

locale fifo_channel =
  fixes step :: "'c \<Rightarrow> 's \<Rightarrow> 's \<times> 'r"
    and chan :: "'s \<Rightarrow> 'a list"
    and capacity :: nat
    and sent :: "'r \<Rightarrow> 'a list"
    and received :: "'r \<Rightarrow> 'a list"
  assumes step_fifo: "chan s @ sent (snd (step c s)) = received (snd (step c s)) @ chan (fst (step c s))"
    and step_capacity: "length (chan s) \<le> capacity \<Longrightarrow> length (chan (fst (step c s))) \<le> capacity"
begin

lemma run_fifo:
  "chan s @ concat (map sent (snd (run_calls step cs s))) =
   concat (map received (snd (run_calls step cs s))) @ chan (fst (run_calls step cs s))"
proof (induction cs arbitrary: s)
  case (Cons c cs)
  let ?s = "fst (step c s)"
  have "chan s @ sent (snd (step c s)) @ concat (map sent (snd (run_calls step cs ?s))) =
      received (snd (step c s)) @ chan ?s @ concat (map sent (snd (run_calls step cs ?s)))"
    using step_fifo [of s c] by (metis append.assoc)
  then show ?case using Cons.IH [of ?s] by (simp add: split_beta Let_def)
qed simp

lemma run_capacity: "length (chan s) \<le> capacity \<Longrightarrow> length (chan (fst (run_calls step cs s))) \<le> capacity"
  by (induction cs arbitrary: s) (simp_all add: split_beta Let_def step_capacity)

end

end
