(* ===== verification/Goroutines.thy ===== *)
theory Goroutines
  imports Gateway_Prelude
begin

text \<open>
  Shared runtime helpers of \<open>pkg/common\<close>: contexts with a deadline (\<open>context.go\<close>) and the
  registry of goroutines (\<open>goroutine.go\<close>). The registry is a transition system: every atomic
  step of \<open>Go\<close>, of the wrapped goroutine's deferred calls and of \<open>Shutdown\<close> is one rule, so
  any interleaving of any number of goroutines is a run.
\<close>

section \<open>Contexts\<close>

record gocontext =
  ctx_Deadline :: "gotime option"

definition DefaultTimeout :: duration where
  "DefaultTimeout = 30 * Second"

text \<open>\<open>context.WithTimeout\<close>: the earlier of the parent's deadline and the new one.\<close>

definition WithTimeout :: "gotime \<Rightarrow> gocontext \<Rightarrow> duration \<Rightarrow> gocontext" where
  "WithTimeout now parent timeout =
     (case ctx_Deadline parent of
        None \<Rightarrow> parent\<lparr>ctx_Deadline := Some (now + timeout)\<rparr>
      | Some d \<Rightarrow> parent\<lparr>ctx_Deadline := Some (min d (now + timeout))\<rparr>)"

definition EnsureTimeout :: "gotime \<Rightarrow> gocontext \<Rightarrow> duration \<Rightarrow> gocontext" where
  "EnsureTimeout now ctx timeout =
     (case ctx_Deadline ctx of
        Some deadline \<Rightarrow>
          if 0 < deadline - now then ctx else WithTimeout now ctx timeout
      | None \<Rightarrow> WithTimeout now ctx timeout)"

definition ContextWithTimeout :: "gotime \<Rightarrow> gocontext \<Rightarrow> duration \<Rightarrow> gocontext" where
  "ContextWithTimeout now parent timeout = EnsureTimeout now parent timeout"

definition QuickTimeout :: "gotime \<Rightarrow> gocontext \<Rightarrow> gocontext" where
  "QuickTimeout now parent = EnsureTimeout now parent (5 * Second)"

definition LongTimeout :: "gotime \<Rightarrow> gocontext \<Rightarrow> gocontext" where
  "LongTimeout now parent = EnsureTimeout now parent (2 * Minute)"

text \<open>
  \<open>EnsureTimeout\<close> gives every context a deadline, and never moves one that is there: a
  context whose deadline has passed stays expired.
\<close>

theorem EnsureTimeout_deadline:
  assumes "0 \<le> timeout"
  shows "ctx_Deadline (EnsureTimeout now ctx timeout) =
     Some (case ctx_Deadline ctx of None \<Rightarrow> now + timeout | Some d \<Rightarrow> d)"
  using assms by (auto simp: EnsureTimeout_def WithTimeout_def split: option.split)

theorem EnsureTimeout_deadline_witness:
  "ctx_Deadline (QuickTimeout 100 \<lparr>ctx_Deadline = Some 40\<rparr>) = Some 40"
  using EnsureTimeout_deadline [of "5 * Second" 100 "\<lparr>ctx_Deadline = Some 40\<rparr>"]
  by (simp add: QuickTimeout_def duration_defs)

section \<open>The goroutine registry\<close>

record GoroutineRegistry =
  gr_wg :: int
  gr_cancelled :: bool
  gr_total :: int
  gr_active :: int
  gr_panicCount :: int

definition NewGoroutineRegistry :: GoroutineRegistry where
  "NewGoroutineRegistry = \<lparr>gr_wg = 0, gr_cancelled = False, gr_total = 0, gr_active = 0, gr_panicCount = 0\<rparr>"

definition ActiveCount :: "GoroutineRegistry \<Rightarrow> int" where
  "ActiveCount gr = gr_active gr"

definition TotalCount :: "GoroutineRegistry \<Rightarrow> int" where
  "TotalCount gr = gr_total gr"

definition PanicCount :: "GoroutineRegistry \<Rightarrow> int" where
  "PanicCount gr = gr_panicCount gr"

text \<open>
  Where a call of \<open>Go\<close> and the goroutine it starts are: after \<open>wg.Add\<close>, after \<open>total\<close> is
  incremented, running (after \<open>active\<close> is incremented), with the body left (\<open>True\<close>: by a panic)
  and recovered, after the deferred decrement of \<open>active\<close>, after \<open>wg.Done\<close>.
\<close>

datatype stage = WgAdded | Counted | Running | Recovered bool | Deactivated bool | Exited bool

datatype shutdown_state = NotCalled | Waiting | ReturnedNil | TimedOut int

record registry_run =
  rr_gr :: GoroutineRegistry
  rr_stages :: "stage list"
  rr_shutdown :: shutdown_state

text \<open>The next step of the \<open>i\<close>-th goroutine; \<open>panics\<close> says how the body is left.\<close>

fun goroutine_step :: "bool \<Rightarrow> stage \<Rightarrow> GoroutineRegistry \<Rightarrow> (stage \<times> GoroutineRegistry) option" where
  "goroutine_step panics WgAdded gr = Some (Counted, gr\<lparr>gr_total := gr_total gr + 1\<rparr>)"
| "goroutine_step panics Counted gr = Some (Running, gr\<lparr>gr_active := gr_active gr + 1\<rparr>)"
| "goroutine_step panics Running gr =
     Some (Recovered panics, if panics then gr\<lparr>gr_panicCount := gr_panicCount gr + 1\<rparr> else gr)"
| "goroutine_step panics (Recovered p) gr = Some (Deactivated p, gr\<lparr>gr_active := gr_active gr - 1\<rparr>)"
| "goroutine_step panics (Deactivated p) gr = Some (Exited p, gr\<lparr>gr_wg := gr_wg gr - 1\<rparr>)"
| "goroutine_step panics (Exited p) gr = None"

definition Go_begin :: "registry_run \<Rightarrow> registry_run" where
  "Go_begin s = s\<lparr>rr_gr := (rr_gr s)\<lparr>gr_wg := gr_wg (rr_gr s) + 1\<rparr>, rr_stages := rr_stages s @ [WgAdded]\<rparr>"

definition Shutdown_begin :: "registry_run \<Rightarrow> registry_run" where
  "Shutdown_begin s = s\<lparr>rr_gr := (rr_gr s)\<lparr>gr_cancelled := True\<rparr>, rr_shutdown := Waiting\<rparr>"

inductive registry_step :: "registry_run \<Rightarrow> registry_run \<Rightarrow> bool" where
  start: "registry_step s (Go_begin s)"
| goroutine: "i < length (rr_stages s) \<Longrightarrow> goroutine_step panics (rr_stages s ! i) (rr_gr s) = Some (st, gr) \<Longrightarrow>
    registry_step s (s\<lparr>rr_gr := gr, rr_stages := (rr_stages s)[i := st]\<rparr>)"
| shutdown: "registry_step s (Shutdown_begin s)"
| finished: "rr_shutdown s = Waiting \<Longrightarrow> gr_wg (rr_gr s) = 0 \<Longrightarrow>
    registry_step s (s\<lparr>rr_shutdown := ReturnedNil\<rparr>)"
| timeout: "rr_shutdown s = Waiting \<Longrightarrow>
    registry_step s (s\<lparr>rr_shutdown := TimedOut (gr_active (rr_gr s))\<rparr>)"

inductive registry_reachable :: "registry_run \<Rightarrow> bool" where
  initial: "registry_reachable \<lparr>rr_gr = NewGoroutineRegistry, rr_stages = [], rr_shutdown = NotCalled\<rparr>"
| step: "registry_reachable s \<Longrightarrow> registry_step s s' \<Longrightarrow> registry_reachable s'"

section \<open>The counters\<close>

fun counts :: "(stage \<Rightarrow> bool) \<Rightarrow> stage list \<Rightarrow> int" where
  "counts P [] = 0"
| "counts P (x # xs) = (if P x then 1 else 0) + counts P xs"

lemma counts_filter: "counts P xs = int (length (filter P xs))"
  by (induction xs) simp_all

lemma counts_append [simp]: "counts P (xs @ [x]) = counts P xs + (if P x then 1 else 0)"
  by (induction xs) simp_all

lemma counts_update:
  assumes "i < length xs"
  shows "counts P (xs[i := x]) = counts P xs - (if P (xs ! i) then 1 else 0) + (if P x then 1 else 0)"
  using assms
proof (induction xs arbitrary: i)
  case (Cons y ys)
  then show ?case by (cases i) simp_all
qed simp

lemma counts_zero: "counts P xs = 0 \<longleftrightarrow> (\<forall>x \<in> set xs. \<not> P x)"
  by (auto simp: counts_filter filter_empty_conv)

lemma counts_mono: "(\<And>x. P x \<Longrightarrow> Q x) \<Longrightarrow> counts P xs \<le> counts Q xs"
  by (induction xs) auto

fun is_exited :: "stage \<Rightarrow> bool" where
  "is_exited (Exited p) = True"
| "is_exited _ = False"

fun is_active :: "stage \<Rightarrow> bool" where
  "is_active Running = True"
| "is_active (Recovered p) = True"
| "is_active _ = False"

fun panicked :: "stage \<Rightarrow> bool" where
  "panicked (Recovered p) = p"
| "panicked (Deactivated p) = p"
| "panicked (Exited p) = p"
| "panicked _ = False"

definition registry_inv :: "registry_run \<Rightarrow> bool" where
  "registry_inv s \<longleftrightarrow>
     gr_wg (rr_gr s) = counts (\<lambda>x. \<not> is_exited x) (rr_stages s) \<and>
     gr_total (rr_gr s) = counts (\<lambda>x. x \<noteq> WgAdded) (rr_stages s) \<and>
     gr_active (rr_gr s) = counts is_active (rr_stages s) \<and>
     gr_panicCount (rr_gr s) = counts panicked (rr_stages s)"

lemma registry_inv_step: "registry_step s s' \<Longrightarrow> registry_inv s \<Longrightarrow> registry_inv s'"
proof (induction rule: registry_step.induct)
  case (goroutine i s panics st gr)
  then show ?case
    by (cases "rr_stages s ! i") (auto simp: registry_inv_def counts_update)
qed (auto simp: registry_inv_def Go_begin_def Shutdown_begin_def)

lemma registry_inv_reachable: "registry_reachable s \<Longrightarrow> registry_inv s"
proof (induction rule: registry_reachable.induct)
  case initial
  then show ?case by (simp add: registry_inv_def NewGoroutineRegistry_def)
next
  case (step s s')
  then show ?case using registry_inv_step by blast
qed

text \<open>
  C23: In every interleaving the registry's counters are exact: \<open>active\<close> is the number of
  goroutines between their start and their deferred decrement, \<open>panicCount\<close> the number that
  panicked, and \<open>active\<close> never exceeds the wait group.
\<close>

theorem registry_counters_exact:
  assumes "registry_reachable s"
  shows "ActiveCount (rr_gr s) = int (length (filter is_active (rr_stages s))) \<and>
     PanicCount (rr_gr s) = int (length (filter panicked (rr_stages s))) \<and>
     0 \<le> ActiveCount (rr_gr s) \<and> ActiveCount (rr_gr s) \<le> gr_wg (rr_gr s) \<and>
     TotalCount (rr_gr s) \<le> int (length (rr_stages s))"
proof -
  have "counts is_active (rr_stages s) \<le> counts (\<lambda>x. \<not> is_exited x) (rr_stages s)"
    by (rule counts_mono) (metis is_active.simps(6) is_exited.elims(2))
  then show ?thesis
    using registry_inv_reachable [OF assms]
    by (simp add: registry_inv_def ActiveCount_def PanicCount_def TotalCount_def counts_filter length_filter_le)
qed

definition one_panic_run :: registry_run where
  "one_panic_run = \<lparr>rr_gr = \<lparr>gr_wg = 1, gr_cancelled = False, gr_total = 1, gr_active = 1, gr_panicCount = 1\<rparr>,
     rr_stages = [Recovered True], rr_shutdown = NotCalled\<rparr>"

lemma one_panic_reachable: "registry_reachable one_panic_run"
proof -
  let ?s = "\<lambda>w t a p st. \<lparr>rr_gr = \<lparr>gr_wg = w, gr_cancelled = False, gr_total = t, gr_active = a, gr_panicCount = p\<rparr>,
     rr_stages = [st], rr_shutdown = NotCalled\<rparr>"
  have "registry_reachable (?s 1 0 0 0 WgAdded)"
    using registry_reachable.step [OF registry_reachable.initial registry_step.start]
    by (simp add: Go_begin_def NewGoroutineRegistry_def)
  from registry_reachable.step [OF this registry_step.goroutine [where i = 0 and panics = False]]
  have "registry_reachable (?s 1 1 0 0 Counted)" by simp
  from registry_reachable.step [OF this registry_step.goroutine [where i = 0 and panics = False]]
  have "registry_reachable (?s 1 1 1 0 Running)" by simp
  from registry_reachable.step [OF this registry_step.goroutine [where i = 0 and panics = True]]
  show ?thesis by (simp add: one_panic_run_def)
qed

theorem registry_counters_exact_witness:
  "ActiveCount (rr_gr one_panic_run) = 1 \<and> PanicCount (rr_gr one_panic_run) = 1"
  using registry_counters_exact [OF one_panic_reachable] by (simp add: one_panic_run_def)



end
