(* ===== verification/Circuit_Breaker.thy ===== *)
theory Circuit_Breaker
  imports Gateway_Prelude
begin

text \<open>
  The circuit breaker of \<open>pkg/common/circuit_breaker.go\<close>: its record, one definition per
  method, the invariant every method keeps, an abstract breaker with unbounded counters that
  the 32-bit code refines, and the behaviour of runs of calls.
\<close>

section \<open>State and methods\<close>

datatype CircuitBreakerState = StateClosed | StateOpen | StateHalfOpen

record CircuitBreaker =
  cb_name :: string
  cb_state :: CircuitBreakerState
  cb_failureThreshold :: int32
  cb_resetTimeout :: duration
  cb_halfOpenMaxReqs :: int32
  cb_halfOpenReqs :: int32
  cb_consecutiveFailures :: int32
  cb_lastStateChange :: gotime
  cb_lastFailure :: gotime
  cb_totalRequests :: int64
  cb_totalSuccesses :: int64
  cb_totalFailures :: int64
  cb_opens :: int64

record CircuitBreakerConfig =
  FailureThreshold :: int
  ResetTimeout :: duration
  HalfOpenMaxReqs :: int

text \<open>The conversion \<open>int32(x)\<close> keeps the low 32 bits; a value that is not positive afterwards is
  replaced by the default.\<close>

definition NewCircuitBreaker :: "string \<Rightarrow> CircuitBreakerConfig \<Rightarrow> gotime \<Rightarrow> CircuitBreaker" where
  "NewCircuitBreaker nm config now =
     (let failureThreshold = word_of_int (FailureThreshold config) :: int32;
          failureThreshold = (if sint failureThreshold \<le> 0 then 5 else failureThreshold);
          resetTimeout = (if ResetTimeout config \<le> 0 then 30 * Second else ResetTimeout config);
          halfOpenMaxReqs = word_of_int (HalfOpenMaxReqs config) :: int32;
          halfOpenMaxReqs = (if sint halfOpenMaxReqs \<le> 0 then 3 else halfOpenMaxReqs)
      in \<lparr>cb_name = nm, cb_state = StateClosed, cb_failureThreshold = failureThreshold,
          cb_resetTimeout = resetTimeout, cb_halfOpenMaxReqs = halfOpenMaxReqs,
          cb_halfOpenReqs = 0, cb_consecutiveFailures = 0, cb_lastStateChange = now,
          cb_lastFailure = 0, cb_totalRequests = 0, cb_totalSuccesses = 0,
          cb_totalFailures = 0, cb_opens = 0\<rparr>)"

definition GetState :: "CircuitBreaker \<Rightarrow> CircuitBreakerState" where
  "GetState cb = cb_state cb"

text \<open>
  The loop of \<open>AllowRequest\<close>. Run by one goroutine alone, the compare-and-swap out of the open
  state succeeds and the loop goes round once more, in the half-open case.
\<close>

function AllowRequest_loop :: "gotime \<Rightarrow> CircuitBreaker \<Rightarrow> CircuitBreaker \<times> bool" where
  "AllowRequest_loop now cb =
     (case cb_state cb of
        StateClosed \<Rightarrow> (cb, True)
      | StateOpen \<Rightarrow>
          (let timeout = now - cb_lastStateChange cb > cb_resetTimeout cb
           in if \<not> timeout then (cb, False)
              else AllowRequest_loop now
                (cb\<lparr>cb_state := StateHalfOpen, cb_lastStateChange := now, cb_halfOpenReqs := 0\<rparr>))
      | StateHalfOpen \<Rightarrow>
          (let reqs = cb_halfOpenReqs cb + 1
           in (cb\<lparr>cb_halfOpenReqs := reqs\<rparr>, sint reqs \<le> sint (cb_halfOpenMaxReqs cb))))"
  by pat_completeness auto
termination
  by (relation "measure (\<lambda>(now, cb). if cb_state cb = StateOpen then 1 else 0)") auto

declare AllowRequest_loop.simps [simp del]

definition AllowRequest :: "gotime \<Rightarrow> CircuitBreaker \<Rightarrow> CircuitBreaker \<times> bool" where
  "AllowRequest now cb =
     AllowRequest_loop now (cb\<lparr>cb_totalRequests := cb_totalRequests cb + 1\<rparr>)"

definition RecordSuccess :: "gotime \<Rightarrow> CircuitBreaker \<Rightarrow> CircuitBreaker" where
  "RecordSuccess now cb =
     (let cb = cb\<lparr>cb_totalSuccesses := cb_totalSuccesses cb + 1, cb_consecutiveFailures := 0\<rparr>
      in if cb_state cb = StateHalfOpen
         then cb\<lparr>cb_state := StateClosed, cb_lastStateChange := now\<rparr>
         else cb)"

definition RecordFailure :: "gotime \<Rightarrow> CircuitBreaker \<Rightarrow> CircuitBreaker" where
  "RecordFailure now cb =
     (let failures = cb_consecutiveFailures cb + 1;
          cb = cb\<lparr>cb_totalFailures := cb_totalFailures cb + 1,
                  cb_consecutiveFailures := failures, cb_lastFailure := now\<rparr>;
          threshold = cb_failureThreshold cb
      in if (cb_state cb = StateClosed \<and> sint threshold \<le> sint failures) \<or> cb_state cb = StateHalfOpen
         then cb\<lparr>cb_state := StateOpen, cb_opens := cb_opens cb + 1, cb_lastStateChange := now\<rparr>
         else cb)"

definition GetMetrics :: "CircuitBreaker \<Rightarrow> (string \<times> int64) list" where
  "GetMetrics cb =
     [(''requests'', cb_totalRequests cb), (''successes'', cb_totalSuccesses cb),
      (''failures'', cb_totalFailures cb), (''opens'', cb_opens cb)]"

definition Reset :: "gotime \<Rightarrow> CircuitBreaker \<Rightarrow> CircuitBreaker" where
  "Reset now cb =
     cb\<lparr>cb_state := StateClosed, cb_consecutiveFailures := 0, cb_lastStateChange := now\<rparr>"

lemmas cb_defs = AllowRequest_def RecordSuccess_def RecordFailure_def Reset_def Let_def

lemma AllowRequest_closed:
  "cb_state cb = StateClosed \<Longrightarrow>
   AllowRequest now cb = (cb\<lparr>cb_totalRequests := cb_totalRequests cb + 1\<rparr>, True)"
  by (simp add: AllowRequest_def AllowRequest_loop.simps)

lemma AllowRequest_half_open:
  "cb_state cb = StateHalfOpen \<Longrightarrow>
   AllowRequest now cb =
     (cb\<lparr>cb_totalRequests := cb_totalRequests cb + 1, cb_halfOpenReqs := cb_halfOpenReqs cb + 1\<rparr>,
      sint (cb_halfOpenReqs cb + 1) \<le> sint (cb_halfOpenMaxReqs cb))"
  by (simp add: AllowRequest_def AllowRequest_loop.simps Let_def)

lemma AllowRequest_open_early:
  "cb_state cb = StateOpen \<Longrightarrow> now - cb_lastStateChange cb \<le> cb_resetTimeout cb \<Longrightarrow>
   AllowRequest now cb = (cb\<lparr>cb_totalRequests := cb_totalRequests cb + 1\<rparr>, False)"
  by (simp add: AllowRequest_def AllowRequest_loop.simps)

lemma AllowRequest_open_late:
  assumes "cb_state cb = StateOpen" and "cb_resetTimeout cb < now - cb_lastStateChange cb"
  shows "AllowRequest now cb =
     (cb\<lparr>cb_totalRequests := cb_totalRequests cb + 1, cb_state := StateHalfOpen,
         cb_lastStateChange := now, cb_halfOpenReqs := 1\<rparr>, 1 \<le> sint (cb_halfOpenMaxReqs cb))"
proof -
  let ?c = "cb\<lparr>cb_totalRequests := cb_totalRequests cb + 1\<rparr>"
  let ?h = "?c\<lparr>cb_state := StateHalfOpen, cb_lastStateChange := now, cb_halfOpenReqs := 0\<rparr>"
  have "AllowRequest now cb = AllowRequest_loop now ?h"
    using assms by (simp add: AllowRequest_def AllowRequest_loop.simps [of now ?c])
  then show ?thesis
    by (simp add: AllowRequest_loop.simps [of now ?h] Let_def)
qed

lemmas AllowRequest_cases =
  AllowRequest_closed AllowRequest_half_open AllowRequest_open_early AllowRequest_open_late

section \<open>Invariant\<close>

text \<open>
  The limits are positive and, while the breaker is closed, the count of consecutive failures
  is below the threshold (so it cannot overflow there).
\<close>

definition cb_limits :: "CircuitBreaker \<Rightarrow> bool" where
  "cb_limits cb \<longleftrightarrow> 0 < sint (cb_failureThreshold cb) \<and> 0 < cb_resetTimeout cb \<and>
     0 < sint (cb_halfOpenMaxReqs cb)"

definition cb_inv :: "CircuitBreaker \<Rightarrow> bool" where
  "cb_inv cb \<longleftrightarrow> cb_limits cb \<and>
     (cb_state cb = StateClosed \<longrightarrow>
        0 \<le> sint (cb_consecutiveFailures cb) \<and>
        sint (cb_consecutiveFailures cb) < sint (cb_failureThreshold cb))"

lemma cb_inv_limits: "cb_inv cb \<Longrightarrow> cb_limits cb"
  by (simp add: cb_inv_def)

lemma sint32_max: "sint (w :: int32) < 2 ^ 31"
  using sint_lt [of w] by simp

lemma sint32_Suc: "sint (w :: int32) + 1 < 2 ^ 31 \<Longrightarrow> sint (w + 1) = sint w + 1"
  using sint_ge [of w] by (simp add: sint_word_ariths signed_take_bit_int_eq_self)

lemma cb_inv_New: "cb_inv (NewCircuitBreaker nm config now)"
  by (auto simp: cb_inv_def cb_limits_def NewCircuitBreaker_def Let_def duration_defs)

text \<open>Which of the four cases a call of \<open>AllowRequest\<close> takes.\<close>

lemma AllowRequest_exhaust:
  obtains (closed) "cb_state cb = StateClosed"
  | (half) "cb_state cb = StateHalfOpen"
  | (early) "cb_state cb = StateOpen" "now - cb_lastStateChange cb \<le> cb_resetTimeout cb"
  | (late) "cb_state cb = StateOpen" "cb_resetTimeout cb < now - cb_lastStateChange cb"
  by (cases "cb_state cb"; cases "now - cb_lastStateChange cb \<le> cb_resetTimeout cb") auto

lemma cb_inv_AllowRequest: "cb_inv cb \<Longrightarrow> cb_inv (fst (AllowRequest now cb))"
  by (cases rule: AllowRequest_exhaust [where cb = cb and now = now])
     (simp_all add: AllowRequest_cases cb_inv_def cb_limits_def)

lemma cb_inv_RecordSuccess: "cb_inv cb \<Longrightarrow> cb_inv (RecordSuccess now cb)"
  by (auto simp: RecordSuccess_def cb_inv_def cb_limits_def Let_def)

lemma cb_inv_RecordFailure:
  assumes "cb_inv cb"
  shows "cb_inv (RecordFailure now cb)"
proof (cases "cb_state cb = StateClosed")
  case True
  with assms have "sint (cb_consecutiveFailures cb) + 1 < 2 ^ 31"
    using sint32_max [of "cb_failureThreshold cb"] by (auto simp: cb_inv_def)
  then have "sint (cb_consecutiveFailures cb + 1) = sint (cb_consecutiveFailures cb) + 1"
    by (rule sint32_Suc)
  with assms True show ?thesis
    by (auto simp: RecordFailure_def cb_inv_def cb_limits_def Let_def)
next
  case False
  with assms show ?thesis
    by (auto simp: RecordFailure_def cb_inv_def cb_limits_def Let_def)
qed

lemma cb_inv_Reset: "cb_inv cb \<Longrightarrow> cb_inv (Reset now cb)"
  by (auto simp: Reset_def cb_inv_def cb_limits_def)

lemmas cb_inv_ops [simp, intro] =
  cb_inv_AllowRequest cb_inv_RecordSuccess cb_inv_RecordFailure cb_inv_Reset

section \<open>The interface the clients rely on\<close>

text \<open>
  What a client that asks \<open>allow\<close> before a request and reports its result afterwards relies on.
\<close>

locale breaker_contract =
  fixes allow :: "gotime \<Rightarrow> 'b \<Rightarrow> 'b \<times> bool"
    and success :: "gotime \<Rightarrow> 'b \<Rightarrow> 'b"
    and failure :: "gotime \<Rightarrow> 'b \<Rightarrow> 'b"
    and st :: "'b \<Rightarrow> CircuitBreakerState"
    and ok :: "'b \<Rightarrow> bool"
  assumes allow_ok: "ok b \<Longrightarrow> ok (fst (allow now b))"
    and success_ok: "ok b \<Longrightarrow> ok (success now b)"
    and failure_ok: "ok b \<Longrightarrow> ok (failure now b)"
    and allow_admitted: "snd (allow now b) \<Longrightarrow> st (fst (allow now b)) \<noteq> StateOpen"
    and allow_closed: "st b = StateClosed \<Longrightarrow> snd (allow now b) \<and> st (fst (allow now b)) = StateClosed"
    and success_closes: "st b \<noteq> StateOpen \<Longrightarrow> st (success now b) = StateClosed"
    and failure_half_open: "st b = StateHalfOpen \<Longrightarrow> st (failure now b) = StateOpen"
    and failure_not_half_open: "st (failure now b) \<noteq> StateHalfOpen"
begin

lemma admitted_success_closed:
  "snd (allow now b) \<Longrightarrow> st (success now' (fst (allow now b))) = StateClosed"
  by (rule success_closes) (rule allow_admitted)

lemma admitted_probe_failure_open:
  "snd (allow now b) \<Longrightarrow> st b \<noteq> StateClosed \<Longrightarrow> st (fst (allow now b)) \<noteq> StateClosed \<Longrightarrow>
   st (failure now' (fst (allow now b))) = StateOpen"
  using allow_admitted [of now b] failure_half_open
  by (cases "st (fst (allow now b))") auto

lemma guarded_ok:
  "ok b \<Longrightarrow> ok (success now' (fst (allow now b)))"
  "ok b \<Longrightarrow> ok (failure now' (fst (allow now b)))"
  by (simp_all add: allow_ok success_ok failure_ok)

end

lemma RecordSuccess_state:
  "cb_state (RecordSuccess now cb) = (if cb_state cb = StateHalfOpen then StateClosed else cb_state cb)"
  by (simp add: RecordSuccess_def Let_def)

lemma RecordFailure_state:
  "cb_state (RecordFailure now cb) =
     (if cb_state cb = StateHalfOpen \<or>
         cb_state cb = StateClosed \<and> sint (cb_failureThreshold cb) \<le> sint (cb_consecutiveFailures cb + 1)
      then StateOpen else cb_state cb)"
  by (auto simp: RecordFailure_def Let_def)

interpretation breaker: breaker_contract AllowRequest RecordSuccess RecordFailure cb_state cb_inv
proof (unfold_locales, goal_cases)
  case (4 now b)
  then show ?case
    by (cases rule: AllowRequest_exhaust [where cb = b and now = now]) (simp_all add: AllowRequest_cases)
next
  case (5 b now)
  then show ?case by (simp add: AllowRequest_closed)
next
  case (6 b now)
  then show ?case by (cases "cb_state b") (simp_all add: RecordSuccess_state)
next
  case (7 b now)
  then show ?case by (simp add: RecordFailure_state)
next
  case (8 now b)
  show ?case by (simp add: RecordFailure_state)
qed (rule cb_inv_AllowRequest cb_inv_RecordSuccess cb_inv_RecordFailure; assumption)+

section \<open>Runs of calls\<close>

datatype cb_call = CallAllow gotime | CallSuccess gotime | CallFailure gotime | CallReset gotime

fun cb_apply :: "cb_call \<Rightarrow> CircuitBreaker \<Rightarrow> CircuitBreaker" where
  "cb_apply (CallAllow now) cb = fst (AllowRequest now cb)"
| "cb_apply (CallSuccess now) cb = RecordSuccess now cb"
| "cb_apply (CallFailure now) cb = RecordFailure now cb"
| "cb_apply (CallReset now) cb = Reset now cb"

definition cb_run :: "cb_call list \<Rightarrow> CircuitBreaker \<Rightarrow> CircuitBreaker" where
  "cb_run cs cb = fold cb_apply cs cb"

lemma cb_inv_apply [intro]: "cb_inv cb \<Longrightarrow> cb_inv (cb_apply c cb)"
  by (cases c) auto

lemma cb_inv_run: "cb_inv cb \<Longrightarrow> cb_inv (cb_run cs cb)"
  unfolding cb_run_def by (induction cs arbitrary: cb) auto

text \<open>The edges of the state diagram.\<close>

fun cb_edge :: "CircuitBreakerState \<Rightarrow> CircuitBreakerState \<Rightarrow> bool" where
  "cb_edge StateClosed StateOpen = True"
| "cb_edge StateOpen StateHalfOpen = True"
| "cb_edge StateHalfOpen StateOpen = True"
| "cb_edge StateHalfOpen StateClosed = True"
| "cb_edge a b = (a = b)"

lemma cb_edge_refl [simp]: "cb_edge a a"
  by (cases a) auto

lemma AllowRequest_edge: "cb_edge (cb_state cb) (cb_state (fst (AllowRequest now cb)))"
  by (cases rule: AllowRequest_exhaust [where cb = cb and now = now]) (simp_all add: AllowRequest_cases)

lemma RecordSuccess_edge: "cb_edge (cb_state cb) (cb_state (RecordSuccess now cb))"
  by (simp add: RecordSuccess_state)

lemma RecordFailure_edge: "cb_edge (cb_state cb) (cb_state (RecordFailure now cb))"
  by (auto simp: RecordFailure_state)

fun opens_at :: "CircuitBreaker \<Rightarrow> cb_call \<Rightarrow> bool" where
  "opens_at cb c \<longleftrightarrow> cb_state cb \<noteq> StateOpen \<and> cb_state (cb_apply c cb) = StateOpen"

fun count_opens :: "cb_call list \<Rightarrow> CircuitBreaker \<Rightarrow> nat" where
  "count_opens [] cb = 0"
| "count_opens (c # cs) cb = (if opens_at cb c then 1 else 0) + count_opens cs (cb_apply c cb)"

lemma cb_opens_apply:
  "cb_opens (cb_apply c cb) = cb_opens cb + (if opens_at cb c then 1 else 0)"
proof (cases c)
  case (CallAllow now)
  then show ?thesis
    by (cases rule: AllowRequest_exhaust [where cb = cb and now = now]) (simp_all add: AllowRequest_cases)
next
  case (CallFailure now)
  then show ?thesis by (auto simp: RecordFailure_def Let_def)
qed (auto simp: RecordSuccess_def Reset_def Let_def)

lemma cb_run_opens: "cb_opens (cb_run cs cb) = cb_opens cb + of_nat (count_opens cs cb)"
  unfolding cb_run_def
  by (induction cs arbitrary: cb) (simp_all add: cb_opens_apply del: opens_at.simps)

section \<open>The abstract breaker\<close>

text \<open>
  The breaker with unbounded counters: closed with the number of consecutive failures, open
  since an instant, half-open with the number of requests seen.
\<close>

datatype breaker = Closed nat | Open gotime | HalfOpen nat

definition cb_abs :: "CircuitBreaker \<Rightarrow> breaker" where
  "cb_abs cb =
     (case cb_state cb of
        StateClosed \<Rightarrow> Closed (nat (sint (cb_consecutiveFailures cb)))
      | StateOpen \<Rightarrow> Open (cb_lastStateChange cb)
      | StateHalfOpen \<Rightarrow> HalfOpen (nat (sint (cb_halfOpenReqs cb))))"

fun spec_allow :: "duration \<Rightarrow> nat \<Rightarrow> gotime \<Rightarrow> breaker \<Rightarrow> breaker \<times> bool" where
  "spec_allow reset maxReqs now (Closed n) = (Closed n, True)"
| "spec_allow reset maxReqs now (Open t) =
     (if reset < now - t then (HalfOpen 1, 1 \<le> maxReqs) else (Open t, False))"
| "spec_allow reset maxReqs now (HalfOpen n) = (HalfOpen (Suc n), Suc n \<le> maxReqs)"

fun spec_success :: "breaker \<Rightarrow> breaker" where
  "spec_success (Open t) = Open t"
| "spec_success _ = Closed 0"

fun spec_failure :: "nat \<Rightarrow> gotime \<Rightarrow> breaker \<Rightarrow> breaker" where
  "spec_failure threshold now (Closed n) = (if threshold \<le> Suc n then Open now else Closed (Suc n))"
| "spec_failure threshold now (Open t) = Open t"
| "spec_failure threshold now (HalfOpen n) = Open now"

text \<open>
  Room for one more request in the half-open counter. The counter is only reset when the breaker
  becomes half-open again, so this is the one place where the 32 bits can run out.
\<close>

definition half_open_room :: "CircuitBreaker \<Rightarrow> bool" where
  "half_open_room cb \<longleftrightarrow>
     (cb_state cb = StateHalfOpen \<longrightarrow>
        0 \<le> sint (cb_halfOpenReqs cb) \<and> sint (cb_halfOpenReqs cb) + 1 < 2 ^ 31)"

lemma AllowRequest_refines:
  assumes "cb_inv cb" and "half_open_room cb"
  shows "(cb_abs (fst (AllowRequest now cb)), snd (AllowRequest now cb)) =
     spec_allow (cb_resetTimeout cb) (nat (sint (cb_halfOpenMaxReqs cb))) now (cb_abs cb)"
proof (cases rule: AllowRequest_exhaust [where cb = cb and now = now])
  case half
  with assms have "sint (cb_halfOpenReqs cb + 1) = sint (cb_halfOpenReqs cb) + 1"
    by (intro sint32_Suc) (simp add: half_open_room_def)
  with half assms show ?thesis
    by (auto simp: AllowRequest_half_open cb_abs_def half_open_room_def cb_inv_def cb_limits_def
        nat_add_distrib)
qed (use assms in \<open>auto simp: AllowRequest_cases cb_abs_def cb_inv_def cb_limits_def\<close>)

lemma RecordSuccess_refines: "cb_abs (RecordSuccess now cb) = spec_success (cb_abs cb)"
  by (cases "cb_state cb") (simp_all add: RecordSuccess_def cb_abs_def Let_def)

lemma RecordFailure_refines:
  assumes "cb_inv cb"
  shows "cb_abs (RecordFailure now cb) =
     spec_failure (nat (sint (cb_failureThreshold cb))) now (cb_abs cb)"
proof (cases "cb_state cb")
  case StateClosed
  with assms have "sint (cb_consecutiveFailures cb) + 1 < 2 ^ 31"
    using sint32_max [of "cb_failureThreshold cb"] by (auto simp: cb_inv_def)
  then have "sint (cb_consecutiveFailures cb + 1) = sint (cb_consecutiveFailures cb) + 1"
    by (rule sint32_Suc)
  with StateClosed assms show ?thesis
    by (auto simp: RecordFailure_def cb_abs_def cb_inv_def Let_def nat_add_distrib nat_le_iff)
qed (simp_all add: RecordFailure_def cb_abs_def Let_def)

section \<open>Runs refine the abstract breaker\<close>

text \<open>The answers \<open>AllowRequest\<close> gives along a run, in the code and in the abstract breaker.\<close>

fun cb_answers :: "cb_call list \<Rightarrow> CircuitBreaker \<Rightarrow> bool list" where
  "cb_answers [] cb = []"
| "cb_answers (CallAllow now # cs) cb =
     snd (AllowRequest now cb) # cb_answers cs (cb_apply (CallAllow now) cb)"
| "cb_answers (c # cs) cb = cb_answers cs (cb_apply c cb)"

fun spec_apply :: "nat \<Rightarrow> duration \<Rightarrow> nat \<Rightarrow> cb_call \<Rightarrow> breaker \<Rightarrow> breaker" where
  "spec_apply thr reset mx (CallAllow now) b = fst (spec_allow reset mx now b)"
| "spec_apply thr reset mx (CallSuccess now) b = spec_success b"
| "spec_apply thr reset mx (CallFailure now) b = spec_failure thr now b"
| "spec_apply thr reset mx (CallReset now) b = Closed 0"

fun spec_answers :: "nat \<Rightarrow> duration \<Rightarrow> nat \<Rightarrow> cb_call list \<Rightarrow> breaker \<Rightarrow> bool list" where
  "spec_answers thr reset mx [] b = []"
| "spec_answers thr reset mx (CallAllow now # cs) b =
     snd (spec_allow reset mx now b) # spec_answers thr reset mx cs (spec_apply thr reset mx (CallAllow now) b)"
| "spec_answers thr reset mx (c # cs) b = spec_answers thr reset mx cs (spec_apply thr reset mx c b)"

lemma cb_apply_limits [gw_frame]:
  "cb_failureThreshold (cb_apply c cb) = cb_failureThreshold cb"
  "cb_resetTimeout (cb_apply c cb) = cb_resetTimeout cb"
  "cb_halfOpenMaxReqs (cb_apply c cb) = cb_halfOpenMaxReqs cb"
proof -
  have *: "cb_failureThreshold (fst (AllowRequest now cb)) = cb_failureThreshold cb \<and>
      cb_resetTimeout (fst (AllowRequest now cb)) = cb_resetTimeout cb \<and>
      cb_halfOpenMaxReqs (fst (AllowRequest now cb)) = cb_halfOpenMaxReqs cb" for now
    by (cases rule: AllowRequest_exhaust [where cb = cb and now = now]) (simp_all add: AllowRequest_cases)
  show "cb_failureThreshold (cb_apply c cb) = cb_failureThreshold cb"
    "cb_resetTimeout (cb_apply c cb) = cb_resetTimeout cb"
    "cb_halfOpenMaxReqs (cb_apply c cb) = cb_halfOpenMaxReqs cb"
    by (cases c; simp add: * RecordSuccess_def RecordFailure_def Reset_def Let_def)+
qed

text \<open>Room for \<open>n\<close> more requests in the half-open counter.\<close>

definition half_open_room_for :: "nat \<Rightarrow> CircuitBreaker \<Rightarrow> bool" where
  "half_open_room_for n cb \<longleftrightarrow>
     (cb_state cb = StateHalfOpen \<longrightarrow>
        0 \<le> sint (cb_halfOpenReqs cb) \<and> sint (cb_halfOpenReqs cb) + int n < 2 ^ 31)"

lemma half_open_room_for_apply:
  assumes "half_open_room_for (Suc n) cb" and "n < 2 ^ 31 - 1"
  shows "half_open_room_for n (cb_apply c cb)"
proof (cases c)
  case (CallAllow now)
  show ?thesis
  proof (cases rule: AllowRequest_exhaust [where cb = cb and now = now])
    case half
    with assms have "sint (cb_halfOpenReqs cb + 1) = sint (cb_halfOpenReqs cb) + 1"
      by (intro sint32_Suc) (simp add: half_open_room_for_def)
    with half assms CallAllow show ?thesis
      by (simp add: AllowRequest_half_open half_open_room_for_def)
  qed (use assms CallAllow in \<open>simp_all add: AllowRequest_cases half_open_room_for_def\<close>)
qed (use assms in \<open>auto simp: half_open_room_for_def RecordSuccess_def RecordFailure_def Reset_def Let_def\<close>)

lemma cb_abs_apply:
  assumes "cb_inv cb" and "half_open_room cb"
  shows "cb_abs (cb_apply c cb) =
     spec_apply (nat (sint (cb_failureThreshold cb))) (cb_resetTimeout cb)
       (nat (sint (cb_halfOpenMaxReqs cb))) c (cb_abs cb)"
proof (cases c)
  case (CallAllow now)
  then show ?thesis using AllowRequest_refines [OF assms, of now] by (metis cb_apply.simps(1) fst_conv spec_apply.simps(1))
next
  case (CallReset now)
  then show ?thesis by (simp add: Reset_def cb_abs_def)
qed (simp_all add: RecordSuccess_refines RecordFailure_refines assms)

lemma cb_answers_refine:
  assumes "cb_inv cb" and "half_open_room_for (length cs) cb" and "length cs < 2 ^ 31"
  shows "cb_answers cs cb =
     spec_answers (nat (sint (cb_failureThreshold cb))) (cb_resetTimeout cb)
       (nat (sint (cb_halfOpenMaxReqs cb))) cs (cb_abs cb)"
  using assms
proof (induction cs arbitrary: cb)
  case Nil
  then show ?case by simp
next
  case (Cons c cs)
  let ?cb = "cb_apply c cb"
  have room: "half_open_room cb"
    using Cons.prems(2) by (auto simp: half_open_room_for_def half_open_room_def)
  have "half_open_room_for (length cs) ?cb"
    using Cons.prems by (intro half_open_room_for_apply) simp_all
  then have IH: "cb_answers cs ?cb =
     spec_answers (nat (sint (cb_failureThreshold cb))) (cb_resetTimeout cb)
       (nat (sint (cb_halfOpenMaxReqs cb))) cs (cb_abs ?cb)"
    using Cons.IH [of ?cb] Cons.prems by (simp add: cb_inv_apply gw_frame)
  have head: "snd (AllowRequest now cb) =
     snd (spec_allow (cb_resetTimeout cb) (nat (sint (cb_halfOpenMaxReqs cb))) now (cb_abs cb))" for now
    using AllowRequest_refines [OF Cons.prems(1) room, of now] by (metis snd_conv)
  show ?case
    using IH head cb_abs_apply [OF Cons.prems(1) room, of c] by (cases c) simp_all
qed

text \<open>
  C2: from a new breaker, any run of fewer than \<open>2^31\<close> calls of \<open>AllowRequest\<close>,
  \<open>RecordSuccess\<close>, \<open>RecordFailure\<close> and \<open>Reset\<close> answers every \<open>AllowRequest\<close> as the abstract
  breaker with unbounded counters does.
\<close>

theorem breaker_run_refines:
  assumes "length cs < 2 ^ 31"
  shows "let cb = NewCircuitBreaker nm config now in
     cb_answers cs cb =
       spec_answers (nat (sint (cb_failureThreshold cb))) (cb_resetTimeout cb)
         (nat (sint (cb_halfOpenMaxReqs cb))) cs (Closed 0)"
proof -
  let ?cb = "NewCircuitBreaker nm config now"
  have "cb_abs ?cb = Closed 0" and "half_open_room_for (length cs) ?cb"
    by (simp_all add: NewCircuitBreaker_def cb_abs_def half_open_room_for_def Let_def)
  with cb_answers_refine [OF cb_inv_New _ assms, of nm config now] show ?thesis
    by (simp add: Let_def)
qed

theorem breaker_run_refines_witness:
  "let cs = [CallFailure 1, CallFailure 2, CallAllow 3, CallAllow 100, CallSuccess 101, CallAllow 102];
       cb = NewCircuitBreaker ''b'' \<lparr>FailureThreshold = 2, ResetTimeout = 10, HalfOpenMaxReqs = 1\<rparr> 0
   in length cs < 2 ^ 31 \<and> cb_answers cs cb = [False, True, True]"
  using breaker_run_refines [of "[CallFailure 1, CallFailure 2, CallAllow 3, CallAllow 100,
      CallSuccess 101, CallAllow 102]" "''b''"
      "\<lparr>FailureThreshold = 2, ResetTimeout = 10, HalfOpenMaxReqs = 1\<rparr>" 0]
  by (simp add: NewCircuitBreaker_def Let_def)

section \<open>When the breaker opens, what it lets through\<close>

lemma spec_failures:
  "0 < thr \<Longrightarrow> n < thr \<Longrightarrow> n + length ts \<le> thr \<Longrightarrow>
   fold (spec_failure thr) ts (Closed n) =
     (if n + length ts < thr then Closed (n + length ts) else Open (last ts))"
proof (induction ts arbitrary: n)
  case (Cons t ts)
  show ?case
  proof (cases "thr \<le> Suc n")
    case True
    with Cons.prems(3) have "ts = []" by (cases ts) simp_all
    with True Cons.prems show ?thesis by simp
  next
    case False
    with Cons.IH [of "Suc n"] Cons.prems show ?thesis by (cases ts) auto
  qed
qed simp

lemma RecordFailures_refine:
  "cb_inv cb \<Longrightarrow> cb_abs (fold RecordFailure ts cb) =
     fold (spec_failure (nat (sint (cb_failureThreshold cb)))) ts (cb_abs cb)"
proof (induction ts arbitrary: cb)
  case (Cons t ts)
  have "cb_failureThreshold (RecordFailure t cb) = cb_failureThreshold cb"
    using cb_apply_limits(1) [of "CallFailure t" cb] by simp
  with Cons show ?case by (simp add: RecordFailure_refines cb_inv_RecordFailure)
qed simp

text \<open>
  a closed breaker with no recorded failures opens at exactly the threshold-th consecutive
  failure: after any shorter sequence of failures it is still closed, after \<open>failureThreshold\<close>
  of them it is open since the last one.
\<close>

lemma breaker_opens_at_threshold:
  assumes "cb_inv cb" and "cb_state cb = StateClosed" and "cb_consecutiveFailures cb = 0"
    and "length ts \<le> nat (sint (cb_failureThreshold cb))" and "ts \<noteq> []"
  shows "cb_abs (fold RecordFailure ts cb) =
     (if length ts < nat (sint (cb_failureThreshold cb)) then Closed (length ts) else Open (last ts))"
proof -
  have "cb_abs cb = Closed 0" using assms by (simp add: cb_abs_def)
  moreover have "0 < nat (sint (cb_failureThreshold cb))"
    using assms(1) by (simp add: cb_inv_def cb_limits_def)
  ultimately show ?thesis
    using assms(4,5) by (simp add: RecordFailures_refine [OF assms(1)] spec_failures)
qed

lemma spec_answers_half_open:
  "length (filter id (spec_answers thr reset mx (map CallAllow ts) (HalfOpen n))) =
     min (n + length ts) mx - min n mx"
  by (induction ts arbitrary: n) (auto simp: min_def)

text \<open>
  an open breaker rejects every request until \<open>resetTimeout\<close> has passed; of the requests
  asked from then on, while no result is recorded, exactly the first \<open>halfOpenMaxReqs\<close> are let
  through (for fewer than \<open>2^31\<close> of them).
\<close>

lemma half_open_quota:
  assumes "cb_inv cb" and "cb_state cb = StateOpen"
    and "\<forall>t\<in>set early. t - cb_lastStateChange cb \<le> cb_resetTimeout cb"
    and "cb_resetTimeout cb < t - cb_lastStateChange cb"
    and "length early + length ts < 2 ^ 31 - 1"
  shows "cb_answers (map CallAllow early) cb = replicate (length early) False \<and>
     length (filter id (cb_answers (map CallAllow (early @ t # ts)) cb)) =
       min (Suc (length ts)) (nat (sint (cb_halfOpenMaxReqs cb)))"
proof -
  let ?a = "spec_answers (nat (sint (cb_failureThreshold cb))) (cb_resetTimeout cb)
       (nat (sint (cb_halfOpenMaxReqs cb)))"
  have "0 < nat (sint (cb_halfOpenMaxReqs cb))"
    using assms(1) by (simp add: cb_inv_def cb_limits_def)
  then obtain m where m: "nat (sint (cb_halfOpenMaxReqs cb)) = Suc m"
    by (cases "nat (sint (cb_halfOpenMaxReqs cb))") auto
  have ref: "cb_answers cs cb = ?a cs (Open (cb_lastStateChange cb))" if "length cs < 2 ^ 31" for cs
    using cb_answers_refine [OF assms(1) _ that] assms(2)
    by (simp add: half_open_room_for_def cb_abs_def)
  have pre: "?a (map CallAllow early @ cs) (Open (cb_lastStateChange cb)) =
      replicate (length early) False @ ?a cs (Open (cb_lastStateChange cb))" for cs
    using assms(3) by (induction early) auto
  have late: "length (filter id (?a (map CallAllow (t # ts)) (Open (cb_lastStateChange cb)))) =
      min (Suc (length ts)) (nat (sint (cb_halfOpenMaxReqs cb)))"
    using assms(4) m by (simp add: spec_answers_half_open min_def)
  have "cb_answers (map CallAllow early) cb = replicate (length early) False"
    using ref [of "map CallAllow early"] pre [of "[]"] assms(5) by simp
  moreover have "length (filter id (cb_answers (map CallAllow (early @ t # ts)) cb)) =
       min (Suc (length ts)) (nat (sint (cb_halfOpenMaxReqs cb)))"
    using ref [of "map CallAllow (early @ t # ts)"] pre [of "map CallAllow (t # ts)"] assms(5) late
    by simp
  ultimately show ?thesis by blast
qed



text \<open>
  The half-open counter wraps: at \<open>2^31 - 1\<close> counted requests the next one is let through
  whatever the quota is.
\<close>

theorem half_open_counter_wraps:
  assumes "cb_inv cb" and "cb_state cb = StateHalfOpen" and "cb_halfOpenReqs cb = 2147483647"
  shows "snd (AllowRequest now cb)"
proof -
  have "sint (cb_halfOpenReqs cb + 1) = - 2147483648"
    using assms(3) by simp
  with assms show ?thesis
    by (simp add: AllowRequest_half_open cb_inv_def cb_limits_def)
qed

theorem half_open_counter_wraps_witness:
  "let cb = (RecordFailure 5 (NewCircuitBreaker ''b''
              \<lparr>FailureThreshold = 1, ResetTimeout = 10, HalfOpenMaxReqs = 1\<rparr> 0))
            \<lparr>cb_state := StateHalfOpen, cb_halfOpenReqs := 2147483647\<rparr>
   in cb_inv cb \<and> snd (AllowRequest 7 cb)"
proof -
  let ?cb = "(RecordFailure 5 (NewCircuitBreaker ''b''
              \<lparr>FailureThreshold = 1, ResetTimeout = 10, HalfOpenMaxReqs = 1\<rparr> 0))
            \<lparr>cb_state := StateHalfOpen, cb_halfOpenReqs := 2147483647\<rparr>"
  have "cb_inv ?cb"
    by (simp add: cb_inv_def cb_limits_def NewCircuitBreaker_def RecordFailure_def Let_def)
  with half_open_counter_wraps [of ?cb 7] show ?thesis by simp
qed

text \<open>
  from a new breaker, along every run of calls each step follows an edge of the state
  diagram (a reset apart), and the \<open>opens\<close> metric is the number of times the breaker opened,
  modulo \<open>2^64\<close>.
\<close>

lemma breaker_opens_metric:
  "cb_opens (cb_run cs (NewCircuitBreaker nm config now)) =
     of_nat (count_opens cs (NewCircuitBreaker nm config now)) \<and>
   cb_edge (cb_state cb) (cb_state (fst (AllowRequest t cb))) \<and>
   cb_edge (cb_state cb) (cb_state (RecordSuccess t cb)) \<and>
   cb_edge (cb_state cb) (cb_state (RecordFailure t cb))"
  by (simp add: cb_run_opens AllowRequest_edge RecordSuccess_edge RecordFailure_edge)
     (simp add: NewCircuitBreaker_def Let_def)

end
