(* ===== verification/RTP_Engine.thy ===== *)
theory RTP_Engine
  imports Circuit_Breaker Goroutines
begin

text \<open>
  The RTPEngine client of \<open>pkg/rtpengine/rtpengine.go\<close>: one bencoded request over a fresh UDP
  socket, guarded by a circuit breaker. The bencode library is not part of the sources: its
  encoder and decoder are the parameters \<open>enc\<close> and \<open>dec\<close>. The network during one request is a
  \<open>rtp_io\<close>: which socket calls succeed, the random cookie, and the datagram that comes back for
  the datagram sent.
\<close>

section \<open>State\<close>

datatype bval = BStr string | BInt int | BList "bval list"

type_synonym bdict = "(string \<times> bval) list"

record RTPEngine =
  re_address :: string
  re_port :: int
  re_timeout :: duration
  re_connOpen :: bool
  re_circuitBreaker :: CircuitBreaker

record rtp_Config =
  rc_Address :: string
  rc_Port :: int
  rc_Timeout :: duration
  rc_Weight :: int
  rc_CircuitBreaker :: CircuitBreakerConfig

record rtp_io =
  io_now :: gotime
  io_dial :: bool
  io_cookie :: int
  io_writeDeadline :: bool
  io_write :: bool
  io_readDeadline :: bool
  io_reply :: "string \<Rightarrow> string option"

datatype rtp_error =
    ResolveFailed | BreakerOpen | DialFailed | EncodeFailed | WriteDeadlineFailed | WriteFailed
  | ReadDeadlineFailed | ReceiveFailed | CookieMismatch | DecodeFailed | NoResultField
  | EngineError string | UnexpectedPing

definition host_port :: "string \<Rightarrow> int \<Rightarrow> string" where
  "host_port address port = address @ '':'' @ fmt_d port"

definition New :: "gotime \<Rightarrow> (string \<Rightarrow> bool) \<Rightarrow> rtp_Config \<Rightarrow> (rtp_error, RTPEngine) outcome" where
  "New now resolves config =
     (if \<not> resolves (host_port (rc_Address config) (rc_Port config)) then Fail ResolveFailed
      else let timeout = (if rc_Timeout config \<le> 0 then 500 * Millisecond else rc_Timeout config);
               cbName = ''rtpengine-'' @ host_port (rc_Address config) (rc_Port config)
           in Ret \<lparr>re_address = rc_Address config, re_port = rc_Port config, re_timeout = timeout,
                   re_connOpen = False,
                   re_circuitBreaker = NewCircuitBreaker cbName (rc_CircuitBreaker config) now\<rparr>)"

section \<open>Connection\<close>

definition ensureConnection :: "rtp_io \<Rightarrow> RTPEngine \<Rightarrow> RTPEngine \<times> bool" where
  "ensureConnection io r =
     (let r = r\<lparr>re_connOpen := False\<rparr>
      in if \<not> io_dial io then (r, False) else (r\<lparr>re_connOpen := True\<rparr>, True))"

definition RTPEngine_Close :: "RTPEngine \<Rightarrow> RTPEngine" where
  "RTPEngine_Close r = r\<lparr>re_connOpen := False\<rparr>"

definition record_failure :: "gotime \<Rightarrow> RTPEngine \<Rightarrow> RTPEngine" where
  "record_failure now r = r\<lparr>re_circuitBreaker := RecordFailure now (re_circuitBreaker r)\<rparr>"

definition record_success :: "gotime \<Rightarrow> RTPEngine \<Rightarrow> RTPEngine" where
  "record_success now r = r\<lparr>re_circuitBreaker := RecordSuccess now (re_circuitBreaker r)\<rparr>"

section \<open>Request\<close>

text \<open>What is made of the datagram that came back.\<close>

definition read_response :: "(string \<Rightarrow> bdict option) \<Rightarrow> string \<Rightarrow> string \<Rightarrow> (rtp_error, bdict) outcome" where
  "read_response dec cookie response =
     (if length response < length cookie \<or> take (length cookie) response \<noteq> cookie then Fail CookieMismatch
      else case dec (TrimSpace (drop (length cookie) response)) of
        None \<Rightarrow> Fail DecodeFailed
      | Some result \<Rightarrow>
          (case map_of result ''result'' of
             None \<Rightarrow> Fail NoResultField
           | Some res \<Rightarrow>
               if res = BStr ''error''
               then Fail (EngineError (case map_of result ''error-reason'' of Some (BStr s) \<Rightarrow> s | _ \<Rightarrow> []))
               else Ret result))"

text \<open>
  The body of \<open>Request\<close> once the connection is there, without the deferred close. Only the
  failure to encode records nothing with the breaker.
\<close>

definition Request_exchange :: "(bdict \<Rightarrow> string option) \<Rightarrow> (string \<Rightarrow> bdict option) \<Rightarrow> rtp_io \<Rightarrow> bdict \<Rightarrow> RTPEngine \<Rightarrow>
    RTPEngine \<times> (rtp_error, bdict) outcome" where
  "Request_exchange enc dec io command r =
     (let cookie = fmt_d (io_cookie io mod 1000000) @ '' ''; now = io_now io
      in case enc command of
           None \<Rightarrow> (r, Fail EncodeFailed)
         | Some packet \<Rightarrow>
             (let fullPacket = cookie @ packet
              in if \<not> io_writeDeadline io then (record_failure now r, Fail WriteDeadlineFailed)
                 else if \<not> io_write io then (record_failure now r, Fail WriteFailed)
                 else if \<not> io_readDeadline io then (record_failure now r, Fail ReadDeadlineFailed)
                 else case io_reply io fullPacket of
                   None \<Rightarrow> (record_failure now r, Fail ReceiveFailed)
                 | Some response \<Rightarrow>
                     (case read_response dec cookie (take 65535 response) of
                        Ret result \<Rightarrow> (record_success now r, Ret result)
                      | e \<Rightarrow> (record_failure now r, e))))"

definition Request :: "(bdict \<Rightarrow> string option) \<Rightarrow> (string \<Rightarrow> bdict option) \<Rightarrow> rtp_io \<Rightarrow> bdict \<Rightarrow> RTPEngine \<Rightarrow>
    RTPEngine \<times> (rtp_error, bdict) outcome" where
  "Request enc dec io command r =
     (let now = io_now io; (cb, allowed) = AllowRequest now (re_circuitBreaker r);
          r = r\<lparr>re_circuitBreaker := cb\<rparr>
      in if \<not> allowed then (r, Fail BreakerOpen)
         else let (r, dialed) = ensureConnection io r
              in if \<not> dialed then (record_failure now r, Fail DialFailed)
                 else let (r, result) = Request_exchange enc dec io command r
                      in (r\<lparr>re_connOpen := False\<rparr>, result))"

section \<open>Commands\<close>

definition command :: "string \<Rightarrow> bdict \<Rightarrow> bdict" where
  "command name params = AList.update ''command'' (BStr name) params"

definition Offer :: "(bdict \<Rightarrow> string option) \<Rightarrow> (string \<Rightarrow> bdict option) \<Rightarrow> rtp_io \<Rightarrow> bdict \<Rightarrow> RTPEngine \<Rightarrow>
    RTPEngine \<times> (rtp_error, bdict) outcome" where
  "Offer enc dec io params r = Request enc dec io (command ''offer'' params) r"

definition Answer :: "(bdict \<Rightarrow> string option) \<Rightarrow> (string \<Rightarrow> bdict option) \<Rightarrow> rtp_io \<Rightarrow> bdict \<Rightarrow> RTPEngine \<Rightarrow>
    RTPEngine \<times> (rtp_error, bdict) outcome" where
  "Answer enc dec io params r = Request enc dec io (command ''answer'' params) r"

definition RTPEngine_Delete :: "(bdict \<Rightarrow> string option) \<Rightarrow> (string \<Rightarrow> bdict option) \<Rightarrow> rtp_io \<Rightarrow> bdict \<Rightarrow> RTPEngine \<Rightarrow>
    RTPEngine \<times> (rtp_error, bdict) outcome" where
  "RTPEngine_Delete enc dec io params r = Request enc dec io (command ''delete'' params) r"

definition Query :: "(bdict \<Rightarrow> string option) \<Rightarrow> (string \<Rightarrow> bdict option) \<Rightarrow> rtp_io \<Rightarrow> bdict \<Rightarrow> RTPEngine \<Rightarrow>
    RTPEngine \<times> (rtp_error, bdict) outcome" where
  "Query enc dec io params r = Request enc dec io (command ''query'' params) r"

definition RTPEngine_List :: "(bdict \<Rightarrow> string option) \<Rightarrow> (string \<Rightarrow> bdict option) \<Rightarrow> rtp_io \<Rightarrow> RTPEngine \<Rightarrow>
    RTPEngine \<times> (rtp_error, bdict) outcome" where
  "RTPEngine_List enc dec io r = Request enc dec io [(''command'', BStr ''list'')] r"

definition RTPEngine_Ping :: "(bdict \<Rightarrow> string option) \<Rightarrow> (string \<Rightarrow> bdict option) \<Rightarrow> rtp_io \<Rightarrow> RTPEngine \<Rightarrow>
    RTPEngine \<times> (rtp_error, unit) outcome" where
  "RTPEngine_Ping enc dec io r =
     (case Request enc dec io [(''command'', BStr ''ping'')] r of
        (r, Ret result) \<Rightarrow>
          (r, if map_of result ''result'' = Some (BStr ''pong'') then Ret () else Fail UnexpectedPing)
      | (r, Fail e) \<Rightarrow> (r, Fail e)
      | (r, Panic p) \<Rightarrow> (r, Panic p)
      | (r, Blocked) \<Rightarrow> (r, Blocked))"

definition GetStats :: "(bdict \<Rightarrow> string option) \<Rightarrow> (string \<Rightarrow> bdict option) \<Rightarrow> rtp_io \<Rightarrow> RTPEngine \<Rightarrow>
    RTPEngine \<times> (rtp_error, bdict) outcome" where
  "GetStats enc dec io r = Request enc dec io [(''command'', BStr ''statistics'')] r"

section \<open>Lemmas\<close>

lemma read_response_returns [simp]: "read_response dec cookie response \<noteq> Panic p" "read_response dec cookie response \<noteq> Blocked"
  by (simp_all add: read_response_def split: option.split)

lemma read_response_cookie: "read_response dec cookie response = Ret d \<Longrightarrow> take (length cookie) response = cookie"
  by (simp add: read_response_def split: if_splits)

text \<open>\<open>Request\<close> by the breaker's answer, the dialling and the exchange.\<close>

lemma Request_denied:
  "\<not> snd (AllowRequest (io_now io) (re_circuitBreaker r)) \<Longrightarrow>
   Request enc dec io cmd r =
     (r\<lparr>re_circuitBreaker := fst (AllowRequest (io_now io) (re_circuitBreaker r))\<rparr>, Fail BreakerOpen)"
  by (simp add: Request_def split_beta Let_def)

lemma Request_fields:
  "re_address (fst (Request enc dec io cmd r)) = re_address r"
  "re_port (fst (Request enc dec io cmd r)) = re_port r"
  by (simp_all add: Request_def Request_exchange_def ensureConnection_def record_failure_def record_success_def
      split_beta Let_def split: option.split outcome.split)

lemma Request_returns: "returns (snd (Request enc dec io cmd r))"
  by (auto simp: Request_def Request_exchange_def ensureConnection_def split_beta Let_def
      split: option.split outcome.split)

lemma Request_closes: "\<not> re_connOpen r \<Longrightarrow> \<not> re_connOpen (fst (Request enc dec io cmd r))"
  by (simp add: Request_def ensureConnection_def record_failure_def split_beta Let_def)

text \<open>What \<open>Request\<close> tells the breaker, by the outcome.\<close>

definition breaker_after :: "gotime \<Rightarrow> (rtp_error, bdict) outcome \<Rightarrow> CircuitBreaker \<Rightarrow> CircuitBreaker" where
  "breaker_after now result cb =
     (case result of
        Ret d \<Rightarrow> RecordSuccess now (fst (AllowRequest now cb))
      | Fail BreakerOpen \<Rightarrow> fst (AllowRequest now cb)
      | Fail EncodeFailed \<Rightarrow> fst (AllowRequest now cb)
      | _ \<Rightarrow> RecordFailure now (fst (AllowRequest now cb)))"

lemma read_response_errors: "read_response dec cookie response \<noteq> Fail BreakerOpen" "read_response dec cookie response \<noteq> Fail EncodeFailed"
  by (simp_all add: read_response_def split: option.split)

lemma Request_breaker:
  "re_circuitBreaker (fst (Request enc dec io cmd r)) =
     breaker_after (io_now io) (snd (Request enc dec io cmd r)) (re_circuitBreaker r)"
  using read_response_errors
  by (auto simp: Request_def Request_exchange_def ensureConnection_def record_failure_def record_success_def
      breaker_after_def split_beta Let_def split: option.split outcome.split rtp_error.split)

lemma cb_inv_breaker_after: "cb_inv cb \<Longrightarrow> cb_inv (breaker_after now r cb)"
  by (auto simp: breaker_after_def split: outcome.split rtp_error.split)

section \<open>Properties\<close>

definition request_cookie :: "rtp_io \<Rightarrow> string" where
  "request_cookie io = fmt_d (io_cookie io mod 1000000) @ '' ''"

text \<open>
  C25: \<open>Request\<close> returns a result exactly when the breaker admits it, every socket call
  succeeds, and a datagram comes back that begins with the cookie of this request and whose
  rest decodes to a dictionary with a result field that is not \<open>error\<close>; the result is that
  dictionary.
\<close>

theorem Request_Ret_iff:
  "snd (Request enc dec io cmd r) = Ret d \<longleftrightarrow>
     snd (AllowRequest (io_now io) (re_circuitBreaker r)) \<and> io_dial io \<and>
     io_writeDeadline io \<and> io_write io \<and> io_readDeadline io \<and>
     (\<exists>packet reply res.
        enc cmd = Some packet \<and> io_reply io (request_cookie io @ packet) = Some reply \<and>
        length (request_cookie io) \<le> length (take 65535 reply) \<and>
        take (length (request_cookie io)) (take 65535 reply) = request_cookie io \<and>
        dec (TrimSpace (drop (length (request_cookie io)) (take 65535 reply))) = Some d \<and>
        map_of d ''result'' = Some res \<and> res \<noteq> BStr ''error'')"
proof -
  have r: "read_response dec c x = Ret d \<longleftrightarrow>
      length c \<le> length x \<and> take (length c) x = c \<and> dec (TrimSpace (drop (length c) x)) = Some d \<and>
      (\<exists>res. map_of d ''result'' = Some res \<and> res \<noteq> BStr ''error'')" for c x
    by (auto simp: read_response_def not_less split: option.split if_splits)
  have e: "snd (Request_exchange enc dec io cmd r') = Ret d \<longleftrightarrow>
      io_writeDeadline io \<and> io_write io \<and> io_readDeadline io \<and>
      (\<exists>packet reply. enc cmd = Some packet \<and> io_reply io (request_cookie io @ packet) = Some reply \<and>
        read_response dec (request_cookie io) (take 65535 reply) = Ret d)" for r'
    unfolding Request_exchange_def Let_def request_cookie_def [symmetric]
    by (auto split: option.split outcome.split)
  show ?thesis
    by (auto simp: Request_def ensureConnection_def split_beta Let_def e r)
qed

text \<open>
  Every \<open>Request\<close> returns, leaves no socket open, and tells the breaker success exactly on
  a result and failure on every error but two: the breaker's own refusal and a command that
  cannot be encoded.
\<close>

lemma Request_breaker_told:
  "let (r', result) = Request enc dec io cmd r
   in returns result \<and> re_connOpen r' = (re_connOpen r \<and> result = Fail BreakerOpen) \<and>
      re_circuitBreaker r' = breaker_after (io_now io) result (re_circuitBreaker r)"
proof -
  have "re_connOpen (fst (Request enc dec io cmd r)) = (re_connOpen r \<and> snd (Request enc dec io cmd r) = Fail BreakerOpen)"
    using read_response_errors
    by (auto simp: Request_def Request_exchange_def ensureConnection_def record_failure_def split_beta Let_def
        split: option.split outcome.split)
  then show ?thesis
    using Request_returns [of enc dec io cmd r] Request_breaker [of enc dec io cmd r]
    by (simp add: split_beta Let_def)
qed

end
