(* ===== verification/Memory_Storage.thy ===== *)
theory Memory_Storage
  imports Gateway_Prelude
begin

text \<open>
  The in-memory storage of \<open>pkg/storage\<close>: the stored types of \<open>storage.go\<close>, the
  \<open>MemoryStorage\<close> record and constructor of \<open>memory.go\<close>, and the sharded key-value store
  (\<open>getShard\<close>, \<open>Get\<close>, \<open>Set\<close>, \<open>Delete\<close>). The sharded store is shown to be one flat map wherever
  \<open>getShard\<close> stays in range; the typed stores are in the next theory.
\<close>

section \<open>Stored types\<close>

datatype storage_error =
  ErrNotFound | ErrAlreadyExists | ErrInvalidKey | ErrInvalidValue | ErrStorageFull | ErrKeyExpired

record KeyValue =
  kv_Value :: bytes
  kv_Expiration :: gotime

record Dialog =
  dlg_CallID :: string
  dlg_FromTag :: string
  dlg_ToTag :: string
  dlg_State :: string
  dlg_Route :: "string list"
  dlg_RemoteSeq :: int
  dlg_LocalSeq :: int
  dlg_RemoteURI :: string
  dlg_LocalURI :: string
  dlg_RemoteTarget :: string
  dlg_CreateTime :: gotime
  dlg_UpdateTime :: gotime
  dlg_ExpireTime :: gotime
  dlg_Data :: "(string \<times> string) list"

record RTPSession =
  rtp_CallID :: string
  rtp_EngineIdx :: int
  rtp_EngineAddr :: string
  rtp_FromTag :: string
  rtp_ToTag :: string
  rtp_MediaInfo :: string
  rtp_Created :: gotime
  rtp_Updated :: gotime
  rtp_ExpireTime :: gotime

record AMIAction =
  act_ActionID :: string
  act_Command :: string
  act_Params :: "(string \<times> string) list"
  act_ClientID :: string
  act_Timestamp :: gotime
  act_Retries :: int
  act_ExpireTime :: gotime

record ClientSession =
  cls_ClientID :: string
  cls_UserAgent :: string
  cls_SIPAddress :: string
  cls_CallIDs :: "string list"
  cls_CreateTime :: gotime
  cls_LastSeen :: gotime
  cls_ExpireTime :: gotime
  cls_Data :: "(string \<times> string) list"

record WSConnectionInfo =
  wsi_ClientID :: string
  wsi_ServerAddr :: string
  wsi_RemoteAddr :: string
  wsi_Protocol :: string
  wsi_Created :: gotime
  wsi_LastSeen :: gotime
  wsi_ExpireTime :: gotime

record Registration =
  reg_AOR :: string
  reg_Contact :: string
  reg_Expires :: int
  reg_UserAgent :: string
  reg_CallID :: string
  reg_CSeq :: int
  reg_RegisterTime :: gotime
  reg_ExpireTime :: gotime

record StorageStats =
  TotalItems :: int
  DialogCount :: int
  RTPSessionCount :: int
  AMIActionCount :: int
  ClientCount :: int
  WSConnCount :: int
  RegCount :: int
  ExpiredItems :: int
  EvictedItems :: int

section \<open>The storage\<close>

record MemoryStorage =
  ms_data :: "KeyValue syncmap list"
  ms_shardCount :: int
  ms_dialogs :: "Dialog syncmap"
  ms_rtpSessions :: "RTPSession syncmap"
  ms_amiActions :: "AMIAction syncmap"
  ms_clientSessions :: "ClientSession syncmap"
  ms_wsConnections :: "WSConnectionInfo syncmap"
  ms_registrations :: "Registration syncmap"
  ms_maxKeys :: int
  ms_cleanupInterval :: duration
  ms_persistPath :: string
  ms_persistOnShutdown :: bool
  ms_stats :: StorageStats
  ms_stopped :: bool

record MemoryConfig =
  mc_MaxKeys :: int
  mc_CleanupInterval :: duration
  mc_PersistPath :: string
  mc_PersistOnShutdown :: bool
  mc_ShardCount :: int

definition zero_stats :: StorageStats where
  "zero_stats = \<lparr>TotalItems = 0, DialogCount = 0, RTPSessionCount = 0, AMIActionCount = 0,
     ClientCount = 0, WSConnCount = 0, RegCount = 0, ExpiredItems = 0, EvictedItems = 0\<rparr>"

text \<open>
  The constructor, up to the point where a persisted file is loaded (see the theory on
  persistence). \<open>ms_stopped\<close> says whether \<open>stopCleanup\<close> is closed.
\<close>

definition NewMemoryStorage_fresh :: "MemoryConfig \<Rightarrow> MemoryStorage" where
  "NewMemoryStorage_fresh config =
     (let maxKeys = (if mc_MaxKeys config \<le> 0 then 10000 else mc_MaxKeys config);
          cleanupInterval = (if mc_CleanupInterval config \<le> 0 then 5 * Minute else mc_CleanupInterval config);
          shardCount = (if mc_ShardCount config \<le> 0 then 32 else mc_ShardCount config)
      in \<lparr>ms_data = replicate (nat shardCount) [], ms_shardCount = shardCount,
          ms_dialogs = [], ms_rtpSessions = [], ms_amiActions = [], ms_clientSessions = [],
          ms_wsConnections = [], ms_registrations = [],
          ms_maxKeys = maxKeys, ms_cleanupInterval = cleanupInterval,
          ms_persistPath = mc_PersistPath config,
          ms_persistOnShutdown = mc_PersistOnShutdown config,
          ms_stats = zero_stats, ms_stopped = False\<rparr>)"

section \<open>getShard\<close>

text \<open>
  The hash is a 64-bit \<open>int\<close> that wraps; \<open>%\<close> truncates towards zero, so its sign is the sign
  of the hash. The result is the index of the shard; \<open>None\<close> is the run-time panic of an index
  out of range.
\<close>

fun shard_hash :: "int64 \<Rightarrow> string \<Rightarrow> int64" where
  "shard_hash hash [] = hash"
| "shard_hash hash (c # key) = shard_hash (31 * hash + word_of_nat (of_char c)) key"

definition shard_index :: "int \<Rightarrow> string \<Rightarrow> int" where
  "shard_index shardCount key =
     (let hash = shard_hash 0 key;
          hash = (if sint hash < 0 then - hash else hash)
      in sint hash smod shardCount)"

definition getShard :: "MemoryStorage \<Rightarrow> string \<Rightarrow> nat option" where
  "getShard m key =
     (let i = shard_index (ms_shardCount m) key
      in if 0 \<le> i \<and> i < int (length (ms_data m)) then Some (nat i) else None)"

section \<open>Key-value operations\<close>

definition kv_expired :: "gotime \<Rightarrow> KeyValue \<Rightarrow> bool" where
  "kv_expired now kv \<longleftrightarrow> \<not> IsZero (kv_Expiration kv) \<and> Before (kv_Expiration kv) now"

definition Get :: "gotime \<Rightarrow> string \<Rightarrow> MemoryStorage \<Rightarrow> MemoryStorage \<times> (storage_error, bytes) outcome" where
  "Get now key m =
     (if key = [] then (m, Fail ErrInvalidKey)
      else case getShard m key of
        None \<Rightarrow> (m, Panic IndexOutOfRange)
      | Some i \<Rightarrow>
          (case sm_Load (ms_data m ! i) key of
             None \<Rightarrow> (m, Fail ErrNotFound)
           | Some kv \<Rightarrow>
               if kv_expired now kv
               then (m\<lparr>ms_data := (ms_data m)[i := sm_Delete key (ms_data m ! i)]\<rparr>, Fail ErrKeyExpired)
               else (m, Ret (kv_Value kv))))"

definition Set :: "gotime \<Rightarrow> string \<Rightarrow> bytes option \<Rightarrow> duration \<Rightarrow> MemoryStorage \<Rightarrow>
    MemoryStorage \<times> (storage_error, unit) outcome" where
  "Set now key value expiration m =
     (if key = [] then (m, Fail ErrInvalidKey)
      else case value of
        None \<Rightarrow> (m, Fail ErrInvalidValue)
      | Some v \<Rightarrow>
          (let expireTime = (if 0 < expiration then now + expiration else 0)
           in case getShard m key of
                None \<Rightarrow> (m, Panic IndexOutOfRange)
              | Some i \<Rightarrow>
                  (m\<lparr>ms_data := (ms_data m)
                        [i := sm_Store key \<lparr>kv_Value = v, kv_Expiration = expireTime\<rparr> (ms_data m ! i)],
                     ms_stats := (ms_stats m)\<lparr>TotalItems := TotalItems (ms_stats m) + 1\<rparr>\<rparr>, Ret ())))"

definition Delete :: "string \<Rightarrow> MemoryStorage \<Rightarrow> MemoryStorage \<times> (storage_error, unit) outcome" where
  "Delete key m =
     (if key = [] then (m, Fail ErrInvalidKey)
      else case getShard m key of
        None \<Rightarrow> (m, Panic IndexOutOfRange)
      | Some i \<Rightarrow>
          (case sm_Load (ms_data m ! i) key of
             None \<Rightarrow> (m, Fail ErrNotFound)
           | Some kv \<Rightarrow>
               (m\<lparr>ms_data := (ms_data m)[i := sm_Delete key (ms_data m ! i)],
                  ms_stats := (ms_stats m)\<lparr>TotalItems := TotalItems (ms_stats m) - 1\<rparr>\<rparr>, Ret ())))"

definition Ping :: "MemoryStorage \<Rightarrow> (storage_error, unit) outcome" where
  "Ping m = Ret ()"

definition Stats :: "MemoryStorage \<Rightarrow> StorageStats" where
  "Stats m = ms_stats m"

section \<open>When getShard is in range\<close>

lemma sint_neg_min: "sint (w :: int64) < 0 \<Longrightarrow> w \<noteq> 2 ^ 63 \<Longrightarrow> sint (- w) = - sint w"
proof -
  assume neg: "sint w < 0" and ne: "w \<noteq> 2 ^ 63"
  have "sint w \<noteq> - (2 ^ 63)"
  proof
    assume "sint w = - (2 ^ 63)"
    then have "word_of_int (sint w) = (word_of_int (- (2 ^ 63)) :: int64)" by simp
    then show False using ne by simp
  qed
  moreover have "- (2 ^ 63) \<le> sint w" using sint_ge [of w] by simp
  ultimately have "- (2 ^ 63) < sint w" by simp
  with neg show ?thesis
    by (simp add: sint_word_ariths signed_take_bit_int_eq_self)
qed

lemma shard_index_nonneg:
  assumes "0 < n" and "shard_hash 0 key \<noteq> 2 ^ 63"
  shows "0 \<le> shard_index n key \<and> shard_index n key < n"
proof -
  let ?h = "shard_hash 0 key"
  let ?a = "if sint ?h < 0 then - ?h else ?h"
  have "0 \<le> sint ?a" using sint_neg_min [OF _ assms(2)] by auto
  then have "sint ?a smod n = sint ?a mod n" using assms(1) by (rule smod_nonneg)
  then show ?thesis using assms(1) by (simp add: shard_index_def Let_def)
qed

lemma shard_index_min:
  assumes "0 < n" and "shard_hash 0 key = 2 ^ 63"
  shows "shard_index n key = - (2 ^ 63 mod n)"
proof -
  have "sint (2 ^ 63 :: int64) = - (2 ^ 63)" by simp
  then show ?thesis using assms by (simp add: shard_index_def Let_def smod_int_alt_def)
qed

text \<open>The shards are as many as the count says, and there is at least one.\<close>

definition shards_ok :: "MemoryStorage \<Rightarrow> bool" where
  "shards_ok m \<longleftrightarrow> 0 < ms_shardCount m \<and> int (length (ms_data m)) = ms_shardCount m"

lemma shards_ok_New [simp]: "shards_ok (NewMemoryStorage_fresh config)"
  by (simp add: shards_ok_def NewMemoryStorage_fresh_def Let_def)

lemma getShard_lt: "getShard m key = Some i \<Longrightarrow> i < length (ms_data m)"
  by (auto simp: getShard_def Let_def split: if_splits)

lemma getShard_frame [simp]:
  "getShard (m\<lparr>ms_data := (ms_data m)[i := x]\<rparr>) = getShard m"
  "getShard (m\<lparr>ms_data := (ms_data m)[i := x], ms_stats := st\<rparr>) = getShard m"
  by (simp_all add: getShard_def fun_eq_iff)

lemma getShard_total:
  assumes "shards_ok m" and "ms_shardCount m dvd 2 ^ 63"
  shows "\<exists>i. getShard m key = Some i"
proof (cases "shard_hash 0 key = 2 ^ 63")
  case True
  have n: "0 < ms_shardCount m" using assms by (simp add: shards_ok_def)
  then show ?thesis
    using shard_index_min [OF n True] assms by (simp add: getShard_def shards_ok_def Let_def dvd_eq_mod_eq_0)
next
  case False
  then show ?thesis
    using shard_index_nonneg [OF _ False] assms by (auto simp: getShard_def shards_ok_def Let_def)
qed

text \<open>
  C27: \<open>getShard\<close> panics exactly on the keys whose hash is the least 64-bit integer, and only
  when the shard count does not divide \<open>2^63\<close>; the default of 32 shards is safe for every key.
\<close>

theorem getShard_panics_iff:
  assumes "shards_ok m"
  shows "getShard m key = None \<longleftrightarrow> shard_hash 0 key = 2 ^ 63 \<and> \<not> ms_shardCount m dvd 2 ^ 63"
proof (cases "shard_hash 0 key = 2 ^ 63")
  case True
  have n: "0 < ms_shardCount m" using assms by (simp add: shards_ok_def)
  then have "0 \<le> (2 ^ 63 :: int) mod ms_shardCount m" and "(2 ^ 63 :: int) mod ms_shardCount m < ms_shardCount m"
    by simp_all
  then show ?thesis
    using True shard_index_min [OF n True] assms
    by (auto simp: getShard_def shards_ok_def Let_def dvd_eq_mod_eq_0)
next
  case False
  then show ?thesis
    using shard_index_nonneg [OF _ False] assms by (auto simp: getShard_def shards_ok_def Let_def)
qed

theorem getShard_panics_iff_witness:
  "let m = NewMemoryStorage_fresh \<lparr>mc_MaxKeys = 0, mc_CleanupInterval = 0, mc_PersistPath = [],
             mc_PersistOnShutdown = False, mc_ShardCount = 10\<rparr>
   in shards_ok m \<and> getShard m ''OY[T^]CZ@DXRW'' = None"
proof -
  let ?m = "NewMemoryStorage_fresh \<lparr>mc_MaxKeys = 0, mc_CleanupInterval = 0, mc_PersistPath = [],
             mc_PersistOnShutdown = False, mc_ShardCount = 10\<rparr>"
  have h: "shard_hash 0 ''OY[T^]CZ@DXRW'' = 2 ^ 63" by code_simp
  have n: "\<not> ms_shardCount ?m dvd 2 ^ 63"
    by (simp add: NewMemoryStorage_fresh_def Let_def)
  have "getShard ?m ''OY[T^]CZ@DXRW'' = None"
    using getShard_panics_iff [of ?m "''OY[T^]CZ@DXRW''"] h n by (simp del: shard_hash.simps)
  then show ?thesis by (simp del: shard_hash.simps)
qed

section \<open>The key-value interface\<close>

text \<open>
  What a client of the key-value store may rely on, over a flat map from keys to stored values.
  An expired value is still in the map until a lookup (or \<open>Cleanup\<close>) finds it.
\<close>

definition spec_Get :: "gotime \<Rightarrow> string \<Rightarrow> (string \<rightharpoonup> KeyValue) \<Rightarrow> (string \<rightharpoonup> KeyValue) \<times> (storage_error, bytes) outcome" where
  "spec_Get now key M =
     (if key = [] then (M, Fail ErrInvalidKey)
      else case M key of
        None \<Rightarrow> (M, Fail ErrNotFound)
      | Some kv \<Rightarrow> if kv_expired now kv then (M(key := None), Fail ErrKeyExpired) else (M, Ret (kv_Value kv)))"

definition spec_Set :: "gotime \<Rightarrow> string \<Rightarrow> bytes option \<Rightarrow> duration \<Rightarrow> (string \<rightharpoonup> KeyValue) \<Rightarrow>
    (string \<rightharpoonup> KeyValue) \<times> (storage_error, unit) outcome" where
  "spec_Set now key value d M =
     (if key = [] then (M, Fail ErrInvalidKey)
      else case value of
        None \<Rightarrow> (M, Fail ErrInvalidValue)
      | Some v \<Rightarrow> (M(key \<mapsto> \<lparr>kv_Value = v, kv_Expiration = if 0 < d then now + d else 0\<rparr>), Ret ()))"

definition spec_Delete :: "string \<Rightarrow> (string \<rightharpoonup> KeyValue) \<Rightarrow> (string \<rightharpoonup> KeyValue) \<times> (storage_error, unit) outcome" where
  "spec_Delete key M =
     (if key = [] then (M, Fail ErrInvalidKey)
      else if M key = None then (M, Fail ErrNotFound) else (M(key := None), Ret ()))"

lemmas spec_kv_defs = spec_Get_def spec_Set_def spec_Delete_def

datatype kv_call = KvGet gotime string | KvSet gotime string "bytes option" duration | KvDelete string

datatype kv_reply = GotBytes "(storage_error, bytes) outcome" | Done "(storage_error, unit) outcome"

fun kv_spec :: "kv_call \<Rightarrow> (string \<rightharpoonup> KeyValue) \<Rightarrow> (string \<rightharpoonup> KeyValue) \<times> kv_reply" where
  "kv_spec (KvGet now key) M = map_prod id GotBytes (spec_Get now key M)"
| "kv_spec (KvSet now key v d) M = map_prod id Done (spec_Set now key v d M)"
| "kv_spec (KvDelete key) M = map_prod id Done (spec_Delete key M)"

locale kv_contract =
  fixes get :: "gotime \<Rightarrow> string \<Rightarrow> 's \<Rightarrow> 's \<times> (storage_error, bytes) outcome"
    and put :: "gotime \<Rightarrow> string \<Rightarrow> bytes option \<Rightarrow> duration \<Rightarrow> 's \<Rightarrow> 's \<times> (storage_error, unit) outcome"
    and del :: "string \<Rightarrow> 's \<Rightarrow> 's \<times> (storage_error, unit) outcome"
    and view :: "'s \<Rightarrow> string \<rightharpoonup> KeyValue"
    and ok :: "'s \<Rightarrow> bool"
  assumes get_refines: "ok s \<Longrightarrow> map_prod view id (get now key s) = spec_Get now key (view s)"
    and put_refines: "ok s \<Longrightarrow> map_prod view id (put now key v d s) = spec_Set now key v d (view s)"
    and del_refines: "ok s \<Longrightarrow> map_prod view id (del key s) = spec_Delete key (view s)"
    and get_ok: "ok s \<Longrightarrow> ok (fst (get now key s))"
    and put_ok: "ok s \<Longrightarrow> ok (fst (put now key v d s))"
    and del_ok: "ok s \<Longrightarrow> ok (fst (del key s))"
begin

lemma get_view: "ok s \<Longrightarrow> view (fst (get now key s)) = fst (spec_Get now key (view s))"
  using get_refines [of s now key] by (simp add: prod_eq_iff)

lemma get_result: "ok s \<Longrightarrow> snd (get now key s) = snd (spec_Get now key (view s))"
  using get_refines [of s now key] by (simp add: prod_eq_iff)

lemma put_view: "ok s \<Longrightarrow> view (fst (put now key v d s)) = fst (spec_Set now key v d (view s))"
  using put_refines [of s now key v d] by (simp add: prod_eq_iff)

lemma put_result: "ok s \<Longrightarrow> snd (put now key v d s) = snd (spec_Set now key v d (view s))"
  using put_refines [of s now key v d] by (simp add: prod_eq_iff)

lemma del_view: "ok s \<Longrightarrow> view (fst (del key s)) = fst (spec_Delete key (view s))"
  using del_refines [of s key] by (simp add: prod_eq_iff)

lemma del_result: "ok s \<Longrightarrow> snd (del key s) = snd (spec_Delete key (view s))"
  using del_refines [of s key] by (simp add: prod_eq_iff)

lemma get_after_put:
  assumes "ok s" and "key \<noteq> []"
  shows "snd (get now' key (fst (put now key (Some v) d s))) =
     (if 0 < d \<and> now + d \<noteq> 0 \<and> now + d < now' then Fail ErrKeyExpired else Ret v)"
  using assms by (simp add: get_result put_ok put_view spec_kv_defs kv_expired_def time_defs)

lemma get_after_put_other:
  assumes "ok s" and "key \<noteq> key'"
  shows "snd (get now' key' (fst (put now key v d s))) = snd (get now' key' s)"
  using assms by (simp add: get_result put_ok put_view spec_kv_defs split: option.splits)

lemma get_after_del:
  assumes "ok s" and "key \<noteq> []"
  shows "snd (get now key (fst (del key s))) = Fail ErrNotFound"
  using assms by (simp add: get_result del_ok del_view spec_kv_defs)

text \<open>A lookup never changes what a later lookup at the same time or later finds live.\<close>

lemma get_live_after_get:
  assumes "ok s" and "now \<le> now'" and "snd (get now' key' s) = Ret v"
  shows "snd (get now' key' (fst (get now key s))) = Ret v"
  using assms
  by (auto simp: get_result get_ok get_view spec_kv_defs kv_expired_def time_defs split: option.splits if_splits)

end

section \<open>The sharded store implements the interface\<close>

definition kv_view :: "MemoryStorage \<Rightarrow> string \<Rightarrow> KeyValue option" where
  "kv_view m key = Option.bind (getShard m key) (\<lambda>i. sm_Load (ms_data m ! i) key)"

definition kv_ok :: "MemoryStorage \<Rightarrow> bool" where
  "kv_ok m \<longleftrightarrow> shards_ok m \<and> ms_shardCount m dvd 2 ^ 63"

lemma kv_ok_getShard: "kv_ok m \<Longrightarrow> \<exists>i. getShard m key = Some i"
  using getShard_total by (auto simp: kv_ok_def)

lemma kv_view_upd:
  assumes "getShard m key = Some i"
  shows "kv_view (m\<lparr>ms_data := (ms_data m)[i := sm_Store key v (ms_data m ! i)]\<rparr>) = (kv_view m)(key \<mapsto> v)"
    and "kv_view (m\<lparr>ms_data := (ms_data m)[i := sm_Delete key (ms_data m ! i)]\<rparr>) = (kv_view m)(key := None)"
  using assms getShard_lt [of m]
  by (auto simp: kv_view_def fun_eq_iff nth_list_update bind_eq_Some_conv split: bind_split)

lemma kv_view_stats [simp]: "kv_view (m\<lparr>ms_stats := st\<rparr>) = kv_view m"
  by (simp add: kv_view_def fun_eq_iff getShard_def)

lemma kv_ok_upd [simp]:
  "kv_ok (m\<lparr>ms_data := (ms_data m)[i := x]\<rparr>) = kv_ok m"
  "kv_ok (m\<lparr>ms_stats := st\<rparr>) = kv_ok m"
  by (simp_all add: kv_ok_def shards_ok_def)

fun kv_step :: "kv_call \<Rightarrow> MemoryStorage \<Rightarrow> MemoryStorage \<times> kv_reply" where
  "kv_step (KvGet now key) m = map_prod id GotBytes (Get now key m)"
| "kv_step (KvSet now key v d) m = map_prod id Done (Set now key v d m)"
| "kv_step (KvDelete key) m = map_prod id Done (Delete key m)"

interpretation kv: kv_contract Get Set Delete kv_view kv_ok
proof (unfold_locales, goal_cases)
  case (1 s now key)
  then obtain i where i: "getShard s key = Some i" using kv_ok_getShard by blast
  then show ?case
    using kv_view_upd(2) [OF i] by (simp add: Get_def spec_Get_def kv_view_def split: option.splits)
next
  case (2 s now key v d)
  then obtain i where i: "getShard s key = Some i" using kv_ok_getShard by blast
  then show ?case
    using kv_view_upd(1) [OF i] by (simp add: Set_def spec_Set_def Let_def split: option.splits)
next
  case (3 s key)
  then obtain i where i: "getShard s key = Some i" using kv_ok_getShard by blast
  then show ?case
    using kv_view_upd(2) [OF i] by (simp add: Delete_def spec_Delete_def kv_view_def split: option.splits)
next
  case (4 s now key)
  then show ?case by (simp add: Get_def split: option.splits)
next
  case (5 s now key v d)
  then show ?case by (simp add: Set_def Let_def split: option.splits)
next
  case (6 s key)
  then show ?case by (simp add: Delete_def split: option.splits)
qed

interpretation kv_ref: functional_refinement kv_step kv_spec kv_view kv_ok
proof (unfold_locales, goal_cases)
  case (1 s c)
  then show ?case by (cases c) (simp_all add: kv.get_ok kv.put_ok kv.del_ok)
next
  case (2 s c)
  then show ?case
    using kv.get_refines kv.put_refines kv.del_refines
    by (cases c) (simp_all add: prod_eq_iff)
qed

lemma kv_ok_New: "kv_ok (NewMemoryStorage_fresh config)" if "mc_ShardCount config \<le> 0"
  using that by (simp add: kv_ok_def) (simp add: NewMemoryStorage_fresh_def Let_def)

lemma kv_view_New [simp]: "kv_view (NewMemoryStorage_fresh config) = Map.empty"
  by (auto simp: kv_view_def NewMemoryStorage_fresh_def Let_def fun_eq_iff getShard_def bind_eq_None_conv)

definition default_config :: MemoryConfig where
  "default_config = \<lparr>mc_MaxKeys = 0, mc_CleanupInterval = 0, mc_PersistPath = [],
             mc_PersistOnShutdown = False, mc_ShardCount = 0\<rparr>"



text \<open>
  A lookup after a \<open>Set\<close> of the same key returns exactly the value set, until the
  expiration has passed; with no (or a negative) expiration it returns it for ever.
\<close>

lemma Get_after_Set:
  assumes "shards_ok m" and "ms_shardCount m dvd 2 ^ 63" and "key \<noteq> []"
  shows "snd (Get now' key (fst (Set now key (Some v) d m))) =
     (if 0 < d \<and> now + d \<noteq> 0 \<and> now + d < now' then Fail ErrKeyExpired else Ret v)"
  using assms by (simp add: kv.get_after_put kv_ok_def)

end
