(* ===== verification/Typed_Stores.thy ===== *)
theory Typed_Stores
  imports Memory_Storage
begin

text \<open>
  The typed stores of \<open>pkg/storage/memory.go\<close>: dialogs, RTP sessions, AMI actions, client
  sessions, WebSocket connections and registrations, with their \<open>Get\<close>, \<open>Store\<close>, \<open>Delete\<close> and
  \<open>List\<close> methods, and \<open>Cleanup\<close>. The six stores have one contract, the locale
  \<open>expiring_store\<close>, interpreted once per store.

  A stored pointer is modelled by the value it points to; \<open>None\<close> is a nil argument. A \<open>Store\<close>
  method stamps the value before it stores it (\<open>stamp_\<close> definitions); an expired entry is
  deleted and counted by the lookup or listing that finds it (\<open>drop_\<close> definitions).
\<close>

section \<open>Get, Store and Delete\<close>

subsection \<open>Dialog\<close>

definition dlg_expired :: "gotime \<Rightarrow> Dialog \<Rightarrow> bool" where
  "dlg_expired now d \<longleftrightarrow> \<not> IsZero (dlg_ExpireTime d) \<and> Before (dlg_ExpireTime d) now"

definition drop_Dialog :: "string \<Rightarrow> MemoryStorage \<Rightarrow> MemoryStorage" where
  "drop_Dialog key m =
     m\<lparr>ms_dialogs := sm_Delete key (ms_dialogs m),
       ms_stats := (ms_stats m)\<lparr>DialogCount := DialogCount (ms_stats m) - 1,
                                ExpiredItems := ExpiredItems (ms_stats m) + 1\<rparr>\<rparr>"

definition GetDialog :: "gotime \<Rightarrow> string \<Rightarrow> MemoryStorage \<Rightarrow> MemoryStorage \<times> (storage_error, Dialog) outcome" where
  "GetDialog now callID m =
     (if callID = [] then (m, Fail ErrInvalidKey)
      else case sm_Load (ms_dialogs m) callID of
        Some d \<Rightarrow> if dlg_expired now d then (drop_Dialog callID m, Fail ErrKeyExpired) else (m, Ret d)
      | None \<Rightarrow> (m, Fail ErrNotFound))"

definition stamp_Dialog :: "gotime \<Rightarrow> Dialog \<Rightarrow> Dialog" where
  "stamp_Dialog now d =
     (let d = d\<lparr>dlg_UpdateTime := now\<rparr>;
          d = (if IsZero (dlg_CreateTime d) then d\<lparr>dlg_CreateTime := dlg_UpdateTime d\<rparr> else d)
      in if IsZero (dlg_ExpireTime d) then d\<lparr>dlg_ExpireTime := now + 24 * Hour\<rparr> else d)"

definition StoreDialog :: "gotime \<Rightarrow> Dialog option \<Rightarrow> MemoryStorage \<Rightarrow> MemoryStorage \<times> (storage_error, unit) outcome" where
  "StoreDialog now arg m =
     (case arg of
        None \<Rightarrow> (m, Fail ErrInvalidValue)
      | Some d0 \<Rightarrow>
          if dlg_CallID d0 = [] then (m, Fail ErrInvalidValue)
          else let d = stamp_Dialog now d0;
                   exists = (sm_Load (ms_dialogs m) (dlg_CallID d) \<noteq> None);
                   m = m\<lparr>ms_dialogs := sm_Store (dlg_CallID d) d (ms_dialogs m)\<rparr>
               in (if \<not> exists
                   then m\<lparr>ms_stats := (ms_stats m)\<lparr>DialogCount := DialogCount (ms_stats m) + 1\<rparr>\<rparr>
                   else m, Ret ()))"

definition DeleteDialog :: "string \<Rightarrow> MemoryStorage \<Rightarrow> MemoryStorage \<times> (storage_error, unit) outcome" where
  "DeleteDialog callID m =
     (if callID = [] then (m, Fail ErrInvalidKey)
      else case sm_Load (ms_dialogs m) callID of
        Some d \<Rightarrow>
          (m\<lparr>ms_dialogs := sm_Delete callID (ms_dialogs m),
             ms_stats := (ms_stats m)\<lparr>DialogCount := DialogCount (ms_stats m) - 1\<rparr>\<rparr>, Ret ())
      | None \<Rightarrow> (m, Fail ErrNotFound))"

subsection \<open>RTPSession\<close>

definition rtp_expired :: "gotime \<Rightarrow> RTPSession \<Rightarrow> bool" where
  "rtp_expired now d \<longleftrightarrow> \<not> IsZero (rtp_ExpireTime d) \<and> Before (rtp_ExpireTime d) now"

definition drop_RTPSession :: "string \<Rightarrow> MemoryStorage \<Rightarrow> MemoryStorage" where
  "drop_RTPSession key m =
     m\<lparr>ms_rtpSessions := sm_Delete key (ms_rtpSessions m),
       ms_stats := (ms_stats m)\<lparr>RTPSessionCount := RTPSessionCount (ms_stats m) - 1,
                                ExpiredItems := ExpiredItems (ms_stats m) + 1\<rparr>\<rparr>"

definition GetRTPSession :: "gotime \<Rightarrow> string \<Rightarrow> MemoryStorage \<Rightarrow> MemoryStorage \<times> (storage_error, RTPSession) outcome" where
  "GetRTPSession now callID m =
     (if callID = [] then (m, Fail ErrInvalidKey)
      else case sm_Load (ms_rtpSessions m) callID of
        Some d \<Rightarrow> if rtp_expired now d then (drop_RTPSession callID m, Fail ErrKeyExpired) else (m, Ret d)
      | None \<Rightarrow> (m, Fail ErrNotFound))"

definition stamp_RTPSession :: "gotime \<Rightarrow> RTPSession \<Rightarrow> RTPSession" where
  "stamp_RTPSession now d =
     (let d = d\<lparr>rtp_Updated := now\<rparr>;
          d = (if IsZero (rtp_Created d) then d\<lparr>rtp_Created := rtp_Updated d\<rparr> else d)
      in if IsZero (rtp_ExpireTime d) then d\<lparr>rtp_ExpireTime := now + 24 * Hour\<rparr> else d)"

definition StoreRTPSession :: "gotime \<Rightarrow> RTPSession option \<Rightarrow> MemoryStorage \<Rightarrow> MemoryStorage \<times> (storage_error, unit) outcome" where
  "StoreRTPSession now arg m =
     (case arg of
        None \<Rightarrow> (m, Fail ErrInvalidValue)
      | Some d0 \<Rightarrow>
          if rtp_CallID d0 = [] then (m, Fail ErrInvalidValue)
          else let d = stamp_RTPSession now d0;
                   exists = (sm_Load (ms_rtpSessions m) (rtp_CallID d) \<noteq> None);
                   m = m\<lparr>ms_rtpSessions := sm_Store (rtp_CallID d) d (ms_rtpSessions m)\<rparr>
               in (if \<not> exists
                   then m\<lparr>ms_stats := (ms_stats m)\<lparr>RTPSessionCount := RTPSessionCount (ms_stats m) + 1\<rparr>\<rparr>
                   else m, Ret ()))"

definition DeleteRTPSession :: "string \<Rightarrow> MemoryStorage \<Rightarrow> MemoryStorage \<times> (storage_error, unit) outcome" where
  "DeleteRTPSession callID m =
     (if callID = [] then (m, Fail ErrInvalidKey)
      else case sm_Load (ms_rtpSessions m) callID of
        Some d \<Rightarrow>
          (m\<lparr>ms_rtpSessions := sm_Delete callID (ms_rtpSessions m),
             ms_stats := (ms_stats m)\<lparr>RTPSessionCount := RTPSessionCount (ms_stats m) - 1\<rparr>\<rparr>, Ret ())
      | None \<Rightarrow> (m, Fail ErrNotFound))"

subsection \<open>AMIAction\<close>

definition act_expired :: "gotime \<Rightarrow> AMIAction \<Rightarrow> bool" where
  "act_expired now d \<longleftrightarrow> \<not> IsZero (act_ExpireTime d) \<and> Before (act_ExpireTime d) now"

definition drop_AMIAction :: "string \<Rightarrow> MemoryStorage \<Rightarrow> MemoryStorage" where
  "drop_AMIAction key m =
     m\<lparr>ms_amiActions := sm_Delete key (ms_amiActions m),
       ms_stats := (ms_stats m)\<lparr>AMIActionCount := AMIActionCount (ms_stats m) - 1,
                                ExpiredItems := ExpiredItems (ms_stats m) + 1\<rparr>\<rparr>"

definition GetAMIAction :: "gotime \<Rightarrow> string \<Rightarrow> MemoryStorage \<Rightarrow> MemoryStorage \<times> (storage_error, AMIAction) outcome" where
  "GetAMIAction now actionID m =
     (if actionID = [] then (m, Fail ErrInvalidKey)
      else case sm_Load (ms_amiActions m) actionID of
        Some d \<Rightarrow> if act_expired now d then (drop_AMIAction actionID m, Fail ErrKeyExpired) else (m, Ret d)
      | None \<Rightarrow> (m, Fail ErrNotFound))"

definition stamp_AMIAction :: "gotime \<Rightarrow> AMIAction \<Rightarrow> AMIAction" where
  "stamp_AMIAction now d =
     (let d = (if IsZero (act_Timestamp d) then d\<lparr>act_Timestamp := now\<rparr> else d)
      in if IsZero (act_ExpireTime d) then d\<lparr>act_ExpireTime := now + 1 * Hour\<rparr> else d)"

definition StoreAMIAction :: "gotime \<Rightarrow> AMIAction option \<Rightarrow> MemoryStorage \<Rightarrow> MemoryStorage \<times> (storage_error, unit) outcome" where
  "StoreAMIAction now arg m =
     (case arg of
        None \<Rightarrow> (m, Fail ErrInvalidValue)
      | Some d0 \<Rightarrow>
          if act_ActionID d0 = [] then (m, Fail ErrInvalidValue)
          else let d = stamp_AMIAction now d0;
                   exists = (sm_Load (ms_amiActions m) (act_ActionID d) \<noteq> None);
                   m = m\<lparr>ms_amiActions := sm_Store (act_ActionID d) d (ms_amiActions m)\<rparr>
               in (if \<not> exists
                   then m\<lparr>ms_stats := (ms_stats m)\<lparr>AMIActionCount := AMIActionCount (ms_stats m) + 1\<rparr>\<rparr>
                   else m, Ret ()))"

definition DeleteAMIAction :: "string \<Rightarrow> MemoryStorage \<Rightarrow> MemoryStorage \<times> (storage_error, unit) outcome" where
  "DeleteAMIAction actionID m =
     (if actionID = [] then (m, Fail ErrInvalidKey)
      else case sm_Load (ms_amiActions m) actionID of
        Some d \<Rightarrow>
          (m\<lparr>ms_amiActions := sm_Delete actionID (ms_amiActions m),
             ms_stats := (ms_stats m)\<lparr>AMIActionCount := AMIActionCount (ms_stats m) - 1\<rparr>\<rparr>, Ret ())
      | None \<Rightarrow> (m, Fail ErrNotFound))"

subsection \<open>ClientSession\<close>

definition cls_expired :: "gotime \<Rightarrow> ClientSession \<Rightarrow> bool" where
  "cls_expired now d \<longleftrightarrow> \<not> IsZero (cls_ExpireTime d) \<and> Before (cls_ExpireTime d) now"

definition drop_ClientSession :: "string \<Rightarrow> MemoryStorage \<Rightarrow> MemoryStorage" where
  "drop_ClientSession key m =
     m\<lparr>ms_clientSessions := sm_Delete key (ms_clientSessions m),
       ms_stats := (ms_stats m)\<lparr>ClientCount := ClientCount (ms_stats m) - 1,
                                ExpiredItems := ExpiredItems (ms_stats m) + 1\<rparr>\<rparr>"

definition GetClientSession :: "gotime \<Rightarrow> string \<Rightarrow> MemoryStorage \<Rightarrow> MemoryStorage \<times> (storage_error, ClientSession) outcome" where
  "GetClientSession now clientID m =
     (if clientID = [] then (m, Fail ErrInvalidKey)
      else case sm_Load (ms_clientSessions m) clientID of
        Some d \<Rightarrow> if cls_expired now d then (drop_ClientSession clientID m, Fail ErrKeyExpired) else (m, Ret d)
      | None \<Rightarrow> (m, Fail ErrNotFound))"

definition stamp_ClientSession :: "gotime \<Rightarrow> ClientSession \<Rightarrow> ClientSession" where
  "stamp_ClientSession now d =
     (let d = d\<lparr>cls_LastSeen := now\<rparr>;
          d = (if IsZero (cls_CreateTime d) then d\<lparr>cls_CreateTime := cls_LastSeen d\<rparr> else d)
      in if IsZero (cls_ExpireTime d) then d\<lparr>cls_ExpireTime := now + 24 * Hour\<rparr> else d)"

definition StoreClientSession :: "gotime \<Rightarrow> ClientSession option \<Rightarrow> MemoryStorage \<Rightarrow> MemoryStorage \<times> (storage_error, unit) outcome" where
  "StoreClientSession now arg m =
     (case arg of
        None \<Rightarrow> (m, Fail ErrInvalidValue)
      | Some d0 \<Rightarrow>
          if cls_ClientID d0 = [] then (m, Fail ErrInvalidValue)
          else let d = stamp_ClientSession now d0;
                   exists = (sm_Load (ms_clientSessions m) (cls_ClientID d) \<noteq> None);
                   m = m\<lparr>ms_clientSessions := sm_Store (cls_ClientID d) d (ms_clientSessions m)\<rparr>
               in (if \<not> exists
                   then m\<lparr>ms_stats := (ms_stats m)\<lparr>ClientCount := ClientCount (ms_stats m) + 1\<rparr>\<rparr>
                   else m, Ret ()))"

definition DeleteClientSession :: "string \<Rightarrow> MemoryStorage \<Rightarrow> MemoryStorage \<times> (storage_error, unit) outcome" where
  "DeleteClientSession clientID m =
     (if clientID = [] then (m, Fail ErrInvalidKey)
      else case sm_Load (ms_clientSessions m) clientID of
        Some d \<Rightarrow>
          (m\<lparr>ms_clientSessions := sm_Delete clientID (ms_clientSessions m),
             ms_stats := (ms_stats m)\<lparr>ClientCount := ClientCount (ms_stats m) - 1\<rparr>\<rparr>, Ret ())
      | None \<Rightarrow> (m, Fail ErrNotFound))"

subsection \<open>WSConnection\<close>

definition wsi_expired :: "gotime \<Rightarrow> WSConnectionInfo \<Rightarrow> bool" where
  "wsi_expired now d \<longleftrightarrow> \<not> IsZero (wsi_ExpireTime d) \<and> Before (wsi_ExpireTime d) now"

definition drop_WSConnection :: "string \<Rightarrow> MemoryStorage \<Rightarrow> MemoryStorage" where
  "drop_WSConnection key m =
     m\<lparr>ms_wsConnections := sm_Delete key (ms_wsConnections m),
       ms_stats := (ms_stats m)\<lparr>WSConnCount := WSConnCount (ms_stats m) - 1,
                                ExpiredItems := ExpiredItems (ms_stats m) + 1\<rparr>\<rparr>"

definition GetWSConnection :: "gotime \<Rightarrow> string \<Rightarrow> MemoryStorage \<Rightarrow> MemoryStorage \<times> (storage_error, WSConnectionInfo) outcome" where
  "GetWSConnection now clientID m =
     (if clientID = [] then (m, Fail ErrInvalidKey)
      else case sm_Load (ms_wsConnections m) clientID of
        Some d \<Rightarrow> if wsi_expired now d then (drop_WSConnection clientID m, Fail ErrKeyExpired) else (m, Ret d)
      | None \<Rightarrow> (m, Fail ErrNotFound))"

definition stamp_WSConnection :: "gotime \<Rightarrow> WSConnectionInfo \<Rightarrow> WSConnectionInfo" where
  "stamp_WSConnection now d =
     (let d = d\<lparr>wsi_LastSeen := now\<rparr>;
          d = (if IsZero (wsi_Created d) then d\<lparr>wsi_Created := wsi_LastSeen d\<rparr> else d)
      in if IsZero (wsi_ExpireTime d) then d\<lparr>wsi_ExpireTime := now + 1 * Hour\<rparr> else d)"

definition StoreWSConnection :: "gotime \<Rightarrow> string \<Rightarrow> WSConnectionInfo option \<Rightarrow> MemoryStorage \<Rightarrow> MemoryStorage \<times> (storage_error, unit) outcome" where
  "StoreWSConnection now clientID arg m =
     (case arg of
        None \<Rightarrow> (m, Fail ErrInvalidValue)
      | Some d0 \<Rightarrow>
          if clientID = [] then (m, Fail ErrInvalidValue)
          else let d = stamp_WSConnection now d0;
                   exists = (sm_Load (ms_wsConnections m) clientID \<noteq> None);
                   m = m\<lparr>ms_wsConnections := sm_Store clientID d (ms_wsConnections m)\<rparr>
               in (if \<not> exists
                   then m\<lparr>ms_stats := (ms_stats m)\<lparr>WSConnCount := WSConnCount (ms_stats m) + 1\<rparr>\<rparr>
                   else m, Ret ()))"

definition DeleteWSConnection :: "string \<Rightarrow> MemoryStorage \<Rightarrow> MemoryStorage \<times> (storage_error, unit) outcome" where
  "DeleteWSConnection clientID m =
     (if clientID = [] then (m, Fail ErrInvalidKey)
      else case sm_Load (ms_wsConnections m) clientID of
        Some d \<Rightarrow>
          (m\<lparr>ms_wsConnections := sm_Delete clientID (ms_wsConnections m),
             ms_stats := (ms_stats m)\<lparr>WSConnCount := WSConnCount (ms_stats m) - 1\<rparr>\<rparr>, Ret ())
      | None \<Rightarrow> (m, Fail ErrNotFound))"

subsection \<open>Registration\<close>

definition reg_expired :: "gotime \<Rightarrow> Registration \<Rightarrow> bool" where
  "reg_expired now d \<longleftrightarrow> Before (reg_ExpireTime d) now"

definition drop_Registration :: "string \<Rightarrow> MemoryStorage \<Rightarrow> MemoryStorage" where
  "drop_Registration key m =
     m\<lparr>ms_registrations := sm_Delete key (ms_registrations m),
       ms_stats := (ms_stats m)\<lparr>RegCount := RegCount (ms_stats m) - 1,
                                ExpiredItems := ExpiredItems (ms_stats m) + 1\<rparr>\<rparr>"

definition GetRegistration :: "gotime \<Rightarrow> string \<Rightarrow> MemoryStorage \<Rightarrow> MemoryStorage \<times> (storage_error, Registration) outcome" where
  "GetRegistration now aor m =
     (if aor = [] then (m, Fail ErrInvalidKey)
      else case sm_Load (ms_registrations m) aor of
        Some d \<Rightarrow> if reg_expired now d then (drop_Registration aor m, Fail ErrKeyExpired) else (m, Ret d)
      | None \<Rightarrow> (m, Fail ErrNotFound))"

definition stamp_Registration :: "gotime \<Rightarrow> Registration \<Rightarrow> Registration" where
  "stamp_Registration now d =
     (let d = (if IsZero (reg_RegisterTime d) then d\<lparr>reg_RegisterTime := now\<rparr> else d)
      in if IsZero (reg_ExpireTime d) then d\<lparr>reg_ExpireTime := now + reg_Expires d * Second\<rparr> else d)"

definition StoreRegistration :: "gotime \<Rightarrow> Registration option \<Rightarrow> MemoryStorage \<Rightarrow> MemoryStorage \<times> (storage_error, unit) outcome" where
  "StoreRegistration now arg m =
     (case arg of
        None \<Rightarrow> (m, Fail ErrInvalidValue)
      | Some d0 \<Rightarrow>
          if reg_AOR d0 = [] then (m, Fail ErrInvalidValue)
          else let d = stamp_Registration now d0;
                   exists = (sm_Load (ms_registrations m) (reg_AOR d) \<noteq> None);
                   m = m\<lparr>ms_registrations := sm_Store (reg_AOR d) d (ms_registrations m)\<rparr>
               in (if \<not> exists
                   then m\<lparr>ms_stats := (ms_stats m)\<lparr>RegCount := RegCount (ms_stats m) + 1\<rparr>\<rparr>
                   else m, Ret ()))"

definition DeleteRegistration :: "string \<Rightarrow> MemoryStorage \<Rightarrow> MemoryStorage \<times> (storage_error, unit) outcome" where
  "DeleteRegistration aor m =
     (if aor = [] then (m, Fail ErrInvalidKey)
      else case sm_Load (ms_registrations m) aor of
        Some d \<Rightarrow>
          (m\<lparr>ms_registrations := sm_Delete aor (ms_registrations m),
             ms_stats := (ms_stats m)\<lparr>RegCount := RegCount (ms_stats m) - 1\<rparr>\<rparr>, Ret ())
      | None \<Rightarrow> (m, Fail ErrNotFound))"

section \<open>Listing\<close>

text \<open>
  The loop of the \<open>List\<close> methods over the entries that \<open>Range\<close> visits: an expired entry is
  dropped, every other one is appended to the result.
\<close>

fun Range_expire :: "('v \<Rightarrow> bool) \<Rightarrow> (string \<Rightarrow> 's \<Rightarrow> 's) \<Rightarrow> (string \<times> 'v) list \<Rightarrow> 's \<Rightarrow> 's \<times> (string \<times> 'v) list" where
  "Range_expire expired discard [] s = (s, [])"
| "Range_expire expired discard ((key, v) # es) s =
     (if expired v then Range_expire expired discard es (discard key s)
      else let (s', acc) = Range_expire expired discard es s in (s', (key, v) # acc))"

definition ListDialogs :: "gotime \<Rightarrow> MemoryStorage \<Rightarrow> MemoryStorage \<times> Dialog list" where
  "ListDialogs now m =
     map_prod id (map snd) (Range_expire (dlg_expired now) drop_Dialog (ms_dialogs m) m)"

definition ListRTPSessions :: "gotime \<Rightarrow> MemoryStorage \<Rightarrow> MemoryStorage \<times> RTPSession list" where
  "ListRTPSessions now m =
     map_prod id (map snd) (Range_expire (rtp_expired now) drop_RTPSession (ms_rtpSessions m) m)"

definition ListAMIActionIDs :: "gotime \<Rightarrow> MemoryStorage \<Rightarrow> MemoryStorage \<times> string list" where
  "ListAMIActionIDs now m =
     map_prod id (map fst) (Range_expire (act_expired now) drop_AMIAction (ms_amiActions m) m)"

definition ListClientSessions :: "gotime \<Rightarrow> MemoryStorage \<Rightarrow> MemoryStorage \<times> ClientSession list" where
  "ListClientSessions now m =
     map_prod id (map snd) (Range_expire (cls_expired now) drop_ClientSession (ms_clientSessions m) m)"

definition ListRegistrations :: "gotime \<Rightarrow> MemoryStorage \<Rightarrow> MemoryStorage \<times> Registration list" where
  "ListRegistrations now m =
     map_prod id (map snd) (Range_expire (reg_expired now) drop_Registration (ms_registrations m) m)"

section \<open>Cleanup\<close>

definition evict_key :: "nat \<Rightarrow> string \<Rightarrow> MemoryStorage \<Rightarrow> MemoryStorage" where
  "evict_key i key m =
     m\<lparr>ms_data := (ms_data m)[i := sm_Delete key (ms_data m ! i)],
       ms_stats := (ms_stats m)\<lparr>TotalItems := TotalItems (ms_stats m) - 1,
                                ExpiredItems := ExpiredItems (ms_stats m) + 1\<rparr>\<rparr>"

definition cleanup_shard :: "gotime \<Rightarrow> nat \<Rightarrow> MemoryStorage \<Rightarrow> MemoryStorage" where
  "cleanup_shard now i m =
     (let keysToDelete = map fst (filter (\<lambda>(key, kv). kv_expired now kv) (ms_data m ! i))
      in fold (evict_key i) keysToDelete m)"

fun cleanup_shards :: "gotime \<Rightarrow> nat list \<Rightarrow> MemoryStorage \<Rightarrow> MemoryStorage \<times> (storage_error, unit) outcome" where
  "cleanup_shards now [] m = (m, Ret ())"
| "cleanup_shards now (i # is) m =
     (if i < length (ms_data m) then cleanup_shards now is (cleanup_shard now i m)
      else (m, Panic IndexOutOfRange))"

definition Cleanup :: "gotime \<Rightarrow> MemoryStorage \<Rightarrow> MemoryStorage \<times> (storage_error, unit) outcome" where
  "Cleanup now m =
     (case cleanup_shards now [0..<nat (ms_shardCount m)] m of
        (m, Ret _) \<Rightarrow>
          (let m = fst (ListDialogs now m);
               m = fst (ListRTPSessions now m);
               m = fst (ListClientSessions now m);
               m = fst (ListRegistrations now m)
           in (m, Ret ()))
      | (m, r) \<Rightarrow> (m, r))"

section \<open>The contract of a typed store\<close>

text \<open>
  A store keeps a table, a count of it and the number of expired entries it has dropped.
  \<open>entry\<close> is the key and value a \<open>put\<close> argument denotes, \<open>None\<close> for the arguments it refuses.
\<close>

locale expiring_store =
  fixes get :: "gotime \<Rightarrow> string \<Rightarrow> 's \<Rightarrow> 's \<times> (storage_error, 'v) outcome"
    and put :: "gotime \<Rightarrow> 'a \<Rightarrow> 's \<Rightarrow> 's \<times> (storage_error, unit) outcome"
    and del :: "string \<Rightarrow> 's \<Rightarrow> 's \<times> (storage_error, unit) outcome"
    and discard :: "string \<Rightarrow> 's \<Rightarrow> 's"
    and entry :: "'a \<Rightarrow> (string \<times> 'v) option"
    and stamp :: "gotime \<Rightarrow> 'v \<Rightarrow> 'v"
    and expired :: "gotime \<Rightarrow> 'v \<Rightarrow> bool"
    and tbl :: "'s \<Rightarrow> 'v syncmap"
    and cnt :: "'s \<Rightarrow> int"
    and expd :: "'s \<Rightarrow> int"
  assumes get_empty: "get now [] s = (s, Fail ErrInvalidKey)"
    and get_missing: "k \<noteq> [] \<Longrightarrow> sm_Load (tbl s) k = None \<Longrightarrow> get now k s = (s, Fail ErrNotFound)"
    and get_live: "k \<noteq> [] \<Longrightarrow> sm_Load (tbl s) k = Some v \<Longrightarrow> \<not> expired now v \<Longrightarrow> get now k s = (s, Ret v)"
    and get_expired: "k \<noteq> [] \<Longrightarrow> sm_Load (tbl s) k = Some v \<Longrightarrow> expired now v \<Longrightarrow>
      get now k s = (discard k s, Fail ErrKeyExpired)"
    and discard_tbl: "tbl (discard k s) = sm_Delete k (tbl s)"
    and discard_cnt: "cnt (discard k s) = cnt s - 1"
    and discard_expd: "expd (discard k s) = expd s + 1"
    and put_invalid: "entry a = None \<Longrightarrow> put now a s = (s, Fail ErrInvalidValue)"
    and put_result: "entry a = Some (k, v) \<Longrightarrow> snd (put now a s) = Ret ()"
    and put_key: "entry a = Some (k, v) \<Longrightarrow> k \<noteq> []"
    and put_tbl: "entry a = Some (k, v) \<Longrightarrow> tbl (fst (put now a s)) = sm_Store k (stamp now v) (tbl s)"
    and put_cnt: "entry a = Some (k, v) \<Longrightarrow>
      cnt (fst (put now a s)) = (if sm_Load (tbl s) k = None then cnt s + 1 else cnt s)"
    and put_expd: "expd (fst (put now a s)) = expd s"
    and del_empty: "del [] s = (s, Fail ErrInvalidKey)"
    and del_missing: "k \<noteq> [] \<Longrightarrow> sm_Load (tbl s) k = None \<Longrightarrow> del k s = (s, Fail ErrNotFound)"
    and del_result: "k \<noteq> [] \<Longrightarrow> sm_Load (tbl s) k = Some v \<Longrightarrow> snd (del k s) = Ret ()"
    and del_tbl: "k \<noteq> [] \<Longrightarrow> sm_Load (tbl s) k = Some v \<Longrightarrow> tbl (fst (del k s)) = sm_Delete k (tbl s)"
    and del_cnt: "k \<noteq> [] \<Longrightarrow> sm_Load (tbl s) k = Some v \<Longrightarrow> cnt (fst (del k s)) = cnt s - 1"
begin

lemma get_after_put:
  assumes "entry a = Some (k, v)"
  shows "snd (get now' k (fst (put now a s))) =
     (if expired now' (stamp now v) then Fail ErrKeyExpired else Ret (stamp now v))"
proof -
  have "sm_Load (tbl (fst (put now a s))) k = Some (stamp now v)"
    using put_tbl [OF assms] by simp
  then show ?thesis using get_live get_expired put_key [OF assms] by simp
qed

lemma get_after_put_other:
  assumes "entry a = Some (k, v)" and "k \<noteq> k'"
  shows "snd (get now' k' (fst (put now a s))) = snd (get now' k' s)"
proof (cases "k' = []")
  case False
  have same: "sm_Load (tbl (fst (put now a s))) k' = sm_Load (tbl s) k'"
    using put_tbl [OF assms(1)] assms(2) by simp
  show ?thesis
  proof (cases "sm_Load (tbl s) k'")
    case None
    then show ?thesis using same get_missing [OF False] by simp
  next
    case (Some w)
    then show ?thesis
      using same get_live [OF False] get_expired [OF False] by (cases "expired now' w") simp_all
  qed
qed (simp add: get_empty)

lemma get_after_del:
  assumes "k \<noteq> []"
  shows "snd (get now k (fst (del k s))) = Fail ErrNotFound"
proof (cases "sm_Load (tbl s) k")
  case None
  then show ?thesis using assms by (simp add: del_missing get_missing)
next
  case (Some v)
  then have "sm_Load (tbl (fst (del k s))) k = None"
    using del_tbl [OF assms] by simp
  then show ?thesis using get_missing [OF assms] by simp
qed

text \<open>The count is the size of the table.\<close>

definition counted :: "'s \<Rightarrow> bool" where
  "counted s \<longleftrightarrow> sm_ok (tbl s) \<and> cnt s = int (length (tbl s))"

lemma counted_drop: "counted s \<Longrightarrow> sm_Load (tbl s) k = Some v \<Longrightarrow> counted (discard k s)"
  by (auto simp: counted_def discard_tbl discard_cnt sm_length_Delete_int)

lemma counted_get: "counted s \<Longrightarrow> counted (fst (get now k s))"
  by (cases "k = []"; cases "sm_Load (tbl s) k"; cases "expired now (the (sm_Load (tbl s) k))")
    (simp_all add: get_empty get_missing get_live get_expired counted_drop)

lemma counted_put: "counted s \<Longrightarrow> counted (fst (put now a s))"
proof (cases "entry a")
  case (Some p)
  then obtain k v where e: "entry a = Some (k, v)" by (cases p) simp
  assume "counted s"
  then show ?thesis
    by (simp add: counted_def put_tbl [OF e] put_cnt [OF e] sm_length_Store)
qed (simp add: put_invalid)

lemma counted_del: "counted s \<Longrightarrow> counted (fst (del k s))"
  by (cases "k = []"; cases "sm_Load (tbl s) k")
    (simp_all add: del_empty del_missing counted_def del_tbl del_cnt sm_length_Delete_int)

text \<open>Listing: exactly the live entries are returned and kept.\<close>

lemma Range_result: "snd (Range_expire (expired now) discard es s) = filter (\<lambda>(k, v). \<not> expired now v) es"
  by (induction es arbitrary: s) (auto simp: split_beta Let_def)

lemma Range_tbl:
  "tbl (fst (Range_expire (expired now) discard es s)) =
     filter (\<lambda>(k, v). k \<notin> fst ` set (filter (\<lambda>(k, v). expired now v) es)) (tbl s)"
proof (induction es arbitrary: s)
  case (Cons e es)
  show ?case
    using Cons [of "discard (fst e) s"] Cons [of s]
    by (cases e) (auto simp: split_beta Let_def discard_tbl AList.delete_eq intro!: filter_cong)
qed simp

lemma Range_cnt:
  "cnt (fst (Range_expire (expired now) discard es s)) = cnt s - int (length (filter (\<lambda>(k, v). expired now v) es))"
  by (induction es arbitrary: s) (auto simp: split_beta Let_def discard_cnt)

lemma list_tbl:
  assumes "sm_ok (tbl s)"
  shows "tbl (fst (Range_expire (expired now) discard (tbl s) s)) = filter (\<lambda>(k, v). \<not> expired now v) (tbl s)"
  unfolding Range_tbl by (rule filter_keys_of [OF assms])

lemma counted_list:
  assumes "counted s"
  shows "counted (fst (Range_expire (expired now) discard (tbl s) s))"
proof -
  have "int (length (tbl s)) = int (length (filter (\<lambda>(k, v). expired now v) (tbl s))) +
      int (length (filter (\<lambda>(k, v). \<not> expired now v) (tbl s)))"
    using sum_length_filter_compl [of "\<lambda>e. expired now (snd e)" "tbl s"]
    unfolding split_beta of_nat_add [symmetric] by (simp only:)
  then show ?thesis
    using assms by (simp add: counted_def list_tbl Range_cnt)
qed

text \<open>Dropping never takes away from the count of expired entries.\<close>

lemma Range_expd: "expd s \<le> expd (fst (Range_expire (expired now) discard es s))"
proof (induction es arbitrary: s)
  case (Cons e es)
  show ?case
    using Cons [of "discard (fst e) s"] Cons [of s] discard_expd [of "fst e" s]
    by (cases e) (auto simp: split_beta Let_def)
qed simp

end

section \<open>The six stores\<close>

definition entry_Dialog :: "Dialog option \<Rightarrow> (string \<times> Dialog) option" where
  "entry_Dialog arg = (case arg of None \<Rightarrow> None | Some d \<Rightarrow> if dlg_CallID d = [] then None else Some (dlg_CallID d, d))"

lemma stamp_Dialog_key [simp]: "dlg_CallID (stamp_Dialog now d) = dlg_CallID d"
  by (simp add: stamp_Dialog_def Let_def)

interpretation dlgs: expiring_store GetDialog StoreDialog DeleteDialog drop_Dialog entry_Dialog stamp_Dialog dlg_expired
  ms_dialogs "\<lambda>m. DialogCount (ms_stats m)" "\<lambda>m. ExpiredItems (ms_stats m)"
  by unfold_locales
    (auto simp: GetDialog_def StoreDialog_def DeleteDialog_def drop_Dialog_def entry_Dialog_def Let_def
      split: option.splits if_splits)

definition entry_RTPSession :: "RTPSession option \<Rightarrow> (string \<times> RTPSession) option" where
  "entry_RTPSession arg = (case arg of None \<Rightarrow> None | Some d \<Rightarrow> if rtp_CallID d = [] then None else Some (rtp_CallID d, d))"

lemma stamp_RTPSession_key [simp]: "rtp_CallID (stamp_RTPSession now d) = rtp_CallID d"
  by (simp add: stamp_RTPSession_def Let_def)

interpretation rtps: expiring_store GetRTPSession StoreRTPSession DeleteRTPSession drop_RTPSession entry_RTPSession stamp_RTPSession rtp_expired
  ms_rtpSessions "\<lambda>m. RTPSessionCount (ms_stats m)" "\<lambda>m. ExpiredItems (ms_stats m)"
  by unfold_locales
    (auto simp: GetRTPSession_def StoreRTPSession_def DeleteRTPSession_def drop_RTPSession_def entry_RTPSession_def Let_def
      split: option.splits if_splits)

definition entry_AMIAction :: "AMIAction option \<Rightarrow> (string \<times> AMIAction) option" where
  "entry_AMIAction arg = (case arg of None \<Rightarrow> None | Some d \<Rightarrow> if act_ActionID d = [] then None else Some (act_ActionID d, d))"

lemma stamp_AMIAction_key [simp]: "act_ActionID (stamp_AMIAction now d) = act_ActionID d"
  by (simp add: stamp_AMIAction_def Let_def)

interpretation acts: expiring_store GetAMIAction StoreAMIAction DeleteAMIAction drop_AMIAction entry_AMIAction stamp_AMIAction act_expired
  ms_amiActions "\<lambda>m. AMIActionCount (ms_stats m)" "\<lambda>m. ExpiredItems (ms_stats m)"
  by unfold_locales
    (auto simp: GetAMIAction_def StoreAMIAction_def DeleteAMIAction_def drop_AMIAction_def entry_AMIAction_def Let_def
      split: option.splits if_splits)

definition entry_ClientSession :: "ClientSession option \<Rightarrow> (string \<times> ClientSession) option" where
  "entry_ClientSession arg = (case arg of None \<Rightarrow> None | Some d \<Rightarrow> if cls_ClientID d = [] then None else Some (cls_ClientID d, d))"

lemma stamp_ClientSession_key [simp]: "cls_ClientID (stamp_ClientSession now d) = cls_ClientID d"
  by (simp add: stamp_ClientSession_def Let_def)

interpretation clss: expiring_store GetClientSession StoreClientSession DeleteClientSession drop_ClientSession entry_ClientSession stamp_ClientSession cls_expired
  ms_clientSessions "\<lambda>m. ClientCount (ms_stats m)" "\<lambda>m. ExpiredItems (ms_stats m)"
  by unfold_locales
    (auto simp: GetClientSession_def StoreClientSession_def DeleteClientSession_def drop_ClientSession_def entry_ClientSession_def Let_def
      split: option.splits if_splits)

definition entry_WSConnection :: "string \<times> WSConnectionInfo option \<Rightarrow> (string \<times> WSConnectionInfo) option" where
  "entry_WSConnection = (\<lambda>(key, arg). case arg of None \<Rightarrow> None | Some d \<Rightarrow> if key = [] then None else Some (key, d))"

interpretation wsis: expiring_store GetWSConnection "\<lambda>now (key, arg). StoreWSConnection now key arg" DeleteWSConnection drop_WSConnection
  entry_WSConnection stamp_WSConnection wsi_expired
  ms_wsConnections "\<lambda>m. WSConnCount (ms_stats m)" "\<lambda>m. ExpiredItems (ms_stats m)"
  by unfold_locales
    (auto simp: GetWSConnection_def StoreWSConnection_def DeleteWSConnection_def drop_WSConnection_def entry_WSConnection_def Let_def
      split: option.splits if_splits)

definition entry_Registration :: "Registration option \<Rightarrow> (string \<times> Registration) option" where
  "entry_Registration arg = (case arg of None \<Rightarrow> None | Some d \<Rightarrow> if reg_AOR d = [] then None else Some (reg_AOR d, d))"

lemma stamp_Registration_key [simp]: "reg_AOR (stamp_Registration now d) = reg_AOR d"
  by (simp add: stamp_Registration_def Let_def)

interpretation regs: expiring_store GetRegistration StoreRegistration DeleteRegistration drop_Registration entry_Registration stamp_Registration reg_expired
  ms_registrations "\<lambda>m. RegCount (ms_stats m)" "\<lambda>m. ExpiredItems (ms_stats m)"
  by unfold_locales
    (auto simp: GetRegistration_def StoreRegistration_def DeleteRegistration_def drop_Registration_def entry_Registration_def Let_def
      split: option.splits if_splits)

end
