(* ===== verification/Storage_Runs.thy ===== *)
theory Storage_Runs
  imports Typed_Stores
begin

text \<open>
  The storage as a whole: its invariant, that every operation of \<open>memory.go\<close> keeps it, what
  \<open>Cleanup\<close> removes and keeps, and the properties of the storage over arbitrary runs.
\<close>

section \<open>The invariant\<close>

definition shards_distinct :: "MemoryStorage \<Rightarrow> bool" where
  "shards_distinct m \<longleftrightarrow> (\<forall>s \<in> set (ms_data m). sm_ok s)"

lemmas counted_defs =
  dlgs.counted_def rtps.counted_def acts.counted_def clss.counted_def wsis.counted_def regs.counted_def

definition storage_inv :: "MemoryStorage \<Rightarrow> bool" where
  "storage_inv m \<longleftrightarrow> shards_ok m \<and> shards_distinct m \<and>
     dlgs.counted m \<and> rtps.counted m \<and> acts.counted m \<and> clss.counted m \<and> wsis.counted m \<and> regs.counted m"

lemma storage_inv_New: "storage_inv (NewMemoryStorage_fresh config)"
  by (simp add: storage_inv_def counted_defs shards_distinct_def)
    (simp add: NewMemoryStorage_fresh_def zero_stats_def Let_def)

text \<open>One operation changes one table only.\<close>

lemma Range_frame:
  assumes "\<And>k s. f (discard k s) = f s"
  shows "f (fst (Range_expire expired discard es s)) = f s"
  using assms by (induction es arbitrary: s) (auto simp: split_beta Let_def)

lemma drop_Dialog_frame [gw_frame]:
  "ms_rtpSessions (drop_Dialog k m) = ms_rtpSessions m" "RTPSessionCount (ms_stats (drop_Dialog k m)) = RTPSessionCount (ms_stats m)"
  "ms_amiActions (drop_Dialog k m) = ms_amiActions m" "AMIActionCount (ms_stats (drop_Dialog k m)) = AMIActionCount (ms_stats m)"
  "ms_clientSessions (drop_Dialog k m) = ms_clientSessions m" "ClientCount (ms_stats (drop_Dialog k m)) = ClientCount (ms_stats m)"
  "ms_wsConnections (drop_Dialog k m) = ms_wsConnections m" "WSConnCount (ms_stats (drop_Dialog k m)) = WSConnCount (ms_stats m)"
  "ms_registrations (drop_Dialog k m) = ms_registrations m" "RegCount (ms_stats (drop_Dialog k m)) = RegCount (ms_stats m)"
  "ms_data (drop_Dialog k m) = ms_data m" "ms_shardCount (drop_Dialog k m) = ms_shardCount m"
  by (simp_all add: drop_Dialog_def drop_Dialog_def Let_def split: option.split)

lemma ListDialogs_frame [gw_frame]:
  "ms_rtpSessions (fst (ListDialogs now m)) = ms_rtpSessions m" "RTPSessionCount (ms_stats (fst (ListDialogs now m))) = RTPSessionCount (ms_stats m)"
  "ms_amiActions (fst (ListDialogs now m)) = ms_amiActions m" "AMIActionCount (ms_stats (fst (ListDialogs now m))) = AMIActionCount (ms_stats m)"
  "ms_clientSessions (fst (ListDialogs now m)) = ms_clientSessions m" "ClientCount (ms_stats (fst (ListDialogs now m))) = ClientCount (ms_stats m)"
  "ms_wsConnections (fst (ListDialogs now m)) = ms_wsConnections m" "WSConnCount (ms_stats (fst (ListDialogs now m))) = WSConnCount (ms_stats m)"
  "ms_registrations (fst (ListDialogs now m)) = ms_registrations m" "RegCount (ms_stats (fst (ListDialogs now m))) = RegCount (ms_stats m)"
  "ms_data (fst (ListDialogs now m)) = ms_data m" "ms_shardCount (fst (ListDialogs now m)) = ms_shardCount m"
  by (simp_all add: ListDialogs_def Range_frame [where f = ms_data] Range_frame [where f = ms_shardCount]
    Range_frame [where f = ms_rtpSessions] Range_frame [where f = ms_amiActions] Range_frame [where f = ms_clientSessions] Range_frame [where f = ms_wsConnections] Range_frame [where f = ms_registrations]
    Range_frame [where f = "\<lambda>m. RTPSessionCount (ms_stats m)"] Range_frame [where f = "\<lambda>m. AMIActionCount (ms_stats m)"] Range_frame [where f = "\<lambda>m. ClientCount (ms_stats m)"] Range_frame [where f = "\<lambda>m. WSConnCount (ms_stats m)"] Range_frame [where f = "\<lambda>m. RegCount (ms_stats m)"]
    drop_Dialog_frame)

lemma drop_RTPSession_frame [gw_frame]:
  "ms_dialogs (drop_RTPSession k m) = ms_dialogs m" "DialogCount (ms_stats (drop_RTPSession k m)) = DialogCount (ms_stats m)"
  "ms_amiActions (drop_RTPSession k m) = ms_amiActions m" "AMIActionCount (ms_stats (drop_RTPSession k m)) = AMIActionCount (ms_stats m)"
  "ms_clientSessions (drop_RTPSession k m) = ms_clientSessions m" "ClientCount (ms_stats (drop_RTPSession k m)) = ClientCount (ms_stats m)"
  "ms_wsConnections (drop_RTPSession k m) = ms_wsConnections m" "WSConnCount (ms_stats (drop_RTPSession k m)) = WSConnCount (ms_stats m)"
  "ms_registrations (drop_RTPSession k m) = ms_registrations m" "RegCount (ms_stats (drop_RTPSession k m)) = RegCount (ms_stats m)"
  "ms_data (drop_RTPSession k m) = ms_data m" "ms_shardCount (drop_RTPSession k m) = ms_shardCount m"
  by (simp_all add: drop_RTPSession_def drop_RTPSession_def Let_def split: option.split)

lemma ListRTPSessions_frame [gw_frame]:
  "ms_dialogs (fst (ListRTPSessions now m)) = ms_dialogs m" "DialogCount (ms_stats (fst (ListRTPSessions now m))) = DialogCount (ms_stats m)"
  "ms_amiActions (fst (ListRTPSessions now m)) = ms_amiActions m" "AMIActionCount (ms_stats (fst (ListRTPSessions now m))) = AMIActionCount (ms_stats m)"
  "ms_clientSessions (fst (ListRTPSessions now m)) = ms_clientSessions m" "ClientCount (ms_stats (fst (ListRTPSessions now m))) = ClientCount (ms_stats m)"
  "ms_wsConnections (fst (ListRTPSessions now m)) = ms_wsConnections m" "WSConnCount (ms_stats (fst (ListRTPSessions now m))) = WSConnCount (ms_stats m)"
  "ms_registrations (fst (ListRTPSessions now m)) = ms_registrations m" "RegCount (ms_stats (fst (ListRTPSessions now m))) = RegCount (ms_stats m)"
  "ms_data (fst (ListRTPSessions now m)) = ms_data m" "ms_shardCount (fst (ListRTPSessions now m)) = ms_shardCount m"
  by (simp_all add: ListRTPSessions_def Range_frame [where f = ms_data] Range_frame [where f = ms_shardCount]
    Range_frame [where f = ms_dialogs] Range_frame [where f = ms_amiActions] Range_frame [where f = ms_clientSessions] Range_frame [where f = ms_wsConnections] Range_frame [where f = ms_registrations]
    Range_frame [where f = "\<lambda>m. DialogCount (ms_stats m)"] Range_frame [where f = "\<lambda>m. AMIActionCount (ms_stats m)"] Range_frame [where f = "\<lambda>m. ClientCount (ms_stats m)"] Range_frame [where f = "\<lambda>m. WSConnCount (ms_stats m)"] Range_frame [where f = "\<lambda>m. RegCount (ms_stats m)"]
    drop_RTPSession_frame)

lemma drop_AMIAction_frame [gw_frame]:
  "ms_dialogs (drop_AMIAction k m) = ms_dialogs m" "DialogCount (ms_stats (drop_AMIAction k m)) = DialogCount (ms_stats m)"
  "ms_rtpSessions (drop_AMIAction k m) = ms_rtpSessions m" "RTPSessionCount (ms_stats (drop_AMIAction k m)) = RTPSessionCount (ms_stats m)"
  "ms_clientSessions (drop_AMIAction k m) = ms_clientSessions m" "ClientCount (ms_stats (drop_AMIAction k m)) = ClientCount (ms_stats m)"
  "ms_wsConnections (drop_AMIAction k m) = ms_wsConnections m" "WSConnCount (ms_stats (drop_AMIAction k m)) = WSConnCount (ms_stats m)"
  "ms_registrations (drop_AMIAction k m) = ms_registrations m" "RegCount (ms_stats (drop_AMIAction k m)) = RegCount (ms_stats m)"
  "ms_data (drop_AMIAction k m) = ms_data m" "ms_shardCount (drop_AMIAction k m) = ms_shardCount m"
  by (simp_all add: drop_AMIAction_def drop_AMIAction_def Let_def split: option.split)

lemma ListAMIActionIDs_frame [gw_frame]:
  "ms_dialogs (fst (ListAMIActionIDs now m)) = ms_dialogs m" "DialogCount (ms_stats (fst (ListAMIActionIDs now m))) = DialogCount (ms_stats m)"
  "ms_rtpSessions (fst (ListAMIActionIDs now m)) = ms_rtpSessions m" "RTPSessionCount (ms_stats (fst (ListAMIActionIDs now m))) = RTPSessionCount (ms_stats m)"
  "ms_clientSessions (fst (ListAMIActionIDs now m)) = ms_clientSessions m" "ClientCount (ms_stats (fst (ListAMIActionIDs now m))) = ClientCount (ms_stats m)"
  "ms_wsConnections (fst (ListAMIActionIDs now m)) = ms_wsConnections m" "WSConnCount (ms_stats (fst (ListAMIActionIDs now m))) = WSConnCount (ms_stats m)"
  "ms_registrations (fst (ListAMIActionIDs now m)) = ms_registrations m" "RegCount (ms_stats (fst (ListAMIActionIDs now m))) = RegCount (ms_stats m)"
  "ms_data (fst (ListAMIActionIDs now m)) = ms_data m" "ms_shardCount (fst (ListAMIActionIDs now m)) = ms_shardCount m"
  by (simp_all add: ListAMIActionIDs_def Range_frame [where f = ms_data] Range_frame [where f = ms_shardCount]
    Range_frame [where f = ms_dialogs] Range_frame [where f = ms_rtpSessions] Range_frame [where f = ms_clientSessions] Range_frame [where f = ms_wsConnections] Range_frame [where f = ms_registrations]
    Range_frame [where f = "\<lambda>m. DialogCount (ms_stats m)"] Range_frame [where f = "\<lambda>m. RTPSessionCount (ms_stats m)"] Range_frame [where f = "\<lambda>m. ClientCount (ms_stats m)"] Range_frame [where f = "\<lambda>m. WSConnCount (ms_stats m)"] Range_frame [where f = "\<lambda>m. RegCount (ms_stats m)"]
    drop_AMIAction_frame)

lemma drop_ClientSession_frame [gw_frame]:
  "ms_dialogs (drop_ClientSession k m) = ms_dialogs m" "DialogCount (ms_stats (drop_ClientSession k m)) = DialogCount (ms_stats m)"
  "ms_rtpSessions (drop_ClientSession k m) = ms_rtpSessions m" "RTPSessionCount (ms_stats (drop_ClientSession k m)) = RTPSessionCount (ms_stats m)"
  "ms_amiActions (drop_ClientSession k m) = ms_amiActions m" "AMIActionCount (ms_stats (drop_ClientSession k m)) = AMIActionCount (ms_stats m)"
  "ms_wsConnections (drop_ClientSession k m) = ms_wsConnections m" "WSConnCount (ms_stats (drop_ClientSession k m)) = WSConnCount (ms_stats m)"
  "ms_registrations (drop_ClientSession k m) = ms_registrations m" "RegCount (ms_stats (drop_ClientSession k m)) = RegCount (ms_stats m)"
  "ms_data (drop_ClientSession k m) = ms_data m" "ms_shardCount (drop_ClientSession k m) = ms_shardCount m"
  by (simp_all add: drop_ClientSession_def drop_ClientSession_def Let_def split: option.split)

lemma ListClientSessions_frame [gw_frame]:
  "ms_dialogs (fst (ListClientSessions now m)) = ms_dialogs m" "DialogCount (ms_stats (fst (ListClientSessions now m))) = DialogCount (ms_stats m)"
  "ms_rtpSessions (fst (ListClientSessions now m)) = ms_rtpSessions m" "RTPSessionCount (ms_stats (fst (ListClientSessions now m))) = RTPSessionCount (ms_stats m)"
  "ms_amiActions (fst (ListClientSessions now m)) = ms_amiActions m" "AMIActionCount (ms_stats (fst (ListClientSessions now m))) = AMIActionCount (ms_stats m)"
  "ms_wsConnections (fst (ListClientSessions now m)) = ms_wsConnections m" "WSConnCount (ms_stats (fst (ListClientSessions now m))) = WSConnCount (ms_stats m)"
  "ms_registrations (fst (ListClientSessions now m)) = ms_registrations m" "RegCount (ms_stats (fst (ListClientSessions now m))) = RegCount (ms_stats m)"
  "ms_data (fst (ListClientSessions now m)) = ms_data m" "ms_shardCount (fst (ListClientSessions now m)) = ms_shardCount m"
  by (simp_all add: ListClientSessions_def Range_frame [where f = ms_data] Range_frame [where f = ms_shardCount]
    Range_frame [where f = ms_dialogs] Range_frame [where f = ms_rtpSessions] Range_frame [where f = ms_amiActions] Range_frame [where f = ms_wsConnections] Range_frame [where f = ms_registrations]
    Range_frame [where f = "\<lambda>m. DialogCount (ms_stats m)"] Range_frame [where f = "\<lambda>m. RTPSessionCount (ms_stats m)"] Range_frame [where f = "\<lambda>m. AMIActionCount (ms_stats m)"] Range_frame [where f = "\<lambda>m. WSConnCount (ms_stats m)"] Range_frame [where f = "\<lambda>m. RegCount (ms_stats m)"]
    drop_ClientSession_frame)

lemma drop_WSConnection_frame [gw_frame]:
  "ms_dialogs (drop_WSConnection k m) = ms_dialogs m" "DialogCount (ms_stats (drop_WSConnection k m)) = DialogCount (ms_stats m)"
  "ms_rtpSessions (drop_WSConnection k m) = ms_rtpSessions m" "RTPSessionCount (ms_stats (drop_WSConnection k m)) = RTPSessionCount (ms_stats m)"
  "ms_amiActions (drop_WSConnection k m) = ms_amiActions m" "AMIActionCount (ms_stats (drop_WSConnection k m)) = AMIActionCount (ms_stats m)"
  "ms_clientSessions (drop_WSConnection k m) = ms_clientSessions m" "ClientCount (ms_stats (drop_WSConnection k m)) = ClientCount (ms_stats m)"
  "ms_registrations (drop_WSConnection k m) = ms_registrations m" "RegCount (ms_stats (drop_WSConnection k m)) = RegCount (ms_stats m)"
  "ms_data (drop_WSConnection k m) = ms_data m" "ms_shardCount (drop_WSConnection k m) = ms_shardCount m"
  by (simp_all add: drop_WSConnection_def drop_WSConnection_def Let_def split: option.split)

lemma drop_Registration_frame [gw_frame]:
  "ms_dialogs (drop_Registration k m) = ms_dialogs m" "DialogCount (ms_stats (drop_Registration k m)) = DialogCount (ms_stats m)"
  "ms_rtpSessions (drop_Registration k m) = ms_rtpSessions m" "RTPSessionCount (ms_stats (drop_Registration k m)) = RTPSessionCount (ms_stats m)"
  "ms_amiActions (drop_Registration k m) = ms_amiActions m" "AMIActionCount (ms_stats (drop_Registration k m)) = AMIActionCount (ms_stats m)"
  "ms_clientSessions (drop_Registration k m) = ms_clientSessions m" "ClientCount (ms_stats (drop_Registration k m)) = ClientCount (ms_stats m)"
  "ms_wsConnections (drop_Registration k m) = ms_wsConnections m" "WSConnCount (ms_stats (drop_Registration k m)) = WSConnCount (ms_stats m)"
  "ms_data (drop_Registration k m) = ms_data m" "ms_shardCount (drop_Registration k m) = ms_shardCount m"
  by (simp_all add: drop_Registration_def drop_Registration_def Let_def split: option.split)

lemma ListRegistrations_frame [gw_frame]:
  "ms_dialogs (fst (ListRegistrations now m)) = ms_dialogs m" "DialogCount (ms_stats (fst (ListRegistrations now m))) = DialogCount (ms_stats m)"
  "ms_rtpSessions (fst (ListRegistrations now m)) = ms_rtpSessions m" "RTPSessionCount (ms_stats (fst (ListRegistrations now m))) = RTPSessionCount (ms_stats m)"
  "ms_amiActions (fst (ListRegistrations now m)) = ms_amiActions m" "AMIActionCount (ms_stats (fst (ListRegistrations now m))) = AMIActionCount (ms_stats m)"
  "ms_clientSessions (fst (ListRegistrations now m)) = ms_clientSessions m" "ClientCount (ms_stats (fst (ListRegistrations now m))) = ClientCount (ms_stats m)"
  "ms_wsConnections (fst (ListRegistrations now m)) = ms_wsConnections m" "WSConnCount (ms_stats (fst (ListRegistrations now m))) = WSConnCount (ms_stats m)"
  "ms_data (fst (ListRegistrations now m)) = ms_data m" "ms_shardCount (fst (ListRegistrations now m)) = ms_shardCount m"
  by (simp_all add: ListRegistrations_def Range_frame [where f = ms_data] Range_frame [where f = ms_shardCount]
    Range_frame [where f = ms_dialogs] Range_frame [where f = ms_rtpSessions] Range_frame [where f = ms_amiActions] Range_frame [where f = ms_clientSessions] Range_frame [where f = ms_wsConnections]
    Range_frame [where f = "\<lambda>m. DialogCount (ms_stats m)"] Range_frame [where f = "\<lambda>m. RTPSessionCount (ms_stats m)"] Range_frame [where f = "\<lambda>m. AMIActionCount (ms_stats m)"] Range_frame [where f = "\<lambda>m. ClientCount (ms_stats m)"] Range_frame [where f = "\<lambda>m. WSConnCount (ms_stats m)"]
    drop_Registration_frame)

section \<open>Every operation keeps the invariant\<close>

lemma storage_inv_GetDialog: "storage_inv m \<Longrightarrow> storage_inv (fst (GetDialog now k m))"
  using dlgs.counted_get [of m now]
  by (simp add: storage_inv_def shards_ok_def shards_distinct_def rtps.counted_def acts.counted_def clss.counted_def wsis.counted_def regs.counted_def GetDialog_def drop_Dialog_def Let_def
      split: option.split)

lemma storage_inv_StoreDialog: "storage_inv m \<Longrightarrow> storage_inv (fst (StoreDialog now arg m))"
  using dlgs.counted_put [of m now]
  by (simp add: storage_inv_def shards_ok_def shards_distinct_def rtps.counted_def acts.counted_def clss.counted_def wsis.counted_def regs.counted_def StoreDialog_def drop_Dialog_def Let_def
      split: option.split)

lemma storage_inv_DeleteDialog: "storage_inv m \<Longrightarrow> storage_inv (fst (DeleteDialog k m))"
  using dlgs.counted_del [of m]
  by (simp add: storage_inv_def shards_ok_def shards_distinct_def rtps.counted_def acts.counted_def clss.counted_def wsis.counted_def regs.counted_def DeleteDialog_def drop_Dialog_def Let_def
      split: option.split)

lemma storage_inv_ListDialogs: "storage_inv m \<Longrightarrow> storage_inv (fst (ListDialogs now m))"
  using dlgs.counted_list [of m now] ListDialogs_frame [of now m]
  by (simp add: storage_inv_def shards_ok_def shards_distinct_def rtps.counted_def acts.counted_def clss.counted_def wsis.counted_def regs.counted_def ListDialogs_def)

lemma storage_inv_GetRTPSession: "storage_inv m \<Longrightarrow> storage_inv (fst (GetRTPSession now k m))"
  using rtps.counted_get [of m now]
  by (simp add: storage_inv_def shards_ok_def shards_distinct_def dlgs.counted_def acts.counted_def clss.counted_def wsis.counted_def regs.counted_def GetRTPSession_def drop_RTPSession_def Let_def
      split: option.split)

lemma storage_inv_StoreRTPSession: "storage_inv m \<Longrightarrow> storage_inv (fst (StoreRTPSession now arg m))"
  using rtps.counted_put [of m now]
  by (simp add: storage_inv_def shards_ok_def shards_distinct_def dlgs.counted_def acts.counted_def clss.counted_def wsis.counted_def regs.counted_def StoreRTPSession_def drop_RTPSession_def Let_def
      split: option.split)

lemma storage_inv_DeleteRTPSession: "storage_inv m \<Longrightarrow> storage_inv (fst (DeleteRTPSession k m))"
  using rtps.counted_del [of m]
  by (simp add: storage_inv_def shards_ok_def shards_distinct_def dlgs.counted_def acts.counted_def clss.counted_def wsis.counted_def regs.counted_def DeleteRTPSession_def drop_RTPSession_def Let_def
      split: option.split)

lemma storage_inv_ListRTPSessions: "storage_inv m \<Longrightarrow> storage_inv (fst (ListRTPSessions now m))"
  using rtps.counted_list [of m now] ListRTPSessions_frame [of now m]
  by (simp add: storage_inv_def shards_ok_def shards_distinct_def dlgs.counted_def acts.counted_def clss.counted_def wsis.counted_def regs.counted_def ListRTPSessions_def)

lemma storage_inv_GetAMIAction: "storage_inv m \<Longrightarrow> storage_inv (fst (GetAMIAction now k m))"
  using acts.counted_get [of m now]
  by (simp add: storage_inv_def shards_ok_def shards_distinct_def dlgs.counted_def rtps.counted_def clss.counted_def wsis.counted_def regs.counted_def GetAMIAction_def drop_AMIAction_def Let_def
      split: option.split)

lemma storage_inv_StoreAMIAction: "storage_inv m \<Longrightarrow> storage_inv (fst (StoreAMIAction now arg m))"
  using acts.counted_put [of m now]
  by (simp add: storage_inv_def shards_ok_def shards_distinct_def dlgs.counted_def rtps.counted_def clss.counted_def wsis.counted_def regs.counted_def StoreAMIAction_def drop_AMIAction_def Let_def
      split: option.split)

lemma storage_inv_DeleteAMIAction: "storage_inv m \<Longrightarrow> storage_inv (fst (DeleteAMIAction k m))"
  using acts.counted_del [of m]
  by (simp add: storage_inv_def shards_ok_def shards_distinct_def dlgs.counted_def rtps.counted_def clss.counted_def wsis.counted_def regs.counted_def DeleteAMIAction_def drop_AMIAction_def Let_def
      split: option.split)

lemma storage_inv_ListAMIActionIDs: "storage_inv m \<Longrightarrow> storage_inv (fst (ListAMIActionIDs now m))"
  using acts.counted_list [of m now] ListAMIActionIDs_frame [of now m]
  by (simp add: storage_inv_def shards_ok_def shards_distinct_def dlgs.counted_def rtps.counted_def clss.counted_def wsis.counted_def regs.counted_def ListAMIActionIDs_def)

lemma storage_inv_GetClientSession: "storage_inv m \<Longrightarrow> storage_inv (fst (GetClientSession now k m))"
  using clss.counted_get [of m now]
  by (simp add: storage_inv_def shards_ok_def shards_distinct_def dlgs.counted_def rtps.counted_def acts.counted_def wsis.counted_def regs.counted_def GetClientSession_def drop_ClientSession_def Let_def
      split: option.split)

lemma storage_inv_StoreClientSession: "storage_inv m \<Longrightarrow> storage_inv (fst (StoreClientSession now arg m))"
  using clss.counted_put [of m now]
  by (simp add: storage_inv_def shards_ok_def shards_distinct_def dlgs.counted_def rtps.counted_def acts.counted_def wsis.counted_def regs.counted_def StoreClientSession_def drop_ClientSession_def Let_def
      split: option.split)

lemma storage_inv_DeleteClientSession: "storage_inv m \<Longrightarrow> storage_inv (fst (DeleteClientSession k m))"
  using clss.counted_del [of m]
  by (simp add: storage_inv_def shards_ok_def shards_distinct_def dlgs.counted_def rtps.counted_def acts.counted_def wsis.counted_def regs.counted_def DeleteClientSession_def drop_ClientSession_def Let_def
      split: option.split)

lemma storage_inv_ListClientSessions: "storage_inv m \<Longrightarrow> storage_inv (fst (ListClientSessions now m))"
  using clss.counted_list [of m now] ListClientSessions_frame [of now m]
  by (simp add: storage_inv_def shards_ok_def shards_distinct_def dlgs.counted_def rtps.counted_def acts.counted_def wsis.counted_def regs.counted_def ListClientSessions_def)

lemma storage_inv_GetWSConnection: "storage_inv m \<Longrightarrow> storage_inv (fst (GetWSConnection now k m))"
  using wsis.counted_get [of m now]
  by (simp add: storage_inv_def shards_ok_def shards_distinct_def dlgs.counted_def rtps.counted_def acts.counted_def clss.counted_def regs.counted_def GetWSConnection_def drop_WSConnection_def Let_def
      split: option.split)

lemma storage_inv_StoreWSConnection: "storage_inv m \<Longrightarrow> storage_inv (fst (StoreWSConnection now k arg m))"
  using wsis.counted_put [where a = "(k, arg)" and now = now]
  by (simp add: storage_inv_def shards_ok_def shards_distinct_def dlgs.counted_def rtps.counted_def acts.counted_def clss.counted_def regs.counted_def StoreWSConnection_def drop_WSConnection_def Let_def
      split: option.split)

lemma storage_inv_DeleteWSConnection: "storage_inv m \<Longrightarrow> storage_inv (fst (DeleteWSConnection k m))"
  using wsis.counted_del [of m]
  by (simp add: storage_inv_def shards_ok_def shards_distinct_def dlgs.counted_def rtps.counted_def acts.counted_def clss.counted_def regs.counted_def DeleteWSConnection_def drop_WSConnection_def Let_def
      split: option.split)

lemma storage_inv_GetRegistration: "storage_inv m \<Longrightarrow> storage_inv (fst (GetRegistration now k m))"
  using regs.counted_get [of m now]
  by (simp add: storage_inv_def shards_ok_def shards_distinct_def dlgs.counted_def rtps.counted_def acts.counted_def clss.counted_def wsis.counted_def GetRegistration_def drop_Registration_def Let_def
      split: option.split)

lemma storage_inv_StoreRegistration: "storage_inv m \<Longrightarrow> storage_inv (fst (StoreRegistration now arg m))"
  using regs.counted_put [of m now]
  by (simp add: storage_inv_def shards_ok_def shards_distinct_def dlgs.counted_def rtps.counted_def acts.counted_def clss.counted_def wsis.counted_def StoreRegistration_def drop_Registration_def Let_def
      split: option.split)

lemma storage_inv_DeleteRegistration: "storage_inv m \<Longrightarrow> storage_inv (fst (DeleteRegistration k m))"
  using regs.counted_del [of m]
  by (simp add: storage_inv_def shards_ok_def shards_distinct_def dlgs.counted_def rtps.counted_def acts.counted_def clss.counted_def wsis.counted_def DeleteRegistration_def drop_Registration_def Let_def
      split: option.split)

lemma storage_inv_ListRegistrations: "storage_inv m \<Longrightarrow> storage_inv (fst (ListRegistrations now m))"
  using regs.counted_list [of m now] ListRegistrations_frame [of now m]
  by (simp add: storage_inv_def shards_ok_def shards_distinct_def dlgs.counted_def rtps.counted_def acts.counted_def clss.counted_def wsis.counted_def ListRegistrations_def)

lemmas storage_inv_typed =
  storage_inv_GetDialog storage_inv_StoreDialog storage_inv_DeleteDialog storage_inv_ListDialogs
  storage_inv_GetRTPSession storage_inv_StoreRTPSession storage_inv_DeleteRTPSession storage_inv_ListRTPSessions
  storage_inv_GetAMIAction storage_inv_StoreAMIAction storage_inv_DeleteAMIAction storage_inv_ListAMIActionIDs
  storage_inv_GetClientSession storage_inv_StoreClientSession storage_inv_DeleteClientSession storage_inv_ListClientSessions
  storage_inv_GetWSConnection storage_inv_StoreWSConnection storage_inv_DeleteWSConnection
  storage_inv_GetRegistration storage_inv_StoreRegistration storage_inv_DeleteRegistration storage_inv_ListRegistrations

section \<open>The key-value operations and Cleanup\<close>

lemma shards_distinct_upd:
  "shards_distinct m \<Longrightarrow> sm_ok x \<Longrightarrow> shards_distinct (m\<lparr>ms_data := (ms_data m)[i := x]\<rparr>)"
  by (auto simp: shards_distinct_def dest: set_update_subset_insert [THEN subsetD])

lemma shards_distinct_nth: "shards_distinct m \<Longrightarrow> getShard m key = Some i \<Longrightarrow> sm_ok (ms_data m ! i)"
  by (auto simp: shards_distinct_def dest: getShard_lt)

text \<open>Only the shards and \<open>TotalItems\<close> move.\<close>

definition same_typed :: "MemoryStorage \<Rightarrow> MemoryStorage \<Rightarrow> bool" where
  "same_typed m m' \<longleftrightarrow>
     (\<exists>d t e. m' = m\<lparr>ms_data := d, ms_stats := (ms_stats m)\<lparr>TotalItems := t, ExpiredItems := e\<rparr>\<rparr>)"

lemma same_typed_inv:
  assumes "same_typed m m'" and "storage_inv m" and "length (ms_data m') = length (ms_data m)" and "shards_distinct m'"
  shows "storage_inv m'"
  using assms by (auto simp: same_typed_def storage_inv_def counted_defs shards_ok_def)

lemma same_typed_refl: "same_typed m m"
  unfolding same_typed_def
  by (rule exI [of _ "ms_data m"], rule exI [of _ "TotalItems (ms_stats m)"], rule exI [of _ "ExpiredItems (ms_stats m)"]) simp

lemma same_typed_trans: "same_typed m m' \<Longrightarrow> same_typed m' m'' \<Longrightarrow> same_typed m m''"
  unfolding same_typed_def by force

lemma same_typed_upd:
  "same_typed m (m\<lparr>ms_data := d\<rparr>)"
  "same_typed m (m\<lparr>ms_data := d, ms_stats := (ms_stats m)\<lparr>TotalItems := t\<rparr>\<rparr>)"
  "same_typed m (m\<lparr>ms_data := d, ms_stats := (ms_stats m)\<lparr>TotalItems := t, ExpiredItems := e\<rparr>\<rparr>)"
  unfolding same_typed_def
    apply (rule exI [of _ d], rule exI [of _ "TotalItems (ms_stats m)"], rule exI [of _ "ExpiredItems (ms_stats m)"], simp)
   apply (rule exI [of _ d], rule exI [of _ t], rule exI [of _ "ExpiredItems (ms_stats m)"], simp)
  apply blast
  done

lemma same_typed_Get: "same_typed m (fst (Get now key m))"
  by (simp add: Get_def same_typed_refl same_typed_upd split: option.splits)

lemma same_typed_Set: "same_typed m (fst (Set now key v d m))"
  by (simp add: Set_def Let_def same_typed_refl same_typed_upd split: option.splits)

lemma same_typed_Delete: "same_typed m (fst (Delete key m))"
  by (simp add: Delete_def same_typed_refl same_typed_upd split: option.splits)

lemma shards_distinct_stats [simp]: "shards_distinct (m\<lparr>ms_stats := st\<rparr>) = shards_distinct m"
  by (simp add: shards_distinct_def)

lemma storage_inv_Get: "storage_inv m \<Longrightarrow> storage_inv (fst (Get now key m))"
  by (rule same_typed_inv [OF same_typed_Get])
    (auto simp: Get_def storage_inv_def shards_distinct_upd shards_distinct_nth split: option.splits)

lemma storage_inv_Set: "storage_inv m \<Longrightarrow> storage_inv (fst (Set now key v d m))"
  by (rule same_typed_inv [OF same_typed_Set])
    (auto simp: Set_def Let_def storage_inv_def shards_distinct_upd shards_distinct_nth split: option.splits)

lemma storage_inv_Delete: "storage_inv m \<Longrightarrow> storage_inv (fst (Delete key m))"
  by (rule same_typed_inv [OF same_typed_Delete])
    (auto simp: Delete_def storage_inv_def shards_distinct_upd shards_distinct_nth split: option.splits)

lemma evict_typed: "same_typed m (fold (evict_key i) ks m)"
  by (induction ks arbitrary: m)
    (auto simp: evict_key_def intro: same_typed_refl same_typed_trans [OF same_typed_upd(3)])

lemma evict_data:
  "i < length (ms_data m) \<Longrightarrow>
     ms_data (fold (evict_key i) ks m) = (ms_data m)[i := fold sm_Delete ks (ms_data m ! i)]"
  by (induction ks arbitrary: m) (simp_all add: evict_key_def)

definition live_kv :: "gotime \<Rightarrow> KeyValue syncmap \<Rightarrow> KeyValue syncmap" where
  "live_kv now s = filter (\<lambda>(key, kv). \<not> kv_expired now kv) s"

lemma cleanup_shard_data:
  assumes "i < length (ms_data m)" and "sm_ok (ms_data m ! i)"
  shows "ms_data (cleanup_shard now i m) = (ms_data m)[i := live_kv now (ms_data m ! i)]"
  using assms
  by (simp add: cleanup_shard_def Let_def evict_data fold_sm_Delete live_kv_def
      filter_keys_of [where P = "kv_expired now", simplified])

lemma cleanup_shard_typed: "same_typed m (cleanup_shard now i m)"
  by (simp add: cleanup_shard_def Let_def evict_typed)

lemma cleanup_shards_spec:
  assumes "shards_distinct m" and "\<forall>i \<in> set is. i < length (ms_data m)" and "distinct is"
  shows "\<exists>m'. cleanup_shards now is m = (m', Ret ()) \<and> same_typed m m' \<and>
     length (ms_data m') = length (ms_data m) \<and>
     (\<forall>j < length (ms_data m). ms_data m' ! j = (if j \<in> set is then live_kv now (ms_data m ! j) else ms_data m ! j))"
  using assms
proof (induction "is" arbitrary: m)
  case Nil
  then show ?case by (simp add: same_typed_refl)
next
  case (Cons i "is")
  let ?m = "cleanup_shard now i m"
  have i: "i < length (ms_data m)" and si: "sm_ok (ms_data m ! i)"
    using Cons.prems by (auto simp: shards_distinct_def)
  have data: "ms_data ?m = (ms_data m)[i := live_kv now (ms_data m ! i)]"
    by (rule cleanup_shard_data [OF i si])
  have "shards_distinct ?m"
    using Cons.prems(1) si shards_distinct_upd [of m "live_kv now (ms_data m ! i)" i]
    by (simp add: shards_distinct_def data live_kv_def)
  then obtain m' where m': "cleanup_shards now is ?m = (m', Ret ())" "same_typed ?m m'"
      "length (ms_data m') = length (ms_data ?m)"
      "\<forall>j < length (ms_data ?m). ms_data m' ! j = (if j \<in> set is then live_kv now (ms_data ?m ! j) else ms_data ?m ! j)"
    using Cons.IH [of ?m] Cons.prems by (auto simp: data)
  have "same_typed m m'" using same_typed_trans [OF cleanup_shard_typed] m'(2) .
  moreover have "ms_data m' ! j = (if j \<in> set (i # is) then live_kv now (ms_data m ! j) else ms_data m ! j)"
    if "j < length (ms_data m)" for j
    using m'(4) that Cons.prems(3) by (cases "j = i") (auto simp: data)
  ultimately show ?case using m'(1,3) i by (auto simp: data)
qed

lemma cleanup_shards_all:
  assumes "storage_inv m"
  shows "\<exists>m'. cleanup_shards now [0..<nat (ms_shardCount m)] m = (m', Ret ()) \<and> same_typed m m' \<and>
     ms_data m' = map (live_kv now) (ms_data m)"
proof -
  have n: "nat (ms_shardCount m) = length (ms_data m)" and d: "shards_distinct m"
    using assms by (auto simp: storage_inv_def shards_ok_def)
  show ?thesis
    using cleanup_shards_spec [OF d, of "[0..<length (ms_data m)]" now]
    unfolding n by (auto intro!: nth_equalityI)
qed

lemma list_tables:
  assumes "storage_inv m"
  shows "ms_dialogs (fst (ListDialogs now m)) = filter (\<lambda>(k, v). \<not> dlg_expired now v) (ms_dialogs m)"
    and "ms_rtpSessions (fst (ListRTPSessions now m)) = filter (\<lambda>(k, v). \<not> rtp_expired now v) (ms_rtpSessions m)"
    and "ms_clientSessions (fst (ListClientSessions now m)) = filter (\<lambda>(k, v). \<not> cls_expired now v) (ms_clientSessions m)"
    and "ms_registrations (fst (ListRegistrations now m)) = filter (\<lambda>(k, v). \<not> reg_expired now v) (ms_registrations m)"
  using assms
  by (simp_all add: ListDialogs_def ListRTPSessions_def ListClientSessions_def ListRegistrations_def
      dlgs.list_tbl rtps.list_tbl clss.list_tbl regs.list_tbl storage_inv_def counted_defs)

lemma Cleanup_unfold:
  assumes "storage_inv m"
  obtains m0 where "same_typed m m0" and "ms_data m0 = map (live_kv now) (ms_data m)" and "storage_inv m0"
    and "Cleanup now m = (fst (ListRegistrations now (fst (ListClientSessions now
           (fst (ListRTPSessions now (fst (ListDialogs now m0))))))), Ret ())"
proof -
  obtain m0 where m0: "cleanup_shards now [0..<nat (ms_shardCount m)] m = (m0, Ret ())" "same_typed m m0"
      "ms_data m0 = map (live_kv now) (ms_data m)"
    using cleanup_shards_all [OF assms] by blast
  have "storage_inv m0"
    using same_typed_inv [OF m0(2) assms] assms
    by (auto simp: m0(3) storage_inv_def shards_distinct_def live_kv_def)
  with m0 that show ?thesis by (simp add: Cleanup_def Let_def)
qed

lemma storage_inv_Cleanup:
  assumes "storage_inv m"
  shows "storage_inv (fst (Cleanup now m))"
  by (rule Cleanup_unfold [OF assms, where now = now]) (simp add: storage_inv_typed)

section \<open>Runs\<close>

text \<open>Every method of the storage interface that may change the state.\<close>

datatype storage_call =
    Kv kv_call
  | CGetDialog gotime string | CStoreDialog gotime "Dialog option" | CDeleteDialog string | CListDialogs gotime
  | CGetRTPSession gotime string | CStoreRTPSession gotime "RTPSession option" | CDeleteRTPSession string
  | CListRTPSessions gotime
  | CGetAMIAction gotime string | CStoreAMIAction gotime "AMIAction option" | CDeleteAMIAction string
  | CListAMIActionIDs gotime
  | CGetClientSession gotime string | CStoreClientSession gotime "ClientSession option" | CDeleteClientSession string
  | CListClientSessions gotime
  | CGetWSConnection gotime string | CStoreWSConnection gotime string "WSConnectionInfo option"
  | CDeleteWSConnection string
  | CGetRegistration gotime string | CStoreRegistration gotime "Registration option" | CDeleteRegistration string
  | CListRegistrations gotime
  | CCleanup gotime

fun storage_apply :: "storage_call \<Rightarrow> MemoryStorage \<Rightarrow> MemoryStorage" where
  "storage_apply (Kv c) m = fst (kv_step c m)"
| "storage_apply (CGetDialog now k) m = fst (GetDialog now k m)"
| "storage_apply (CStoreDialog now a) m = fst (StoreDialog now a m)"
| "storage_apply (CDeleteDialog k) m = fst (DeleteDialog k m)"
| "storage_apply (CListDialogs now) m = fst (ListDialogs now m)"
| "storage_apply (CGetRTPSession now k) m = fst (GetRTPSession now k m)"
| "storage_apply (CStoreRTPSession now a) m = fst (StoreRTPSession now a m)"
| "storage_apply (CDeleteRTPSession k) m = fst (DeleteRTPSession k m)"
| "storage_apply (CListRTPSessions now) m = fst (ListRTPSessions now m)"
| "storage_apply (CGetAMIAction now k) m = fst (GetAMIAction now k m)"
| "storage_apply (CStoreAMIAction now a) m = fst (StoreAMIAction now a m)"
| "storage_apply (CDeleteAMIAction k) m = fst (DeleteAMIAction k m)"
| "storage_apply (CListAMIActionIDs now) m = fst (ListAMIActionIDs now m)"
| "storage_apply (CGetClientSession now k) m = fst (GetClientSession now k m)"
| "storage_apply (CStoreClientSession now a) m = fst (StoreClientSession now a m)"
| "storage_apply (CDeleteClientSession k) m = fst (DeleteClientSession k m)"
| "storage_apply (CListClientSessions now) m = fst (ListClientSessions now m)"
| "storage_apply (CGetWSConnection now k) m = fst (GetWSConnection now k m)"
| "storage_apply (CStoreWSConnection now k a) m = fst (StoreWSConnection now k a m)"
| "storage_apply (CDeleteWSConnection k) m = fst (DeleteWSConnection k m)"
| "storage_apply (CGetRegistration now k) m = fst (GetRegistration now k m)"
| "storage_apply (CStoreRegistration now a) m = fst (StoreRegistration now a m)"
| "storage_apply (CDeleteRegistration k) m = fst (DeleteRegistration k m)"
| "storage_apply (CListRegistrations now) m = fst (ListRegistrations now m)"
| "storage_apply (CCleanup now) m = fst (Cleanup now m)"

lemma storage_inv_kv_step: "storage_inv m \<Longrightarrow> storage_inv (fst (kv_step c m))"
  by (cases c) (simp_all add: storage_inv_Get storage_inv_Set storage_inv_Delete)

lemma storage_inv_apply: "storage_inv m \<Longrightarrow> storage_inv (storage_apply c m)"
  by (cases c) (simp_all add: storage_inv_typed storage_inv_kv_step storage_inv_Cleanup)

lemma storage_inv_run: "storage_inv m \<Longrightarrow> storage_inv (fold storage_apply cs m)"
  by (induction cs arbitrary: m) (simp_all add: storage_inv_apply)

text \<open>
  C4: After any sequence of storage calls on a new storage, the six counters of the statistics
  are exactly the sizes of the six typed tables, and no table holds a key twice.
\<close>

theorem stats_count_tables:
  "let m = fold storage_apply calls (NewMemoryStorage_fresh config)
   in DialogCount (Stats m) = int (length (ms_dialogs m)) \<and> sm_ok (ms_dialogs m) \<and>
      RTPSessionCount (Stats m) = int (length (ms_rtpSessions m)) \<and> sm_ok (ms_rtpSessions m) \<and>
      AMIActionCount (Stats m) = int (length (ms_amiActions m)) \<and> sm_ok (ms_amiActions m) \<and>
      ClientCount (Stats m) = int (length (ms_clientSessions m)) \<and> sm_ok (ms_clientSessions m) \<and>
      WSConnCount (Stats m) = int (length (ms_wsConnections m)) \<and> sm_ok (ms_wsConnections m) \<and>
      RegCount (Stats m) = int (length (ms_registrations m)) \<and> sm_ok (ms_registrations m)"
  using storage_inv_run [OF storage_inv_New, of calls config]
  by (simp add: Let_def storage_inv_def counted_defs Stats_def)

text \<open>
  C28: On every reachable storage \<open>Cleanup\<close> returns; it removes exactly the expired entries of
  the shards, dialogs, RTP sessions, client sessions and registrations, keeps every live one,
  and touches neither AMI actions nor WebSocket connections, expired or not.
\<close>

theorem Cleanup_exact:
  "let m = fold storage_apply calls (NewMemoryStorage_fresh config);
       m' = fst (Cleanup now m)
   in snd (Cleanup now m) = Ret () \<and>
      ms_data m' = map (filter (\<lambda>(k, v). \<not> kv_expired now v)) (ms_data m) \<and>
      ms_dialogs m' = filter (\<lambda>(k, v). \<not> dlg_expired now v) (ms_dialogs m) \<and>
      ms_rtpSessions m' = filter (\<lambda>(k, v). \<not> rtp_expired now v) (ms_rtpSessions m) \<and>
      ms_clientSessions m' = filter (\<lambda>(k, v). \<not> cls_expired now v) (ms_clientSessions m) \<and>
      ms_registrations m' = filter (\<lambda>(k, v). \<not> reg_expired now v) (ms_registrations m) \<and>
      ms_amiActions m' = ms_amiActions m \<and> ms_wsConnections m' = ms_wsConnections m"
proof -
  let ?m = "fold storage_apply calls (NewMemoryStorage_fresh config)"
  have inv: "storage_inv ?m" by (rule storage_inv_run [OF storage_inv_New])
  obtain m0 where m0: "same_typed ?m m0" "ms_data m0 = map (live_kv now) (ms_data ?m)" "storage_inv m0"
      "Cleanup now ?m = (fst (ListRegistrations now (fst (ListClientSessions now
         (fst (ListRTPSessions now (fst (ListDialogs now m0))))))), Ret ())"
    by (rule Cleanup_unfold [OF inv])
  have "ms_dialogs m0 = ms_dialogs ?m" "ms_rtpSessions m0 = ms_rtpSessions ?m" "ms_amiActions m0 = ms_amiActions ?m"
    "ms_clientSessions m0 = ms_clientSessions ?m" "ms_wsConnections m0 = ms_wsConnections ?m"
    "ms_registrations m0 = ms_registrations ?m"
    using m0(1) by (auto simp: same_typed_def)
  then show ?thesis
    using m0(2-4) by (simp add: Let_def gw_frame list_tables storage_inv_typed live_kv_def [abs_def])
qed

lemma Hour_pos: "0 < Hour"
  by (simp add: duration_defs)

lemma Get_after_StoreDialog:
  assumes "0 < now" and "dlg_CallID d \<noteq> []" and "dlg_ExpireTime d = 0"
  shows "snd (GetDialog t (dlg_CallID d) (fst (StoreDialog now (Some d) m))) =
        (if t \<le> now + 24 * Hour then Ret (stamp_Dialog now d) else Fail ErrKeyExpired)"
  using dlgs.get_after_put [of "Some d" "dlg_CallID d" d t now m] assms Hour_pos
  by (simp add: entry_Dialog_def dlg_expired_def stamp_Dialog_def time_defs Let_def)

lemma Get_after_StoreRTPSession:
  assumes "0 < now" and "rtp_CallID r \<noteq> []" and "rtp_ExpireTime r = 0"
  shows "snd (GetRTPSession t (rtp_CallID r) (fst (StoreRTPSession now (Some r) m))) =
        (if t \<le> now + 24 * Hour then Ret (stamp_RTPSession now r) else Fail ErrKeyExpired)"
  using rtps.get_after_put [of "Some r" "rtp_CallID r" r t now m] assms Hour_pos
  by (simp add: entry_RTPSession_def rtp_expired_def stamp_RTPSession_def time_defs Let_def)

lemma Get_after_StoreAMIAction:
  assumes "0 < now" and "act_ActionID a \<noteq> []" and "act_ExpireTime a = 0"
  shows "snd (GetAMIAction t (act_ActionID a) (fst (StoreAMIAction now (Some a) m))) =
        (if t \<le> now + Hour then Ret (stamp_AMIAction now a) else Fail ErrKeyExpired)"
  using acts.get_after_put [of "Some a" "act_ActionID a" a t now m] assms Hour_pos
  by (simp add: entry_AMIAction_def act_expired_def stamp_AMIAction_def time_defs Let_def)

lemma Get_after_StoreClientSession:
  assumes "0 < now" and "cls_ClientID c \<noteq> []" and "cls_ExpireTime c = 0"
  shows "snd (GetClientSession t (cls_ClientID c) (fst (StoreClientSession now (Some c) m))) =
        (if t \<le> now + 24 * Hour then Ret (stamp_ClientSession now c) else Fail ErrKeyExpired)"
  using clss.get_after_put [of "Some c" "cls_ClientID c" c t now m] assms Hour_pos
  by (simp add: entry_ClientSession_def cls_expired_def stamp_ClientSession_def time_defs Let_def)

lemma Get_after_StoreWSConnection:
  assumes "0 < now" and "key \<noteq> []" and "wsi_ExpireTime w = 0"
  shows "snd (GetWSConnection t key (fst (StoreWSConnection now key (Some w) m))) =
        (if t \<le> now + Hour then Ret (stamp_WSConnection now w) else Fail ErrKeyExpired)"
  using wsis.get_after_put [of "(key, Some w)" key w t now m] assms Hour_pos
  by (simp add: entry_WSConnection_def wsi_expired_def stamp_WSConnection_def time_defs Let_def)

lemma Get_after_StoreRegistration:
  assumes "0 < now" and "reg_AOR g \<noteq> []" and "reg_ExpireTime g = 0"
  shows "snd (GetRegistration t (reg_AOR g) (fst (StoreRegistration now (Some g) m))) =
        (if t \<le> now + reg_Expires g * Second then Ret (stamp_Registration now g) else Fail ErrKeyExpired)"
  using regs.get_after_put [of "Some g" "reg_AOR g" g t now m] assms Hour_pos
  by (simp add: entry_Registration_def reg_expired_def stamp_Registration_def time_defs Let_def)


definition sample_registration :: Registration where
  "sample_registration = \<lparr>reg_AOR = ''sip:a'', reg_Contact = ''c'', reg_Expires = 60, reg_UserAgent = [],
     reg_CallID = ''1'', reg_CSeq = 1, reg_RegisterTime = 0, reg_ExpireTime = 0\<rparr>"


text \<open>
  \<open>TotalItems\<close> counts successful calls, not stored keys: a \<open>Set\<close> of a key that is already there
  adds one, and a lookup that removes an expired key subtracts nothing.
\<close>

fun net_items :: "kv_call \<Rightarrow> kv_reply \<Rightarrow> int" where
  "net_items (KvSet now key v d) r = (if r = Done (Ret ()) then 1 else 0)"
| "net_items (KvDelete key) r = (if r = Done (Ret ()) then - 1 else 0)"
| "net_items (KvGet now key) r = 0"

lemma TotalItems_step: "TotalItems (ms_stats (fst (kv_step c m))) = TotalItems (ms_stats m) + net_items c (snd (kv_step c m))"
  by (cases c) (auto simp: Get_def Set_def Delete_def Let_def split: option.splits)

text \<open>
  Over any run of key-value calls, \<open>TotalItems\<close> moves by the number of successful \<open>Set\<close>
  calls less the number of successful \<open>Delete\<close> calls.
\<close>

theorem TotalItems_counts_calls:
  "TotalItems (ms_stats (fst (run_calls kv_step calls m))) =
     TotalItems (ms_stats m) + (\<Sum>(c, r) \<leftarrow> zip calls (snd (run_calls kv_step calls m)). net_items c r)"
proof (induction calls arbitrary: m)
  case (Cons c calls)
  then show ?case using TotalItems_step [of c m] by (simp add: split_beta Let_def)
qed simp

end
