(* ===== verification/RTP_Manager.thy ===== *)
theory RTP_Manager
  imports RTP_Engine Storage_Runs
begin

text \<open>
  The manager of several RTPEngine instances, \<open>pkg/rtpengine/manager.go\<close>: the active engine,
  failure counts, failover of offers, answers and deletes, and the RTP sessions and events it
  keeps in the storage. A call may ask several engines: \<open>net k i\<close> is the network during the
  call's \<open>k\<close>-th request to an engine, sent to engine \<open>i\<close>. Taking the mutex while the calling
  goroutine holds it is the outcome \<open>Blocked\<close>.
\<close>

section \<open>State\<close>

record EngineStatus =
  es_IsHealthy :: bool
  es_FailCount :: int
  es_LastFailed :: gotime

record Manager =
  mg_engines :: "RTPEngine list"
  mg_weights :: "int list"
  mg_activeIdx :: int
  mg_engineStatus :: "EngineStatus list option"
  mg_failureThreshold :: int
  mg_storage :: "MemoryStorage option"

datatype mgr_error =
    NoEnginesConfigured | AllEnginesFailedInit | RequestFailed rtp_error | NoSDP
  | NoHealthyEngine | FailoverOfferFailed rtp_error | NoSDPInFailover | AllEnginesFailed

type_synonym bencode = "(bdict \<Rightarrow> string option) \<times> (string \<Rightarrow> bdict option)"

type_synonym network = "nat \<Rightarrow> nat \<Rightarrow> rtp_io"

fun init_engines :: "gotime \<Rightarrow> (string \<Rightarrow> bool) \<Rightarrow> rtp_Config list \<Rightarrow> (RTPEngine \<times> int) list" where
  "init_engines now resolves [] = []"
| "init_engines now resolves (config # configs) =
     (case New now resolves config of
        Ret engine \<Rightarrow> (engine, if rc_Weight config \<le> 0 then 1 else rc_Weight config) # init_engines now resolves configs
      | _ \<Rightarrow> init_engines now resolves configs)"

definition NewManager :: "gotime \<Rightarrow> (string \<Rightarrow> bool) \<Rightarrow> rtp_Config list \<Rightarrow> MemoryStorage option \<Rightarrow> (mgr_error, Manager) outcome" where
  "NewManager now resolves configs storage =
     (if configs = [] then Fail NoEnginesConfigured
      else let ews = init_engines now resolves configs
           in if ews = [] then Fail AllEnginesFailedInit
              else Ret \<lparr>mg_engines = map fst ews, mg_weights = map snd ews, mg_activeIdx = 0,
                        mg_engineStatus = None, mg_failureThreshold = 0, mg_storage = storage\<rparr>)"

definition RTP_Stop :: "Manager \<Rightarrow> Manager" where
  "RTP_Stop m = m\<lparr>mg_engines := map RTPEngine_Close (mg_engines m)\<rparr>"

text \<open>One tick of engine \<open>i\<close>'s health check in \<open>Start\<close>.\<close>

definition health_tick :: "bencode \<Rightarrow> network \<Rightarrow> nat \<Rightarrow> Manager \<Rightarrow> Manager" where
  "health_tick codec net i m =
     (if i < length (mg_engines m)
      then m\<lparr>mg_engines := (mg_engines m)[i := fst (RTPEngine_Ping (fst codec) (snd codec) (net 0 i) (mg_engines m ! i))]\<rparr>
      else m)"

section \<open>Engine status\<close>

definition fresh_status :: EngineStatus where
  "fresh_status = \<lparr>es_IsHealthy = True, es_FailCount = 0, es_LastFailed = 0\<rparr>"

text \<open>\<open>initEngineStatus\<close> takes the mutex; \<open>held\<close> says whether the caller holds it already.\<close>

definition initEngineStatus :: "bool \<Rightarrow> Manager \<Rightarrow> Manager option" where
  "initEngineStatus held m =
     (if held then None
      else Some (m\<lparr>mg_failureThreshold := (if mg_failureThreshold m \<le> 0 then 3 else mg_failureThreshold m),
                   mg_engineStatus := Some (replicate (length (mg_engines m)) fresh_status)\<rparr>))"

text \<open>The idiom \<open>if m.engineStatus == nil { m.initEngineStatus() }\<close>.\<close>

definition ensureStatus :: "bool \<Rightarrow> Manager \<Rightarrow> Manager option" where
  "ensureStatus held m = (if mg_engineStatus m = None then initEngineStatus held m else Some m)"

definition status_of :: "Manager \<Rightarrow> EngineStatus list" where
  "status_of m = (case mg_engineStatus m of None \<Rightarrow> [] | Some st \<Rightarrow> st)"

definition mark_failed :: "gotime \<Rightarrow> int \<Rightarrow> EngineStatus \<Rightarrow> EngineStatus" where
  "mark_failed now threshold st =
     (let st = st\<lparr>es_FailCount := es_FailCount st + 1, es_LastFailed := now\<rparr>
      in if threshold \<le> es_FailCount st then st\<lparr>es_IsHealthy := False\<rparr> else st)"

text \<open>The first engine with the address, whatever its port.\<close>

fun engine_at :: "string \<Rightarrow> RTPEngine list \<Rightarrow> nat option" where
  "engine_at addr [] = None"
| "engine_at addr (e # es) = (if re_address e = addr then Some 0 else map_option Suc (engine_at addr es))"

definition recordEngineFailure :: "gotime \<Rightarrow> string \<Rightarrow> Manager \<Rightarrow> Manager \<times> (mgr_error, unit) outcome" where
  "recordEngineFailure now engineAddr m0 =
     (case ensureStatus True m0 of
        None \<Rightarrow> (m0, Blocked)
      | Some m \<Rightarrow>
          (case engine_at engineAddr (mg_engines m) of
             None \<Rightarrow> (m, Ret ())
           | Some i \<Rightarrow>
               if i < length (status_of m)
               then (m\<lparr>mg_engineStatus := Some ((status_of m)[i := mark_failed now (mg_failureThreshold m) (status_of m ! i)])\<rparr>, Ret ())
               else (m, Panic IndexOutOfRange)))"

section \<open>Migration and failover\<close>

definition set_event :: "gotime \<Rightarrow> string \<Rightarrow> jobj \<Rightarrow> Manager \<Rightarrow> Manager \<times> (mgr_error, unit) outcome" where
  "set_event now key event m =
     (case mg_storage m of
        None \<Rightarrow> (m, Ret ())
      | Some st \<Rightarrow>
          (case Set now key (Some (Json event)) (24 * Hour) st of
             (st, Panic p) \<Rightarrow> (m\<lparr>mg_storage := Some st\<rparr>, Panic p)
           | (st, _) \<Rightarrow> (m\<lparr>mg_storage := Some st\<rparr>, Ret ())))"

definition SimplifyMigration :: "gotime \<Rightarrow> int \<Rightarrow> int \<Rightarrow> Manager \<Rightarrow> Manager \<times> (mgr_error, unit) outcome" where
  "SimplifyMigration now oldIdx newIdx m =
     (if oldIdx = newIdx then (m, Ret ())
      else case (slice_get (mg_engines m) oldIdx, slice_get (mg_engines m) newIdx) of
        (Some oldEngine, Some newEngine) \<Rightarrow>
          set_event now (''events:rtpengine:migration:'' @ fmt_d (UnixNano now))
            [(''component'', JStr ''rtpengine''), (''event'', JStr ''engine_switch''),
             (''old_engine'', JStr (host_port (re_address oldEngine) (re_port oldEngine))),
             (''new_engine'', JStr (host_port (re_address newEngine) (re_port newEngine))),
             (''timestamp'', JNum (Time_Unix now)), (''no_migration'', JBool True)]
            (m\<lparr>mg_activeIdx := newIdx\<rparr>)
      | _ \<Rightarrow> (m, Ret ()))"

definition recordFailoverEvent :: "gotime \<Rightarrow> string \<Rightarrow> string \<Rightarrow> string \<Rightarrow> Manager \<Rightarrow> Manager \<times> (mgr_error, unit) outcome" where
  "recordFailoverEvent now from to reason m =
     set_event now (''failover:rtpengine:'' @ fmt_d (UnixNano now))
       [(''component'', JStr ''rtpengine''), (''from'', JStr from), (''to'', JStr to),
        (''timestamp'', JNum (Time_Unix now)), (''reason'', JStr reason)] m"

text \<open>The first engine that is not \<open>skip\<close> and whose status is healthy.\<close>

definition healthy_other :: "int \<Rightarrow> Manager \<Rightarrow> nat option" where
  "healthy_other skip m =
     List.find (\<lambda>i. int i \<noteq> skip \<and> es_IsHealthy (status_of m ! i)) [0..<length (mg_engines m)]"

definition tryFailover :: "gotime \<Rightarrow> Manager \<Rightarrow> Manager \<times> (mgr_error, nat option) outcome" where
  "tryFailover now m0 =
     (case ensureStatus True m0 of
        None \<Rightarrow> (m0, Blocked)
      | Some m \<Rightarrow>
          (if int (length (mg_engines m)) \<le> mg_activeIdx m then (m, Ret None)
           else case slice_get (mg_engines m) (mg_activeIdx m) of
             None \<Rightarrow> (m, Panic IndexOutOfRange)
           | Some current \<Rightarrow>
               if length (status_of m) < length (mg_engines m) then (m, Panic IndexOutOfRange)
               else case healthy_other (mg_activeIdx m) m of
                 None \<Rightarrow> (m, Ret None)
               | Some i \<Rightarrow>
                   (case SimplifyMigration now (mg_activeIdx m) (int i) m of
                      (m, Ret _) \<Rightarrow>
                        (case recordFailoverEvent now (re_address current) (re_address (mg_engines m ! i)) ''Reactive failover'' m of
                           (m, Panic p) \<Rightarrow> (m, Panic p)
                         | (m, _) \<Rightarrow> (m, Ret (Some i)))
                    | (m, Panic p) \<Rightarrow> (m, Panic p)
                    | (m, _) \<Rightarrow> (m, Blocked))))"

text \<open>One request to engine \<open>i\<close>; the engine's state is written back.\<close>

definition ask :: "(rtp_io \<Rightarrow> RTPEngine \<Rightarrow> RTPEngine \<times> (rtp_error, bdict) outcome) \<Rightarrow> rtp_io \<Rightarrow> nat \<Rightarrow> Manager \<Rightarrow>
    Manager \<times> (rtp_error, bdict) outcome" where
  "ask request io i m =
     (let (e, res) = request io (mg_engines m ! i) in (m\<lparr>mg_engines := (mg_engines m)[i := e]\<rparr>, res))"

definition sdp_of :: "mgr_error \<Rightarrow> bdict \<Rightarrow> (mgr_error, string) outcome" where
  "sdp_of err result = (case map_of result ''sdp'' of Some (BStr s) \<Rightarrow> Ret s | _ \<Rightarrow> Fail err)"

definition add_params :: "(string \<times> bval) list \<Rightarrow> bdict \<Rightarrow> bdict" where
  "add_params extra params = fold (\<lambda>(k, v). AList.update k v) extra params"

definition failoverOffer :: "bencode \<Rightarrow> network \<Rightarrow> gotime \<Rightarrow> string \<Rightarrow> string \<Rightarrow> string \<Rightarrow> Manager \<Rightarrow>
    Manager \<times> (mgr_error, string) outcome" where
  "failoverOffer codec net now callID fromTag sdp m0 =
     (let activeIdx = mg_activeIdx m0;
          others = filter (\<lambda>i. int i \<noteq> activeIdx) [0..<length (mg_engines m0)]
      in case (if others = [] then Some m0 else ensureStatus True m0) of
           None \<Rightarrow> (m0, Blocked)
         | Some m \<Rightarrow>
             (if others \<noteq> [] \<and> length (status_of m) < length (mg_engines m) then (m, Panic IndexOutOfRange)
              else case healthy_other activeIdx m of
                None \<Rightarrow> (m, Fail NoHealthyEngine)
              | Some i \<Rightarrow>
                  (case SimplifyMigration now activeIdx (int i) m of
                     (m, Ret _) \<Rightarrow>
                       (case ask (\<lambda>io. Offer (fst codec) (snd codec) io
                                   [(''call-id'', BStr callID), (''from-tag'', BStr fromTag), (''sdp'', BStr sdp)])
                               (net 1 i) i m of
                          (m, Ret result) \<Rightarrow> (m, sdp_of NoSDPInFailover result)
                        | (m, Fail e) \<Rightarrow> (m, Fail (FailoverOfferFailed e))
                        | (m, Panic p) \<Rightarrow> (m, Panic p)
                        | (m, Blocked) \<Rightarrow> (m, Blocked))
                   | (m, Panic p) \<Rightarrow> (m, Panic p)
                   | (m, _) \<Rightarrow> (m, Blocked))))"

definition ProcessOffer :: "bencode \<Rightarrow> network \<Rightarrow> gotime \<Rightarrow> string \<Rightarrow> string \<Rightarrow> string \<Rightarrow> (string \<times> string) list \<Rightarrow> Manager \<Rightarrow>
    Manager \<times> (mgr_error, string) outcome" where
  "ProcessOffer codec net now callID fromTag sdp flags m0 =
     (case slice_get (mg_engines m0) (mg_activeIdx m0) of
        None \<Rightarrow> (m0, Panic IndexOutOfRange)
      | Some engine \<Rightarrow>
          (case ensureStatus False m0 of
             None \<Rightarrow> (m0, Blocked)
           | Some m \<Rightarrow>
               (let params = add_params (map (\<lambda>(k, v). (k, BStr v)) flags)
                      [(''call-id'', BStr callID), (''from-tag'', BStr fromTag), (''sdp'', BStr sdp)];
                    a = nat (mg_activeIdx m)
                in case ask (\<lambda>io. Offer (fst codec) (snd codec) io params) (net 0 a) a m of
                     (m, Ret result) \<Rightarrow> (m, sdp_of NoSDP result)
                   | (m, Panic p) \<Rightarrow> (m, Panic p)
                   | (m, Blocked) \<Rightarrow> (m, Blocked)
                   | (m, Fail e) \<Rightarrow>
                       (case recordEngineFailure now (re_address engine) m of
                          (m, Ret _) \<Rightarrow>
                            (case tryFailover now m of
                               (m, Ret (Some i)) \<Rightarrow> failoverOffer codec net now callID fromTag sdp m
                             | (m, Ret None) \<Rightarrow> (m, Fail (RequestFailed e))
                             | (m, Fail err) \<Rightarrow> (m, Fail err)
                             | (m, Panic p) \<Rightarrow> (m, Panic p)
                             | (m, Blocked) \<Rightarrow> (m, Blocked))
                        | (m, Fail err) \<Rightarrow> (m, Fail err)
                        | (m, Panic p) \<Rightarrow> (m, Panic p)
                        | (m, Blocked) \<Rightarrow> (m, Blocked)))))"

section \<open>Answers and deletes\<close>

definition GetEngine :: "gotime \<Rightarrow> string \<Rightarrow> Manager \<Rightarrow> Manager \<times> (mgr_error, nat) outcome" where
  "GetEngine now callID m =
     (let active = (if 0 \<le> mg_activeIdx m \<and> mg_activeIdx m < int (length (mg_engines m))
                    then Ret (nat (mg_activeIdx m)) else Panic IndexOutOfRange)
      in if callID = [] then (m, active)
         else case mg_storage m of
           None \<Rightarrow> (m, active)
         | Some st \<Rightarrow>
             (case GetRTPSession now callID st of
                (st, Ret session) \<Rightarrow>
                  (m\<lparr>mg_storage := Some st\<rparr>,
                   if 0 \<le> rtp_EngineIdx session \<and> rtp_EngineIdx session < int (length (mg_engines m))
                   then Ret (nat (rtp_EngineIdx session)) else active)
              | (st, _) \<Rightarrow> (m\<lparr>mg_storage := Some st\<rparr>, active)))"

definition answer_params :: "string \<Rightarrow> string \<Rightarrow> string \<Rightarrow> string \<Rightarrow> bdict \<Rightarrow> bdict" where
  "answer_params callID fromTag toTag sdp options =
     add_params options
       [(''call-id'', BStr callID), (''from-tag'', BStr fromTag), (''to-tag'', BStr toTag), (''sdp'', BStr sdp)]"

text \<open>The engines a failover tries, in order: the ring after the active one, without it.\<close>

definition failover_order :: "Manager \<Rightarrow> nat list" where
  "failover_order m =
     filter (\<lambda>idx. int idx \<noteq> mg_activeIdx m)
       (map (\<lambda>i. nat ((mg_activeIdx m + int i + 1) mod int (length (mg_engines m)))) [0..<length (mg_engines m)])"

fun failoverAnswer_loop :: "bencode \<Rightarrow> network \<Rightarrow> gotime \<Rightarrow> string \<Rightarrow> string \<Rightarrow> string \<Rightarrow> string \<Rightarrow> bdict \<Rightarrow> nat list \<Rightarrow>
    Manager \<Rightarrow> Manager \<times> (mgr_error, string) outcome" where
  "failoverAnswer_loop codec net now callID fromTag toTag sdp options [] m = (m, Fail AllEnginesFailed)"
| "failoverAnswer_loop codec net now callID fromTag toTag sdp options (idx # idxs) m =
     (case ask (\<lambda>io. Answer (fst codec) (snd codec) io (answer_params callID fromTag toTag sdp options)) (net 1 idx) idx m of
        (m, Ret result) \<Rightarrow>
          (let engine = mg_engines m ! idx;
               m = m\<lparr>mg_activeIdx := int idx\<rparr>;
               m = (case mg_storage m of
                      None \<Rightarrow> m
                    | Some st \<Rightarrow> m\<lparr>mg_storage := Some (fst (StoreRTPSession now
                        (Some \<lparr>rtp_CallID = callID, rtp_EngineIdx = int idx,
                               rtp_EngineAddr = host_port (re_address engine) (re_port engine),
                               rtp_FromTag = fromTag, rtp_ToTag = toTag, rtp_MediaInfo = [],
                               rtp_Created = 0, rtp_Updated = now, rtp_ExpireTime = 0\<rparr>) st))\<rparr>)
           in (m, sdp_of NoSDP result))
      | (m, Fail e) \<Rightarrow> failoverAnswer_loop codec net now callID fromTag toTag sdp options idxs m
      | (m, Panic p) \<Rightarrow> (m, Panic p)
      | (m, Blocked) \<Rightarrow> (m, Blocked))"

definition failoverAnswer :: "bencode \<Rightarrow> network \<Rightarrow> gotime \<Rightarrow> string \<Rightarrow> string \<Rightarrow> string \<Rightarrow> string \<Rightarrow> bdict \<Rightarrow> Manager \<Rightarrow>
    Manager \<times> (mgr_error, string) outcome" where
  "failoverAnswer codec net now callID fromTag toTag sdp options m =
     failoverAnswer_loop codec net now callID fromTag toTag sdp options (failover_order m) m"

definition update_session :: "gotime \<Rightarrow> string \<Rightarrow> string \<Rightarrow> Manager \<Rightarrow> Manager" where
  "update_session now callID toTag m =
     (case mg_storage m of
        None \<Rightarrow> m
      | Some st \<Rightarrow>
          (case GetRTPSession now callID st of
             (st, Ret session) \<Rightarrow>
               m\<lparr>mg_storage := Some (fst (StoreRTPSession now (Some (session\<lparr>rtp_ToTag := toTag, rtp_Updated := now\<rparr>)) st))\<rparr>
           | (st, _) \<Rightarrow> m\<lparr>mg_storage := Some st\<rparr>))"

definition ProcessAnswer :: "bencode \<Rightarrow> network \<Rightarrow> gotime \<Rightarrow> string \<Rightarrow> string \<Rightarrow> string \<Rightarrow> string \<Rightarrow> bdict \<Rightarrow> Manager \<Rightarrow>
    Manager \<times> (mgr_error, string) outcome" where
  "ProcessAnswer codec net now callID fromTag toTag sdp options m =
     (case GetEngine now callID m of
        (m, Ret i) \<Rightarrow>
          (case ask (\<lambda>io. Answer (fst codec) (snd codec) io (answer_params callID fromTag toTag sdp options)) (net 0 i) i m of
             (m, Ret result) \<Rightarrow>
               (case sdp_of NoSDP result of
                  Ret s \<Rightarrow> (update_session now callID toTag m, Ret s)
                | e \<Rightarrow> (m, e))
           | (m, Fail e) \<Rightarrow> failoverAnswer codec net now callID fromTag toTag sdp options m
           | (m, Panic p) \<Rightarrow> (m, Panic p)
           | (m, Blocked) \<Rightarrow> (m, Blocked))
      | (m, Fail e) \<Rightarrow> (m, Fail e)
      | (m, Panic p) \<Rightarrow> (m, Panic p)
      | (m, Blocked) \<Rightarrow> (m, Blocked))"

definition clean_session :: "string \<Rightarrow> Manager \<Rightarrow> Manager" where
  "clean_session callID m =
     (case mg_storage m of None \<Rightarrow> m | Some st \<Rightarrow> m\<lparr>mg_storage := Some (fst (DeleteRTPSession callID st))\<rparr>)"

fun failoverDelete_loop :: "bencode \<Rightarrow> network \<Rightarrow> string \<Rightarrow> nat list \<Rightarrow> Manager \<Rightarrow> Manager \<times> (mgr_error, unit) outcome" where
  "failoverDelete_loop codec net callID [] m = (m, Fail AllEnginesFailed)"
| "failoverDelete_loop codec net callID (idx # idxs) m =
     (case ask (\<lambda>io. RTPEngine_Delete (fst codec) (snd codec) io [(''call-id'', BStr callID)]) (net 1 idx) idx m of
        (m, Ret result) \<Rightarrow> (clean_session callID (m\<lparr>mg_activeIdx := int idx\<rparr>), Ret ())
      | (m, Fail e) \<Rightarrow> failoverDelete_loop codec net callID idxs m
      | (m, Panic p) \<Rightarrow> (m, Panic p)
      | (m, Blocked) \<Rightarrow> (m, Blocked))"

definition failoverDelete :: "bencode \<Rightarrow> network \<Rightarrow> string \<Rightarrow> Manager \<Rightarrow> Manager \<times> (mgr_error, unit) outcome" where
  "failoverDelete codec net callID m = failoverDelete_loop codec net callID (failover_order m) m"

definition DeleteSession :: "bencode \<Rightarrow> network \<Rightarrow> gotime \<Rightarrow> string \<Rightarrow> Manager \<Rightarrow> Manager \<times> (mgr_error, unit) outcome" where
  "DeleteSession codec net now callID m =
     (case GetEngine now callID m of
        (m, Ret i) \<Rightarrow>
          (case ask (\<lambda>io. RTPEngine_Delete (fst codec) (snd codec) io [(''call-id'', BStr callID)]) (net 0 i) i m of
             (m, Ret result) \<Rightarrow> (clean_session callID m, Ret ())
           | (m, Fail e) \<Rightarrow> failoverDelete codec net callID m
           | (m, Panic p) \<Rightarrow> (m, Panic p)
           | (m, Blocked) \<Rightarrow> (m, Blocked))
      | (m, Fail e) \<Rightarrow> (m, Fail e)
      | (m, Panic p) \<Rightarrow> (m, Panic p)
      | (m, Blocked) \<Rightarrow> (m, Blocked))"

definition getFlagsOrDefault :: "(string \<times> string) list option list \<Rightarrow> (string \<times> string) list" where
  "getFlagsOrDefault flags = (case flags of Some f # _ \<Rightarrow> f | _ \<Rightarrow> [])"

section \<open>Invariant\<close>

definition storage_fine :: "MemoryStorage option \<Rightarrow> bool" where
  "storage_fine st \<longleftrightarrow> (case st of None \<Rightarrow> True | Some s \<Rightarrow> kv_ok s)"

definition mgr_inv :: "Manager \<Rightarrow> bool" where
  "mgr_inv m \<longleftrightarrow> 0 \<le> mg_activeIdx m \<and> mg_activeIdx m < int (length (mg_engines m)) \<and>
     (\<forall>st. mg_engineStatus m = Some st \<longrightarrow> length st = length (mg_engines m)) \<and>
     list_all (\<lambda>e. \<not> re_connOpen e) (mg_engines m) \<and> storage_fine (mg_storage m)"

lemma storage_fine_simps [simp]: "storage_fine None" "storage_fine (Some s) = kv_ok s"
  by (simp_all add: storage_fine_def)

lemma kv_ok_rtp [simp]:
  "kv_ok (fst (GetRTPSession now k st)) = kv_ok st"
  "kv_ok (fst (StoreRTPSession now arg st)) = kv_ok st"
  "kv_ok (fst (DeleteRTPSession k st)) = kv_ok st"
  by (simp_all add: kv_ok_def shards_ok_def GetRTPSession_def drop_RTPSession_def StoreRTPSession_def
      DeleteRTPSession_def Let_def split: option.split)

lemma init_engines_closed: "list_all (\<lambda>e. \<not> re_connOpen e) (map fst (init_engines now resolves configs))"
  by (induction configs) (auto simp: New_def Let_def split: outcome.split if_splits)

lemma mgr_inv_New:
  assumes "NewManager now resolves configs storage = Ret m" and "storage_fine storage"
  shows "mgr_inv m"
  using assms init_engines_closed [of now resolves configs]
  by (auto simp: NewManager_def mgr_inv_def Let_def split: if_splits)

text \<open>Fields of the manager an operation leaves alone, and how the rest moves.\<close>

definition mgr_frame :: "Manager \<Rightarrow> Manager \<Rightarrow> bool" where
  "mgr_frame m m' \<longleftrightarrow> mg_engines m' = mg_engines m \<and> mg_engineStatus m' = mg_engineStatus m \<and>
     mg_failureThreshold m' = mg_failureThreshold m"

lemma set_event_spec:
  assumes "storage_fine (mg_storage m)"
  shows "snd (set_event now key event m) = Ret () \<and> storage_fine (mg_storage (fst (set_event now key event m))) \<and>
     mgr_frame m (fst (set_event now key event m)) \<and> mg_activeIdx (fst (set_event now key event m)) = mg_activeIdx m"
proof (cases "mg_storage m")
  case (Some st)
  then have ok: "kv_ok st" using assms by simp
  have "snd (Set now key (Some (Json event)) (24 * Hour) st) = snd (spec_Set now key (Some (Json event)) (24 * Hour) (kv_view st))"
    by (rule kv.put_result [OF ok])
  then show ?thesis
    using kv.put_ok [OF ok, of now key "Some (Json event)" "24 * Hour"]
    by (auto simp: set_event_def Some mgr_frame_def spec_Set_def split_beta split: outcome.split if_splits prod.split)
qed (simp add: set_event_def mgr_frame_def)

lemma SimplifyMigration_spec:
  assumes "storage_fine (mg_storage m)" and "0 \<le> old" and "old < int (length (mg_engines m))"
    and "0 \<le> new" and "new < int (length (mg_engines m))"
  shows "snd (SimplifyMigration now old new m) = Ret () \<and>
     storage_fine (mg_storage (fst (SimplifyMigration now old new m))) \<and>
     mgr_frame m (fst (SimplifyMigration now old new m)) \<and>
     mg_activeIdx (fst (SimplifyMigration now old new m)) = (if old = new then mg_activeIdx m else new)"
  using assms set_event_spec [of "m\<lparr>mg_activeIdx := new\<rparr>"]
  by (simp add: SimplifyMigration_def mgr_frame_def)

lemma ensureStatus_Some:
  "ensureStatus False m \<noteq> None" "mg_engineStatus m \<noteq> None \<Longrightarrow> ensureStatus held m = Some m"
  by (auto simp: ensureStatus_def initEngineStatus_def)

lemma ensureStatus_inv:
  assumes "mgr_inv m" and "ensureStatus held m = Some m'"
  shows "mgr_inv m' \<and> mg_engineStatus m' \<noteq> None \<and> mg_engines m' = mg_engines m \<and> mg_activeIdx m' = mg_activeIdx m \<and>
     mg_storage m' = mg_storage m"
  using assms by (auto simp: ensureStatus_def initEngineStatus_def mgr_inv_def split: if_splits)

lemma status_of_length: "mgr_inv m \<Longrightarrow> mg_engineStatus m \<noteq> None \<Longrightarrow> length (status_of m) = length (mg_engines m)"
  by (auto simp: mgr_inv_def status_of_def)

lemma engine_at_lt: "engine_at addr es = Some i \<Longrightarrow> i < length es \<and> re_address (es ! i) = addr"
  by (induction es arbitrary: i) (auto split: if_splits)

lemma healthy_other_Some:
  "healthy_other skip m = Some i \<Longrightarrow> i < length (mg_engines m) \<and> int i \<noteq> skip \<and> es_IsHealthy (status_of m ! i)"
  by (auto simp: healthy_other_def find_Some_iff)

lemma recordEngineFailure_spec:
  assumes "mgr_inv m" and "mg_engineStatus m \<noteq> None"
  shows "snd (recordEngineFailure now addr m) = Ret () \<and> mgr_inv (fst (recordEngineFailure now addr m)) \<and>
     mg_engineStatus (fst (recordEngineFailure now addr m)) \<noteq> None \<and>
     mg_engines (fst (recordEngineFailure now addr m)) = mg_engines m \<and>
     mg_activeIdx (fst (recordEngineFailure now addr m)) = mg_activeIdx m \<and>
     mg_storage (fst (recordEngineFailure now addr m)) = mg_storage m"
  using assms status_of_length [OF assms] engine_at_lt
  by (fastforce simp: recordEngineFailure_def ensureStatus_Some mgr_inv_def split: option.split)

lemma ask_Request:
  assumes "mgr_inv m" and "i < length (mg_engines m)"
  shows "mgr_inv (fst (ask (\<lambda>io. Request enc dec io cmd) io i m))"
    and "returns (snd (ask (\<lambda>io. Request enc dec io cmd) io i m))"
    and "length (mg_engines (fst (ask (\<lambda>io. Request enc dec io cmd) io i m))) = length (mg_engines m)"
    and "mg_engineStatus (fst (ask (\<lambda>io. Request enc dec io cmd) io i m)) = mg_engineStatus m"
    and "mg_activeIdx (fst (ask (\<lambda>io. Request enc dec io cmd) io i m)) = mg_activeIdx m"
    and "mg_failureThreshold (fst (ask (\<lambda>io. Request enc dec io cmd) io i m)) = mg_failureThreshold m"
    and "mg_storage (fst (ask (\<lambda>io. Request enc dec io cmd) io i m)) = mg_storage m"
proof -
  have "\<not> re_connOpen (mg_engines m ! i)" using assms by (simp add: mgr_inv_def list_all_length)
  then have "\<not> re_connOpen (fst (Request enc dec io cmd (mg_engines m ! i)))" by (rule Request_closes)
  then show "mgr_inv (fst (ask (\<lambda>io. Request enc dec io cmd) io i m))"
    using assms
    by (cases "mg_engineStatus m") (auto simp: ask_def split_beta Let_def mgr_inv_def list_all_length nth_list_update)
qed (simp_all add: ask_def split_beta Let_def Request_returns)

lemma engine_commands:
  "Offer enc dec io params = Request enc dec io (command ''offer'' params)"
  "Answer enc dec io params = Request enc dec io (command ''answer'' params)"
  "RTPEngine_Delete enc dec io params = Request enc dec io (command ''delete'' params)"
  by (simp_all add: fun_eq_iff Offer_def Answer_def RTPEngine_Delete_def)

text \<open>A request to engine \<open>i\<close> changes that engine only.\<close>

definition asked :: "nat \<Rightarrow> Manager \<Rightarrow> Manager \<Rightarrow> bool" where
  "asked i m m' \<longleftrightarrow> mgr_inv m' \<and> length (mg_engines m') = length (mg_engines m) \<and>
     mg_engineStatus m' = mg_engineStatus m \<and> mg_activeIdx m' = mg_activeIdx m \<and>
     mg_failureThreshold m' = mg_failureThreshold m \<and> mg_storage m' = mg_storage m \<and>
     (\<forall>j. j \<noteq> i \<longrightarrow> mg_engines m' ! j = mg_engines m ! j) \<and>
     map re_address (mg_engines m') = map re_address (mg_engines m)"

lemma ask_cases:
  assumes "mgr_inv m" and "i < length (mg_engines m)"
  obtains (answered) m' d where "ask (\<lambda>io. Request enc dec io cmd) io i m = (m', Ret d)" and "asked i m m'"
      and "snd (Request enc dec io cmd (mg_engines m ! i)) = Ret d"
  | (failed) m' e where "ask (\<lambda>io. Request enc dec io cmd) io i m = (m', Fail e)" and "asked i m m'"
      and "snd (Request enc dec io cmd (mg_engines m ! i)) = Fail e"
proof -
  let ?p = "ask (\<lambda>io. Request enc dec io cmd) io i m"
  have "map re_address (mg_engines (fst ?p)) = map re_address (mg_engines m)"
    using assms(2) by (simp add: ask_def split_beta Let_def map_update Request_fields list_update_same_conv)
  then have a: "asked i m (fst ?p)"
    using ask_Request [OF assms, of enc dec cmd io] by (simp add: asked_def) (simp add: ask_def split_beta Let_def)
  have s: "snd ?p = snd (Request enc dec io cmd (mg_engines m ! i))"
    by (simp add: ask_def split_beta Let_def)
  show ?thesis
    using ask_Request(2) [OF assms, of enc dec cmd io] a s answered [of "fst ?p"] failed [of "fst ?p"]
    by (cases ?p; cases "snd ?p") auto
qed

text \<open>What holds of a manager with its status there, and of the result of every operation.\<close>

definition status_le :: "Manager \<Rightarrow> Manager \<Rightarrow> bool" where
  "status_le m m' \<longleftrightarrow> (\<forall>st. mg_engineStatus m = Some st \<longrightarrow>
     (\<exists>st'. mg_engineStatus m' = Some st' \<and> length st' = length st \<and>
        (\<forall>i < length st. es_IsHealthy (st' ! i) \<longrightarrow> es_IsHealthy (st ! i))))"

lemma status_le_same [simp]: "mg_engineStatus m' = mg_engineStatus m \<Longrightarrow> status_le m m'"
  by (simp add: status_le_def)

lemma status_le_trans: "status_le m m1 \<Longrightarrow> status_le m1 m2 \<Longrightarrow> status_le m m2"
  unfolding status_le_def by fastforce

lemma status_le_record:
  assumes "mgr_inv m" and "mg_engineStatus m \<noteq> None"
  shows "status_le m (fst (recordEngineFailure now addr m))"
proof -
  have "es_IsHealthy (mark_failed now k st) \<Longrightarrow> es_IsHealthy st" for k st
    by (simp add: mark_failed_def Let_def split: if_splits)
  then show ?thesis
    using assms
    by (auto simp: status_le_def recordEngineFailure_def ensureStatus_Some status_of_def nth_list_update
        split: option.splits)
qed

definition good_result :: "Manager \<Rightarrow> Manager \<times> (mgr_error, 'a) outcome \<Rightarrow> bool" where
  "good_result m = (\<lambda>(m', r). mgr_inv m' \<and> length (mg_engines m') = length (mg_engines m) \<and> returns r \<and> status_le m m')"

lemma good_result_trans:
  "length (mg_engines m1) = length (mg_engines m) \<Longrightarrow> status_le m m1 \<Longrightarrow> good_result m1 p \<Longrightarrow> good_result m p"
  using status_le_trans by (auto simp: good_result_def)

lemma returns_sdp_of [simp]: "returns (sdp_of err result)"
  by (simp add: sdp_of_def split: option.split bval.split)

lemma tryFailover_spec:
  assumes "mgr_inv m" and "mg_engineStatus m \<noteq> None"
  obtains (none) "tryFailover now m = (m, Ret None)" and "healthy_other (mg_activeIdx m) m = None"
  | (switched) m' i where "tryFailover now m = (m', Ret (Some i))" and "healthy_other (mg_activeIdx m) m = Some i"
      and "mgr_inv m'" and "mgr_frame m m'" and "mg_activeIdx m' = int i"
proof -
  have act: "0 \<le> mg_activeIdx m" "mg_activeIdx m < int (length (mg_engines m))" and st: "storage_fine (mg_storage m)"
    using assms(1) by (simp_all add: mgr_inv_def)
  have len: "length (status_of m) = length (mg_engines m)" by (rule status_of_length [OF assms])
  show ?thesis
  proof (cases "healthy_other (mg_activeIdx m) m")
    case None
    then show ?thesis using none act len assms(2) by (simp add: tryFailover_def ensureStatus_Some)
  next
    case (Some i)
    then have i: "i < length (mg_engines m)" "int i \<noteq> mg_activeIdx m" using healthy_other_Some by blast+
    obtain m1 where m1: "SimplifyMigration now (mg_activeIdx m) (int i) m = (m1, Ret ())" "storage_fine (mg_storage m1)"
        "mgr_frame m m1" "mg_activeIdx m1 = int i"
      using SimplifyMigration_spec [OF st act, of "int i" now] i by (cases "SimplifyMigration now (mg_activeIdx m) (int i) m") auto
    obtain m2 where m2: "recordFailoverEvent now (re_address (mg_engines m ! nat (mg_activeIdx m))) (re_address (mg_engines m1 ! i)) ''Reactive failover'' m1 = (m2, Ret ())"
        "storage_fine (mg_storage m2)" "mgr_frame m1 m2" "mg_activeIdx m2 = int i"
      unfolding recordFailoverEvent_def using set_event_spec [OF m1(2)] m1(4) by (metis prod.collapse)
    have "mgr_inv m2" and "mgr_frame m m2"
      using assms(1) i m1 m2 by (auto simp: mgr_inv_def mgr_frame_def)
    then show ?thesis
      using switched [of m2 i] Some act len assms(2) m1(1) m2(1,4) by (simp add: tryFailover_def ensureStatus_Some)
  qed
qed

lemma failoverOffer_good:
  assumes "mgr_inv m" and "mg_engineStatus m \<noteq> None"
  shows "good_result m (failoverOffer codec net now callID fromTag sdp m)"
proof (cases "healthy_other (mg_activeIdx m) m")
  case None
  then show ?thesis
    using assms status_of_length [OF assms]
    by (simp add: failoverOffer_def Let_def ensureStatus_Some good_result_def)
next
  case (Some i)
  then have i: "i < length (mg_engines m)" "int i \<noteq> mg_activeIdx m" using healthy_other_Some by blast+
  have act: "0 \<le> mg_activeIdx m" "mg_activeIdx m < int (length (mg_engines m))" and st: "storage_fine (mg_storage m)"
    using assms(1) by (simp_all add: mgr_inv_def)
  obtain m1 where m1: "SimplifyMigration now (mg_activeIdx m) (int i) m = (m1, Ret ())" "storage_fine (mg_storage m1)"
      "mgr_frame m m1" "mg_activeIdx m1 = int i"
    using SimplifyMigration_spec [OF st act, of "int i" now] i by (cases "SimplifyMigration now (mg_activeIdx m) (int i) m") auto
  have inv1: "mgr_inv m1" and i1: "i < length (mg_engines m1)" and len1: "length (mg_engines m1) = length (mg_engines m)"
      "mg_engineStatus m1 = mg_engineStatus m"
    using assms(1) i m1 by (auto simp: mgr_inv_def mgr_frame_def)
  show ?thesis
    by (rule ask_cases [OF inv1 i1, of "fst codec" "snd codec" "command ''offer'' [(''call-id'', BStr callID), (''from-tag'', BStr fromTag), (''sdp'', BStr sdp)]" "net 1 i"])
      (use Some assms(2) status_of_length [OF assms] m1(1) len1 in
        \<open>simp_all add: failoverOffer_def Let_def ensureStatus_Some good_result_def engine_commands asked_def\<close>)
qed

text \<open>\<open>failoverOffer\<close> never asks the engine that is active when it is called.\<close>

lemma failoverOffer_active:
  assumes "mgr_inv m" and "mg_engineStatus m \<noteq> None"
  shows "mg_engines (fst (failoverOffer codec net now callID fromTag sdp m)) ! nat (mg_activeIdx m) =
    mg_engines m ! nat (mg_activeIdx m)"
proof (cases "healthy_other (mg_activeIdx m) m")
  case None
  then show ?thesis
    using assms status_of_length [OF assms] by (simp add: failoverOffer_def Let_def ensureStatus_Some)
next
  case (Some i)
  then have i: "i < length (mg_engines m)" "int i \<noteq> mg_activeIdx m" using healthy_other_Some by blast+
  have act: "0 \<le> mg_activeIdx m" "mg_activeIdx m < int (length (mg_engines m))" and st: "storage_fine (mg_storage m)"
    using assms(1) by (simp_all add: mgr_inv_def)
  obtain m1 where m1: "SimplifyMigration now (mg_activeIdx m) (int i) m = (m1, Ret ())" "mgr_frame m m1"
    using SimplifyMigration_spec [OF st act, of "int i" now] i by (cases "SimplifyMigration now (mg_activeIdx m) (int i) m") auto
  have "nat (mg_activeIdx m) \<noteq> i" using i(2) act(1) by auto
  then show ?thesis
    using Some assms(2) status_of_length [OF assms] m1
    by (simp add: failoverOffer_def Let_def ensureStatus_Some engine_commands ask_def mgr_frame_def split_beta
        split: outcome.split)
qed

text \<open>
  The three ways through \<open>ProcessOffer\<close>. \<open>offered m m'\<close>: up to the failover, of all engines only
  the active one has been asked.
\<close>

definition offered :: "Manager \<Rightarrow> Manager \<Rightarrow> bool" where
  "offered m m' \<longleftrightarrow> mgr_inv m' \<and> length (mg_engines m') = length (mg_engines m) \<and> status_le m m' \<and>
     (\<forall>j. j \<noteq> nat (mg_activeIdx m) \<longrightarrow> mg_engines m' ! j = mg_engines m ! j)"

lemma ProcessOffer_cases:
  assumes "mgr_inv m"
  obtains (answered) m' d where "ProcessOffer codec net now callID fromTag sdp flags m = (m', sdp_of NoSDP d)" and "offered m m'"
  | (gave_up) m' e where "ProcessOffer codec net now callID fromTag sdp flags m = (m', Fail (RequestFailed e))" and "offered m m'"
  | (failed_over) m' where
      "ProcessOffer codec net now callID fromTag sdp flags m = failoverOffer codec net now callID fromTag sdp m'"
      and "offered m m'" and "mg_engineStatus m' \<noteq> None" and "mg_activeIdx m' \<noteq> mg_activeIdx m"
proof -
  have act: "slice_get (mg_engines m) (mg_activeIdx m) = Some (mg_engines m ! nat (mg_activeIdx m))"
    using assms by (simp add: mgr_inv_def)
  obtain m1 where m1: "ensureStatus False m = Some m1" using ensureStatus_Some(1) by blast
  have inv1: "mgr_inv m1" "mg_engineStatus m1 \<noteq> None" "mg_engines m1 = mg_engines m" "mg_activeIdx m1 = mg_activeIdx m"
    using ensureStatus_inv [OF assms m1] by auto
  have le1: "status_le m m1" using m1 by (auto simp: status_le_def ensureStatus_def split: if_splits)
  let ?a = "nat (mg_activeIdx m1)"
  have a: "?a < length (mg_engines m1)" using inv1(1) by (auto simp: mgr_inv_def)
  let ?params = "add_params (map (\<lambda>(k, v). (k, BStr v)) flags)
      [(''call-id'', BStr callID), (''from-tag'', BStr fromTag), (''sdp'', BStr sdp)]"
  show ?thesis
  proof (cases rule: ask_cases [OF inv1(1) a, of "fst codec" "snd codec" "command ''offer'' ?params" "net 0 ?a"])
    case (1 m' d)
    then show ?thesis
      using answered [of m' d] act m1 inv1 status_le_trans [OF le1, of m']
      by (simp add: ProcessOffer_def Let_def engine_commands offered_def asked_def)
  next
    case (2 m' e)
    have inv2: "offered m m'" "mgr_inv m'" "mg_engineStatus m' \<noteq> None" "mg_activeIdx m' = mg_activeIdx m"
      using 2(2) inv1 status_le_trans [OF le1, of m'] by (auto simp: asked_def offered_def)
    let ?addr = "re_address (mg_engines m ! nat (mg_activeIdx m))"
    let ?m = "fst (recordEngineFailure now ?addr m')"
    note rec = recordEngineFailure_spec [OF inv2(2,3), of now ?addr]
    have P: "ProcessOffer codec net now callID fromTag sdp flags m =
        (case tryFailover now ?m of
           (m, Ret (Some i)) \<Rightarrow> failoverOffer codec net now callID fromTag sdp m
         | (m, Ret None) \<Rightarrow> (m, Fail (RequestFailed e))
         | (m, Fail err) \<Rightarrow> (m, Fail err)
         | (m, Panic p) \<Rightarrow> (m, Panic p)
         | (m, Blocked) \<Rightarrow> (m, Blocked))"
      using act m1 inv1 2(1) rec
      by (cases "recordEngineFailure now ?addr m'") (simp add: ProcessOffer_def Let_def engine_commands)
    have m: "mgr_inv ?m" "mg_engineStatus ?m \<noteq> None" "offered m ?m"
      using rec inv2 status_le_trans [OF _ status_le_record [OF inv2(2,3)], of m] by (auto simp: offered_def)
    show ?thesis
      using m(1,2)
    proof (cases rule: tryFailover_spec [where now = now])
      case none
      then show ?thesis using gave_up [of ?m e] P m by simp
    next
      case (switched m2 i)
      have "offered m m2"
        using m(3) switched(3,4) status_le_trans [of m ?m m2] by (auto simp: offered_def mgr_frame_def)
      moreover have "int i \<noteq> mg_activeIdx m" using healthy_other_Some [OF switched(2)] rec inv2(4) by simp
      ultimately show ?thesis
        using failed_over [of m2] P switched m(2) by (simp add: mgr_frame_def)
    qed
  qed
qed

lemma ProcessOffer_good:
  assumes "mgr_inv m"
  shows "good_result m (ProcessOffer codec net now callID fromTag sdp flags m)"
  using assms
proof (cases rule: ProcessOffer_cases [where codec = codec and net = net and now = now and callID = callID
      and fromTag = fromTag and sdp = sdp and flags = flags])
  case (failed_over m')
  then have "good_result m' (failoverOffer codec net now callID fromTag sdp m')"
    by (intro failoverOffer_good) (simp_all add: offered_def)
  then show ?thesis
    using failed_over(1,2) good_result_trans [of m' m] by (simp add: offered_def)
qed (simp_all add: good_result_def offered_def)

lemma GetEngine_spec:
  assumes "mgr_inv m"
  obtains m' i where "GetEngine now callID m = (m', Ret i)" and "mgr_inv m'" and "i < length (mg_engines m')"
    and "mg_engines m' = mg_engines m" and "mg_engineStatus m' = mg_engineStatus m" and "mg_activeIdx m' = mg_activeIdx m"
proof (cases "callID = [] \<or> mg_storage m = None")
  case True
  then have "GetEngine now callID m = (m, Ret (nat (mg_activeIdx m)))"
    using assms by (auto simp: GetEngine_def mgr_inv_def Let_def)
  then show ?thesis using assms by (intro that [of m "nat (mg_activeIdx m)"]) (auto simp: mgr_inv_def)
next
  case False
  then obtain st where st: "mg_storage m = Some st" and ne: "callID \<noteq> []" by auto
  let ?m = "m\<lparr>mg_storage := Some (fst (GetRTPSession now callID st))\<rparr>"
  have "\<exists>i. GetEngine now callID m = (?m, Ret i) \<and> i < length (mg_engines m)"
    using assms st ne by (auto simp: GetEngine_def mgr_inv_def Let_def split: outcome.split prod.split)
  moreover have "mgr_inv ?m" using assms st by (simp add: mgr_inv_def)
  ultimately show ?thesis using that [of ?m] by auto
qed

lemma failover_order_lt:
  assumes "i \<in> set (failover_order m)"
  shows "i < length (mg_engines m)"
proof -
  obtain k where k: "k < length (mg_engines m)" "i = nat ((mg_activeIdx m + int k + 1) mod int (length (mg_engines m)))"
    using assms by (auto simp: failover_order_def)
  have "(mg_activeIdx m + int k + 1) mod int (length (mg_engines m)) < int (length (mg_engines m))"
    using k(1) by (intro pos_mod_bound) auto
  then show ?thesis using k by simp
qed

lemma failoverAnswer_loop_good:
  assumes "mgr_inv m" and "\<forall>i \<in> set idxs. i < length (mg_engines m)"
  shows "good_result m (failoverAnswer_loop codec net now callID fromTag toTag sdp options idxs m)"
  using assms
proof (induction idxs arbitrary: m)
  case Nil
  then show ?case by (simp add: good_result_def)
next
  case (Cons i idxs)
  then have i: "i < length (mg_engines m)" by simp
  show ?case
  proof (cases rule: ask_cases [OF Cons.prems(1) i, of "fst codec" "snd codec"
        "command ''answer'' (answer_params callID fromTag toTag sdp options)" "net 1 i"])
    case (1 m' d)
    then show ?thesis
      using i by (auto simp: good_result_def engine_commands asked_def mgr_inv_def Let_def split: option.split)
  next
    case (2 m' e)
    then have "good_result m' (failoverAnswer_loop codec net now callID fromTag toTag sdp options idxs m')"
      using Cons.IH [of m'] Cons.prems(2) by (simp add: asked_def)
    then show ?thesis
      using 2 good_result_trans [of m' m] by (simp add: engine_commands asked_def)
  qed
qed

lemma failoverDelete_loop_good:
  assumes "mgr_inv m" and "\<forall>i \<in> set idxs. i < length (mg_engines m)"
  shows "good_result m (failoverDelete_loop codec net callID idxs m)"
  using assms
proof (induction idxs arbitrary: m)
  case Nil
  then show ?case by (simp add: good_result_def)
next
  case (Cons i idxs)
  then have i: "i < length (mg_engines m)" by simp
  show ?case
  proof (cases rule: ask_cases [OF Cons.prems(1) i, of "fst codec" "snd codec"
        "command ''delete'' [(''call-id'', BStr callID)]" "net 1 i"])
    case (1 m' d)
    then show ?thesis
      using i by (auto simp: good_result_def engine_commands asked_def mgr_inv_def clean_session_def split: option.split)
  next
    case (2 m' e)
    then have "good_result m' (failoverDelete_loop codec net callID idxs m')"
      using Cons.IH [of m'] Cons.prems(2) by (simp add: asked_def)
    then show ?thesis
      using 2 good_result_trans [of m' m] by (simp add: engine_commands asked_def)
  qed
qed

lemma update_session_good:
  assumes "mgr_inv m"
  shows "mgr_inv (update_session now callID toTag m)" "mg_engines (update_session now callID toTag m) = mg_engines m"
    "mg_engineStatus (update_session now callID toTag m) = mg_engineStatus m"
    "mg_activeIdx (update_session now callID toTag m) = mg_activeIdx m"
proof -
  have "mgr_inv (update_session now callID toTag m)" if "mg_storage m = Some st" for st
  proof -
    have "kv_ok st" using assms that by (simp add: mgr_inv_def)
    then show ?thesis
      using assms that kv_ok_rtp(1) [of now callID st]
      by (cases "GetRTPSession now callID st"; cases "snd (GetRTPSession now callID st)")
        (auto simp: update_session_def mgr_inv_def)
  qed
  then show "mgr_inv (update_session now callID toTag m)"
    using assms by (cases "mg_storage m") (auto simp: update_session_def)
qed (simp_all add: update_session_def split: option.split prod.split outcome.split)

lemma ProcessAnswer_good:
  assumes "mgr_inv m"
  shows "good_result m (ProcessAnswer codec net now callID fromTag toTag sdp options m)"
proof (rule GetEngine_spec [OF assms, of now callID])
  fix m1 i assume m1: "GetEngine now callID m = (m1, Ret i)" "mgr_inv m1" "i < length (mg_engines m1)"
    "mg_engines m1 = mg_engines m" "mg_engineStatus m1 = mg_engineStatus m" "mg_activeIdx m1 = mg_activeIdx m"
  show ?thesis
  proof (cases rule: ask_cases [OF m1(2,3), of "fst codec" "snd codec"
        "command ''answer'' (answer_params callID fromTag toTag sdp options)" "net 0 i"])
    case (1 m' d)
    then show ?thesis
      using m1 update_session_good [of m' now callID toTag] returns_sdp_of [of NoSDP d]
      by (cases "sdp_of NoSDP d") (simp_all add: ProcessAnswer_def engine_commands good_result_def asked_def)
  next
    case (2 m' e)
    then have "good_result m' (failoverAnswer codec net now callID fromTag toTag sdp options m')"
      unfolding failoverAnswer_def by (intro failoverAnswer_loop_good) (auto simp: asked_def dest: failover_order_lt)
    then show ?thesis
      using 2 m1 good_result_trans [of m' m] by (simp add: ProcessAnswer_def engine_commands asked_def)
  qed
qed

lemma DeleteSession_good:
  assumes "mgr_inv m"
  shows "good_result m (DeleteSession codec net now callID m)"
proof (rule GetEngine_spec [OF assms, of now callID])
  fix m1 i assume m1: "GetEngine now callID m = (m1, Ret i)" "mgr_inv m1" "i < length (mg_engines m1)"
    "mg_engines m1 = mg_engines m" "mg_engineStatus m1 = mg_engineStatus m" "mg_activeIdx m1 = mg_activeIdx m"
  show ?thesis
  proof (cases rule: ask_cases [OF m1(2,3), of "fst codec" "snd codec"
        "command ''delete'' [(''call-id'', BStr callID)]" "net 0 i"])
    case (1 m' d)
    then show ?thesis
      using m1 by (auto simp: DeleteSession_def engine_commands good_result_def asked_def mgr_inv_def clean_session_def
          split: option.split)
  next
    case (2 m' e)
    then have "good_result m' (failoverDelete codec net callID m')"
      unfolding failoverDelete_def by (intro failoverDelete_loop_good) (auto simp: asked_def dest: failover_order_lt)
    then show ?thesis
      using 2 m1 good_result_trans [of m' m] by (simp add: DeleteSession_def engine_commands asked_def)
  qed
qed

end
