(* ===== verification/RTP_Failover.thy ===== *)
theory RTP_Failover
  imports RTP_Manager
begin

text \<open>
  Properties of the RTPEngine manager over runs of calls: it never panics or deadlocks, where a
  failed answer or delete goes, what a failed offer's failover really does, and that an engine
  marked unhealthy stays so.
\<close>

section \<open>Runs\<close>

datatype rtp_call =
    COffer bencode network gotime string string string "(string \<times> string) list"
  | CAnswer bencode network gotime string string string string bdict
  | CDelete bencode network gotime string
  | CHealth bencode network nat
  | CStop

fun rtp_step :: "rtp_call \<Rightarrow> Manager \<Rightarrow> Manager \<times> (mgr_error, string) outcome" where
  "rtp_step (COffer codec net now callID fromTag sdp flags) m = ProcessOffer codec net now callID fromTag sdp flags m"
| "rtp_step (CAnswer codec net now callID fromTag toTag sdp options) m =
     ProcessAnswer codec net now callID fromTag toTag sdp options m"
| "rtp_step (CDelete codec net now callID) m =
     map_prod id (map_outcome id (\<lambda>_. [])) (DeleteSession codec net now callID m)"
| "rtp_step (CHealth codec net i) m = (health_tick codec net i m, Ret [])"
| "rtp_step CStop m = (RTP_Stop m, Ret [])"

lemma RTPEngine_Ping_engine: "fst (RTPEngine_Ping enc dec io r) = fst (Request enc dec io [(''command'', BStr ''ping'')] r)"
  by (simp add: RTPEngine_Ping_def split: prod.split outcome.split)

lemma health_tick_good:
  assumes "mgr_inv m"
  shows "good_result m (health_tick codec net i m, Ret [])"
proof (cases "i < length (mg_engines m)")
  case True
  then show ?thesis
    using ask_Request [OF assms True, of "fst codec" "snd codec" "[(''command'', BStr ''ping'')]" "net 0 i"]
    by (simp add: health_tick_def good_result_def RTPEngine_Ping_engine ask_def split_beta Let_def)
qed (simp add: health_tick_def good_result_def assms)

lemma RTP_Stop_good: "mgr_inv m \<Longrightarrow> good_result m (RTP_Stop m, Ret [])"
  by (auto simp: RTP_Stop_def good_result_def mgr_inv_def RTPEngine_Close_def list_all_length)

lemma returns_map [simp]: "returns (map_outcome f g r) = returns r"
  by (cases r) simp_all

lemma rtp_step_good: "mgr_inv m \<Longrightarrow> good_result m (rtp_step c m)"
  using ProcessOffer_good ProcessAnswer_good DeleteSession_good health_tick_good RTP_Stop_good
  by (cases c) (auto simp: good_result_def split_beta)

interpretation rtp_pool: failover_pool rtp_step mg_engines mg_activeIdx mgr_inv
proof (unfold_locales, goal_cases)
  case (1 s)
  then show ?case by (simp add: mgr_inv_def)
next
  case (2 s c)
  then show ?case using rtp_step_good [of s c] by (simp add: good_result_def split_beta)
next
  case (3 s c)
  then show ?case using rtp_step_good [of s c] by (simp add: good_result_def split_beta)
next
  case (4 s c)
  then show ?case using rtp_step_good [of s c] by (simp add: good_result_def split_beta)
qed

lemma status_le_step: "mgr_inv m \<Longrightarrow> status_le m (fst (rtp_step c m))"
  using rtp_step_good [of m c] by (simp add: good_result_def split_beta)

lemma status_le_run: "mgr_inv m \<Longrightarrow> status_le m (fst (run_calls rtp_step cs m))"
proof (induction cs arbitrary: m)
  case (Cons c cs)
  have "mgr_inv (fst (rtp_step c m))" using rtp_pool.step_ok [OF Cons.prems] .
  from Cons.IH [OF this] status_le_step [OF Cons.prems, of c] show ?case
    using status_le_trans by (auto simp: split_beta Let_def)
qed simp

definition sample_engine :: "string \<Rightarrow> rtp_Config" where
  "sample_engine addr = \<lparr>rc_Address = addr, rc_Port = 7, rc_Timeout = 0, rc_Weight = 1,
     rc_CircuitBreaker = \<lparr>FailureThreshold = 0, ResetTimeout = 0, HalfOpenMaxReqs = 0\<rparr>\<rparr>"



text \<open>
  C31: Once an engine's status is unhealthy no call ever makes it healthy again, so it is never
  again chosen by a failover of an offer.
\<close>

theorem unhealthy_for_ever:
  assumes "NewManager now resolves configs storage = Ret m0" and "storage_fine storage"
    and "m = fst (run_calls rtp_step before m0)"
    and "mg_engineStatus m = Some st" and "i < length st" and "\<not> es_IsHealthy (st ! i)"
  shows "\<not> es_IsHealthy (status_of (fst (run_calls rtp_step calls m)) ! i) \<and>
     healthy_other skip (fst (run_calls rtp_step calls m)) \<noteq> Some i"
proof -
  have "mgr_inv m0" by (rule mgr_inv_New [OF assms(1,2)])
  then have "mgr_inv m" using rtp_pool.run_pool [of m0 before] assms(3) by simp
  then have "status_le m (fst (run_calls rtp_step calls m))" by (rule status_le_run)
  then have "\<not> es_IsHealthy (status_of (fst (run_calls rtp_step calls m)) ! i)"
    using assms(4-6) by (auto simp: status_le_def status_of_def)
  then show ?thesis using healthy_other_Some by blast
qed

definition dead_net :: network where
  "dead_net k i = \<lparr>io_now = 5, io_dial = False, io_cookie = 0, io_writeDeadline = True, io_write = True,
     io_readDeadline = True, io_reply = \<lambda>_. None\<rparr>"

definition no_codec :: bencode where
  "no_codec = (\<lambda>_. Some [], \<lambda>_. None)"

definition failed_offer :: rtp_call where
  "failed_offer = COffer no_codec dead_net 5 ''call'' ''from'' ''sdp'' []"

definition two_engines :: Manager where
  "two_engines = \<lparr>mg_engines = map (\<lambda>a. \<lparr>re_address = a, re_port = 7, re_timeout = 500 * Millisecond, re_connOpen = False,
       re_circuitBreaker = NewCircuitBreaker (''rtpengine-'' @ host_port a 7)
         \<lparr>FailureThreshold = 0, ResetTimeout = 0, HalfOpenMaxReqs = 0\<rparr> 0\<rparr>) [''a'', ''b''],
     mg_weights = [1, 1], mg_activeIdx = 0, mg_engineStatus = None, mg_failureThreshold = 0, mg_storage = None\<rparr>"

lemma two_engines_New: "NewManager 0 (\<lambda>_. True) [sample_engine ''a'', sample_engine ''b''] None = Ret two_engines"
  by (simp add: NewManager_def New_def sample_engine_def two_engines_def Let_def)

theorem unhealthy_for_ever_witness:
  "\<not> es_IsHealthy (status_of (fst (run_calls rtp_step [failed_offer]
       (fst (run_calls rtp_step [failed_offer, failed_offer, failed_offer] two_engines)))) ! 0)"
proof -
  let ?m = "fst (run_calls rtp_step [failed_offer, failed_offer, failed_offer] two_engines)"
  have st: "mg_engineStatus ?m = Some [\<lparr>es_IsHealthy = False, es_FailCount = 3, es_LastFailed = 5\<rparr>, fresh_status]"
    by code_simp
  show ?thesis
    using unhealthy_for_ever [OF two_engines_New _ refl st, of 0 "[failed_offer]"] by simp
qed

section \<open>Offers\<close>

text \<open>
  C32: With two engines, the failover of a failed offer never reaches the standby: \<open>tryFailover\<close>
  makes it active, and \<open>failoverOffer\<close> then skips the active engine and goes back to the one
  that failed. Whatever the network does, the call sends the standby no request at all (its
  state, circuit breaker counts included, is as before).
\<close>

theorem offer_failover_skips_standby:
  assumes "mgr_inv m" and "length (mg_engines m) = 2"
    and "standby = 1 - nat (mg_activeIdx m)"
  shows "mg_engines (fst (ProcessOffer codec net now callID fromTag sdp flags m)) ! standby = mg_engines m ! standby"
proof -
  have idx: "mg_activeIdx x = 0 \<or> mg_activeIdx x = 1" if "mgr_inv x" and "length (mg_engines x) = 2" for x
    using that by (auto simp: mgr_inv_def)
  have ne: "standby \<noteq> nat (mg_activeIdx m)" using assms(3) idx [OF assms(1,2)] by auto
  show ?thesis
    using assms(1)
  proof (cases rule: ProcessOffer_cases [where codec = codec and net = net and now = now and callID = callID
        and fromTag = fromTag and sdp = sdp and flags = flags])
    case (failed_over m')
    then have "nat (mg_activeIdx m') = standby"
      using idx [OF assms(1,2)] idx [of m'] assms(2,3) by (auto simp: offered_def)
    then show ?thesis
      using failed_over failoverOffer_active [of m'] ne by (simp add: offered_def)
  qed (use ne in \<open>simp_all add: offered_def\<close>)
qed

definition half_dead_net :: network where
  "half_dead_net k i = (dead_net k i)\<lparr>io_dial := (i = 1)\<rparr>"

theorem offer_failover_skips_standby_witness:
  "snd (ProcessOffer no_codec half_dead_net 5 ''call'' ''from'' ''sdp'' [] two_engines) = Fail (FailoverOfferFailed DialFailed) \<and>
   mg_engines (fst (ProcessOffer no_codec half_dead_net 5 ''call'' ''from'' ''sdp'' [] two_engines)) ! 1 =
     mg_engines two_engines ! 1"
proof -
  have inv: "mgr_inv two_engines" by (rule mgr_inv_New [OF two_engines_New]) simp
  have "snd (ProcessOffer no_codec half_dead_net 5 ''call'' ''from'' ''sdp'' [] two_engines) = Fail (FailoverOfferFailed DialFailed)"
    by code_simp
  then show ?thesis
    using offer_failover_skips_standby [OF inv _ refl, of no_codec half_dead_net 5 "''call''" "''from''" "''sdp''" "[]"]
    by (simp add: two_engines_def)
qed

section \<open>Answers\<close>

text \<open>What engine \<open>i\<close> makes of the answer, asked in the state \<open>m\<close>.\<close>

definition answers :: "bencode \<Rightarrow> network \<Rightarrow> bdict \<Rightarrow> Manager \<Rightarrow> nat \<Rightarrow> bdict option" where
  "answers codec net params m i =
     (case snd (Answer (fst codec) (snd codec) (net 1 i) params (mg_engines m ! i)) of Ret d \<Rightarrow> Some d | _ \<Rightarrow> None)"

definition first_answer :: "bencode \<Rightarrow> network \<Rightarrow> bdict \<Rightarrow> Manager \<Rightarrow> nat list \<Rightarrow> (nat \<times> bdict) option" where
  "first_answer codec net params m idxs =
     Option.bind (List.find (\<lambda>i. answers codec net params m i \<noteq> None) idxs)
       (\<lambda>i. map_option (Pair i) (answers codec net params m i))"

lemma answers_asked: "asked i m m' \<Longrightarrow> j \<noteq> i \<Longrightarrow> answers codec net params m' j = answers codec net params m j"
  by (simp add: answers_def asked_def)

lemma first_answer_asked:
  "asked i m m' \<Longrightarrow> i \<notin> set idxs \<Longrightarrow> first_answer codec net params m' idxs = first_answer codec net params m idxs"
  by (induction idxs) (auto simp: first_answer_def answers_asked)

lemma first_answer_Cons:
  "first_answer codec net params m (i # idxs) =
     (case answers codec net params m i of Some d \<Rightarrow> Some (i, d) | None \<Rightarrow> first_answer codec net params m idxs)"
  by (simp add: first_answer_def split: option.split)

lemma failoverAnswer_loop_first:
  assumes "mgr_inv m" and "\<forall>i \<in> set idxs. i < length (mg_engines m)" and "distinct idxs"
  shows "case first_answer codec net (answer_params callID fromTag toTag sdp options) m idxs of
      None \<Rightarrow> snd (failoverAnswer_loop codec net now callID fromTag toTag sdp options idxs m) = Fail AllEnginesFailed \<and>
        mg_activeIdx (fst (failoverAnswer_loop codec net now callID fromTag toTag sdp options idxs m)) = mg_activeIdx m
    | Some (i, d) \<Rightarrow> snd (failoverAnswer_loop codec net now callID fromTag toTag sdp options idxs m) = sdp_of NoSDP d \<and>
        mg_activeIdx (fst (failoverAnswer_loop codec net now callID fromTag toTag sdp options idxs m)) = int i"
  using assms
proof (induction idxs arbitrary: m)
  case Nil
  then show ?case by (simp add: first_answer_def)
next
  case (Cons i idxs)
  then have i: "i < length (mg_engines m)" by simp
  let ?params = "answer_params callID fromTag toTag sdp options"
  show ?case
  proof (cases rule: ask_cases [OF Cons.prems(1) i, of "fst codec" "snd codec" "command ''answer'' ?params" "net 1 i"])
    case (1 m' d)
    then have "answers codec net ?params m i = Some d"
      by (simp add: answers_def engine_commands)
    then show ?thesis
      using 1 by (simp add: first_answer_Cons engine_commands Let_def split: option.split)
  next
    case (2 m' e)
    then have no: "answers codec net ?params m i = None"
      by (simp add: answers_def engine_commands)
    have step: "failoverAnswer_loop codec net now callID fromTag toTag sdp options (i # idxs) m =
        failoverAnswer_loop codec net now callID fromTag toTag sdp options idxs m'"
      using 2(1) by (simp add: engine_commands)
    have inv': "mgr_inv m'" "\<forall>i \<in> set idxs. i < length (mg_engines m')" "distinct idxs"
        "mg_activeIdx m' = mg_activeIdx m"
      using 2(2) Cons.prems by (auto simp: asked_def)
    have same: "first_answer codec net ?params m (i # idxs) = first_answer codec net ?params m' idxs"
      using no first_answer_asked [OF 2(2)] Cons.prems(3) by (simp add: first_answer_Cons)
    show ?thesis
      using Cons.IH [OF inv'(1-3)] inv'(4) unfolding step same by (simp only:)
  qed
qed

text \<open>The ring after the active engine visits every other engine once.\<close>

lemma ring_inj:
  assumes "0 < n"
  shows "inj_on (\<lambda>i. nat ((a + int i + 1) mod int n)) {0..<n}"
proof (rule inj_onI)
  fix i j assume ij: "i \<in> {0..<n}" "j \<in> {0..<n}"
    and eq: "nat ((a + int i + 1) mod int n) = nat ((a + int j + 1) mod int n)"
  have "(a + int i + 1) mod int n = (a + int j + 1) mod int n"
    using eq assms by (simp add: nat_eq_iff2)
  then have "int n dvd int i - int j"
    by (simp add: mod_eq_dvd_iff algebra_simps)
  then have "int i mod int n = int j mod int n" by (simp add: mod_eq_dvd_iff)
  then show "i = j" using ij by simp
qed

lemma failover_order_distinct: "distinct (failover_order m)"
proof (cases "mg_engines m = []")
  case False
  then show ?thesis
    unfolding failover_order_def by (intro distinct_filter) (simp add: distinct_map ring_inj)
qed (simp add: failover_order_def)

lemma failover_order_set:
  assumes "mgr_inv m"
  shows "set (failover_order m) = {i. i < length (mg_engines m) \<and> int i \<noteq> mg_activeIdx m}"
proof -
  let ?n = "length (mg_engines m)"
  let ?f = "\<lambda>i. nat ((mg_activeIdx m + int i + 1) mod int ?n)"
  have n: "0 < ?n" using assms by (auto simp: mgr_inv_def)
  have "?f ` {0..<?n} \<subseteq> {0..<?n}" using n by (auto simp: nat_less_iff)
  then have "?f ` {0..<?n} = {0..<?n}"
    using ring_inj [OF n, of "mg_activeIdx m"] by (intro endo_inj_surj) auto
  then show ?thesis by (auto simp: failover_order_def)
qed

text \<open>
  When an answer has to fail over, every engine but the active one is a candidate, each is
  asked at most once in ring order, the first that answers gives the SDP and becomes active,
  and only when none answers does the call fail and leave the active engine as it was.
\<close>

lemma failoverAnswer_first_success:
  assumes "mgr_inv m"
  shows "set (failover_order m) = {i. i < length (mg_engines m) \<and> int i \<noteq> mg_activeIdx m} \<and>
     distinct (failover_order m) \<and>
     (case first_answer codec net (answer_params callID fromTag toTag sdp options) m (failover_order m) of
        None \<Rightarrow> snd (failoverAnswer codec net now callID fromTag toTag sdp options m) = Fail AllEnginesFailed \<and>
          mg_activeIdx (fst (failoverAnswer codec net now callID fromTag toTag sdp options m)) = mg_activeIdx m
      | Some (i, d) \<Rightarrow> snd (failoverAnswer codec net now callID fromTag toTag sdp options m) = sdp_of NoSDP d \<and>
          mg_activeIdx (fst (failoverAnswer codec net now callID fromTag toTag sdp options m)) = int i)"
  using failoverAnswer_loop_first [OF assms _ failover_order_distinct] failover_order_set [OF assms]
    failover_order_distinct failover_order_lt
  unfolding failoverAnswer_def by blast

end
