(* ===== verification/WebSocket_Goroutines.thy ===== *)
theory WebSocket_Goroutines
  imports Gateway_Prelude
begin

text \<open>
  The goroutines of one WebSocket client (\<open>handleClient\<close> in \<open>websocket/server.go\<close>): the waiting
  \<open>handleClient\<close> itself, the keepalive, the two readers, and whoever runs \<open>closeConnection\<close>. What the
  readers do with a message is in \<open>WebSocket_Server\<close>; here it only matters where they wait, which
  connections they hold and how they end. Backend connections are numbered in the order in which
  they are dialled.
\<close>

section \<open>State\<close>

text \<open>How far \<open>closeConnection\<close> has come: \<open>closed\<close> set and context cancelled, client closed, backend closed.\<close>

datatype close_pc = NotClosed | Cancelled | ConnClosed | Closed
datatype main_pc = MWait | MClose | MClosing | MDone
datatype keepalive_pc = KWait | KTick | KDone
datatype client_pc = CSelect | CRead | CWrite | CSwap nat | CSend | CDone
datatype backend_pc = BSelect | BPick | BRead nat | BForward | BSend | BDone

record client_run =
  cr_close :: close_pc
  cr_main :: main_pc
  cr_keepalive :: keepalive_pc
  cr_client :: client_pc
  cr_backend :: backend_pc
  cr_errChan :: nat
  cr_backendConn :: nat
  cr_open :: "nat list"
  cr_next :: nat
  cr_errorCount :: nat
  cr_blamed :: nat

definition cr_closed :: "client_run \<Rightarrow> bool" where
  "cr_closed s \<longleftrightarrow> cr_close s \<noteq> NotClosed"

definition connOpen :: "client_run \<Rightarrow> bool" where
  "connOpen s \<longleftrightarrow> cr_close s = NotClosed \<or> cr_close s = Cancelled"

definition clientDone :: "client_run \<Rightarrow> bool" where
  "clientDone s \<longleftrightarrow> cr_client s = CDone"

definition errChan_size :: nat where
  "errChan_size = 3"

definition handleClient_running :: client_run where
  "handleClient_running = \<lparr>cr_close = NotClosed, cr_main = MWait, cr_keepalive = KWait, cr_client = CSelect, cr_backend = BSelect,
     cr_errChan = 0, cr_backendConn = 0, cr_open = [0], cr_next = 1, cr_errorCount = 0, cr_blamed = 0\<rparr>"

text \<open>A backend error: counted, and from the threshold on the current backend is marked unhealthy.\<close>

definition backend_error :: "nat \<Rightarrow> client_run \<Rightarrow> client_run" where
  "backend_error threshold s =
     (let count = cr_errorCount s + 1
      in s\<lparr>cr_errorCount := count, cr_blamed := (if threshold \<le> count then cr_blamed s + 1 else cr_blamed s)\<rparr>)"

section \<open>Steps\<close>

text \<open>
  \<open>remote\<close> allows what only a peer or a timer of two hours can bring about: a message, a close frame,
  an error on a connection that is open. Without it only the program itself makes progress.
  \<open>alt\<close> says that another backend is configured to fail over to.
\<close>

inductive close_step :: "client_run \<Rightarrow> client_run \<Rightarrow> bool" where
  close_cancel: "cr_close s = NotClosed \<Longrightarrow> close_step s (s\<lparr>cr_close := Cancelled\<rparr>)"
| close_conn: "cr_close s = Cancelled \<Longrightarrow> close_step s (s\<lparr>cr_close := ConnClosed\<rparr>)"
| close_backend: "cr_close s = ConnClosed \<Longrightarrow>
    close_step s (s\<lparr>cr_close := Closed, cr_open := removeAll (cr_backendConn s) (cr_open s)\<rparr>)"

inductive main_step :: "client_run \<Rightarrow> client_run \<Rightarrow> bool" where
  main_ctx: "cr_main s = MWait \<Longrightarrow> cr_closed s \<Longrightarrow> main_step s (s\<lparr>cr_main := MClose\<rparr>)"
| main_err: "cr_main s = MWait \<Longrightarrow> 0 < cr_errChan s \<Longrightarrow> main_step s (s\<lparr>cr_main := MClose, cr_errChan := cr_errChan s - 1\<rparr>)"
| main_lost: "cr_main s = MClose \<Longrightarrow> cr_closed s \<Longrightarrow> main_step s (s\<lparr>cr_main := MDone\<rparr>)"
| main_cancel: "cr_main s = MClose \<Longrightarrow> \<not> cr_closed s \<Longrightarrow> main_step s (s\<lparr>cr_main := MClosing, cr_close := Cancelled\<rparr>)"
| main_closed: "cr_main s = MClosing \<Longrightarrow> cr_close s = Closed \<Longrightarrow> main_step s (s\<lparr>cr_main := MDone\<rparr>)"

inductive keepalive_step :: "bool \<Rightarrow> client_run \<Rightarrow> client_run \<Rightarrow> bool" where
  keep_stop: "cr_keepalive s = KWait \<Longrightarrow> cr_closed s \<or> clientDone s \<Longrightarrow> keepalive_step remote s (s\<lparr>cr_keepalive := KDone\<rparr>)"
| keep_tick: "cr_keepalive s = KWait \<Longrightarrow> keepalive_step remote s (s\<lparr>cr_keepalive := KTick\<rparr>)"
| keep_closed: "cr_keepalive s = KTick \<Longrightarrow> cr_closed s \<Longrightarrow> keepalive_step remote s (s\<lparr>cr_keepalive := KDone\<rparr>)"
| keep_failed: "cr_keepalive s = KTick \<Longrightarrow> \<not> cr_closed s \<Longrightarrow> remote \<Longrightarrow> keepalive_step remote s (s\<lparr>cr_keepalive := KDone\<rparr>)"
| keep_sent: "cr_keepalive s = KTick \<Longrightarrow> \<not> cr_closed s \<Longrightarrow> remote \<Longrightarrow> keepalive_step remote s (s\<lparr>cr_keepalive := KWait\<rparr>)"

inductive client_reader_step :: "bool \<Rightarrow> nat \<Rightarrow> bool \<Rightarrow> client_run \<Rightarrow> client_run \<Rightarrow> bool" where
  client_stop: "cr_client s = CSelect \<Longrightarrow> cr_closed s \<Longrightarrow> client_reader_step alt n remote s (s\<lparr>cr_client := CDone\<rparr>)"
| client_default: "cr_client s = CSelect \<Longrightarrow> \<not> cr_closed s \<Longrightarrow> client_reader_step alt n remote s (s\<lparr>cr_client := CRead\<rparr>)"
| client_leaves: "cr_client s = CRead \<Longrightarrow> connOpen s \<Longrightarrow> remote \<Longrightarrow> client_reader_step alt n remote s (s\<lparr>cr_client := CDone\<rparr>)"
| client_error: "cr_client s = CRead \<Longrightarrow> remote \<or> \<not> connOpen s \<Longrightarrow> client_reader_step alt n remote s (s\<lparr>cr_client := CSend\<rparr>)"
| client_message: "cr_client s = CRead \<Longrightarrow> connOpen s \<Longrightarrow> remote \<Longrightarrow> client_reader_step alt n remote s (s\<lparr>cr_client := CWrite\<rparr>)"
| client_forward: "cr_client s = CWrite \<Longrightarrow> cr_backendConn s \<in> set (cr_open s) \<Longrightarrow> remote \<Longrightarrow>
    client_reader_step alt n remote s (s\<lparr>cr_client := CSelect, cr_errorCount := 0\<rparr>)"
| client_write_failed: "cr_client s = CWrite \<Longrightarrow> remote \<or> cr_backendConn s \<notin> set (cr_open s) \<Longrightarrow>
    client_reader_step alt n remote s ((backend_error n s)\<lparr>cr_client := CSend\<rparr>)"
| client_failover: "cr_client s = CWrite \<Longrightarrow> remote \<or> cr_backendConn s \<notin> set (cr_open s) \<Longrightarrow> alt \<Longrightarrow> n \<le> cr_errorCount s + 1 \<Longrightarrow>
    client_reader_step alt n remote s ((backend_error n s)\<lparr>cr_client := CSwap (cr_next s), cr_next := cr_next s + 1,
      cr_open := cr_next s # removeAll (cr_backendConn s) (cr_open s)\<rparr>)"
| client_swap: "cr_client s = CSwap k \<Longrightarrow>
    client_reader_step alt n remote s (s\<lparr>cr_client := CSelect, cr_backendConn := k, cr_errorCount := 0\<rparr>)"
| client_send: "cr_client s = CSend \<Longrightarrow> cr_errChan s < errChan_size \<Longrightarrow>
    client_reader_step alt n remote s (s\<lparr>cr_client := CDone, cr_errChan := cr_errChan s + 1\<rparr>)"

inductive backend_reader_step :: "bool \<Rightarrow> nat \<Rightarrow> bool \<Rightarrow> client_run \<Rightarrow> client_run \<Rightarrow> bool" where
  backend_stop: "cr_backend s = BSelect \<Longrightarrow> cr_closed s \<or> clientDone s \<Longrightarrow> backend_reader_step alt n remote s (s\<lparr>cr_backend := BDone\<rparr>)"
| backend_default: "cr_backend s = BSelect \<Longrightarrow> \<not> cr_closed s \<Longrightarrow> \<not> clientDone s \<Longrightarrow>
    backend_reader_step alt n remote s (s\<lparr>cr_backend := BPick\<rparr>)"
| backend_pick: "cr_backend s = BPick \<Longrightarrow> backend_reader_step alt n remote s (s\<lparr>cr_backend := BRead (cr_backendConn s)\<rparr>)"
| backend_leaves: "cr_backend s = BRead k \<Longrightarrow> k \<in> set (cr_open s) \<Longrightarrow> remote \<Longrightarrow>
    backend_reader_step alt n remote s (s\<lparr>cr_backend := BDone\<rparr>)"
| backend_read_failed: "cr_backend s = BRead k \<Longrightarrow> remote \<or> k \<notin> set (cr_open s) \<Longrightarrow>
    backend_reader_step alt n remote s ((backend_error n s)\<lparr>cr_backend := BSend\<rparr>)"
| backend_failover: "cr_backend s = BRead k \<Longrightarrow> remote \<or> k \<notin> set (cr_open s) \<Longrightarrow> alt \<Longrightarrow> n \<le> cr_errorCount s + 1 \<Longrightarrow>
    backend_reader_step alt n remote s ((backend_error n s)\<lparr>cr_backend := BSelect, cr_backendConn := cr_next s, cr_next := cr_next s + 1,
      cr_open := cr_next s # cr_open s, cr_errorCount := 0\<rparr>)"
| backend_message: "cr_backend s = BRead k \<Longrightarrow> k \<in> set (cr_open s) \<Longrightarrow> remote \<Longrightarrow>
    backend_reader_step alt n remote s (s\<lparr>cr_backend := BForward\<rparr>)"
| backend_closed: "cr_backend s = BForward \<Longrightarrow> cr_closed s \<Longrightarrow> backend_reader_step alt n remote s (s\<lparr>cr_backend := BDone\<rparr>)"
| backend_forward: "cr_backend s = BForward \<Longrightarrow> \<not> cr_closed s \<Longrightarrow> remote \<Longrightarrow>
    backend_reader_step alt n remote s (s\<lparr>cr_backend := BSelect\<rparr>)"
| backend_write_failed: "cr_backend s = BForward \<Longrightarrow> \<not> cr_closed s \<Longrightarrow> remote \<Longrightarrow>
    backend_reader_step alt n remote s (s\<lparr>cr_backend := BSend\<rparr>)"
| backend_send: "cr_backend s = BSend \<Longrightarrow> cr_errChan s < errChan_size \<Longrightarrow>
    backend_reader_step alt n remote s (s\<lparr>cr_backend := BDone, cr_errChan := cr_errChan s + 1\<rparr>)"

definition client_step :: "bool \<Rightarrow> nat \<Rightarrow> bool \<Rightarrow> client_run \<Rightarrow> client_run \<Rightarrow> bool" where
  "client_step alt n remote s s' \<longleftrightarrow> close_step s s' \<or> main_step s s' \<or> keepalive_step remote s s' \<or>
     client_reader_step alt n remote s s' \<or> backend_reader_step alt n remote s s'"

lemmas client_steps = close_step.intros main_step.intros keepalive_step.intros client_reader_step.intros backend_reader_step.intros

inductive_cases close_stepE: "close_step s s'"
inductive_cases main_stepE: "main_step s s'"
inductive_cases keepalive_stepE: "keepalive_step remote s s'"
inductive_cases client_reader_stepE: "client_reader_step alt n remote s s'"
inductive_cases backend_reader_stepE: "backend_reader_step alt n remote s s'"

lemmas client_stepE = close_stepE main_stepE keepalive_stepE client_reader_stepE backend_reader_stepE

lemma client_step_cases [consumes 1]:
  assumes "client_step alt n remote s s'"
  obtains (close) "close_step s s'" | (main) "main_step s s'" | (keepalive) "keepalive_step remote s s'"
  | (client) "client_reader_step alt n remote s s'" | (backend) "backend_reader_step alt n remote s s'"
  using assms by (auto simp: client_step_def)

lemma backend_error_fields [simp]:
  "cr_close (backend_error n s) = cr_close s" "cr_main (backend_error n s) = cr_main s"
  "cr_keepalive (backend_error n s) = cr_keepalive s" "cr_client (backend_error n s) = cr_client s"
  "cr_backend (backend_error n s) = cr_backend s" "cr_errChan (backend_error n s) = cr_errChan s"
  "cr_backendConn (backend_error n s) = cr_backendConn s" "cr_open (backend_error n s) = cr_open s"
  "cr_next (backend_error n s) = cr_next s"
  by (simp_all add: backend_error_def Let_def)

section \<open>Invariant\<close>

text \<open>
  Each reader sends at most one error, when it ends, so the channel never fills. Without a second
  backend the first connection is the only one there is.
\<close>

definition client_inv :: "bool \<Rightarrow> client_run \<Rightarrow> bool" where
  "client_inv alt s \<longleftrightarrow>
     cr_errChan s \<le> (if cr_client s = CDone then 1 else 0) + (if cr_backend s = BDone then 1 else 0) \<and>
     (cr_close s = NotClosed \<longrightarrow> cr_main s \<noteq> MClosing) \<and>
     (\<not> alt \<longrightarrow> cr_backendConn s = 0 \<and> set (cr_open s) \<subseteq> {0} \<and> (\<forall>k. cr_client s \<noteq> CSwap k) \<and>
        (\<forall>k. cr_backend s = BRead k \<longrightarrow> k = 0) \<and> (cr_close s = Closed \<longrightarrow> cr_open s = []))"

lemma client_inv_start: "client_inv alt handleClient_running"
  by (simp add: client_inv_def handleClient_running_def)

lemma removeAll_only [simp]: "set xs \<subseteq> {k} \<Longrightarrow> removeAll k xs = []"
  by (induction xs) auto

lemma client_inv_step:
  assumes "client_step alt n remote s s'" and "client_inv alt s"
  shows "client_inv alt s'"
  using assms
  by (cases rule: client_step_cases; (elim client_stepE; auto simp: client_inv_def cr_closed_def split: if_splits))

lemma client_inv_run: "(client_step alt n remote)\<^sup>*\<^sup>* s s' \<Longrightarrow> client_inv alt s \<Longrightarrow> client_inv alt s'"
  by (induction rule: rtranclp_induct) (auto intro: client_inv_step)

section \<open>After a close\<close>

text \<open>Once the context is cancelled every step uses up one of at most 17.\<close>

fun close_left :: "close_pc \<Rightarrow> nat" where
  "close_left NotClosed = 3" | "close_left Cancelled = 2" | "close_left ConnClosed = 1" | "close_left Closed = 0"

fun main_left :: "main_pc \<Rightarrow> nat" where
  "main_left MWait = 3" | "main_left MClose = 2" | "main_left MClosing = 1" | "main_left MDone = 0"

fun keepalive_left :: "keepalive_pc \<Rightarrow> nat" where
  "keepalive_left KWait = 2" | "keepalive_left KTick = 1" | "keepalive_left KDone = 0"

fun client_left :: "client_pc \<Rightarrow> nat" where
  "client_left CRead = 5" | "client_left CWrite = 4" | "client_left (CSwap k) = 3" | "client_left CSelect = 2"
| "client_left CSend = 1" | "client_left CDone = 0"

fun backend_left :: "backend_pc \<Rightarrow> nat" where
  "backend_left BPick = 5" | "backend_left (BRead k) = 4" | "backend_left BForward = 3" | "backend_left BSelect = 2"
| "backend_left BSend = 1" | "backend_left BDone = 0"

definition steps_left :: "client_run \<Rightarrow> nat" where
  "steps_left s = close_left (cr_close s) + main_left (cr_main s) + keepalive_left (cr_keepalive s) +
     client_left (cr_client s) + backend_left (cr_backend s)"

lemma closed_step:
  assumes "client_step alt n remote s s'" and "cr_closed s"
  shows "cr_closed s' \<and> steps_left s' < steps_left s"
  using assms by (cases rule: client_step_cases) (elim client_stepE; simp add: cr_closed_def steps_left_def)+

lemma closed_run:
  "(client_step alt n remote ^^ k) s s' \<Longrightarrow> cr_closed s \<Longrightarrow> cr_closed s' \<and> k + steps_left s' \<le> steps_left s"
proof (induction k arbitrary: s')
  case (Suc k)
  then obtain s1 where "(client_step alt n remote ^^ k) s s1" "client_step alt n remote s1 s'" by auto
  then show ?case using Suc closed_step [of alt n remote s1 s'] by fastforce
qed simp

lemma steps_left_closed: "cr_closed s \<Longrightarrow> steps_left s \<le> 17"
proof -
  assume "cr_closed s"
  then have "close_left (cr_close s) \<le> 2" by (cases "cr_close s") (simp_all add: cr_closed_def)
  moreover have "main_left (cr_main s) \<le> 3" by (cases "cr_main s") simp_all
  moreover have "keepalive_left (cr_keepalive s) \<le> 2" by (cases "cr_keepalive s") simp_all
  moreover have "client_left (cr_client s) \<le> 5" by (cases "cr_client s") simp_all
  moreover have "backend_left (cr_backend s) \<le> 5" by (cases "cr_backend s") simp_all
  ultimately show ?thesis by (simp add: steps_left_def)
qed

definition goroutines_done :: "client_run \<Rightarrow> bool" where
  "goroutines_done s \<longleftrightarrow> cr_main s = MDone \<and> cr_keepalive s = KDone \<and> cr_client s = CDone \<and> cr_backend s = BDone"

definition waits_for_peer :: "client_run \<Rightarrow> bool" where
  "waits_for_peer s \<longleftrightarrow> (cr_client s = CWrite \<and> cr_backendConn s \<in> set (cr_open s)) \<or> (\<exists>k \<in> set (cr_open s). cr_backend s = BRead k)"

text \<open>When the program itself can do nothing more, every goroutine has ended or one waits for a peer.\<close>

lemma closed_stuck:
  assumes stuck: "\<nexists>s'. client_step alt n False s s'" and inv: "client_inv alt s" and "cr_closed s"
  shows "cr_close s = Closed \<and> (goroutines_done s \<or> waits_for_peer s)"
proof (cases "waits_for_peer s")
  case False
  have no: "\<not> close_step s s'" "\<not> main_step s s'" "\<not> keepalive_step False s s'" "\<not> client_reader_step alt n False s s'"
      "\<not> backend_reader_step alt n False s s'" for s'
    using stuck by (auto simp: client_step_def)
  have room: "cr_errChan s < errChan_size" using inv by (auto simp: client_inv_def errChan_size_def split: if_splits)
  have cl: "cr_close s = Closed"
    using no(1) assms(3) by (cases "cr_close s") (auto simp: cr_closed_def intro: close_step.intros)
  then have conn: "\<not> connOpen s" by (simp add: connOpen_def)
  have "cr_main s = MDone"
    using no(2) cl assms(3) by (cases "cr_main s") (auto intro: main_step.intros)
  moreover have "cr_keepalive s = KDone"
    using no(3) assms(3) by (cases "cr_keepalive s") (auto intro: keepalive_step.intros)
  moreover have "cr_client s = CDone"
    using no(4) conn assms(3) room False
    by (cases "cr_client s") (auto simp: waits_for_peer_def intro: client_reader_step.intros)
  moreover have "cr_backend s = BDone"
    using no(5) assms(3) room False
    by (cases "cr_backend s") (auto simp: waits_for_peer_def intro: backend_reader_step.intros)
  ultimately show ?thesis using cl by (simp add: goroutines_done_def)
qed (use stuck assms(3) in \<open>cases "cr_close s"; auto simp: client_step_def cr_closed_def intro: close_step.intros\<close>)

text \<open>
  C11: Once \<open>closeConnection\<close> has cancelled a client, its goroutines take at most 17 more steps, whatever
  the peers do and however the goroutines interleave. When the program itself can do nothing more,
  all four goroutines have ended; with a single backend its connection is closed too, and with
  several the only exception is a reader that waits on a connection a failover has left open.
\<close>

theorem closed_client_ends:
  assumes "(client_step alt n True)\<^sup>*\<^sup>* handleClient_running s" and "cr_closed s" and "(client_step alt n True ^^ k) s s'"
  shows "k \<le> 17 \<and>
    ((\<nexists>s''. client_step alt n False s' s'') \<longrightarrow>
       goroutines_done s' \<and> (alt \<or> cr_open s' = []) \<or> alt \<and> waits_for_peer s')"
proof (intro conjI impI)
  have run: "cr_closed s'" "k + steps_left s' \<le> steps_left s" using closed_run [OF assms(3,2)] by auto
  then show "k \<le> 17" using steps_left_closed [OF assms(2)] by simp
  assume stuck: "\<nexists>s''. client_step alt n False s' s''"
  have "(client_step alt n True)\<^sup>*\<^sup>* handleClient_running s'"
    using assms(1,3) by (meson relpowp_imp_rtranclp rtranclp_trans)
  then have inv: "client_inv alt s'" using client_inv_run client_inv_start by blast
  then show "goroutines_done s' \<and> (alt \<or> cr_open s' = []) \<or> alt \<and> waits_for_peer s'"
    using closed_stuck [OF stuck inv run(1)] by (auto simp: client_inv_def waits_for_peer_def)
qed

section \<open>A failover after the close\<close>

lemma client_runI:
  assumes "(client_step alt n remote)\<^sup>*\<^sup>* s' t"
  shows "close_step s s' \<Longrightarrow> (client_step alt n remote)\<^sup>*\<^sup>* s t" "main_step s s' \<Longrightarrow> (client_step alt n remote)\<^sup>*\<^sup>* s t"
    "keepalive_step remote s s' \<Longrightarrow> (client_step alt n remote)\<^sup>*\<^sup>* s t"
    "client_reader_step alt n remote s s' \<Longrightarrow> (client_step alt n remote)\<^sup>*\<^sup>* s t"
    "backend_reader_step alt n remote s s' \<Longrightarrow> (client_step alt n remote)\<^sup>*\<^sup>* s t"
  using assms by (auto simp: client_step_def intro: converse_rtranclp_into_rtranclp)

lemmas client_run_defs = handleClient_running_def cr_closed_def clientDone_def connOpen_def errChan_size_def backend_error_def

lemma close_then_leak:
  "\<exists>s. (client_step True 1 False)\<^sup>*\<^sup>* handleClient_running s \<and> goroutines_done s \<and> cr_open s = [1] \<and> cr_blamed s = 1"
  apply (intro exI conjI)
  apply (rule client_runI(4) [rotated], rule client_default; simp add: client_run_defs)
  apply (rule client_runI(5) [rotated], rule backend_default; simp add: client_run_defs)
  apply (rule client_runI(5) [rotated], rule backend_pick; simp add: client_run_defs)
  apply (rule client_runI(1) [rotated], rule close_cancel; simp add: client_run_defs)
  apply (rule client_runI(1) [rotated], rule close_conn; simp add: client_run_defs)
  apply (rule client_runI(1) [rotated], rule close_backend; simp add: client_run_defs)
  apply (rule client_runI(5) [rotated], rule backend_failover; simp add: client_run_defs)
  apply (rule client_runI(5) [rotated], rule backend_stop; simp add: client_run_defs)
  apply (rule client_runI(4) [rotated], rule client_error; simp add: client_run_defs)
  apply (rule client_runI(4) [rotated], rule client_send; simp add: client_run_defs)
  apply (rule client_runI(3) [rotated], rule keep_stop; simp add: client_run_defs)
  apply (rule client_runI(2) [rotated], rule main_ctx; simp add: client_run_defs)
  apply (rule client_runI(2) [rotated], rule main_lost; simp add: client_run_defs)
  apply (rule rtranclp.rtrancl_refl)
  apply (simp_all add: goroutines_done_def client_run_defs)
  done

lemma close_then_wait:
  "\<exists>s. (client_step True 1 True)\<^sup>*\<^sup>* handleClient_running s \<and> cr_close s = Closed \<and> cr_backend s = BRead 1 \<and> cr_open s = [1] \<and>
     cr_main s = MDone \<and> cr_keepalive s = KDone \<and> cr_client s = CDone"
  apply (intro exI conjI)
  apply (rule client_runI(4) [rotated], rule client_default; simp add: client_run_defs)
  apply (rule client_runI(4) [rotated], rule client_message; simp add: client_run_defs)
  apply (rule client_runI(5) [rotated], rule backend_default; simp add: client_run_defs)
  apply (rule client_runI(1) [rotated], rule close_cancel; simp add: client_run_defs)
  apply (rule client_runI(1) [rotated], rule close_conn; simp add: client_run_defs)
  apply (rule client_runI(1) [rotated], rule close_backend; simp add: client_run_defs)
  apply (rule client_runI(4) [rotated], rule client_failover; simp add: client_run_defs)
  apply (rule client_runI(4) [rotated], rule client_swap; simp add: client_run_defs)
  apply (rule client_runI(4) [rotated], rule client_stop; simp add: client_run_defs)
  apply (rule client_runI(5) [rotated], rule backend_pick; simp add: client_run_defs)
  apply (rule client_runI(3) [rotated], rule keep_stop; simp add: client_run_defs)
  apply (rule client_runI(2) [rotated], rule main_ctx; simp add: client_run_defs)
  apply (rule client_runI(2) [rotated], rule main_lost; simp add: client_run_defs)
  apply (rule rtranclp.rtrancl_refl)
  apply (simp_all add: client_run_defs)
  done

text \<open>
  C17: With the default threshold of one error and a second backend, closing a client makes its
  backend reader fail over: the program alone, with no error of any peer, reaches a state where
  all goroutines have ended, the backend that worked is marked unhealthy, and a new connection is
  left open for good. If a message of the client comes in at the same time, the reader can also
  be left waiting on the new connection, so that \<open>Stop\<close> waits for the backend.
\<close>

theorem failover_after_close:
  "(\<exists>s. (client_step True 1 False)\<^sup>*\<^sup>* handleClient_running s \<and> goroutines_done s \<and> cr_open s = [1] \<and> cr_blamed s = 1) \<and>
   (\<exists>s. (client_step True 1 True)\<^sup>*\<^sup>* handleClient_running s \<and> cr_close s = Closed \<and> waits_for_peer s \<and>
      (\<nexists>s'. client_step True 1 False s s'))"
proof -
  obtain s where s: "(client_step True 1 True)\<^sup>*\<^sup>* handleClient_running s" "cr_close s = Closed" "cr_backend s = BRead 1" "cr_open s = [1]"
      "cr_main s = MDone" "cr_keepalive s = KDone" "cr_client s = CDone"
    using close_then_wait by blast
  then have "\<not> client_step True 1 False s s'" for s'
    by (auto simp: client_step_def elim!: client_stepE)
  then show ?thesis using s close_then_leak by (auto simp: waits_for_peer_def)
qed

lemma cancelled_run:
  "\<exists>s'. (client_step False 1 True)\<^sup>*\<^sup>* (handleClient_running\<lparr>cr_close := Cancelled\<rparr>) s' \<and> goroutines_done s' \<and> cr_close s' = Closed"
  apply (intro exI conjI)
  apply (rule client_runI(1) [rotated], rule close_conn; simp add: client_run_defs)
  apply (rule client_runI(1) [rotated], rule close_backend; simp add: client_run_defs)
  apply (rule client_runI(4) [rotated], rule client_stop; simp add: client_run_defs)
  apply (rule client_runI(5) [rotated], rule backend_stop; simp add: client_run_defs)
  apply (rule client_runI(3) [rotated], rule keep_stop; simp add: client_run_defs)
  apply (rule client_runI(2) [rotated], rule main_ctx; simp add: client_run_defs)
  apply (rule client_runI(2) [rotated], rule main_lost; simp add: client_run_defs)
  apply (rule rtranclp.rtrancl_refl)
  apply (simp_all add: goroutines_done_def client_run_defs)
  done

theorem closed_client_ends_witness:
  "\<exists>s k s'. (client_step False 1 True)\<^sup>*\<^sup>* handleClient_running s \<and> cr_closed s \<and> (client_step False 1 True ^^ k) s s' \<and>
     (\<nexists>s''. client_step False 1 False s' s'') \<and> k \<le> 17 \<and> goroutines_done s' \<and> cr_open s' = []"
proof -
  let ?s = "handleClient_running\<lparr>cr_close := Cancelled\<rparr>"
  obtain s' where s': "(client_step False 1 True)\<^sup>*\<^sup>* ?s s'" "goroutines_done s'" "cr_close s' = Closed" using cancelled_run by blast
  then obtain k where k: "(client_step False 1 True ^^ k) ?s s'" using rtranclp_imp_relpowp by metis
  have "client_step False 1 True handleClient_running ?s"
    unfolding client_step_def by (rule disjI1, rule close_cancel) (simp add: handleClient_running_def)
  then have start: "(client_step False 1 True)\<^sup>*\<^sup>* handleClient_running ?s" "cr_closed ?s" by (auto simp: cr_closed_def)
  have "\<not> client_step False 1 False s' s''" for s''
    using s'(2,3) by (auto simp: client_step_def goroutines_done_def elim!: client_stepE)
  then show ?thesis using closed_client_ends [OF start k] start k s'(2) by (auto intro!: exI)
qed

end
