(* ===== verification/AMI_Client.thy ===== *)
theory AMI_Client
  imports Circuit_Breaker
begin

text \<open>
  The Asterisk Manager Interface client of \<open>pkg/ami/ami.go\<close>: messages on the wire, connecting and
  disconnecting (with the channels that end the background goroutines), sending an action, and
  reading responses. \<open>c.mu\<close> is not re-entrant: a method that takes it while its own goroutine
  holds it has the outcome \<open>Blocked\<close>. What the network does during a call is an argument.
\<close>

section \<open>Messages\<close>

type_synonym message = "(string \<times> string) list"

text \<open>The bytes \<open>sendActionLocked\<close> writes for an action, its fields in the order of \<open>range\<close>.\<close>

definition format_field :: "string \<times> string \<Rightarrow> string" where
  "format_field = (\<lambda>(k, v). k @ '': '' @ v @ crlf)"

definition format_action :: "message \<Rightarrow> string" where
  "format_action action = concat (map format_field action) @ crlf"

text \<open>\<open>reader.ReadString('\n')\<close>: a line with its line feed and the rest, \<open>None\<close> at the end of input.\<close>

fun ReadString :: "string \<Rightarrow> (string \<times> string) option" where
  "ReadString [] = None"
| "ReadString (c # cs) =
     (if c = LF then Some ([c], cs)
      else map_option (\<lambda>(l, rest). (c # l, rest)) (ReadString cs))"

lemma ReadString_shorter: "ReadString s = Some (l, rest) \<Longrightarrow> length rest < length s"
  by (induction s arbitrary: l) (auto split: if_splits)

definition TrimRight_crlf :: "string \<Rightarrow> string" where
  "TrimRight_crlf s = rev (dropWhile (\<lambda>c. c = CR \<or> c = LF) (rev s))"

text \<open>\<open>strings.SplitN(line, ":", 2)\<close>, \<open>None\<close> when there are not two parts.\<close>

fun SplitN_colon :: "string \<Rightarrow> (string \<times> string) option" where
  "SplitN_colon [] = None"
| "SplitN_colon (c # cs) =
     (if c = CHR '':'' then Some ([], cs) else map_option (\<lambda>(k, v). (c # k, v)) (SplitN_colon cs))"

text \<open>The inner loop of \<open>readLoop\<close>: one message and the rest of the input, \<open>None\<close> on a read error.\<close>

function read_message :: "string \<Rightarrow> message \<Rightarrow> (message \<times> string) option" where
  "read_message input response =
     (case ReadString input of
        None \<Rightarrow> None
      | Some (l, rest) \<Rightarrow>
          (let line = TrimRight_crlf l
           in if line = [] then Some (response, rest)
              else case SplitN_colon line of
                None \<Rightarrow> read_message rest response
              | Some (k, v) \<Rightarrow> read_message rest (AList.update (TrimSpace k) (TrimSpace v) response)))"
  by pat_completeness auto
termination
  by (relation "measure (length \<circ> fst)") (auto dest: ReadString_shorter)

declare read_message.simps [simp del]

section \<open>State\<close>

record AMIClient =
  ac_address :: string
  ac_username :: string
  ac_secret :: string
  ac_timeout :: duration
  ac_conn :: bool
  ac_connected :: bool
  ac_bannerReceived :: bool
  ac_responseChans :: "string list"
  ac_circuitBreaker :: CircuitBreaker
  ac_stopClosed :: bool
  ac_doneClosed :: bool
  ac_dispatchers :: nat
  ac_connectedChan :: "bool option"
  ac_connectionAttemptTime :: gotime

record ami_Config =
  amc_Address :: string
  amc_Username :: string
  amc_Secret :: string
  amc_Timeout :: duration
  amc_CircuitBreaker :: CircuitBreakerConfig

datatype ami_error =
    AddressRequired | UsernameRequired | SecretRequired | Throttled | BreakerRefused | AmiDialFailed
  | BannerFailed | LoginWriteFailed | PingWriteFailed | NotConnected ami_error | NoActiveConnection
  | SendFailed | ResponseChannelClosed | AMIErrorResponse string | ResponseTimeout

definition AMI_New :: "gotime \<Rightarrow> ami_Config \<Rightarrow> (ami_error, AMIClient) outcome" where
  "AMI_New now config =
     (if amc_Address config = [] then Fail AddressRequired
      else if amc_Username config = [] then Fail UsernameRequired
      else if amc_Secret config = [] then Fail SecretRequired
      else Ret \<lparr>ac_address = amc_Address config, ac_username = amc_Username config, ac_secret = amc_Secret config,
                ac_timeout = (if amc_Timeout config \<le> 0 then 10 * Second else amc_Timeout config),
                ac_conn = False, ac_connected = False, ac_bannerReceived = False, ac_responseChans = [],
                ac_circuitBreaker = NewCircuitBreaker (''ami-'' @ amc_Address config) (amc_CircuitBreaker config) now,
                ac_stopClosed = False, ac_doneClosed = False, ac_dispatchers = 0, ac_connectedChan = None,
                ac_connectionAttemptTime = 0\<rparr>)"

definition getLastConnectionAttempt :: "AMIClient \<Rightarrow> gotime" where
  "getLastConnectionAttempt c = ac_connectionAttemptTime c"

definition AMI_IsConnected :: "AMIClient \<Rightarrow> bool" where
  "AMI_IsConnected c = ac_connected c"

definition IsBannerReceived :: "AMIClient \<Rightarrow> bool" where
  "IsBannerReceived c = ac_bannerReceived c"

definition GetAddress :: "AMIClient \<Rightarrow> string" where
  "GetAddress c = ac_address c"

section \<open>Connecting\<close>

text \<open>What the server and the network do during one connection attempt.\<close>

record connect_io =
  ci_now :: gotime
  ci_dial :: bool
  ci_banner :: bool
  ci_login :: bool
  ci_ping :: bool

definition closeConn :: "AMIClient \<Rightarrow> AMIClient" where
  "closeConn c = c\<lparr>ac_conn := False, ac_bannerReceived := False\<rparr>"

definition ami_failure :: "gotime \<Rightarrow> AMIClient \<Rightarrow> AMIClient" where
  "ami_failure now c = c\<lparr>ac_circuitBreaker := RecordFailure now (ac_circuitBreaker c)\<rparr>"

definition ami_success :: "gotime \<Rightarrow> AMIClient \<Rightarrow> AMIClient" where
  "ami_success now c = c\<lparr>ac_circuitBreaker := RecordSuccess now (ac_circuitBreaker c)\<rparr>"

text \<open>
  \<open>close(c.stopChan)\<close> panics on a channel that is closed. Every dispatcher that sees the closed
  channel ends with \<open>close(c.doneChan)\<close>, which panics when it is closed already; that goroutine
  has no \<open>recover\<close>, so the panic ends the program. \<open>stop_dispatchers\<close> is that moment: all the
  running dispatchers end when the stop channel is closed.
\<close>

definition close_stop :: "AMIClient \<Rightarrow> AMIClient \<times> (ami_error, unit) outcome" where
  "close_stop c = (if ac_stopClosed c then (c, Panic CloseOfClosedChannel) else (c\<lparr>ac_stopClosed := True\<rparr>, Ret ()))"

definition stop_dispatchers :: "AMIClient \<Rightarrow> AMIClient \<times> (ami_error, unit) outcome" where
  "stop_dispatchers c =
     (if ac_dispatchers c = 0 \<or> \<not> ac_stopClosed c then (c, Ret ())
      else if ac_doneClosed c \<or> 2 \<le> ac_dispatchers c then (c, Panic CloseOfClosedChannel)
      else (c\<lparr>ac_dispatchers := 0, ac_doneClosed := True\<rparr>, Ret ()))"

text \<open>
  A connection left over from a failed send is closed together with its goroutines, and only
  then are the two channels made anew.
\<close>

definition close_old :: "AMIClient \<Rightarrow> AMIClient \<times> (ami_error, unit) outcome" where
  "close_old c =
     (if \<not> ac_conn c then (c, Ret ())
      else case close_stop (closeConn c) of
        (c, Ret _) \<Rightarrow>
          (case stop_dispatchers c of
             (c, Ret _) \<Rightarrow> (c\<lparr>ac_stopClosed := False, ac_doneClosed := False\<rparr>, Ret ())
           | (c, r) \<Rightarrow> (c, r))
      | (c, r) \<Rightarrow> (c, r))"

definition send_banner_signal :: "bool \<Rightarrow> AMIClient \<Rightarrow> AMIClient" where
  "send_banner_signal b c = (if ac_connectedChan c = None then c\<lparr>ac_connectedChan := Some b\<rparr> else c)"

definition abort_login :: "gotime \<Rightarrow> ami_error \<Rightarrow> AMIClient \<Rightarrow> AMIClient \<times> (ami_error, unit) outcome" where
  "abort_login now e c =
     (case close_stop c of
        (c, Ret _) \<Rightarrow>
          (case stop_dispatchers (ami_failure now (closeConn c)) of
             (c, Ret _) \<Rightarrow> (c, Fail e)
           | (c, r) \<Rightarrow> (c, r))
      | (c, r) \<Rightarrow> (c, r))"

text \<open>\<open>connectImpl\<close> after it has taken \<open>c.mu\<close>.\<close>

definition connectImpl :: "connect_io \<Rightarrow> AMIClient \<Rightarrow> AMIClient \<times> (ami_error, unit) outcome" where
  "connectImpl io c =
     (if ac_connected c then (c, Ret ())
      else let now = ci_now io; (cb, allowed) = AllowRequest now (ac_circuitBreaker c);
               c = c\<lparr>ac_circuitBreaker := cb\<rparr>
           in if \<not> allowed then (c, Fail BreakerRefused)
              else case close_old c of
                (c, Ret _) \<Rightarrow>
                  (if \<not> ci_dial io then (ami_failure now c, Fail AmiDialFailed)
                   else let c = c\<lparr>ac_conn := True\<rparr>
                        in if \<not> ci_banner io then (ami_failure now c, Fail BannerFailed)
                           else let c = send_banner_signal True (c\<lparr>ac_bannerReceived := True\<rparr>);
                                    c = c\<lparr>ac_dispatchers := ac_dispatchers c + 1\<rparr>
                                in case stop_dispatchers c of
                                     (c, Ret _) \<Rightarrow>
                                       (if \<not> ci_login io then abort_login now LoginWriteFailed c
                                        else if \<not> ci_ping io then abort_login now PingWriteFailed c
                                        else (ami_success now (c\<lparr>ac_connected := True\<rparr>), Ret ()))
                                   | (c, r) \<Rightarrow> (c, r))
              | (c, r) \<Rightarrow> (c, r))"

definition Connect :: "connect_io \<Rightarrow> AMIClient \<Rightarrow> AMIClient \<times> (ami_error, unit) outcome" where
  "Connect io c =
     (if ac_connected c then (c, Ret ())
      else if ci_now io - ac_connectionAttemptTime c < 5 * Second then (c, Fail Throttled)
      else connectImpl io (c\<lparr>ac_connectionAttemptTime := ci_now io\<rparr>))"

definition AMI_Reconnect :: "connect_io \<Rightarrow> AMIClient \<Rightarrow> AMIClient \<times> (ami_error, unit) outcome" where
  "AMI_Reconnect io c = Connect io c"

text \<open>
  \<open>ConnectNonBlocking\<close> drains the signal channel and connects in the background; the result here
  is the state once that attempt is over.
\<close>

definition ConnectNonBlocking :: "connect_io \<Rightarrow> AMIClient \<Rightarrow> AMIClient \<times> (ami_error, unit) outcome" where
  "ConnectNonBlocking io c =
     (let c = c\<lparr>ac_connectedChan := None\<rparr>
      in if ac_connected c then (c\<lparr>ac_connectedChan := Some True\<rparr>, Ret ())
         else case Connect io c of
           (c, Fail e) \<Rightarrow> (send_banner_signal False c, Ret ())
         | (c, r) \<Rightarrow> (c, r))"

text \<open>\<open>WaitForBanner\<close>; \<open>expired\<close> says that the timer fires before a signal arrives.\<close>

definition WaitForBanner :: "bool \<Rightarrow> AMIClient \<Rightarrow> AMIClient \<times> bool" where
  "WaitForBanner expired c =
     (case ac_connectedChan c of
        Some b \<Rightarrow> if expired then (c, False) else (c\<lparr>ac_connectedChan := None\<rparr>, b)
      | None \<Rightarrow> (c, False))"

definition Disconnect :: "AMIClient \<Rightarrow> AMIClient \<times> (ami_error, unit) outcome" where
  "Disconnect c =
     (if \<not> ac_connected c then (c, Ret ())
      else case close_stop c of
        (c, Ret _) \<Rightarrow> stop_dispatchers ((closeConn c)\<lparr>ac_connected := False, ac_responseChans := []\<rparr>)
      | (c, r) \<Rightarrow> (c, r))"

text \<open>The deferred cleanup of \<open>readLoop\<close>: a read error ends the connection, not the dispatcher.\<close>

definition readLoop_cleanup :: "AMIClient \<Rightarrow> AMIClient" where
  "readLoop_cleanup c = c\<lparr>ac_connected := False, ac_responseChans := [], ac_conn := False\<rparr>"

section \<open>Sending an action\<close>

text \<open>What ends the wait for the response: a response, a closed channel, or the timer.\<close>

datatype wait_result = GotResponse message | ChannelClosed | TimerFired

record send_io =
  si_now :: gotime
  si_write :: bool
  si_wait :: wait_result
  si_connect :: connect_io

definition field :: "string \<Rightarrow> message \<Rightarrow> string" where
  "field k m = (case map_of m k of Some v \<Rightarrow> v | None \<Rightarrow> [])"

definition with_ActionID :: "gotime \<Rightarrow> message \<Rightarrow> message" where
  "with_ActionID now action =
     (if map_of action ''ActionID'' = None
      then AList.update ''ActionID'' (''AMI-'' @ fmt_d (UnixNano now)) action else action)"

text \<open>The caller's map after \<open>sendActionLocked\<close>, which adds the ActionID to it in place.\<close>

definition action_after :: "send_io \<Rightarrow> AMIClient \<Rightarrow> message \<Rightarrow> message" where
  "action_after io c action = (if ac_conn c then with_ActionID (si_now io) action else action)"

definition sendActionLocked :: "send_io \<Rightarrow> message \<Rightarrow> AMIClient \<Rightarrow> AMIClient \<times> (ami_error, message) outcome" where
  "sendActionLocked io action c =
     (let now = si_now io; actionName = field ''Action'' action
      in if \<not> ac_conn c then (ami_failure now c, Fail NoActiveConnection)
         else let actionID = field ''ActionID'' (with_ActionID now action)
              in if \<not> si_write io then (ami_failure now (c\<lparr>ac_connected := False\<rparr>), Fail SendFailed)
                 else case si_wait io of
                   GotResponse resp \<Rightarrow>
                     (if field ''Response'' resp = ''Error''
                      then (ami_failure now c, Fail (AMIErrorResponse (field ''Message'' resp)))
                      else (ami_success now c, Ret resp))
                 | ChannelClosed \<Rightarrow> (ami_failure now c, Fail ResponseChannelClosed)
                 | TimerFired \<Rightarrow>
                     (if actionName = ''Ping'' \<and> ac_connected c
                      then (c, Ret [(''Response'', ''Success''), (''Ping'', ''Pong''), (''ActionID'', actionID)])
                      else (ami_failure now c, Fail ResponseTimeout)))"

text \<open>
  \<open>SendAction\<close> holds \<open>c.mu\<close> throughout; on a client that is not connected it calls \<open>connectImpl\<close>,
  whose first step takes \<open>c.mu\<close> again.
\<close>

definition AMI_SendAction :: "send_io \<Rightarrow> message \<Rightarrow> AMIClient \<Rightarrow> AMIClient \<times> (ami_error, message) outcome" where
  "AMI_SendAction io action c =
     (if \<not> ac_connected c then (c, Blocked) else sendActionLocked io action c)"

definition AMI_Ping :: "send_io \<Rightarrow> AMIClient \<Rightarrow> AMIClient \<times> (ami_error, message) outcome" where
  "AMI_Ping io c = AMI_SendAction io [(''Action'', ''Ping'')] c"

definition opt_field :: "string \<Rightarrow> string \<Rightarrow> message" where
  "opt_field k v = (if v = [] then [] else [(k, v)])"

definition AMI_Originate :: "send_io \<Rightarrow> string \<Rightarrow> string \<Rightarrow> string \<Rightarrow> string \<Rightarrow> string \<Rightarrow> string \<Rightarrow> string \<Rightarrow> int \<Rightarrow>
    AMIClient \<Rightarrow> AMIClient \<times> (ami_error, message) outcome" where
  "AMI_Originate io channel exten ctx priority application data callerId timeout c =
     AMI_SendAction io ((''Action'', ''Originate'') # opt_field ''Channel'' channel @ opt_field ''Exten'' exten @
       opt_field ''Context'' ctx @ opt_field ''Priority'' priority @ opt_field ''Application'' application @
       opt_field ''Data'' data @ opt_field ''CallerID'' callerId @
       (if 0 < timeout then [(''Timeout'', fmt_d timeout)] else [])) c"

definition GetStatus :: "send_io \<Rightarrow> string \<Rightarrow> AMIClient \<Rightarrow> AMIClient \<times> (ami_error, message) outcome" where
  "GetStatus io channel c = AMI_SendAction io ((''Action'', ''Status'') # opt_field ''Channel'' channel) c"

definition AMI_Hangup :: "send_io \<Rightarrow> string \<Rightarrow> string \<Rightarrow> AMIClient \<Rightarrow> AMIClient \<times> (ami_error, message) outcome" where
  "AMI_Hangup io channel cause c =
     AMI_SendAction io ([(''Action'', ''Hangup''), (''Channel'', channel)] @ opt_field ''Cause'' cause) c"

section \<open>Messages survive the wire\<close>

definition plain :: "string \<Rightarrow> bool" where
  "plain s \<longleftrightarrow> CR \<notin> set s \<and> LF \<notin> set s \<and> TrimSpace s = s"

definition field_ok :: "string \<times> string \<Rightarrow> bool" where
  "field_ok = (\<lambda>(k, v). plain k \<and> CHR '':'' \<notin> set k \<and> plain v)"

lemma ReadString_line: "LF \<notin> set l \<Longrightarrow> ReadString (l @ LF # rest) = Some (l @ [LF], rest)"
  by (induction l) auto

lemma TrimRight_line: "CR \<notin> set l \<Longrightarrow> LF \<notin> set l \<Longrightarrow> TrimRight_crlf (l @ [CR, LF]) = l"
  by (cases l rule: rev_cases) (auto simp: TrimRight_crlf_def)

lemma SplitN_colon_field: "CHR '':'' \<notin> set k \<Longrightarrow> SplitN_colon (k @ '':'' @ v) = Some (k, v)"
  by (induction k) auto

lemma TrimSpace_lead: "TrimSpace (CHR '' '' # s) = TrimSpace s"
  by (simp add: TrimSpace_def is_space_def)

lemma read_field:
  assumes "field_ok (k, v)"
  shows "read_message (format_field (k, v) @ rest) acc = read_message rest (AList.update k v acc)"
proof -
  have "CR \<noteq> LF" "CHR '':'' \<noteq> LF" "CHR '' '' \<noteq> LF" "CHR '':'' \<noteq> CR" "CHR '' '' \<noteq> CR"
    by (simp_all add: CR_def LF_def)
  then have lf: "LF \<notin> set (k @ '': '' @ v @ [CR])" and crlf: "CR \<notin> set (k @ '': '' @ v)" "LF \<notin> set (k @ '': '' @ v)"
    using assms by (auto simp: field_ok_def plain_def)
  have "ReadString (format_field (k, v) @ rest) = Some ((k @ '': '' @ v) @ [CR, LF], rest)"
    using ReadString_line [OF lf, of rest] by (simp add: format_field_def crlf_def)
  moreover have "TrimRight_crlf ((k @ '': '' @ v) @ [CR, LF]) = k @ '': '' @ v"
    by (rule TrimRight_line [OF crlf])
  moreover have "SplitN_colon (k @ '': '' @ v) = Some (k, '' '' @ v)"
    using SplitN_colon_field [of k "'' '' @ v"] assms by (simp add: field_ok_def)
  ultimately show ?thesis
    using assms
    by (simp add: read_message.simps [of "format_field (k, v) @ rest"] field_ok_def plain_def TrimSpace_lead)
qed

lemma read_blank: "read_message (crlf @ rest) acc = Some (acc, rest)"
proof -
  have "ReadString (crlf @ rest) = Some ([CR, LF], rest)"
    by (simp add: crlf_def CR_def LF_def)
  then show ?thesis
    by (simp add: read_message.simps [of "crlf @ rest"] TrimRight_crlf_def)
qed

lemma read_fields:
  "list_all field_ok fs \<Longrightarrow>
   read_message (concat (map format_field fs) @ crlf @ rest) acc =
     Some (fold (\<lambda>(k, v). AList.update k v) fs acc, rest)"
proof (induction fs arbitrary: acc)
  case (Cons f fs)
  then show ?case using read_field by (cases f) simp
qed (simp add: read_blank)

lemma update_new: "k \<notin> fst ` set acc \<Longrightarrow> AList.update k v acc = acc @ [(k, v)]"
  by (induction acc) auto

lemma fold_update_distinct:
  "distinct (map fst (acc @ fs)) \<Longrightarrow> fold (\<lambda>(k, v). AList.update k v) fs acc = acc @ fs"
proof (induction fs arbitrary: acc)
  case (Cons f fs)
  then show ?case by (cases f) (auto simp: update_new)
qed simp



text \<open>A line break in a value is written as it is: the bytes are those of an action with one more field.\<close>

lemma line_break_injects_field:
  "format_action [(k, v @ crlf @ k' @ '': '' @ v')] = format_action [(k, v), (k', v')]"
  by (simp add: format_action_def format_field_def)

section \<open>Waiting for the response\<close>

text \<open>
  One call of \<open>SendAction\<close> beside the client's \<open>readLoop\<close>, with the mutex \<open>c.mu\<close> and the server.
  The sender takes the mutex, registers its response channel and writes (one step: it holds the
  mutex), then waits for the channel or the timer and gives the mutex back when it returns. The
  reader takes the mutex for a moment before each read and again to hand a response over.
\<close>

datatype holder = Nobody | Sender

datatype sender_pc = SStart | SWaiting | SReturned wait_result

datatype reader_pc = RCheck | RReading | RDeliver message

record exchange =
  ex_mu :: holder
  ex_sender :: sender_pc
  ex_reader :: reader_pc
  ex_socket :: "message list"
  ex_chan :: "message option"
  ex_registered :: bool

inductive exchange_step :: "exchange \<Rightarrow> exchange \<Rightarrow> bool" where
  send: "ex_sender s = SStart \<Longrightarrow> ex_mu s = Nobody \<Longrightarrow>
    exchange_step s (s\<lparr>ex_mu := Sender, ex_sender := SWaiting, ex_registered := True\<rparr>)"
| server: "exchange_step s (s\<lparr>ex_socket := ex_socket s @ [resp]\<rparr>)"
| check: "ex_reader s = RCheck \<Longrightarrow> ex_mu s = Nobody \<Longrightarrow> exchange_step s (s\<lparr>ex_reader := RReading\<rparr>)"
| read: "ex_reader s = RReading \<Longrightarrow> ex_socket s = resp # rest \<Longrightarrow>
    exchange_step s (s\<lparr>ex_reader := RDeliver resp, ex_socket := rest\<rparr>)"
| deliver: "ex_reader s = RDeliver resp \<Longrightarrow> ex_mu s = Nobody \<Longrightarrow>
    exchange_step s (s\<lparr>ex_reader := RCheck,
      ex_chan := if ex_registered s \<and> ex_chan s = None then Some resp else ex_chan s\<rparr>)"
| receive: "ex_sender s = SWaiting \<Longrightarrow> ex_chan s = Some resp \<Longrightarrow>
    exchange_step s (s\<lparr>ex_mu := Nobody, ex_sender := SReturned (GotResponse resp), ex_registered := False, ex_chan := None\<rparr>)"
| timer: "ex_sender s = SWaiting \<Longrightarrow>
    exchange_step s (s\<lparr>ex_mu := Nobody, ex_sender := SReturned TimerFired, ex_registered := False, ex_chan := None\<rparr>)"

inductive exchange_reachable :: "exchange \<Rightarrow> bool" where
  initial: "exchange_reachable \<lparr>ex_mu = Nobody, ex_sender = SStart, ex_reader = r, ex_socket = [], ex_chan = None, ex_registered = False\<rparr>"
| step: "exchange_reachable s \<Longrightarrow> exchange_step s s' \<Longrightarrow> exchange_reachable s'"

definition exchange_inv :: "exchange \<Rightarrow> bool" where
  "exchange_inv s \<longleftrightarrow> ex_chan s = None \<and> (ex_registered s \<longrightarrow> ex_mu s = Sender) \<and>
     (\<forall>resp. ex_sender s \<noteq> SReturned (GotResponse resp)) \<and> ex_sender s \<noteq> SReturned ChannelClosed \<and>
     (ex_sender s = SWaiting \<longrightarrow> ex_mu s = Sender)"

lemma exchange_inv_reachable: "exchange_reachable s \<Longrightarrow> exchange_inv s"
proof (induction rule: exchange_reachable.induct)
  case (step s s')
  from step.hyps(2) step.IH show ?case
    by (cases rule: exchange_step.cases) (auto simp: exchange_inv_def)
qed (simp add: exchange_inv_def)

text \<open>
  C12: In no interleaving with \<open>readLoop\<close> does \<open>SendAction\<close> receive the server's response,
  whenever that arrives: it waits with the mutex that the reader needs to hand a response over.
  Only the timer ends the wait, so a connected client's \<open>Ping\<close> gets the made-up success and
  every other action fails with a timeout.
\<close>

theorem SendAction_only_times_out:
  assumes "exchange_reachable s" and "ex_sender s = SReturned w"
    and "ac_connected c" and "ac_conn c" and "si_write io" and "si_wait io = w"
  shows "w = TimerFired \<and>
     snd (AMI_SendAction io action c) =
       (if field ''Action'' action = ''Ping''
        then Ret [(''Response'', ''Success''), (''Ping'', ''Pong''), (''ActionID'', field ''ActionID'' (with_ActionID (si_now io) action))]
        else Fail ResponseTimeout)"
proof -
  have "w = TimerFired"
    using exchange_inv_reachable [OF assms(1)] assms(2) by (cases w) (auto simp: exchange_inv_def)
  then show ?thesis
    using assms(3-) by (simp add: AMI_SendAction_def sendActionLocked_def Let_def)
qed

definition answered_exchange :: exchange where
  "answered_exchange = \<lparr>ex_mu = Nobody, ex_sender = SReturned TimerFired, ex_reader = RDeliver [(''Response'', ''Success'')],
     ex_socket = [], ex_chan = None, ex_registered = False\<rparr>"

lemma answered_exchange_reachable: "exchange_reachable answered_exchange"
proof -
  let ?s = "\<lambda>mu se re so ch g. \<lparr>ex_mu = mu, ex_sender = se, ex_reader = re, ex_socket = so, ex_chan = ch, ex_registered = g\<rparr>"
  let ?r = "[(''Response'', ''Success'')]"
  have "exchange_reachable (?s Nobody SStart RReading [] None False)" by (rule exchange_reachable.initial)
  from exchange_reachable.step [OF this exchange_step.send]
  have "exchange_reachable (?s Sender SWaiting RReading [] None True)" by simp
  from exchange_reachable.step [OF this exchange_step.server [where resp = ?r]]
  have "exchange_reachable (?s Sender SWaiting RReading [?r] None True)" by simp
  from exchange_reachable.step [OF this exchange_step.read]
  have "exchange_reachable (?s Sender SWaiting (RDeliver ?r) [] None True)" by simp
  from exchange_reachable.step [OF this exchange_step.timer]
  show ?thesis by (simp add: answered_exchange_def)
qed

definition sample_client :: AMIClient where
  "sample_client = \<lparr>ac_address = ''pbx:5038'', ac_username = ''u'', ac_secret = ''s'', ac_timeout = 10 * Second,
     ac_conn = False, ac_connected = False, ac_bannerReceived = False, ac_responseChans = [],
     ac_circuitBreaker = NewCircuitBreaker ''ami-pbx:5038'' \<lparr>FailureThreshold = 0, ResetTimeout = 0, HalfOpenMaxReqs = 0\<rparr> 0,
     ac_stopClosed = False, ac_doneClosed = False, ac_dispatchers = 0, ac_connectedChan = None,
     ac_connectionAttemptTime = 0\<rparr>"

definition connect_fine :: "gotime \<Rightarrow> connect_io" where
  "connect_fine now = \<lparr>ci_now = now, ci_dial = True, ci_banner = True, ci_login = True, ci_ping = True\<rparr>"

theorem SendAction_only_times_out_witness:
  "snd (AMI_SendAction \<lparr>si_now = 0, si_write = True, si_wait = TimerFired, si_connect = connect_fine 0\<rparr>
     [(''Action'', ''Originate'')] (sample_client\<lparr>ac_conn := True, ac_connected := True\<rparr>)) = Fail ResponseTimeout"
  using SendAction_only_times_out [OF answered_exchange_reachable, of TimerFired
      "sample_client\<lparr>ac_conn := True, ac_connected := True\<rparr>"
      "\<lparr>si_now = 0, si_write = True, si_wait = TimerFired, si_connect = connect_fine 0\<rparr>" "[(''Action'', ''Originate'')]"]
  by (simp add: answered_exchange_def field_def)

section \<open>Connecting again\<close>

text \<open>An attempt that the network lets through, by the state of the channels.\<close>

lemma connect_ok:
  assumes "\<not> ac_connected c" and "\<not> ac_conn c" and "cb_state (ac_circuitBreaker c) = StateClosed"
    and "ac_connectionAttemptTime c + 5 * Second \<le> now"
  shows "\<not> ac_stopClosed c \<Longrightarrow>
      snd (Connect (connect_fine now) c) = Ret () \<and>
      ac_connected (fst (Connect (connect_fine now) c)) \<and>
      ac_stopClosed (fst (Connect (connect_fine now) c)) = False \<and>
      ac_doneClosed (fst (Connect (connect_fine now) c)) = ac_doneClosed c \<and>
      ac_dispatchers (fst (Connect (connect_fine now) c)) = ac_dispatchers c + 1 \<and>
      cb_state (ac_circuitBreaker (fst (Connect (connect_fine now) c))) = StateClosed \<and>
      ac_connectionAttemptTime (fst (Connect (connect_fine now) c)) = now"
    and "ac_stopClosed c \<Longrightarrow> ac_doneClosed c \<Longrightarrow>
      snd (Connect (connect_fine now) c) = Panic CloseOfClosedChannel"
  using assms
  by (simp_all add: Connect_def connectImpl_def connect_fine_def close_old_def stop_dispatchers_def send_banner_signal_def
      ami_success_def AllowRequest_closed RecordSuccess_def Let_def)

lemma disconnect_two:
  assumes "ac_connected c" and "\<not> ac_stopClosed c" and "2 \<le> ac_dispatchers c"
  shows "snd (Disconnect c) = Panic CloseOfClosedChannel"
  using assms by (simp add: Disconnect_def close_stop_def stop_dispatchers_def closeConn_def)

text \<open>
  C34: A new client can be connected and disconnected once. A client whose connection broke
  and was made again panics on \<open>Disconnect\<close> (its two dispatchers both close \<open>doneChan\<close>), and a
  client that was disconnected panics on the next \<open>Connect\<close> (\<open>stopChan\<close> and \<open>doneChan\<close> are
  still the closed ones).
\<close>

theorem reconnected_client_panics:
  assumes "AMI_New t0 config = Ret c" and "5 * Second \<le> t1" and "t1 + 5 * Second \<le> t2"
  shows "let c1 = fst (Connect (connect_fine t1) c);
             broken = fst (Connect (connect_fine t2) (readLoop_cleanup c1));
             stopped = fst (Disconnect c1)
         in snd (Connect (connect_fine t1) c) = Ret () \<and> snd (Disconnect c1) = Ret () \<and>
            snd (Disconnect broken) = Panic CloseOfClosedChannel \<and>
            snd (Connect (connect_fine t2) stopped) = Panic CloseOfClosedChannel"
proof -
  let ?c1 = "fst (Connect (connect_fine t1) c)"
  have new: "\<not> ac_connected c" "\<not> ac_conn c" "\<not> ac_stopClosed c" "\<not> ac_doneClosed c" "ac_dispatchers c = 0"
      "ac_connectionAttemptTime c = 0" "cb_state (ac_circuitBreaker c) = StateClosed"
    using assms(1) by (auto simp: AMI_New_def NewCircuitBreaker_def Let_def split: if_splits)
  have c1: "snd (Connect (connect_fine t1) c) = Ret ()" "ac_connected ?c1" "\<not> ac_stopClosed ?c1" "\<not> ac_doneClosed ?c1"
      "ac_dispatchers ?c1 = 1" "cb_state (ac_circuitBreaker ?c1) = StateClosed" "ac_connectionAttemptTime ?c1 = t1"
    using connect_ok(1) [OF new(1,2,7), of t1] new assms(2) by simp_all
  let ?b = "readLoop_cleanup ?c1"
  have b: "snd (Disconnect (fst (Connect (connect_fine t2) ?b))) = Panic CloseOfClosedChannel"
    using connect_ok(1) [of ?b t2] c1 assms(3) by (intro disconnect_two) (simp_all add: readLoop_cleanup_def)
  let ?d = "fst (Disconnect ?c1)"
  have d: "snd (Disconnect ?c1) = Ret ()" "\<not> ac_connected ?d" "\<not> ac_conn ?d" "ac_stopClosed ?d" "ac_doneClosed ?d"
      "cb_state (ac_circuitBreaker ?d) = StateClosed" "ac_connectionAttemptTime ?d = t1"
    using c1 by (simp_all add: Disconnect_def close_stop_def stop_dispatchers_def closeConn_def)
  show ?thesis
    using c1 b d connect_ok(2) [OF d(2,3,6), of t2] assms(3) by (simp add: Let_def)
qed

theorem reconnected_client_panics_witness:
  "let c1 = fst (Connect (connect_fine (5 * Second)) sample_client)
   in snd (Disconnect (fst (Connect (connect_fine (10 * Second)) (readLoop_cleanup c1)))) = Panic CloseOfClosedChannel"
proof -
  have "AMI_New 0 \<lparr>amc_Address = ''pbx:5038'', amc_Username = ''u'', amc_Secret = ''s'', amc_Timeout = 0,
      amc_CircuitBreaker = \<lparr>FailureThreshold = 0, ResetTimeout = 0, HalfOpenMaxReqs = 0\<rparr>\<rparr> = Ret sample_client"
    by (simp add: AMI_New_def sample_client_def)
  from reconnected_client_panics [OF this, of "5 * Second" "10 * Second"] show ?thesis
    by (simp add: Let_def)
qed

end
