(* ===== verification/AMI_Events.thy ===== *)
theory AMI_Events
  imports AMI_Client
begin

text \<open>
  The events of one AMI client (\<open>ami/ami.go\<close>): how \<open>readLoop\<close> sorts the messages it has read, the
  buffered event channel, the table of handlers, and \<open>eventDispatcher\<close>. Handlers run in goroutines
  of their own; the model keeps the calls that were started. A handler is a value of any type.
\<close>

section \<open>State\<close>

record 'h event_client =
  en_eventHandlers :: "(string \<times> 'h list) list"
  en_eventChan :: "message list"
  en_started :: "('h \<times> message) list"

definition new_event_client :: "'h event_client" where
  "new_event_client = \<lparr>en_eventHandlers = [], en_eventChan = [], en_started = []\<rparr>"

definition eventChan_size :: nat where
  "eventChan_size = 100"

definition handlers_of :: "string \<Rightarrow> 'h event_client \<Rightarrow> 'h list" where
  "handlers_of name c = (case map_of (en_eventHandlers c) name of Some hs \<Rightarrow> hs | None \<Rightarrow> [])"

definition RegisterEventHandler :: "string \<Rightarrow> 'h \<Rightarrow> 'h event_client \<Rightarrow> 'h event_client" where
  "RegisterEventHandler name handler c =
     c\<lparr>en_eventHandlers := AList.update name (handlers_of name c @ [handler]) (en_eventHandlers c)\<rparr>"

section \<open>Reading and dispatching\<close>

text \<open>What \<open>readLoop\<close> makes of a message: the first of the two fields that is present decides.\<close>

datatype message_kind = ResponseTo "string option" | EventNamed string | UnknownKind

definition message_kind :: "message \<Rightarrow> message_kind" where
  "message_kind msg =
     (if map_of msg ''Response'' \<noteq> None then ResponseTo (map_of msg ''ActionID'')
      else case map_of msg ''Event'' of Some name \<Rightarrow> EventNamed name | None \<Rightarrow> UnknownKind)"

datatype event_result = Handled message | Queued message | Dropped message | NoEvent

definition deliver_message :: "message \<Rightarrow> 'h event_client \<Rightarrow> 'h event_client \<times> event_result" where
  "deliver_message msg c =
     (case message_kind msg of
        EventNamed name \<Rightarrow>
          if length (en_eventChan c) < eventChan_size
          then (c\<lparr>en_eventChan := en_eventChan c @ [msg]\<rparr>, Queued msg)
          else (c, Dropped msg)
      | _ \<Rightarrow> (c, NoEvent))"

text \<open>One round of \<open>eventDispatcher\<close> with an event to receive.\<close>

definition dispatch_one :: "'h event_client \<Rightarrow> 'h event_client \<times> event_result" where
  "dispatch_one c =
     (case en_eventChan c of
        [] \<Rightarrow> (c, NoEvent)
      | event # rest \<Rightarrow>
          (let c = c\<lparr>en_eventChan := rest\<rparr>
           in case map_of event ''Event'' of
                None \<Rightarrow> (c, Handled event)
              | Some name \<Rightarrow>
                  (c\<lparr>en_started := en_started c @ map (\<lambda>h. (h, event)) (handlers_of name c @ handlers_of ''*'' c)\<rparr>, Handled event)))"

datatype 'h event_call = ERegister string 'h | ERead message | EDispatch

fun event_step :: "'h event_call \<Rightarrow> 'h event_client \<Rightarrow> 'h event_client \<times> event_result" where
  "event_step (ERegister name h) c = (RegisterEventHandler name h c, NoEvent)"
| "event_step (ERead msg) c = deliver_message msg c"
| "event_step EDispatch c = dispatch_one c"

section \<open>The channel is a queue\<close>

fun queued :: "event_result \<Rightarrow> message list" where
  "queued (Queued m) = [m]"
| "queued _ = []"

fun handled :: "event_result \<Rightarrow> message list" where
  "handled (Handled m) = [m]"
| "handled _ = []"

lemma in_queued [simp]: "m \<in> set (queued r) \<longleftrightarrow> r = Queued m"
  by (cases r) auto

interpretation events: fifo_channel event_step en_eventChan eventChan_size queued handled
proof (unfold_locales, goal_cases)
  case (1 s c)
  then show ?case
    by (cases c) (auto simp: RegisterEventHandler_def deliver_message_def dispatch_one_def Let_def
      split: message_kind.split list.split option.split)
next
  case (2 s c)
  then show ?case
    by (cases c) (auto simp: RegisterEventHandler_def deliver_message_def dispatch_one_def Let_def
      split: message_kind.split list.split option.split)
qed

section \<open>Which handlers are called\<close>

text \<open>The handlers registered for a name by a list of calls, in order.\<close>

fun registered :: "string \<Rightarrow> 'h event_call list \<Rightarrow> 'h list" where
  "registered name [] = []"
| "registered name (ERegister n h # cs) = (if n = name then h # registered name cs else registered name cs)"
| "registered name (_ # cs) = registered name cs"

lemma handlers_of_register: "handlers_of n (RegisterEventHandler k h c) = (if n = k then handlers_of n c @ [h] else handlers_of n c)"
  by (simp add: RegisterEventHandler_def handlers_of_def update_conv')

lemma handlers_of_step:
  "handlers_of name (fst (event_step c s)) = handlers_of name s @ registered name [c]"
proof (cases c)
  case (ERegister n h)
  then show ?thesis by (simp add: handlers_of_register)
next
  case (ERead msg)
  then show ?thesis by (simp add: deliver_message_def handlers_of_def split: message_kind.split)
next
  case EDispatch
  then show ?thesis by (simp add: dispatch_one_def handlers_of_def Let_def split: list.split option.split)
qed

lemma handlers_of_run: "handlers_of name (fst (run_calls event_step cs s)) = handlers_of name s @ registered name cs"
proof (induction cs arbitrary: s)
  case (Cons c cs)
  then show ?case using handlers_of_step [of name c s] by (cases c) (simp_all add: split_beta Let_def)
qed simp

lemma queued_event: "Queued m \<in> set (snd (run_calls event_step cs s)) \<Longrightarrow> map_of m ''Event'' \<noteq> None \<and> map_of m ''Response'' = None"
proof (induction cs arbitrary: s)
  case (Cons c cs)
  have "snd (event_step c s) = Queued m \<Longrightarrow> map_of m ''Event'' \<noteq> None \<and> map_of m ''Response'' = None"
    by (cases c) (auto simp: deliver_message_def dispatch_one_def message_kind_def Let_def split: if_splits list.splits option.splits)
  then show ?case using Cons by (auto simp: split_beta Let_def)
qed simp

text \<open>
  C22: Over any sequence of registrations, messages read and rounds of the dispatcher, the events
  handled so far followed by those in the channel are exactly the events that were queued, in
  order; the channel never holds more than 100; and the next event is given to every handler
  registered for its name and then to every wildcard handler, in order of registration. A message
  is queued only if it has an \<open>Event\<close> and no \<open>Response\<close> field.
\<close>

theorem ami_events_fifo:
  "let run = run_calls event_step cs new_event_client; c = fst run
   in concat (map handled (snd run)) @ en_eventChan c = concat (map queued (snd run)) \<and>
      length (en_eventChan c) \<le> 100 \<and>
      (case en_eventChan c of
         [] \<Rightarrow> True
       | event # rest \<Rightarrow>
           \<exists>name. map_of event ''Event'' = Some name \<and> map_of event ''Response'' = None \<and>
             en_started (fst (dispatch_one c)) =
               en_started c @ map (\<lambda>h. (h, event)) (registered name cs @ registered ''*'' cs))"
proof -
  let ?run = "run_calls event_step cs new_event_client"
  let ?c = "fst ?run"
  have fifo: "concat (map queued (snd ?run)) = concat (map handled (snd ?run)) @ en_eventChan ?c"
    using events.run_fifo [of new_event_client cs] by (simp add: new_event_client_def)
  have cap: "length (en_eventChan ?c) \<le> 100"
    using events.run_capacity [of new_event_client cs] by (simp add: new_event_client_def eventChan_size_def)
  have hs: "handlers_of name ?c = registered name cs" for name
    unfolding handlers_of_run by (simp add: handlers_of_def new_event_client_def)
  have "\<exists>name. map_of event ''Event'' = Some name \<and> map_of event ''Response'' = None \<and> en_started (fst (dispatch_one ?c)) =
      en_started ?c @ map (\<lambda>h. (h, event)) (registered name cs @ registered ''*'' cs)"
    if chan: "en_eventChan ?c = event # rest" for event rest
  proof -
    have "event \<in> set (concat (map queued (snd ?run)))" using fifo chan by simp
    then have "Queued event \<in> set (snd ?run)" by auto
    then obtain name where name: "map_of event ''Event'' = Some name" "map_of event ''Response'' = None"
      using queued_event by blast
    then show ?thesis using hs chan by (simp add: dispatch_one_def Let_def handlers_of_def)
  qed
  then show ?thesis using fifo cap by (simp add: Let_def split: list.split)
qed

section \<open>The handlers of the AMI manager\<close>

text \<open>What \<open>ami.Manager\<close> does with an event: it logs the fields that it reads (\<open>ami/manager.go\<close>).\<close>

datatype manager_event = HangupLogged string string string | NewChannelLogged string string string | OtherLogged string | NotLogged

definition handleHangupEvent :: "message \<Rightarrow> manager_event" where
  "handleHangupEvent event = HangupLogged (field ''Channel'' event) (field ''Cause'' event) (field ''Uniqueid'' event)"

definition handleNewChannelEvent :: "message \<Rightarrow> manager_event" where
  "handleNewChannelEvent event =
     NewChannelLogged (field ''Channel'' event) (field ''ChannelState'' event) (field ''Uniqueid'' event)"

definition manager_handler :: "message \<Rightarrow> manager_event" where
  "manager_handler event =
     (case map_of event ''Event'' of
        None \<Rightarrow> NotLogged
      | Some name \<Rightarrow>
          if name = ''Hangup'' then handleHangupEvent event
          else if name = ''NewChannel'' then handleNewChannelEvent event
          else OtherLogged name)"

definition registerEventHandlers :: "(message \<Rightarrow> manager_event) event_client list \<Rightarrow> (message \<Rightarrow> manager_event) event_client list" where
  "registerEventHandlers clients = map (RegisterEventHandler ''*'' manager_handler) clients"

text \<open>
  Once the manager has registered its handlers on clients that have none, each event that a client
  dispatches starts one call of the manager's handler, and two if the event is named \<open>*\<close>.
\<close>

lemma manager_handlers_called:
  assumes "c \<in> set (registerEventHandlers (map (\<lambda>_. new_event_client) us))"
    and "en_eventChan c' = event # rest" and "en_eventHandlers c' = en_eventHandlers c" and "map_of event ''Event'' = Some name"
  shows "en_started (fst (dispatch_one c')) =
    en_started c' @ replicate (if name = ''*'' then 2 else 1) (manager_handler, event)"
proof -
  have c: "c = RegisterEventHandler ''*'' manager_handler new_event_client" using assms(1) by (auto simp: registerEventHandlers_def)
  have "handlers_of n c' = (if n = ''*'' then [manager_handler] else [])" for n
    using handlers_of_register [of n "''*''" manager_handler new_event_client] assms(3)
    by (simp add: c handlers_of_def new_event_client_def split: if_splits)
  then show ?thesis using assms(2,4) by (simp add: dispatch_one_def Let_def handlers_of_def numeral_2_eq_2)
qed

end
