(* ===== verification/AMI_Manager.thy ===== *)
theory AMI_Manager
  imports AMI_Client Storage_Runs
begin

text \<open>
  The AMI manager of \<open>pkg/ami/manager.go\<close>: several AMI clients, one of them active, failover of
  actions, reconnection and the replay of stored actions. \<open>sio k i\<close> is what happens to the
  \<open>k\<close>-th action of a call when it is sent to client \<open>i\<close>, \<open>cio i\<close> a connection attempt of client \<open>i\<close>.
  Also the \<open>BackendManager\<close> of \<open>ami.go\<close>, a second pool of the same clients.
\<close>

section \<open>State\<close>

record ClientStatus =
  cs_IsHealthy :: bool
  cs_FailCount :: int
  cs_LastFailed :: gotime

record AMI_Mgr =
  am_clients :: "AMIClient list"
  am_activeIdx :: int
  am_storage :: "MemoryStorage option"
  am_maxRetries :: int
  am_retryDelay :: duration
  am_initializing :: bool
  am_clientStatus :: "ClientStatus list option"

datatype ami_mgr_error = NoClients | AllClientsFailedInit | ActionFailed ami_error | ReconnectFailed

type_synonym action_io = "nat \<Rightarrow> nat \<Rightarrow> send_io"

type_synonym conn_io = "nat \<Rightarrow> connect_io"

fun init_clients :: "gotime \<Rightarrow> ami_Config list \<Rightarrow> AMIClient list" where
  "init_clients now [] = []"
| "init_clients now (config # configs) =
     (case AMI_New now config of Ret c \<Rightarrow> c # init_clients now configs | _ \<Rightarrow> init_clients now configs)"

definition AMI_NewManager :: "gotime \<Rightarrow> ami_Config list \<Rightarrow> int \<Rightarrow> duration \<Rightarrow> MemoryStorage option \<Rightarrow> (ami_mgr_error, AMI_Mgr) outcome" where
  "AMI_NewManager now configs maxRetries retryDelay storage =
     (if configs = [] then Fail NoClients
      else let clients = init_clients now configs
           in if clients = [] then Fail AllClientsFailedInit
              else Ret \<lparr>am_clients = clients, am_activeIdx = 0, am_storage = storage,
                        am_maxRetries = (if 0 < maxRetries then maxRetries else 3),
                        am_retryDelay = (if 0 < retryDelay then retryDelay else 5 * Second),
                        am_initializing = False, am_clientStatus = None\<rparr>)"

definition set_client :: "nat \<Rightarrow> AMIClient \<Rightarrow> AMI_Mgr \<Rightarrow> AMI_Mgr" where
  "set_client i c m = m\<lparr>am_clients := (am_clients m)[i := c]\<rparr>"

definition GetActiveClient :: "AMI_Mgr \<Rightarrow> nat option" where
  "GetActiveClient m =
     (if 0 \<le> am_activeIdx m \<and> am_activeIdx m < int (length (am_clients m)) then Some (nat (am_activeIdx m)) else None)"

definition Manager_IsConnected :: "AMI_Mgr \<Rightarrow> bool option" where
  "Manager_IsConnected m =
     (if am_initializing m then Some True
      else map_option (\<lambda>i. AMI_IsConnected (am_clients m ! i)) (GetActiveClient m))"

section \<open>Failures and failover\<close>

definition healthy_status :: ClientStatus where
  "healthy_status = \<lparr>cs_IsHealthy = True, cs_FailCount = 0, cs_LastFailed = 0\<rparr>"

definition init_status :: "AMI_Mgr \<Rightarrow> AMI_Mgr" where
  "init_status m =
     (if am_clientStatus m = None
      then m\<lparr>am_clientStatus := Some (replicate (length (am_clients m)) healthy_status)\<rparr> else m)"

definition client_status :: "AMI_Mgr \<Rightarrow> ClientStatus list" where
  "client_status m = (case am_clientStatus m of None \<Rightarrow> [] | Some st \<Rightarrow> st)"

fun client_at :: "string \<Rightarrow> AMIClient list \<Rightarrow> nat option" where
  "client_at addr [] = None"
| "client_at addr (c # cs) = (if ac_address c = addr then Some 0 else map_option Suc (client_at addr cs))"

definition mark_client :: "gotime \<Rightarrow> ClientStatus \<Rightarrow> ClientStatus" where
  "mark_client now st =
     (let st = st\<lparr>cs_FailCount := cs_FailCount st + 1, cs_LastFailed := now\<rparr>
      in if 3 \<le> cs_FailCount st then st\<lparr>cs_IsHealthy := False\<rparr> else st)"

definition recordClientFailure :: "gotime \<Rightarrow> string \<Rightarrow> AMI_Mgr \<Rightarrow> AMI_Mgr" where
  "recordClientFailure now clientAddr m0 =
     (let m = init_status m0
      in case client_at clientAddr (am_clients m) of
           None \<Rightarrow> m
         | Some i \<Rightarrow> m\<lparr>am_clientStatus := Some ((client_status m)[i := mark_client now (client_status m ! i)])\<rparr>)"

definition AMI_recordFailoverEvent :: "gotime \<Rightarrow> string \<Rightarrow> string \<Rightarrow> string \<Rightarrow> AMI_Mgr \<Rightarrow> AMI_Mgr" where
  "AMI_recordFailoverEvent now from to reason m =
     (case am_storage m of
        None \<Rightarrow> m
      | Some st \<Rightarrow>
          m\<lparr>am_storage := Some (fst (Set now (''failover:ami:'' @ fmt_d (UnixNano now))
              (Some (Json [(''component'', JStr ''ami''), (''from'', JStr from), (''to'', JStr to),
                (''timestamp'', JNum (Time_Unix now)), (''reason'', JStr reason)])) (24 * Hour) st))\<rparr>)"

definition failover_target :: "AMI_Mgr \<Rightarrow> nat option" where
  "failover_target m =
     List.find (\<lambda>i. int i \<noteq> am_activeIdx m \<and> ac_connected (am_clients m ! i) \<and> cs_IsHealthy (client_status m ! i))
       [0..<length (am_clients m)]"

definition AMI_tryFailover :: "gotime \<Rightarrow> AMI_Mgr \<Rightarrow> AMI_Mgr \<times> (ami_mgr_error, nat option) outcome" where
  "AMI_tryFailover now m0 =
     (case GetActiveClient m0 of
        None \<Rightarrow> (m0, Panic IndexOutOfRange)
      | Some cur \<Rightarrow>
          (let m = init_status m0
           in case failover_target m of
                None \<Rightarrow> (m, Ret None)
              | Some i \<Rightarrow>
                  (AMI_recordFailoverEvent now (ac_address (am_clients m ! cur)) (ac_address (am_clients m ! i))
                     ''Reactive failover'' (m\<lparr>am_activeIdx := int i\<rparr>), Ret (Some i))))"

text \<open>One action to client \<open>i\<close>.\<close>

definition send_to :: "send_io \<Rightarrow> message \<Rightarrow> nat \<Rightarrow> AMI_Mgr \<Rightarrow> AMI_Mgr \<times> (ami_error, message) outcome" where
  "send_to io action i m =
     (let (c, r) = AMI_SendAction io action (am_clients m ! i) in (set_client i c m, r))"

definition Manager_SendAction :: "action_io \<Rightarrow> gotime \<Rightarrow> message \<Rightarrow> AMI_Mgr \<Rightarrow> AMI_Mgr \<times> (ami_mgr_error, message) outcome" where
  "Manager_SendAction sio now action m =
     (case GetActiveClient m of
        None \<Rightarrow> (m, Panic IndexOutOfRange)
      | Some a \<Rightarrow>
          (case send_to (sio 0 a) action a m of
             (m, Ret resp) \<Rightarrow> (m, Ret resp)
           | (m, Panic p) \<Rightarrow> (m, Panic p)
           | (m, Blocked) \<Rightarrow> (m, Blocked)
           | (m, Fail e) \<Rightarrow>
               (case AMI_tryFailover now (recordClientFailure now (ac_address (am_clients m ! a)) m) of
                  (m, Ret (Some i)) \<Rightarrow>
                    (case send_to (sio 1 i) (action_after (sio 0 a) (am_clients m ! a) action) i m of
                       (m, Ret resp) \<Rightarrow> (m, Ret resp)
                     | (m, Fail e) \<Rightarrow> (m, Fail (ActionFailed e))
                     | (m, Panic p) \<Rightarrow> (m, Panic p)
                     | (m, Blocked) \<Rightarrow> (m, Blocked))
                | (m, Ret None) \<Rightarrow> (m, Fail (ActionFailed e))
                | (m, Fail err) \<Rightarrow> (m, Fail err)
                | (m, Panic p) \<Rightarrow> (m, Panic p)
                | (m, Blocked) \<Rightarrow> (m, Blocked))))"

definition Manager_Originate :: "action_io \<Rightarrow> gotime \<Rightarrow> string \<Rightarrow> string \<Rightarrow> string \<Rightarrow> string \<Rightarrow> string \<Rightarrow> string \<Rightarrow> string \<Rightarrow> int \<Rightarrow>
    AMI_Mgr \<Rightarrow> AMI_Mgr \<times> (ami_mgr_error, message) outcome" where
  "Manager_Originate sio now channel exten dialContext priority application data callerId timeout m =
     Manager_SendAction sio now
       ([(''Action'', ''Originate''), (''Channel'', channel), (''ActionID'', ''originate-'' @ fmt_d (UnixNano now))] @
        (if exten \<noteq> [] \<and> dialContext \<noteq> [] \<and> priority \<noteq> []
         then [(''Exten'', exten), (''Context'', dialContext), (''Priority'', priority)] else []) @
        opt_field ''Application'' application @ opt_field ''Data'' data @ opt_field ''CallerID'' callerId @
        (if 0 < timeout then [(''Timeout'', fmt_d (timeout * 1000))] else [])) m"

definition Manager_Hangup :: "action_io \<Rightarrow> gotime \<Rightarrow> string \<Rightarrow> string \<Rightarrow> AMI_Mgr \<Rightarrow> AMI_Mgr \<times> (ami_mgr_error, message) outcome" where
  "Manager_Hangup sio now channel cause m =
     Manager_SendAction sio now
       ([(''Action'', ''Hangup''), (''Channel'', channel), (''ActionID'', ''hangup-'' @ fmt_d (UnixNano now))] @
        opt_field ''Cause'' cause) m"

section \<open>Reconnection\<close>

definition connect_client :: "conn_io \<Rightarrow> nat \<Rightarrow> AMI_Mgr \<Rightarrow> AMI_Mgr \<times> (ami_error, unit) outcome" where
  "connect_client cio i m = (let (c, r) = Connect (cio i) (am_clients m ! i) in (set_client i c m, r))"

text \<open>Try clients in order; the first that connects becomes active.\<close>

fun connect_first :: "conn_io \<Rightarrow> nat list \<Rightarrow> AMI_Mgr \<Rightarrow> AMI_Mgr \<times> (ami_mgr_error, nat option) outcome" where
  "connect_first cio [] m = (m, Ret None)"
| "connect_first cio (i # is) m =
     (case connect_client cio i m of
        (m, Ret _) \<Rightarrow> (m\<lparr>am_activeIdx := int i\<rparr>, Ret (Some i))
      | (m, Fail e) \<Rightarrow> connect_first cio is m
      | (m, Panic p) \<Rightarrow> (m, Panic p)
      | (m, Blocked) \<Rightarrow> (m, Blocked))"

definition others :: "nat \<Rightarrow> AMI_Mgr \<Rightarrow> nat list" where
  "others cur m = filter (\<lambda>i. i \<noteq> cur) [0..<length (am_clients m)]"

definition Manager_Reconnect :: "conn_io \<Rightarrow> AMI_Mgr \<Rightarrow> AMI_Mgr \<times> (ami_mgr_error, unit) outcome" where
  "Manager_Reconnect cio m =
     (case GetActiveClient m of
        None \<Rightarrow> (m, Panic IndexOutOfRange)
      | Some a \<Rightarrow>
          (case connect_client cio a m of
             (m, Ret _) \<Rightarrow> (m, Ret ())
           | (m, Panic p) \<Rightarrow> (m, Panic p)
           | (m, Blocked) \<Rightarrow> (m, Blocked)
           | (m, Fail e) \<Rightarrow>
               (case connect_first cio (others a m) m of
                  (m, Ret (Some i)) \<Rightarrow> (m, Ret ())
                | (m, Ret None) \<Rightarrow> (m, Fail ReconnectFailed)
                | (m, Fail err) \<Rightarrow> (m, Fail err)
                | (m, Panic p) \<Rightarrow> (m, Panic p)
                | (m, Blocked) \<Rightarrow> (m, Blocked))))"

text \<open>
  One tick of \<open>monitorConnections\<close>. \<open>Ret None\<close>: no client is connected, and a goroutine per client
  is started; what such a goroutine does when it runs is \<open>monitor_reconnect\<close>, with the value of
  the shared \<open>foundConnected\<close> it reads.
\<close>

definition monitor_tick :: "AMI_Mgr \<Rightarrow> AMI_Mgr \<times> (ami_mgr_error, nat option) outcome" where
  "monitor_tick m =
     (case GetActiveClient m of
        None \<Rightarrow> (m, Panic IndexOutOfRange)
      | Some a \<Rightarrow>
          (if ac_connected (am_clients m ! a) then (m, Ret (Some a))
           else case List.find (\<lambda>i. ac_connected (am_clients m ! i)) (others a m) of
             Some i \<Rightarrow> (m\<lparr>am_activeIdx := int i\<rparr>, Ret (Some i))
           | None \<Rightarrow> (m, Ret None)))"

definition monitor_reconnect :: "conn_io \<Rightarrow> bool \<Rightarrow> nat \<Rightarrow> AMI_Mgr \<Rightarrow> AMI_Mgr \<times> (ami_error, unit) outcome" where
  "monitor_reconnect cio foundConnected i m =
     (if \<not> i < length (am_clients m) then (m, Panic IndexOutOfRange)
      else case connect_client cio i m of
        (m, Ret _) \<Rightarrow> (if foundConnected then m else m\<lparr>am_activeIdx := int i\<rparr>, Ret ())
      | (m, r) \<Rightarrow> (m, r))"

text \<open>
  One round of the goroutine that \<open>retryAllConnections\<close> starts for client \<open>i\<close>: whether the
  goroutine is done (connected) or counts a failure and goes round again.
\<close>

definition retry_attempt :: "conn_io \<Rightarrow> nat \<Rightarrow> AMI_Mgr \<Rightarrow> AMI_Mgr \<times> (ami_error, bool) outcome" where
  "retry_attempt cio i m =
     (if \<not> i < length (am_clients m) then (m, Panic IndexOutOfRange)
      else if AMI_IsConnected (am_clients m ! i) then (m, Ret True)
      else case connect_client cio i m of
        (m, Ret _) \<Rightarrow>
          (if i = 0 \<and> am_activeIdx m = 0 then (m, Ret True)
           else case GetActiveClient m of
             None \<Rightarrow> (m, Panic IndexOutOfRange)
           | Some a \<Rightarrow>
               (if AMI_IsConnected (am_clients m ! a) then m else m\<lparr>am_activeIdx := int i\<rparr>, Ret True))
      | (m, Fail e) \<Rightarrow> (m, Ret False)
      | (m, Panic p) \<Rightarrow> (m, Panic p)
      | (m, Blocked) \<Rightarrow> (m, Blocked))"

text \<open>
  \<open>Start\<close>: a connection attempt of the first client and, when its banner does not come in time,
  of the others until one sends its banner. The result says whether \<open>retryAllConnections\<close> is
  started; \<open>expired i\<close> whether the wait for client \<open>i\<close> times out.
\<close>

definition start_client :: "conn_io \<Rightarrow> (nat \<Rightarrow> bool) \<Rightarrow> nat \<Rightarrow> AMI_Mgr \<Rightarrow> AMI_Mgr \<times> (ami_error, bool) outcome" where
  "start_client cio expired i m =
     (case ConnectNonBlocking (cio i) (am_clients m ! i) of
        (c, Ret _) \<Rightarrow> (let (c, b) = WaitForBanner (expired i) c in (set_client i c m, Ret b))
      | (c, Fail e) \<Rightarrow> (set_client i c m, Fail e)
      | (c, Panic p) \<Rightarrow> (set_client i c m, Panic p)
      | (c, Blocked) \<Rightarrow> (set_client i c m, Blocked))"

fun start_backups :: "conn_io \<Rightarrow> (nat \<Rightarrow> bool) \<Rightarrow> nat list \<Rightarrow> AMI_Mgr \<Rightarrow> AMI_Mgr \<times> (ami_error, bool) outcome" where
  "start_backups cio expired [] m = (m, Ret True)"
| "start_backups cio expired (i # is) m =
     (case start_client cio expired i m of
        (m, Ret True) \<Rightarrow> (m\<lparr>am_activeIdx := int i\<rparr>, Ret True)
      | (m, Ret False) \<Rightarrow> start_backups cio expired is m
      | (m, r) \<Rightarrow> (m, r))"

definition AMI_Start :: "conn_io \<Rightarrow> (nat \<Rightarrow> bool) \<Rightarrow> AMI_Mgr \<Rightarrow> AMI_Mgr \<times> (ami_error, bool) outcome" where
  "AMI_Start cio expired m =
     (if am_clients m = [] then (m, Panic IndexOutOfRange)
      else case start_client cio expired 0 (m\<lparr>am_initializing := True\<rparr>) of
        (m, Ret True) \<Rightarrow> (m\<lparr>am_initializing := False\<rparr>, Ret False)
      | (m, Ret False) \<Rightarrow>
          (case start_backups cio expired [1..<length (am_clients m)] m of
             (m, r) \<Rightarrow> (m\<lparr>am_initializing := False\<rparr>, r))
      | (m, r) \<Rightarrow> (m\<lparr>am_initializing := False\<rparr>, r))"

text \<open>The end of client \<open>i\<close>'s \<open>readLoop\<close>, at any moment.\<close>

definition connection_lost :: "nat \<Rightarrow> AMI_Mgr \<Rightarrow> AMI_Mgr" where
  "connection_lost i m = set_client i (readLoop_cleanup (am_clients m ! i)) m"

fun disconnect_all :: "AMIClient list \<Rightarrow> AMIClient list \<times> (ami_mgr_error, unit) outcome" where
  "disconnect_all [] = ([], Ret ())"
| "disconnect_all (c # cs) =
     (case Disconnect c of
        (c, Panic p) \<Rightarrow> (c # cs, Panic p)
      | (c, _) \<Rightarrow> (let (cs, r) = disconnect_all cs in (c # cs, r)))"

definition Manager_Shutdown :: "AMI_Mgr \<Rightarrow> AMI_Mgr \<times> (ami_mgr_error, unit) outcome" where
  "Manager_Shutdown m = (let (cs, r) = disconnect_all (am_clients m) in (m\<lparr>am_clients := cs\<rparr>, r))"

section \<open>Replay\<close>

text \<open>One stored action; the number says how often it was sent (0 or 1).\<close>

definition replay_one :: "send_io \<Rightarrow> gotime \<Rightarrow> nat \<Rightarrow> string \<Rightarrow> MemoryStorage \<Rightarrow> AMI_Mgr \<Rightarrow>
    MemoryStorage \<times> AMI_Mgr \<times> (ami_mgr_error, nat) outcome" where
  "replay_one io now a actionID st m =
     (case GetAMIAction now actionID st of
        (st, Ret action) \<Rightarrow>
          (if act_expired now action then (fst (DeleteAMIAction actionID st), m, Ret 0)
           else if 3 < act_Retries action then (fst (DeleteAMIAction actionID st), m, Ret 0)
           else let st = fst (StoreAMIAction now (Some (action\<lparr>act_Retries := act_Retries action + 1\<rparr>)) st)
                in case send_to io (act_Params action) a m of
                     (m, Ret response) \<Rightarrow>
                       (if field ''Response'' response = ''Success'' then fst (DeleteAMIAction actionID st) else st, m, Ret 1)
                   | (m, Fail e) \<Rightarrow> (st, m, Ret 1)
                   | (m, Panic p) \<Rightarrow> (st, m, Panic p)
                   | (m, Blocked) \<Rightarrow> (st, m, Blocked))
      | (st, _) \<Rightarrow> (st, m, Ret 0))"

fun replay_all :: "action_io \<Rightarrow> gotime \<Rightarrow> nat \<Rightarrow> nat \<Rightarrow> string list \<Rightarrow> MemoryStorage \<Rightarrow> AMI_Mgr \<Rightarrow>
    MemoryStorage \<times> AMI_Mgr \<times> (ami_mgr_error, nat) outcome" where
  "replay_all sio now a k [] st m = (st, m, Ret 0)"
| "replay_all sio now a k (i # is) st m =
     (case replay_one (sio k a) now a i st m of
        (st, m, Ret n) \<Rightarrow>
          (case replay_all sio now a (Suc k) is st m of
             (st, m, Ret n') \<Rightarrow> (st, m, Ret (n + n'))
           | r \<Rightarrow> r)
      | r \<Rightarrow> r)"

definition replayPendingActions :: "action_io \<Rightarrow> gotime \<Rightarrow> AMI_Mgr \<Rightarrow> AMI_Mgr \<times> (ami_mgr_error, nat) outcome" where
  "replayPendingActions sio now m =
     (case am_storage m of
        None \<Rightarrow> (m, Ret 0)
      | Some st \<Rightarrow>
          (let (st, ids) = ListAMIActionIDs now st
           in if ids = [] then (m\<lparr>am_storage := Some st\<rparr>, Ret 0)
              else case GetActiveClient m of
                None \<Rightarrow> (m, Panic IndexOutOfRange)
              | Some a \<Rightarrow>
                  (let (st, m, r) = replay_all sio now a 0 ids st m
                   in (m\<lparr>am_storage := Some st\<rparr>, r))))"

definition tryReconnectOrFailover :: "conn_io \<Rightarrow> action_io \<Rightarrow> gotime \<Rightarrow> nat \<Rightarrow> AMI_Mgr \<Rightarrow> AMI_Mgr \<times> (ami_mgr_error, unit) outcome" where
  "tryReconnectOrFailover cio sio now cur m =
     (case connect_client cio cur m of
        (m, Ret _) \<Rightarrow> (m, Ret ())
      | (m, Panic p) \<Rightarrow> (m, Panic p)
      | (m, Blocked) \<Rightarrow> (m, Blocked)
      | (m, Fail e) \<Rightarrow>
          (case connect_first cio (others cur m) m of
             (m, Ret (Some i)) \<Rightarrow> map_prod id (map_outcome id (\<lambda>_. ())) (replayPendingActions sio now m)
           | (m, r) \<Rightarrow> (m, map_outcome id (\<lambda>_. ()) r)))"

text \<open>One tick of client \<open>i\<close>'s health check in \<open>Start\<close>.\<close>

definition AMI_health_tick :: "conn_io \<Rightarrow> action_io \<Rightarrow> gotime \<Rightarrow> nat \<Rightarrow> AMI_Mgr \<Rightarrow> AMI_Mgr \<times> (ami_mgr_error, unit) outcome" where
  "AMI_health_tick cio sio now i m =
     (if \<not> i < length (am_clients m) \<or> \<not> AMI_IsConnected (am_clients m ! i) then (m, Ret ())
      else case send_to (sio 0 i) [(''Action'', ''Ping'')] i m of
        (m, Ret _) \<Rightarrow> (m, Ret ())
      | (m, Panic p) \<Rightarrow> (m, Panic p)
      | (m, Blocked) \<Rightarrow> (m, Blocked)
      | (m, Fail e) \<Rightarrow> if am_activeIdx m = int i then tryReconnectOrFailover cio sio now i m else (m, Ret ()))"

section \<open>BackendManager\<close>

record BackendManager =
  bm_backends :: "AMIClient list"
  bm_activeBackend :: int
  bm_reconnectDelay :: duration

definition setActiveBackend :: "nat \<Rightarrow> BackendManager \<Rightarrow> BackendManager" where
  "setActiveBackend i m = m\<lparr>bm_activeBackend := int i\<rparr>"

definition getActiveBackend :: "BackendManager \<Rightarrow> int" where
  "getActiveBackend m = bm_activeBackend m"

definition connect_backend :: "conn_io \<Rightarrow> nat \<Rightarrow> BackendManager \<Rightarrow> BackendManager \<times> (ami_error, unit) outcome" where
  "connect_backend cio i m =
     (let (c, r) = Connect (cio i) (bm_backends m ! i) in (m\<lparr>bm_backends := (bm_backends m)[i := c]\<rparr>, r))"

fun connect_backends :: "conn_io \<Rightarrow> nat list \<Rightarrow> BackendManager \<Rightarrow> BackendManager \<times> (ami_error, unit) outcome" where
  "connect_backends cio [] m = (m, Ret ())"
| "connect_backends cio (i # is) m =
     (case connect_backend cio i m of
        (m, Ret _) \<Rightarrow> (setActiveBackend i m, Ret ())
      | (m, Fail e) \<Rightarrow> connect_backends cio is m
      | r \<Rightarrow> r)"

fun new_backends :: "gotime \<Rightarrow> ami_Config list \<Rightarrow> (ami_error, AMIClient list) outcome" where
  "new_backends now [] = Ret []"
| "new_backends now (cfg # cfgs) =
     (case AMI_New now cfg of
        Ret c \<Rightarrow> (case new_backends now cfgs of Ret cs \<Rightarrow> Ret (c # cs) | r \<Rightarrow> r)
      | Fail e \<Rightarrow> Fail e
      | Panic p \<Rightarrow> Panic p
      | Blocked \<Rightarrow> Blocked)"

text \<open>\<open>NewBackendManager\<close> up to its first connections (\<open>None\<close>: no configuration).\<close>

definition NewBackendManager :: "gotime \<Rightarrow> conn_io \<Rightarrow> ami_Config list \<Rightarrow> (ami_error option, BackendManager) outcome" where
  "NewBackendManager now cio configs =
     (if configs = [] then Fail None
      else case new_backends now configs of
        Ret cs \<Rightarrow>
          (let m = \<lparr>bm_backends = cs, bm_activeBackend = 0, bm_reconnectDelay = 30 * Second\<rparr>
           in case connect_backend cio 0 m of
                (m, Fail e) \<Rightarrow>
                  (case connect_backends cio [1..<length (bm_backends m)] m of
                     (m, Panic p) \<Rightarrow> Panic p
                   | (m, _) \<Rightarrow> Ret m)
              | (m, Ret _) \<Rightarrow> Ret m
              | (m, Panic p) \<Rightarrow> Panic p
              | (m, Blocked) \<Rightarrow> Blocked)
      | Fail e \<Rightarrow> Fail (Some e)
      | Panic p \<Rightarrow> Panic p
      | Blocked \<Rightarrow> Blocked)"

text \<open>
  \<open>handleBackendFailure\<close>; when no other backend is connected it starts \<open>attemptReconnectAll\<close> in
  the background, which is a call of its own.
\<close>

definition handleBackendFailure :: "int \<Rightarrow> BackendManager \<Rightarrow> BackendManager" where
  "handleBackendFailure failedIndex m =
     (if failedIndex \<noteq> bm_activeBackend m then m
      else case List.find (\<lambda>i. int i \<noteq> failedIndex \<and> ac_connected (bm_backends m ! i)) [0..<length (bm_backends m)] of
        Some i \<Rightarrow> setActiveBackend i m
      | None \<Rightarrow> m)"

fun attemptReconnectAll :: "conn_io \<Rightarrow> gotime \<Rightarrow> nat list \<Rightarrow> BackendManager \<Rightarrow> BackendManager \<times> (ami_error, unit) outcome" where
  "attemptReconnectAll cio now [] m = (m, Ret ())"
| "attemptReconnectAll cio now (i # is) m =
     (if ac_connected (bm_backends m ! i) \<or>
         now - getLastConnectionAttempt (bm_backends m ! i) < bm_reconnectDelay m
      then attemptReconnectAll cio now is m
      else case connect_backend cio i m of
        (m, Ret _) \<Rightarrow> (setActiveBackend i m, Ret ())
      | (m, Fail e) \<Rightarrow> attemptReconnectAll cio now is m
      | r \<Rightarrow> r)"

definition Backend_SendAction :: "action_io \<Rightarrow> message \<Rightarrow> BackendManager \<Rightarrow> BackendManager \<times> (ami_error, message) outcome" where
  "Backend_SendAction sio action m =
     (case slice_get (bm_backends m) (bm_activeBackend m) of
        None \<Rightarrow> (m, Panic IndexOutOfRange)
      | Some client \<Rightarrow>
          (let a = nat (bm_activeBackend m); (c, r) = AMI_SendAction (sio 0 a) action client;
               m = m\<lparr>bm_backends := (bm_backends m)[a := c]\<rparr>
           in case r of
                Fail e \<Rightarrow>
                  (let m = handleBackendFailure (getActiveBackend m) m; b = nat (bm_activeBackend m);
                       (c, r) = AMI_SendAction (sio 1 b) (action_after (sio 0 a) client action) (bm_backends m ! b)
                   in (m\<lparr>bm_backends := (bm_backends m)[b := c]\<rparr>, r))
              | _ \<Rightarrow> (m, r)))"

text \<open>One tick of \<open>monitorBackend\<close> for backend \<open>index\<close>.\<close>

definition monitorBackend_tick :: "conn_io \<Rightarrow> action_io \<Rightarrow> gotime \<Rightarrow> nat \<Rightarrow> BackendManager \<Rightarrow>
    BackendManager \<times> (ami_error, unit) outcome" where
  "monitorBackend_tick cio sio now index m =
     (if \<not> index < length (bm_backends m) then (m, Panic IndexOutOfRange)
      else let backend = bm_backends m ! index
           in if \<not> ac_connected backend \<and> now - getLastConnectionAttempt backend < bm_reconnectDelay m then (m, Ret ())
              else case (if ac_connected backend then (m, Ret ()) else connect_backend cio index m) of
                (m, Ret _) \<Rightarrow>
                  (let (c, r) = AMI_Ping (sio 0 index) (bm_backends m ! index);
                       m = m\<lparr>bm_backends := (bm_backends m)[index := c]\<rparr>
                   in case r of
                        Blocked \<Rightarrow> (m, Blocked)
                      | Panic p \<Rightarrow> (m, Panic p)
                      | _ \<Rightarrow>
                          (case slice_get (bm_backends m) (bm_activeBackend m) of
                             None \<Rightarrow> (m, Panic IndexOutOfRange)
                           | Some active \<Rightarrow>
                               if int index \<noteq> bm_activeBackend m \<and> \<not> ac_connected active
                               then (setActiveBackend index m, Ret ()) else (m, Ret ())))
              | (m, Fail e) \<Rightarrow> (handleBackendFailure (int index) m, Ret ())
              | (m, r) \<Rightarrow> (m, r))"

section \<open>The manager as a pool\<close>

definition ami_ok :: "AMI_Mgr \<Rightarrow> bool" where
  "ami_ok m \<longleftrightarrow> 0 \<le> am_activeIdx m \<and> am_activeIdx m < int (length (am_clients m)) \<and>
     (\<forall>st. am_clientStatus m = Some st \<longrightarrow> length st = length (am_clients m))"

lemma ami_ok_New: "AMI_NewManager now configs r d storage = Ret m \<Longrightarrow> ami_ok m"
  by (auto simp: AMI_NewManager_def ami_ok_def Let_def split: if_splits)

text \<open>What every operation keeps: well-formedness and the number of clients.\<close>

definition pool_kept :: "AMI_Mgr \<Rightarrow> AMI_Mgr \<Rightarrow> bool" where
  "pool_kept m m' \<longleftrightarrow> (ami_ok m \<longrightarrow> ami_ok m' \<and> length (am_clients m') = length (am_clients m))"

lemma pool_kept_refl [simp]: "pool_kept m m"
  by (simp add: pool_kept_def)

lemma pool_kept_trans: "pool_kept m m1 \<Longrightarrow> pool_kept m1 m2 \<Longrightarrow> pool_kept m m2"
  by (auto simp: pool_kept_def)

lemma pool_kept_set_client [simp]: "pool_kept m (set_client i c m)"
  by (auto simp: pool_kept_def ami_ok_def set_client_def)

lemma pool_kept_storage [simp]: "pool_kept m (m\<lparr>am_storage := st\<rparr>)"
  by (auto simp: pool_kept_def ami_ok_def)

lemma pool_kept_active: "i < length (am_clients m) \<Longrightarrow> pool_kept m (m\<lparr>am_activeIdx := int i\<rparr>)"
  by (auto simp: pool_kept_def ami_ok_def)

lemma pool_kept_init [simp]: "pool_kept m (init_status m)"
  by (auto simp: pool_kept_def ami_ok_def init_status_def)

lemma pool_kept_event [simp]: "pool_kept m (AMI_recordFailoverEvent now from to reason m)"
  by (auto simp: AMI_recordFailoverEvent_def split: option.split)

lemma pool_kept_record [simp]: "pool_kept m (recordClientFailure now addr m)"
proof -
  have "pool_kept (init_status m) (recordClientFailure now addr m)"
    by (auto simp: recordClientFailure_def Let_def pool_kept_def ami_ok_def client_status_def init_status_def split: option.split)
  then show ?thesis using pool_kept_trans pool_kept_init by blast
qed

lemma failover_target_Some:
  "failover_target m = Some i \<Longrightarrow>
   i < length (am_clients m) \<and> int i \<noteq> am_activeIdx m \<and> ac_connected (am_clients m ! i) \<and> cs_IsHealthy (client_status m ! i)"
  by (auto simp: failover_target_def find_Some_iff)

lemma pool_kept_tryFailover [simp]: "pool_kept m (fst (AMI_tryFailover now m))"
proof (cases "failover_target (init_status m)")
  case (Some i)
  let ?m = "(init_status m)\<lparr>am_activeIdx := int i\<rparr>"
  have "pool_kept (init_status m) ?m"
    using failover_target_Some [OF Some] by (intro pool_kept_active) simp
  then have "pool_kept m ?m" using pool_kept_trans pool_kept_init by blast
  then have "pool_kept m (AMI_recordFailoverEvent now from to reason ?m)" for "from" to reason
    using pool_kept_trans pool_kept_event by blast
  then show ?thesis using Some by (simp add: AMI_tryFailover_def Let_def split: option.split)
qed (simp add: AMI_tryFailover_def Let_def split: option.split)

lemma pool_kept_send [simp]: "pool_kept m (fst (send_to io action i m))"
  by (simp add: send_to_def split_beta Let_def)

lemma pool_kept_connect [simp]: "pool_kept m (fst (connect_client cio i m))"
  by (simp add: connect_client_def split_beta Let_def)

end
