(* ===== verification/SIP_Proxy.thy ===== *)
theory SIP_Proxy
  imports Gateway_Prelude "HOL-Library.Sublist"
begin

text \<open>
  The SIP proxy of \<open>pkg/sip/proxy.go\<close>: the registry of user locations, the handlers of the SIP
  server (\<open>setupSipProxy\<close>) and \<open>HandleMessage\<close>, which the WebSocket server calls. The SIP library is
  outside: a message is the record of the header values the code reads, a transaction is the list
  of its events, and what the library answers is an argument.
\<close>

section \<open>Messages\<close>

record sip_uri =
  uri_User :: string
  uri_Host :: string
  uri_Port :: int

record sip_request =
  rq_Method :: string
  rq_To :: "sip_uri option"
  rq_Contact :: "sip_uri option"
  rq_From :: "string option"
  rq_CallID :: "string option"
  rq_FromTag :: "string option"
  rq_ToTag :: "string option"
  rq_Source :: string
  rq_Destination :: string

record sip_response =
  rs_StatusCode :: int
  rs_headers :: "(string \<times> string) list"
  rs_Destination :: string

datatype sip_message = SIPRequest sip_request | SIPResponse sip_response

section \<open>The registry\<close>

type_synonym Registry = "string \<rightharpoonup> string"

definition NewRegistry :: Registry where
  "NewRegistry = Map.empty"

definition Registry_Add :: "string \<Rightarrow> string \<Rightarrow> Registry \<Rightarrow> Registry" where
  "Registry_Add user addr r = r(user \<mapsto> addr)"

definition Registry_Get :: "string \<Rightarrow> Registry \<Rightarrow> string" where
  "Registry_Get user r = (case r user of Some addr \<Rightarrow> addr | None \<Rightarrow> [])"

definition getDestination :: "string \<Rightarrow> Registry \<Rightarrow> sip_request \<Rightarrow> string" where
  "getDestination proxyDst registry req =
     (case rq_To req of
        None \<Rightarrow> proxyDst
      | Some uri \<Rightarrow>
          if uri_Host uri = [] then proxyDst
          else let dst = Registry_Get (uri_User uri) registry in if dst = [] then proxyDst else dst)"

definition contact_addr :: "sip_uri \<Rightarrow> string" where
  "contact_addr uri = uri_Host uri @ '':'' @ fmt_d (uri_Port uri)"

section \<open>The SIP server\<close>

text \<open>What the handlers send: replies and relayed responses upstream, requests downstream.\<close>

datatype sip_out =
    Reply int string
  | Relay sip_response
  | Forward sip_request
  | Cancel sip_request

text \<open>
  \<open>OnRegister\<close>; \<open>host\<close> and \<open>port\<close> are the proxy's own address.
\<close>

definition OnRegister :: "string \<Rightarrow> int \<Rightarrow> sip_request \<Rightarrow> Registry \<Rightarrow> Registry \<times> sip_out list" where
  "OnRegister host port req registry =
     (case rq_Contact req of
        None \<Rightarrow> (registry, [Reply 404 ''Missing address of record''])
      | Some uri \<Rightarrow>
          if uri_Host uri = [] then (registry, [Reply 404 ''Missing address of record''])
          else if uri_Host uri = host \<and> uri_Port uri = port then (registry, [Reply 401 ''Contact address not provided''])
          else (Registry_Add (uri_User uri) (contact_addr uri) registry, [Reply 200 ''OK'']))"

text \<open>
  The events of a routed transaction: a response or the end of the responses, the end of the
  client transaction, an ACK, the end of the server transaction (cancelled or not).
\<close>

datatype route_event =
    GotResponse sip_response
  | ResponsesClosed
  | ClientDone
  | GotAck sip_request
  | ServerDone bool

text \<open>\<open>removeVia\<close> is \<open>RemoveHeader("Via")\<close> of the library.\<close>

definition relayed :: "(sip_response \<Rightarrow> sip_response) \<Rightarrow> sip_request \<Rightarrow> sip_response \<Rightarrow> sip_response" where
  "relayed removeVia req res = removeVia (res\<lparr>rs_Destination := rq_Source req\<rparr>)"

definition newCancelRequest :: "sip_request \<Rightarrow> sip_request" where
  "newCancelRequest req = req\<lparr>rq_Method := ''CANCEL'', rq_Contact := None\<rparr>"

fun route_loop :: "(sip_response \<Rightarrow> sip_response) \<Rightarrow> string \<Rightarrow> sip_request \<Rightarrow> route_event list \<Rightarrow> sip_out list" where
  "route_loop removeVia dstAddr req [] = []"
| "route_loop removeVia dstAddr req (GotResponse res # es) = Relay (relayed removeVia req res) # route_loop removeVia dstAddr req es"
| "route_loop removeVia dstAddr req (GotAck ack # es) = Forward (ack\<lparr>rq_Destination := dstAddr\<rparr>) # route_loop removeVia dstAddr req es"
| "route_loop removeVia dstAddr req (ServerDone cancelled # es) =
     (if cancelled \<and> rq_Method req = ''INVITE'' then [Cancel (newCancelRequest req)] else [])"
| "route_loop removeVia dstAddr req (ResponsesClosed # es) = []"
| "route_loop removeVia dstAddr req (ClientDone # es) = []"

text \<open>\<open>route\<close>, which \<open>OnInvite\<close>, \<open>OnCancel\<close> and \<open>OnBye\<close> call; \<open>created\<close>: the client transaction was created.\<close>

definition route :: "(sip_response \<Rightarrow> sip_response) \<Rightarrow> string \<Rightarrow> Registry \<Rightarrow> bool \<Rightarrow> route_event list \<Rightarrow> sip_request \<Rightarrow> sip_out list" where
  "route removeVia proxydst registry created events req =
     (let dstAddr = getDestination proxydst registry req
      in if dstAddr = [] then [Reply 404 ''Not found'']
         else if \<not> created then [Reply 500 []]
         else let req = req\<lparr>rq_Destination := dstAddr\<rparr> in Forward req # route_loop removeVia dstAddr req events)"

definition OnAck :: "string \<Rightarrow> Registry \<Rightarrow> bool \<Rightarrow> sip_request \<Rightarrow> sip_out list" where
  "OnAck proxydst registry written req =
     (let dstAddr = getDestination proxydst registry req
      in if dstAddr = [] then []
         else if written then [Forward (req\<lparr>rq_Destination := dstAddr\<rparr>)] else [Reply 500 []])"

section \<open>Addresses\<close>

text \<open>\<open>net.SplitHostPort\<close>, with two empty strings for an error (which the caller ignores).\<close>

fun last_colon :: "string \<Rightarrow> (string \<times> string) option" where
  "last_colon [] = None"
| "last_colon (c # cs) =
     (case last_colon cs of
        Some (h, p) \<Rightarrow> Some (c # h, p)
      | None \<Rightarrow> if c = CHR '':'' then Some ([], cs) else None)"

definition SplitHostPort :: "string \<Rightarrow> string \<times> string" where
  "SplitHostPort s =
     (case last_colon s of
        None \<Rightarrow> ([], [])
      | Some (h, port) \<Rightarrow>
          if take 1 s = ''[''
          then (let host = takeWhile (\<lambda>c. c \<noteq> CHR '']'') (tl s)
                in if h = CHR ''['' # host @ '']'' \<and> CHR ''['' \<notin> set (host @ port) \<and> CHR '']'' \<notin> set port then (host, port) else ([], []))
          else if CHR '':'' \<in> set h \<or> CHR ''['' \<in> set s \<or> CHR '']'' \<in> set s then ([], [])
          else (h, port))"

definition is_digit :: "char \<Rightarrow> bool" where
  "is_digit c \<longleftrightarrow> c \<in> set ''0123456789''"

fun digits_value :: "int \<Rightarrow> string \<Rightarrow> int" where
  "digits_value acc [] = acc"
| "digits_value acc (c # cs) = digits_value (10 * acc + int (of_char c) - 48) cs"

text \<open>\<open>strconv.Atoi\<close>, 0 for what is no number and the nearest \<open>int\<close> for what is out of range.\<close>

definition Atoi :: "string \<Rightarrow> int" where
  "Atoi s =
     (let (neg, ds) = (case s of c # cs \<Rightarrow> if c = CHR ''-'' then (True, cs) else if c = CHR ''+'' then (False, cs) else (False, s)
                                | [] \<Rightarrow> (False, []))
      in if ds = [] \<or> \<not> list_all is_digit ds then 0
         else let v = digits_value 0 ds
              in if neg then max (- (2 ^ 63)) (- v) else min (2 ^ 63 - 1) v)"

section \<open>The proxy\<close>

record SIPConfig =
  sc_DisableUDPSIPProcessing :: bool
  sc_DisableWSSIPProcessing :: bool

record Proxy =
  sp_registry :: Registry
  sp_proxyDst :: string
  sp_config :: SIPConfig

datatype sip_error = MissingAddressOfRecord | ContactNotProvided | NoDestination | TransactionFailed

definition NewProxy :: "SIPConfig \<Rightarrow> string \<Rightarrow> Proxy" where
  "NewProxy cfg nextHop = \<lparr>sp_registry = NewRegistry, sp_proxyDst = nextHop, sp_config = cfg\<rparr>"

text \<open>The two ways in which the code tells a WebSocket client from a UDP one.\<close>

definition network_ws :: "string \<Rightarrow> bool" where
  "network_ws network \<longleftrightarrow> network = ''ws'' \<or> network = ''wss'' \<or> sublist ''websocket'' network"

definition address_ws :: "string \<Rightarrow> bool" where
  "address_ws clientAddr \<longleftrightarrow> CHR ''-'' \<in> set clientAddr"

definition skip_flag :: "bool \<Rightarrow> Proxy \<Rightarrow> bool" where
  "skip_flag isWebSocket p =
     (if isWebSocket then sc_DisableWSSIPProcessing (sp_config p) else sc_DisableUDPSIPProcessing (sp_config p))"

text \<open>
  What one attempt of \<open>TransactionRequest\<close> does: it succeeds, the port is in use, or it fails
  otherwise. \<open>forward_loop\<close> counts the attempts.
\<close>

datatype tx_result = TxOk | TxBusy | TxFail

fun forward_loop :: "(nat \<Rightarrow> tx_result) \<Rightarrow> nat \<Rightarrow> nat \<Rightarrow> nat \<times> (sip_error, unit) outcome" where
  "forward_loop tx attempt 0 = (attempt, Fail TransactionFailed)"
| "forward_loop tx attempt (Suc left) =
     (case tx attempt of
        TxOk \<Rightarrow> (Suc attempt, Ret ())
      | TxBusy \<Rightarrow> forward_loop tx (Suc attempt) left
      | TxFail \<Rightarrow> (Suc attempt, Fail TransactionFailed))"

definition forwardRequest :: "(nat \<Rightarrow> tx_result) \<Rightarrow> sip_request \<Rightarrow> string \<Rightarrow> Proxy \<Rightarrow> nat \<times> (sip_error, unit) outcome" where
  "forwardRequest tx req clientAddr p =
     (if skip_flag (address_ws clientAddr) p then (0, Ret ())
      else if getDestination (sp_proxyDst p) (sp_registry p) req = [] then (0, Fail NoDestination)
      else forward_loop tx 0 3)"

definition handleRegister :: "(nat \<Rightarrow> tx_result) \<Rightarrow> sip_request \<Rightarrow> string \<Rightarrow> Proxy \<Rightarrow>
    Proxy \<times> nat \<times> (sip_error, unit) outcome" where
  "handleRegister tx req clientAddr p =
     (case rq_Contact req of
        None \<Rightarrow> (p, 0, Fail MissingAddressOfRecord)
      | Some uri \<Rightarrow>
          if uri_Host uri = [] then (p, 0, Fail MissingAddressOfRecord)
          else let (host, port) = SplitHostPort clientAddr
               in if uri_Host uri = host \<and> uri_Port uri = Atoi port then (p, 0, Fail ContactNotProvided)
                  else let p = p\<lparr>sp_registry := Registry_Add (uri_User uri) (contact_addr uri) (sp_registry p)\<rparr>
                       in if skip_flag (address_ws clientAddr) p then (p, 0, Ret ())
                          else (p, forwardRequest tx req clientAddr p))"

definition handleInvite :: "(nat \<Rightarrow> tx_result) \<Rightarrow> sip_request \<Rightarrow> string \<Rightarrow> Proxy \<Rightarrow> nat \<times> (sip_error, unit) outcome" where
  "handleInvite tx req clientAddr p =
     (if skip_flag (address_ws clientAddr) p then (0, Ret ()) else forwardRequest tx req clientAddr p)"

definition handleAck :: "(nat \<Rightarrow> tx_result) \<Rightarrow> sip_request \<Rightarrow> string \<Rightarrow> Proxy \<Rightarrow> nat \<times> (sip_error, unit) outcome" where
  "handleAck tx req clientAddr p =
     (if skip_flag (address_ws clientAddr) p then (0, Ret ()) else forwardRequest tx req clientAddr p)"

definition handleBye :: "(nat \<Rightarrow> tx_result) \<Rightarrow> sip_request \<Rightarrow> string \<Rightarrow> Proxy \<Rightarrow> nat \<times> (sip_error, unit) outcome" where
  "handleBye tx req clientAddr p = forwardRequest tx req clientAddr p"

definition handleCancel :: "(nat \<Rightarrow> tx_result) \<Rightarrow> sip_request \<Rightarrow> string \<Rightarrow> Proxy \<Rightarrow> nat \<times> (sip_error, unit) outcome" where
  "handleCancel tx req clientAddr p = forwardRequest tx req clientAddr p"

definition handleOptions :: "(nat \<Rightarrow> tx_result) \<Rightarrow> sip_request \<Rightarrow> string \<Rightarrow> Proxy \<Rightarrow> nat \<times> (sip_error, unit) outcome" where
  "handleOptions tx req clientAddr p = forwardRequest tx req clientAddr p"

text \<open>The number counts the transactions that were attempted.\<close>

definition HandleMessage :: "(nat \<Rightarrow> tx_result) \<Rightarrow> sip_message \<Rightarrow> string \<Rightarrow> string \<Rightarrow> Proxy \<Rightarrow>
    Proxy \<times> nat \<times> (sip_error, unit) outcome" where
  "HandleMessage tx msg network clientAddr p =
     (case msg of
        SIPRequest req \<Rightarrow>
          if skip_flag (network_ws network) p then (p, 0, Ret ())
          else if rq_Method req = ''REGISTER'' then handleRegister tx req clientAddr p
          else if rq_Method req = ''INVITE'' then (p, handleInvite tx req clientAddr p)
          else if rq_Method req = ''BYE'' then (p, handleBye tx req clientAddr p)
          else if rq_Method req = ''ACK'' then (p, handleAck tx req clientAddr p)
          else if rq_Method req = ''CANCEL'' then (p, handleCancel tx req clientAddr p)
          else if rq_Method req = ''OPTIONS'' then (p, handleOptions tx req clientAddr p)
          else (p, 0, Ret ())
      | SIPResponse resp \<Rightarrow> (p, 0, Ret ()))"

section \<open>When a request is forwarded\<close>

lemma forward_loop_outcome:
  "forward_loop tx k left = (n, r) \<Longrightarrow>
   k \<le> n \<and> n \<le> k + left \<and> (0 < left \<longrightarrow> k < n) \<and> (\<forall>i. k \<le> i \<and> Suc i < n \<longrightarrow> tx i = TxBusy) \<and>
   (r = Ret () \<longleftrightarrow> k < n \<and> tx (n - 1) = TxOk) \<and> (r \<noteq> Ret () \<longrightarrow> r = Fail TransactionFailed)"
proof (induction left arbitrary: k)
  case (Suc left)
  show ?case
  proof (cases "tx k")
    case TxBusy
    have "forward_loop tx (Suc k) left = (n, r)" using Suc.prems TxBusy by simp
    note ih = Suc.IH [OF this]
    have busy: "\<forall>i. k \<le> i \<and> Suc i < n \<longrightarrow> tx i = TxBusy"
      using ih TxBusy by (metis le_neq_implies_less Suc_leI)
    have "r = Ret () \<longleftrightarrow> k < n \<and> tx (n - 1) = TxOk"
      using ih TxBusy by (metis Suc_leI diff_Suc_1 le_neq_implies_less order_less_le_trans tx_result.distinct(1) lessI less_imp_le)
    then show ?thesis using ih busy by auto
  qed (use Suc.prems in auto)
qed auto


definition sample_bye :: sip_request where
  "sample_bye = \<lparr>rq_Method = ''BYE'', rq_To = None, rq_Contact = None, rq_From = None, rq_CallID = None,
     rq_FromTag = None, rq_ToTag = None, rq_Source = [], rq_Destination = []\<rparr>"


section \<open>The location service\<close>

text \<open>The binding that a message adds to the registry, if it is a REGISTER that is accepted.\<close>

fun registration :: "SIPConfig \<Rightarrow> sip_message \<times> string \<times> string \<Rightarrow> (string \<times> string) option" where
  "registration cfg (SIPRequest req, network, clientAddr) =
     (let disabled = if network_ws network then sc_DisableWSSIPProcessing cfg else sc_DisableUDPSIPProcessing cfg;
          (host, port) = SplitHostPort clientAddr
      in if disabled \<or> rq_Method req \<noteq> ''REGISTER'' then None
         else case rq_Contact req of
           None \<Rightarrow> None
         | Some uri \<Rightarrow>
             if uri_Host uri = [] \<or> uri_Host uri = host \<and> uri_Port uri = Atoi port then None
             else Some (uri_User uri, contact_addr uri))"
| "registration cfg (SIPResponse resp, network, clientAddr) = None"

lemma HandleMessage_registry:
  "sp_config (fst (HandleMessage tx msg network addr p)) = sp_config p \<and>
   sp_proxyDst (fst (HandleMessage tx msg network addr p)) = sp_proxyDst p \<and>
   sp_registry (fst (HandleMessage tx msg network addr p)) =
     (case registration (sp_config p) (msg, network, addr) of None \<Rightarrow> sp_registry p | Some (u, a) \<Rightarrow> (sp_registry p)(u \<mapsto> a))"
  by (cases msg)
    (auto simp: HandleMessage_def handleRegister_def skip_flag_def Let_def Registry_Add_def split: option.split prod.split)

definition handle_all :: "((nat \<Rightarrow> tx_result) \<times> sip_message \<times> string \<times> string) list \<Rightarrow> Proxy \<Rightarrow> Proxy" where
  "handle_all = fold (\<lambda>(tx, msg, network, addr) p. fst (HandleMessage tx msg network addr p))"

definition bindings :: "SIPConfig \<Rightarrow> ((nat \<Rightarrow> tx_result) \<times> sip_message \<times> string \<times> string) list \<Rightarrow> (string \<times> string) list" where
  "bindings cfg msgs = List.map_filter (registration cfg \<circ> snd) msgs"

lemma handle_all_registry:
  "sp_config (handle_all msgs p) = sp_config p \<and> sp_proxyDst (handle_all msgs p) = sp_proxyDst p \<and>
   sp_registry (handle_all msgs p) = sp_registry p ++ map_of (rev (bindings (sp_config p) msgs))"
proof (induction msgs arbitrary: p)
  case (Cons m msgs)
  obtain tx msg network addr where m: "m = (tx, msg, network, addr)" by (cases m) auto
  let ?p = "fst (HandleMessage tx msg network addr p)"
  show ?case
    using Cons [of ?p] HandleMessage_registry [of tx msg network addr p]
    by (auto simp: m handle_all_def bindings_def List.map_filter_simps split: option.split)
qed (simp add: handle_all_def bindings_def List.map_filter_simps)


definition sample_register :: "int \<Rightarrow> sip_request" where
  "sample_register port = sample_bye\<lparr>rq_Method := ''REGISTER'',
     rq_Contact := Some \<lparr>uri_User = ''bob'', uri_Host = ''10.0.0.9'', uri_Port = port\<rparr>\<rparr>"

definition sample_messages :: "((nat \<Rightarrow> tx_result) \<times> sip_message \<times> string \<times> string) list" where
  "sample_messages =
     [(\<lambda>_. TxBusy, SIPRequest (sample_register 5060), ''udp'', ''1.2.3.4:5''),
      (\<lambda>_. TxOk, SIPRequest (sample_register 5070), ''wss'', ''1.2.3.4:5'')]"

definition open_config :: SIPConfig where
  "open_config = \<lparr>sc_DisableUDPSIPProcessing = False, sc_DisableWSSIPProcessing = False\<rparr>"

lemma sample_bindings: "map_of (rev (bindings open_config sample_messages)) ''bob'' = Some ''10.0.0.9:5070''"
  by code_simp


section \<open>The UDP transport\<close>

text \<open>
  A socket bound to an address, on which the proxy can only send. Whether the address resolves,
  can be bound and can be written to is an argument. An address given as \<open>net.Addr\<close> keeps its
  dynamic type; those of WebSocket clients are no UDP addresses.
\<close>

record UDPTransport =
  ut_bindAddr :: string

datatype transport_error = ResolveFailed | ListenFailed | InvalidUDPAddress | DatagramFailed

datatype net_addr = UDPAddr string | WebsocketAddr string string string

definition NewUDPTransport :: "(string \<Rightarrow> bool) \<Rightarrow> (string \<Rightarrow> bool) \<Rightarrow> string \<Rightarrow> (transport_error, UDPTransport) outcome" where
  "NewUDPTransport resolves binds bindAddr =
     (if \<not> resolves bindAddr then Fail ResolveFailed
      else if \<not> binds bindAddr then Fail ListenFailed
      else Ret \<lparr>ut_bindAddr = bindAddr\<rparr>)"

definition UDP_Send :: "(string \<Rightarrow> string \<Rightarrow> bool) \<Rightarrow> string \<Rightarrow> net_addr \<Rightarrow> UDPTransport \<Rightarrow> (transport_error, string \<times> string) outcome" where
  "UDP_Send writes msg addr t =
     (case addr of
        UDPAddr a \<Rightarrow> if writes a msg then Ret (a, msg) else Fail DatagramFailed
      | WebsocketAddr clientID network address \<Rightarrow> Fail InvalidUDPAddress)"

text \<open>A transport that was made sends exactly the datagrams for UDP addresses that can be written.\<close>

lemma UDP_Send_iff:
  "(\<exists>t. NewUDPTransport resolves binds bindAddr = Ret t \<and> UDP_Send writes msg addr t = Ret (a, m)) \<longleftrightarrow>
     resolves bindAddr \<and> binds bindAddr \<and> addr = UDPAddr a \<and> m = msg \<and> writes a msg"
  by (auto simp: NewUDPTransport_def UDP_Send_def split: net_addr.splits)

end
