(* ===== verification/Coordinator_Model.thy ===== *)
theory Coordinator_Model
  imports Memory_Storage
begin

text \<open>
  The coordinator of \<open>pkg/coordinator/coordination.go\<close>: leader election over a lease kept in the
  key-value store. Every operation takes and returns the coordinator and the storage it was
  given. \<open>tryAcquireLeadership\<close> is split at its storage calls, so that two coordinators can be
  interleaved there. The key-value store is the one of \<open>Memory_Storage\<close>, used through the facts
  of its contract (the prefix \<open>kv\<close>).
\<close>

section \<open>State\<close>

record Coordinator =
  co_instanceID :: string
  co_isLeader :: bool
  co_leaseExpiration :: gotime
  co_leadership :: "(string \<times> bool) list"
  co_leadershipCh :: "string list"
  co_heartbeatInterval :: duration
  co_leaseTimeout :: duration

record CoordinatorConfig =
  cc_HeartbeatInterval :: duration
  cc_LeaseTimeout :: duration

datatype coord_error =
    StorageRequired | NoLeaderElected | StorageErr storage_error | ParseFailed
  | InterfaceAddrsFailed | RegisterFailed storage_error | UnregisterFailed storage_error | ShutdownTimedOut

definition NewCoordinator :: "gotime \<Rightarrow> string option \<Rightarrow> bool \<Rightarrow> CoordinatorConfig \<Rightarrow> (coord_error, Coordinator) outcome" where
  "NewCoordinator now os_Hostname storage_nil config =
     (if storage_nil then Fail StorageRequired
      else let heartbeat = (if cc_HeartbeatInterval config \<le> 0 then 5 * Second else cc_HeartbeatInterval config);
               lease = (if cc_LeaseTimeout config \<le> 0 then 15 * Second else cc_LeaseTimeout config);
               hostname = (case os_Hostname of None \<Rightarrow> ''unknown'' | Some h \<Rightarrow> h)
           in Ret \<lparr>co_instanceID = hostname @ ''-'' @ fmt_d (UnixNano now), co_isLeader = False,
                   co_leaseExpiration = 0, co_leadership = [], co_leadershipCh = [],
                   co_heartbeatInterval = heartbeat, co_leaseTimeout = lease\<rparr>)"

definition leaderKey :: string where
  "leaderKey = ''coordinator:leader''"

definition instanceKey :: "Coordinator \<Rightarrow> string" where
  "instanceKey c = ''coordinator:instance:'' @ co_instanceID c"

text \<open>The notification channel has room for ten names; a full channel skips the notification.\<close>

definition notify :: "string \<Rightarrow> Coordinator \<Rightarrow> Coordinator" where
  "notify name c =
     (if length (co_leadershipCh c) < 10 then c\<lparr>co_leadershipCh := co_leadershipCh c @ [name]\<rparr> else c)"

section \<open>Queries\<close>

definition IsLeader :: "gotime \<Rightarrow> string option \<Rightarrow> Coordinator \<Rightarrow> bool" where
  "IsLeader now component c =
     (let isGlobalLeader = co_isLeader c \<and> Before now (co_leaseExpiration c)
      in case component of
           None \<Rightarrow> isGlobalLeader
         | Some name \<Rightarrow> if \<not> isGlobalLeader then False else map_of (co_leadership c) name = Some True)"

definition RegisterComponentLeadership :: "string \<Rightarrow> Coordinator \<Rightarrow> Coordinator" where
  "RegisterComponentLeadership component c = c\<lparr>co_leadership := AList.update component False (co_leadership c)\<rparr>"

definition IsComponentLeader :: "gotime \<Rightarrow> string \<Rightarrow> Coordinator \<Rightarrow> bool" where
  "IsComponentLeader now component c =
     (map_of (co_leadership c) component = Some True \<and> IsLeader now None c)"

text \<open>
  \<open>WaitForLeadership\<close> sees a sequence of events; with none left it is still waiting (\<open>None\<close>).
\<close>

datatype wait_event = CtxDone | Received string | HeartbeatPassed

fun WaitForLeadership_loop :: "(gotime \<times> wait_event \<times> Coordinator) list \<Rightarrow> bool option" where
  "WaitForLeadership_loop [] = None"
| "WaitForLeadership_loop ((now, e, c) # es) =
     (case e of
        CtxDone \<Rightarrow> Some False
      | Received component \<Rightarrow>
          if component = ''global'' \<and> IsLeader now None c then Some True else WaitForLeadership_loop es
      | HeartbeatPassed \<Rightarrow> if IsLeader now None c then Some True else WaitForLeadership_loop es)"

definition WaitForLeadership :: "gotime \<Rightarrow> Coordinator \<Rightarrow> (gotime \<times> wait_event \<times> Coordinator) list \<Rightarrow> bool option" where
  "WaitForLeadership now c es = (if IsLeader now None c then Some True else WaitForLeadership_loop es)"

definition GetLeaderInfo :: "gotime \<Rightarrow> MemoryStorage \<Rightarrow> MemoryStorage \<times> (coord_error, jobj) outcome" where
  "GetLeaderInfo now m =
     (case Get now leaderKey m of
        (m, Ret data) \<Rightarrow>
          (case json_Unmarshal data of None \<Rightarrow> (m, Fail ParseFailed) | Some info \<Rightarrow> (m, Ret info))
      | (m, Fail e) \<Rightarrow> (m, Fail (if e = ErrNotFound then NoLeaderElected else StorageErr e))
      | (m, Panic p) \<Rightarrow> (m, Panic p)
      | (m, Blocked) \<Rightarrow> (m, Blocked))"

section \<open>Registration of the instance\<close>

text \<open>An interface address: not an IP network, or one with its three tests and its text.\<close>

record if_addr =
  ifa_IsIPNet :: bool
  ifa_IsLoopback :: bool
  ifa_Is4 :: bool
  ifa_String :: string

definition first_ip :: "if_addr list \<Rightarrow> string" where
  "first_ip addrs =
     (case List.find (\<lambda>a. ifa_IsIPNet a \<and> \<not> ifa_IsLoopback a \<and> ifa_Is4 a) addrs of
        Some a \<Rightarrow> ifa_String a | None \<Rightarrow> ''unknown'')"

definition registerInstance :: "gotime \<Rightarrow> if_addr list option \<Rightarrow> Coordinator \<Rightarrow> MemoryStorage \<Rightarrow>
    MemoryStorage \<times> (coord_error, unit) outcome" where
  "registerInstance now InterfaceAddrs c m =
     (case InterfaceAddrs of
        None \<Rightarrow> (m, Fail InterfaceAddrsFailed)
      | Some addrs \<Rightarrow>
          (let info = [(''id'', JStr (co_instanceID c)), (''host'', JStr (co_instanceID c)),
                       (''ip'', JStr (first_ip addrs)), (''startTime'', JNum (Time_Unix now)),
                       (''lastSeen'', JNum (Time_Unix now))]
           in case Set now (instanceKey c) (Some (Json info)) (co_leaseTimeout c * 2) m of
                (m, Fail e) \<Rightarrow> (m, Fail (RegisterFailed e))
              | (m, Ret u) \<Rightarrow> (m, Ret ())
              | (m, Panic p) \<Rightarrow> (m, Panic p)
              | (m, Blocked) \<Rightarrow> (m, Blocked)))"

definition unregisterInstance :: "Coordinator \<Rightarrow> MemoryStorage \<Rightarrow> MemoryStorage \<times> (coord_error, unit) outcome" where
  "unregisterInstance c m =
     (case Delete (instanceKey c) m of
        (m, Fail e) \<Rightarrow> (m, if e \<noteq> ErrNotFound then Fail (UnregisterFailed e) else Ret ())
      | (m, Ret u) \<Rightarrow> (m, Ret ())
      | (m, Panic p) \<Rightarrow> (m, Panic p)
      | (m, Blocked) \<Rightarrow> (m, Blocked))"

section \<open>Leadership\<close>

text \<open>
  Phase 1 of \<open>tryAcquireLeadership\<close>: whether to go on. Only an error of \<open>Get\<close> or a lease that
  has run out lets it; a value that is no JSON object does not. A panic ends the goroutine.
\<close>

definition acquire_check :: "gotime \<Rightarrow> MemoryStorage \<Rightarrow> MemoryStorage \<times> bool" where
  "acquire_check now m =
     (case Get now leaderKey m of
        (m, Ret data) \<Rightarrow>
          (case json_Unmarshal data of
             None \<Rightarrow> (m, False)
           | Some leaderInfo \<Rightarrow>
               (case as_number (map_of leaderInfo ''expireTime'') of
                  Some expireTime \<Rightarrow> (m, \<not> Before now (Unix_Time expireTime))
                | None \<Rightarrow> (m, True)))
      | (m, Fail e) \<Rightarrow> (m, True)
      | (m, _) \<Rightarrow> (m, False))"

definition leader_info :: "gotime \<Rightarrow> Coordinator \<Rightarrow> jobj" where
  "leader_info now c =
     [(''instanceID'', JStr (co_instanceID c)), (''acquireTime'', JNum (Time_Unix now)),
      (''expireTime'', JNum (Time_Unix (now + co_leaseTimeout c)))]"

text \<open>Phase 2: write the lease; whether the write succeeded.\<close>

definition acquire_write :: "gotime \<Rightarrow> Coordinator \<Rightarrow> MemoryStorage \<Rightarrow> MemoryStorage \<times> bool" where
  "acquire_write now c m =
     (case Set now leaderKey (Some (Json (leader_info now c))) (co_leaseTimeout c) m of
        (m, Ret u) \<Rightarrow> (m, True)
      | (m, _) \<Rightarrow> (m, False))"

text \<open>Phase 3: read back, and become leader when the lease is ours.\<close>

definition become_leader :: "gotime \<Rightarrow> Coordinator \<Rightarrow> Coordinator" where
  "become_leader now c =
     (let wasLeader = co_isLeader c;
          c = c\<lparr>co_isLeader := True, co_leaseExpiration := now + co_leaseTimeout c\<rparr>
      in if \<not> wasLeader then notify ''global'' c else c)"

definition acquire_verify :: "gotime \<Rightarrow> Coordinator \<Rightarrow> MemoryStorage \<Rightarrow> Coordinator \<times> MemoryStorage" where
  "acquire_verify now c m =
     (case Get now leaderKey m of
        (m, Ret data) \<Rightarrow>
          (case json_Unmarshal data of
             None \<Rightarrow> (c, m)
           | Some verifyInfo \<Rightarrow>
               if as_string (map_of verifyInfo ''instanceID'') = Some (co_instanceID c)
               then (become_leader now c, m) else (c, m))
      | (m, _) \<Rightarrow> (c, m))"

definition tryAcquireLeadership :: "gotime \<Rightarrow> Coordinator \<Rightarrow> MemoryStorage \<Rightarrow> Coordinator \<times> MemoryStorage" where
  "tryAcquireLeadership now c m =
     (case acquire_check now m of
        (m, False) \<Rightarrow> (c, m)
      | (m, True) \<Rightarrow>
          (case acquire_write now c m of
             (m, False) \<Rightarrow> (c, m)
           | (m, True) \<Rightarrow> acquire_verify now c m))"

definition renewLeadership :: "gotime \<Rightarrow> Coordinator \<Rightarrow> MemoryStorage \<Rightarrow> Coordinator \<times> MemoryStorage" where
  "renewLeadership now c m =
     (case Get now leaderKey m of
        (m, Ret data) \<Rightarrow>
          (case json_Unmarshal data of
             None \<Rightarrow> (c, m)
           | Some leaderInfo \<Rightarrow>
               if as_string (map_of leaderInfo ''instanceID'') \<noteq> Some (co_instanceID c)
               then (c\<lparr>co_isLeader := False\<rparr>, m)
               else let leaderInfo = AList.update ''expireTime'' (JNum (Time_Unix (now + co_leaseTimeout c))) leaderInfo
                    in case Set now leaderKey (Some (Json leaderInfo)) (co_leaseTimeout c) m of
                         (m, Ret u) \<Rightarrow> (c\<lparr>co_leaseExpiration := now + co_leaseTimeout c\<rparr>, m)
                       | (m, _) \<Rightarrow> (c, m))
      | (m, Fail e) \<Rightarrow> (c\<lparr>co_isLeader := False\<rparr>, m)
      | (m, _) \<Rightarrow> (c, m))"

definition releaseLeadership :: "gotime \<Rightarrow> Coordinator \<Rightarrow> MemoryStorage \<Rightarrow> Coordinator \<times> MemoryStorage" where
  "releaseLeadership now c m =
     (case Get now leaderKey m of
        (m, Ret data) \<Rightarrow>
          (case json_Unmarshal data of
             None \<Rightarrow> (c, m)
           | Some leaderInfo \<Rightarrow>
               if as_string (map_of leaderInfo ''instanceID'') \<noteq> Some (co_instanceID c) then (c, m)
               else let (m, r) = Delete leaderKey m in (c\<lparr>co_isLeader := False\<rparr>, m))
      | (m, _) \<Rightarrow> (c, m))"

text \<open>A component's status in the loops of \<open>monitorComponentLeadership\<close>, in the order of \<open>range\<close>.\<close>

fun assign_components :: "bool \<Rightarrow> string list \<Rightarrow> Coordinator \<Rightarrow> Coordinator" where
  "assign_components leader [] c = c"
| "assign_components leader (name # names) c =
     assign_components leader names
       (if map_of (co_leadership c) name = Some (\<not> leader)
        then notify name (c\<lparr>co_leadership := AList.update name leader (co_leadership c)\<rparr>) else c)"

definition monitorComponentLeadership :: "gotime \<Rightarrow> Coordinator \<Rightarrow> Coordinator" where
  "monitorComponentLeadership now c =
     (if \<not> IsLeader now None c then assign_components False (map fst (co_leadership c)) c
      else assign_components True (map fst (co_leadership c)) c)"

section \<open>Start and Stop\<close>

text \<open>
  \<open>Start\<close> registers the instance and then starts the two loops; the first loop begins with one
  \<open>tryAcquireLeadership\<close>, and each of its ticks renews or acquires.
\<close>

definition leadership_tick :: "gotime \<Rightarrow> Coordinator \<Rightarrow> MemoryStorage \<Rightarrow> Coordinator \<times> MemoryStorage" where
  "leadership_tick now c m =
     (if IsLeader now None c then renewLeadership now c m else tryAcquireLeadership now c m)"

definition Coordinator_Start :: "gotime \<Rightarrow> if_addr list option \<Rightarrow> Coordinator \<Rightarrow> MemoryStorage \<Rightarrow>
    Coordinator \<times> MemoryStorage \<times> (coord_error, unit) outcome" where
  "Coordinator_Start now addrs c m =
     (case registerInstance now addrs c m of
        (m, Ret u) \<Rightarrow> (let (c, m) = tryAcquireLeadership now c m in (c, m, Ret ()))
      | (m, r) \<Rightarrow> (c, m, r))"

definition Coordinator_Stop :: "gotime \<Rightarrow> bool \<Rightarrow> Coordinator \<Rightarrow> MemoryStorage \<Rightarrow>
    Coordinator \<times> MemoryStorage \<times> (coord_error, unit) outcome" where
  "Coordinator_Stop now goroutines_exit c m =
     (let (c, m) = (if IsLeader now None c then releaseLeadership now c m else (c, m));
          (m, r) = unregisterInstance c m
      in (c, m, case r of Panic p \<Rightarrow> Panic p
                | _ \<Rightarrow> if goroutines_exit then Ret () else Fail ShutdownTimedOut))"

end
