(* ===== verification/Domain_Rewrite.thy ===== *)
theory Domain_Rewrite
  imports Gateway_Prelude "HOL-Library.Sublist"
begin

text \<open>
  The domain rewriting of \<open>pkg/websocket/domainproxy.go\<close>: SIP messages from a WebSocket client have
  the domain the client uses replaced by the domain of its backend. The source uses the regular
  expressions of the Go library; \<open>rx_all\<close> is their matcher, which lists the matches at a position
  in the order of preference of that library (leftmost alternative first, longest repetition
  first). Messages are sequences of ASCII characters, and target domains contain no dollar sign.
\<close>

section \<open>Regular expressions of the Go library\<close>

datatype rx =
    Eps
  | Chr "char \<Rightarrow> bool"
  | Cat rx rx
  | Alt rx rx
  | Rep rx
  | Grp nat rx

type_synonym caps = "nat \<rightharpoonup> string"

text \<open>
  \<open>r*\<close>: as many rounds as possible first. A round that consumes nothing ends the repetition, so
  the length of the input bounds the number of rounds.
\<close>

fun rep_upto :: "(string \<Rightarrow> caps \<Rightarrow> (string \<times> caps) list) \<Rightarrow> nat \<Rightarrow> string \<Rightarrow> caps \<Rightarrow> (string \<times> caps) list" where
  "rep_upto f 0 s c = [(s, c)]"
| "rep_upto f (Suc n) s c =
     concat (map (\<lambda>(s', c'). if length s' < length s then rep_upto f n s' c' else []) (f s c)) @ [(s, c)]"

primrec rx_all :: "rx \<Rightarrow> string \<Rightarrow> caps \<Rightarrow> (string \<times> caps) list" where
  "rx_all Eps s c = [(s, c)]"
| "rx_all (Chr p) s c = (case s of [] \<Rightarrow> [] | x # xs \<Rightarrow> if p x then [(xs, c)] else [])"
| "rx_all (Cat r1 r2) s c = concat (map (\<lambda>(s', c'). rx_all r2 s' c') (rx_all r1 s c))"
| "rx_all (Alt r1 r2) s c = rx_all r1 s c @ rx_all r2 s c"
| "rx_all (Rep r) s c = rep_upto (rx_all r) (length s) s c"
| "rx_all (Grp n r) s c = map (\<lambda>(s', c'). (s', c'(n \<mapsto> take (length s - length s') s))) (rx_all r s c)"

definition Lit :: "string \<Rightarrow> rx" where
  "Lit w = foldr (\<lambda>c. Cat (Chr ((=) c))) w Eps"

text \<open>A literal under \<open>(?i)\<close>.\<close>

definition LitI :: "string \<Rightarrow> rx" where
  "LitI w = foldr (\<lambda>c. Cat (Chr (\<lambda>x. lower x = lower c))) w Eps"

definition Plus :: "rx \<Rightarrow> rx" where
  "Plus r = Cat r (Rep r)"

definition NotIn :: "string \<Rightarrow> rx" where
  "NotIn cs = Chr (\<lambda>c. c \<notin> set cs)"

definition rx_first :: "rx \<Rightarrow> string \<Rightarrow> (string \<times> caps) option" where
  "rx_first r s = (case rx_all r s Map.empty of [] \<Rightarrow> None | m # _ \<Rightarrow> Some m)"

text \<open>\<open>FindStringSubmatch\<close> without an anchor: the groups of the leftmost match.\<close>

fun rx_find :: "rx \<Rightarrow> string \<Rightarrow> caps option" where
  "rx_find r [] = map_option snd (rx_first r [])"
| "rx_find r (x # xs) = (case rx_first r (x # xs) of Some (_, c) \<Rightarrow> Some c | None \<Rightarrow> rx_find r xs)"

text \<open>\<open>ReplaceAllString\<close> with a replacement that is computed from the groups.\<close>

function replace_rx :: "rx \<Rightarrow> (caps \<Rightarrow> string) \<Rightarrow> string \<Rightarrow> string" where
  "replace_rx r f [] = (case rx_first r [] of Some (_, c) \<Rightarrow> f c | None \<Rightarrow> [])"
| "replace_rx r f (x # xs) =
     (case rx_first r (x # xs) of
        Some (rest, c) \<Rightarrow>
          if length rest < length (x # xs) then f c @ replace_rx r f rest else f c @ x # replace_rx r f xs
      | None \<Rightarrow> x # replace_rx r f xs)"
  by pat_completeness auto
termination
  by (relation "measure (\<lambda>(r, f, s). length s)") auto

definition grp :: "nat \<Rightarrow> caps \<Rightarrow> string" where
  "grp n c = (case c n of Some s \<Rightarrow> s | None \<Rightarrow> [])"

text \<open>\<open>strings.Replace(s, old, new, -1)\<close> for a non-empty \<open>old\<close>.\<close>

function Replace :: "string \<Rightarrow> string \<Rightarrow> string \<Rightarrow> string" where
  "Replace old new [] = []"
| "Replace old new (x # xs) =
     (if old \<noteq> [] \<and> take (length old) (x # xs) = old
      then new @ Replace old new (drop (length old) (x # xs)) else x # Replace old new xs)"
  by pat_completeness auto
termination
  by (relation "measure (\<lambda>(old, new, s). length s)") (auto simp: neq_Nil_conv)

section \<open>The proxy\<close>

type_synonym DomainRewriteProxy = "string \<rightharpoonup> string"

definition NewDomainRewriteProxy :: DomainRewriteProxy where
  "NewDomainRewriteProxy = Map.empty"

definition SetDomainMapping :: "string \<Rightarrow> string \<Rightarrow> string \<Rightarrow> DomainRewriteProxy \<Rightarrow> DomainRewriteProxy" where
  "SetDomainMapping clientID platformDomain backendDomain p = p(clientID @ '':'' @ platformDomain \<mapsto> backendDomain)"

text \<open>The first element of \<open>strings.Split(msg, "\r\n")\<close> and what follows it.\<close>

fun cut_line :: "string \<Rightarrow> string \<times> string" where
  "cut_line [] = ([], [])"
| "cut_line (c # cs) =
     (if take 2 (c # cs) = crlf then ([], c # cs) else let (l, rest) = cut_line cs in (c # l, rest))"

definition isSipMessage :: "string \<Rightarrow> bool" where
  "isSipMessage msg \<longleftrightarrow>
     list_ex (\<lambda>m. prefix m (fst (cut_line msg)))
       [''REGISTER '', ''INVITE '', ''OPTIONS '', ''BYE '', ''CANCEL '', ''ACK '']"

definition fromHeaderRegex :: rx where
  "fromHeaderRegex =
     Cat (Lit ''From:'') (Cat (Rep (NotIn crlf)) (Cat (Lit ''sip:'') (Cat (Grp 1 (Plus (NotIn ''@'')))
       (Cat (Lit ''@'') (Grp 2 (Plus (NotIn '';>'')))))))"

text \<open>Without its anchor, which \<open>extractDomainFromSIP\<close> adds by matching at the start only.\<close>

definition requestURIRegex :: rx where
  "requestURIRegex =
     Cat (Plus (Chr (\<lambda>c. c \<in> set ''ABCDEFGHIJKLMNOPQRSTUVWXYZ''))) (Cat (Lit '' sip:'') (Cat (Grp 1 (Plus (NotIn ''@'')))
       (Cat (Lit ''@'') (Grp 2 (Plus (NotIn '';: ''))))))"

definition extractDomainFromSIP :: "string \<Rightarrow> string" where
  "extractDomainFromSIP msg =
     (case rx_find fromHeaderRegex msg of
        Some c \<Rightarrow> grp 2 c
      | None \<Rightarrow> (case rx_first requestURIRegex msg of Some (_, c) \<Rightarrow> grp 2 c | None \<Rightarrow> []))"

definition regex_space :: "char \<Rightarrow> bool" where
  "regex_space c \<longleftrightarrow> c \<in> {CHR '' '', CHR 0x09, CHR 0x0A, CHR 0x0C, CHR 0x0D}"

definition methodRegex :: "string \<Rightarrow> rx" where
  "methodRegex sourceDomain =
     Cat (Grp 1 (foldr (\<lambda>w. Alt (Lit w)) [''REGISTER'', ''INVITE'', ''OPTIONS'', ''BYE'', ''CANCEL'', ''ACK'', ''SUBSCRIBE'',
            ''NOTIFY'', ''PUBLISH''] (Lit ''MESSAGE'')))
       (Cat (Plus (Chr regex_space)) (Cat (Lit ''sip:'')
         (Cat (Alt (Grp 2 (Cat (Rep (Chr (\<lambda>c. c \<noteq> CHR ''@'' \<and> \<not> regex_space c))) (Lit ''@''))) Eps)
           (Cat (Lit sourceDomain) (Grp 3 (Cat (Plus (Chr regex_space)) (Lit ''SIP/2.0'')))))))"

text \<open>The request line; the expression is anchored, so it is replaced once or not at all.\<close>

definition rewrite_first_line :: "string \<Rightarrow> string \<Rightarrow> string \<Rightarrow> string" where
  "rewrite_first_line sourceDomain targetDomain msg =
     (let (firstLine, others) = cut_line msg
      in case rx_first (methodRegex sourceDomain) firstLine of
           Some (rest, c) \<Rightarrow> grp 1 c @ '' sip:'' @ grp 2 c @ targetDomain @ grp 3 c @ rest @ others
         | None \<Rightarrow> msg)"

text \<open>The header-specific expressions: \<open>(?i)(name)([^\r\n]*sip:[^@\r\n]+@)\<close> and the domain.\<close>

definition headerRegex :: "string list \<Rightarrow> string \<Rightarrow> rx" where
  "headerRegex names sourceDomain =
     Cat (Grp 1 (foldr (\<lambda>w. Alt (LitI w)) (butlast names) (LitI (last names))))
       (Cat (Grp 2 (Cat (Rep (NotIn crlf)) (Cat (LitI ''sip:'') (Cat (Plus (NotIn (CHR ''@'' # crlf))) (Lit ''@'')))))
         (LitI sourceDomain))"

definition rewrite_header :: "string \<Rightarrow> string \<Rightarrow> string list \<Rightarrow> string \<Rightarrow> string" where
  "rewrite_header sourceDomain targetDomain names =
     replace_rx (headerRegex names sourceDomain) (\<lambda>c. grp 1 c @ grp 2 c @ targetDomain)"

definition rewrite_headers :: "string \<Rightarrow> string \<Rightarrow> string \<Rightarrow> string" where
  "rewrite_headers sourceDomain targetDomain =
     fold (rewrite_header sourceDomain targetDomain)
       [[''Contact:'', ''m:''], [''From:'', ''f:''], [''To:'', ''t:''], [''P-Asserted-Identity:''], [''Route:''],
        [''Record-Route:''], [''Path:'']]"

definition aorRegex :: "string \<Rightarrow> rx" where
  "aorRegex sourceDomain =
     Cat (Lit ''<'') (Cat (Grp 1 (Cat (Lit ''sip:'') (Cat (Plus (NotIn ''@>'')) (Lit ''@'')))) (Cat (Lit sourceDomain) (Lit ''>'')))"

definition domain_char :: "char \<Rightarrow> bool" where
  "domain_char c \<longleftrightarrow>
     c \<in> set ''ABCDEFGHIJKLMNOPQRSTUVWXYZabcdefghijklmnopqrstuvwxyz0123456789._-''"

definition domainRegex :: "string \<Rightarrow> rx" where
  "domainRegex sourceDomain =
     Cat (Grp 1 (Chr (\<lambda>c. \<not> domain_char c))) (Cat (Lit sourceDomain) (Grp 2 (Chr (\<lambda>c. \<not> domain_char c))))"

definition rewriteSIPDomains :: "string \<Rightarrow> string \<Rightarrow> string \<Rightarrow> string" where
  "rewriteSIPDomains msg sourceDomain targetDomain =
     (let newMsg = rewrite_first_line sourceDomain targetDomain msg;
          newMsg = Replace (''@'' @ sourceDomain) (''@'' @ targetDomain) newMsg;
          newMsg = Replace (''sip:'' @ sourceDomain) (''sip:'' @ targetDomain) newMsg;
          newMsg = Replace (''<sip:'' @ sourceDomain) (''<sip:'' @ targetDomain) newMsg;
          newMsg = Replace ('';domain='' @ sourceDomain) ('';domain='' @ targetDomain) newMsg;
          newMsg = rewrite_headers sourceDomain targetDomain newMsg;
          newMsg = replace_rx (Lit ('';host='' @ sourceDomain)) (\<lambda>_. '';host='' @ targetDomain) newMsg;
          newMsg = replace_rx (Lit ('';domain='' @ sourceDomain)) (\<lambda>_. '';domain='' @ targetDomain) newMsg;
          newMsg = replace_rx (aorRegex sourceDomain) (\<lambda>c. ''<'' @ grp 1 c @ targetDomain @ ''>'') newMsg
      in replace_rx (domainRegex sourceDomain) (\<lambda>c. grp 1 c @ targetDomain @ grp 2 c) newMsg)"

definition RewriteClientToBackend :: "string \<Rightarrow> string \<Rightarrow> DomainRewriteProxy \<Rightarrow> string" where
  "RewriteClientToBackend clientID msg p =
     (if \<not> isSipMessage msg then msg
      else let sourceDomain = extractDomainFromSIP msg
           in if sourceDomain = [] then msg
              else case p (clientID @ '':'' @ sourceDomain) of
                None \<Rightarrow> msg
              | Some targetDomain \<Rightarrow> rewriteSIPDomains msg sourceDomain targetDomain)"

definition RewriteBackendToClient :: "string \<Rightarrow> string \<Rightarrow> string" where
  "RewriteBackendToClient clientID msg = msg"

section \<open>What a match consumes\<close>

primrec rx_lang :: "rx \<Rightarrow> string set" where
  "rx_lang Eps = {[]}"
| "rx_lang (Chr p) = {[c] | c. p c}"
| "rx_lang (Cat r1 r2) = {x @ y | x y. x \<in> rx_lang r1 \<and> y \<in> rx_lang r2}"
| "rx_lang (Alt r1 r2) = rx_lang r1 \<union> rx_lang r2"
| "rx_lang (Rep r) = {concat xs | xs. set xs \<subseteq> rx_lang r}"
| "rx_lang (Grp n r) = rx_lang r"

primrec rx_grps :: "rx \<Rightarrow> nat set" where
  "rx_grps Eps = {}"
| "rx_grps (Chr p) = {}"
| "rx_grps (Cat r1 r2) = rx_grps r1 \<union> rx_grps r2"
| "rx_grps (Alt r1 r2) = rx_grps r1 \<union> rx_grps r2"
| "rx_grps (Rep r) = rx_grps r"
| "rx_grps (Grp n r) = insert n (rx_grps r)"

text \<open>\<open>consumes r s c s' c'\<close>: a match of \<open>r\<close> leaves \<open>s'\<close> of \<open>s\<close> and sets only groups of \<open>r\<close>.\<close>

definition consumes :: "rx \<Rightarrow> string \<Rightarrow> caps \<Rightarrow> string \<Rightarrow> caps \<Rightarrow> bool" where
  "consumes r s c s' c' \<longleftrightarrow> (\<exists>x \<in> rx_lang r. s = x @ s') \<and> (\<forall>n. n \<notin> rx_grps r \<longrightarrow> c' n = c n)"

lemma rep_upto_consumes:
  assumes "\<And>s c s' c'. (s', c') \<in> set (f s c) \<Longrightarrow> consumes r s c s' c'"
    and "(s', c') \<in> set (rep_upto f n s c)"
  shows "consumes (Rep r) s c s' c'"
  using assms(2)
proof (induction n arbitrary: s c)
  case 0
  then show ?case by (auto simp: consumes_def intro!: exI [of _ "[]"])
next
  case (Suc n)
  show ?case
  proof (cases "(s', c') = (s, c)")
    case True
    then show ?thesis by (auto simp: consumes_def intro!: exI [of _ "[]"])
  next
    case False
    then obtain s1 c1 where step: "(s1, c1) \<in> set (f s c)" "(s', c') \<in> set (rep_upto f n s1 c1)"
      using Suc.prems by (auto split: if_splits)
    obtain x where x: "x \<in> rx_lang r" "s = x @ s1" using assms(1) [OF step(1)] by (auto simp: consumes_def)
    obtain xs where xs: "set xs \<subseteq> rx_lang r" "s1 = concat xs @ s'"
      using Suc.IH [OF step(2)] by (auto simp: consumes_def)
    have "set (x # xs) \<subseteq> rx_lang r" using x xs by simp
    then have "concat (x # xs) \<in> rx_lang (Rep r) \<and> s = concat (x # xs) @ s'"
      unfolding rx_lang.simps using x xs by (intro conjI CollectI exI [of _ "x # xs"]) simp_all
    moreover have "\<forall>n. n \<notin> rx_grps r \<longrightarrow> c' n = c n"
      using assms(1) [OF step(1)] Suc.IH [OF step(2)] by (simp add: consumes_def)
    ultimately show ?thesis unfolding consumes_def rx_grps.simps by blast
  qed
qed

lemma rx_all_consumes: "(s', c') \<in> set (rx_all r s c) \<Longrightarrow> consumes r s c s' c'"
proof (induction r arbitrary: s c s' c')
  case (Cat r1 r2)
  then obtain s1 c1 where "consumes r1 s c s1 c1" "consumes r2 s1 c1 s' c'" by fastforce
  then show ?case by (auto simp: consumes_def) (metis append.assoc)
next
  case (Rep r)
  then show ?case using rep_upto_consumes [of "rx_all r" r] by simp
next
  case (Grp n r)
  then show ?case by (auto simp: consumes_def)
next
  case (Alt r1 r2)
  then show ?case by (fastforce simp: consumes_def)
qed (auto simp: consumes_def split: list.splits if_splits)

lemma Grp_consumes:
  "(s', c') \<in> set (rx_all (Grp n r) s c) \<Longrightarrow> \<exists>x \<in> rx_lang r. s = x @ s' \<and> c' n = Some x \<and>
     (\<forall>k. k \<noteq> n \<and> k \<notin> rx_grps r \<longrightarrow> c' k = c k)"
proof -
  assume "(s', c') \<in> set (rx_all (Grp n r) s c)"
  then obtain c1 where c1: "(s', c1) \<in> set (rx_all r s c)" "c' = c1(n \<mapsto> take (length s - length s') s)" by auto
  then show ?thesis using rx_all_consumes [OF c1(1)] by (auto simp: consumes_def)
qed

lemma Lit_simps [simp]:
  "rx_lang (Lit w) = {w}"
  "rx_grps (Lit w) = {}"
  by (induction w) (auto simp: Lit_def)

lemma LitI_simps [simp]:
  "rx_grps (LitI w) = {}"
  by (induction w) (auto simp: LitI_def)

lemma rx_first_in: "rx_first r s = Some m \<Longrightarrow> m \<in> set (rx_all r s Map.empty)"
  by (auto simp: rx_first_def split: list.splits)

section \<open>Rewriting after delimiters\<close>

text \<open>
  Every step of \<open>rewriteSIPDomains\<close> after the first copies the message except that, after some
  text \<open>u\<close> that ends with a character no domain contains, it replaces some \<open>v\<close> by the target.
\<close>

inductive rewr :: "string \<Rightarrow> string \<Rightarrow> string \<Rightarrow> bool" for dst where
  nil: "rewr dst [] []"
| copy: "rewr dst t t' \<Longrightarrow> rewr dst (c # t) (c # t')"
| subst: "rewr dst t t' \<Longrightarrow> u \<noteq> [] \<Longrightarrow> \<not> domain_char (last u) \<Longrightarrow> rewr dst (u @ v @ t) (u @ dst @ t')"

lemma rewr_copies: "rewr dst t t' \<Longrightarrow> rewr dst (w @ t) (w @ t')"
  by (induction w) (auto intro: rewr.copy)

lemma rewr_refl: "rewr dst t t"
  using rewr_copies [OF rewr.nil, of dst t] by simp

lemma Replace_rewr:
  assumes "d \<noteq> []" and "\<not> domain_char (last d)"
  shows "rewr dst t (Replace (d @ src) (d @ dst) t)"
proof (induction "d @ src" "d @ dst" t rule: Replace.induct)
  case (2 x xs)
  show ?case
  proof (cases "take (length (d @ src)) (x # xs) = d @ src")
    case True
    let ?rest = "drop (length (d @ src)) (x # xs)"
    have split: "x # xs = d @ src @ ?rest" using True append_take_drop_id [of "length (d @ src)" "x # xs"] by simp
    have "rewr dst ?rest (Replace (d @ src) (d @ dst) ?rest)" using 2(1) True assms(1) by simp
    then have "rewr dst (d @ src @ ?rest) (d @ dst @ Replace (d @ src) (d @ dst) ?rest)"
      by (rule rewr.subst) (use assms in simp_all)
    then show ?thesis using split True assms(1) by simp
  next
    case False
    then have "rewr dst xs (Replace (d @ src) (d @ dst) xs)" using 2(2) by blast
    then show ?thesis using False by (simp add: rewr.copy)
  qed
qed (simp add: rewr.nil)

text \<open>An expression all of whose matches replace some text after a delimiter by the target.\<close>

definition retargets :: "rx \<Rightarrow> (caps \<Rightarrow> string) \<Rightarrow> string \<Rightarrow> bool" where
  "retargets r f dst \<longleftrightarrow>
     (\<forall>s rest c. rx_first r s = Some (rest, c) \<longrightarrow>
        (\<exists>u v w. s = u @ v @ w @ rest \<and> f c = u @ dst @ w \<and> u \<noteq> [] \<and> \<not> domain_char (last u)))"

lemma retargetsE:
  assumes "retargets r f dst" and "rx_first r s = Some (rest, c)"
  obtains u v w where "s = u @ v @ w @ rest" "f c = u @ dst @ w" "u \<noteq> []" "\<not> domain_char (last u)"
  using assms(1) [unfolded retargets_def, rule_format, OF assms(2)] by blast

lemma replace_rx_rewr:
  assumes "retargets r f dst"
  shows "rewr dst t (replace_rx r f t)"
  using assms
proof (induction r f t rule: replace_rx.induct)
  case (1 r f)
  then have "rx_first r [] = None" by (cases "rx_first r []") (auto simp: retargets_def)
  then show ?case by (simp add: rewr.nil)
next
  case (2 r f x xs)
  show ?case
  proof (cases "rx_first r (x # xs)")
    case None
    then show ?thesis using 2 by (simp add: rewr.copy)
  next
    case (Some m)
    obtain rest c where m: "m = (rest, c)" by (cases m)
    obtain u v w where split: "x # xs = u @ v @ w @ rest" "f c = u @ dst @ w" "u \<noteq> []" "\<not> domain_char (last u)"
      by (rule retargetsE [OF 2(4) Some [unfolded m]])
    then have shorter: "length rest < length (x # xs)" by (simp add: neq_Nil_conv)
    then have "rewr dst rest (replace_rx r f rest)" using 2 Some m by simp
    then have "rewr dst (u @ v @ (w @ rest)) (u @ dst @ (w @ replace_rx r f rest))"
      using split(3,4) by (intro rewr.subst rewr_copies)
    moreover have "replace_rx r f (x # xs) = f c @ replace_rx r f rest" using Some m shorter by simp
    ultimately show ?thesis using split(1,2) by simp
  qed
qed

lemma domain_free_prefix:
  assumes "prefix w (u @ x)" and "list_all domain_char w" and "u \<noteq> []" and "\<not> domain_char (last u)"
  shows "prefix w u"
proof -
  have "\<not> prefix u w" using assms(2-4) by (auto simp: prefix_def list_all_iff)
  then show ?thesis using assms(1) prefix_same_cases [of w "u @ x" u] by auto
qed

text \<open>
  A word that no rewriting completes: where it stands after a rewriting, it stands within the
  copied text.
\<close>

definition safe :: "string \<Rightarrow> string \<Rightarrow> bool" where
  "safe dst w \<longleftrightarrow>
     (\<forall>u x. u \<noteq> [] \<longrightarrow> \<not> domain_char (last u) \<longrightarrow> prefix w (u @ dst @ x) \<longrightarrow> prefix w u)"

lemma safeD: "safe dst w \<Longrightarrow> u \<noteq> [] \<Longrightarrow> \<not> domain_char (last u) \<Longrightarrow> prefix w (u @ dst @ x) \<Longrightarrow> prefix w u"
  by (auto simp: safe_def)

lemma safe_tl: "safe dst (c # w) \<Longrightarrow> safe dst w"
  unfolding safe_def by (metis append_Cons last_ConsR list.discI prefix_Cons list.inject)

lemma rewr_prefix: "rewr dst t t' \<Longrightarrow> safe dst w \<Longrightarrow> prefix w t' \<Longrightarrow> prefix w t"
proof (induction arbitrary: w rule: rewr.induct)
  case (copy t t' c)
  then show ?case using safe_tl by (cases w) auto
next
  case (subst t t' u v)
  then have "prefix w u" using safeD by blast
  then show ?case by simp
qed simp

lemma sublist_subst:
  assumes "safe dst (a # w)" and "\<not> domain_char a" and "list_all domain_char dst"
    and "u \<noteq> []" and "\<not> domain_char (last u)" and "sublist (a # w) (u @ dst @ t)"
  shows "sublist (a # w) u \<or> sublist (a # w) t"
proof -
  obtain ys zs where "u @ dst @ t = ys @ (a # w) @ zs" using assms(6) by (auto simp: sublist_def)
  then obtain us where us: "u = ys @ us \<and> us @ dst @ t = (a # w) @ zs \<or> u @ us = ys \<and> dst @ t = us @ (a # w) @ zs"
    unfolding append_eq_append_conv2 by blast
  consider (inside) "u = ys @ us" "us \<noteq> []" "us @ dst @ t = (a # w) @ zs"
    | (beyond) ys' where "dst @ t = ys' @ (a # w) @ zs"
    using us by (cases "us = []") auto
  then show ?thesis
  proof cases
    case inside
    then have "prefix (a # w) us" using assms(5) safeD [OF assms(1), of us t] by (auto intro: prefixI)
    then obtain z where "us = (a # w) @ z" by (auto simp: prefix_def)
    then show ?thesis using inside(1) unfolding sublist_def by blast
  next
    case beyond
    then obtain vs where "dst = ys' @ vs \<and> vs @ t = (a # w) @ zs \<or> dst @ vs = ys' \<and> t = vs @ (a # w) @ zs"
      unfolding append_eq_append_conv2 by blast
    then have "\<exists>ys''. t = ys'' @ (a # w) @ zs"
      using assms(2,3) by (cases vs) (auto simp: list_all_iff)
    then show ?thesis unfolding sublist_def by blast
  qed
qed

lemma sublist_parts: "sublist p u \<or> sublist p t \<Longrightarrow> sublist p (u @ v @ t)"
  unfolding sublist_def by (metis append.assoc)

lemma rewr_sublist:
  assumes "rewr dst t t'" and "safe dst (a # w)" and "\<not> domain_char a" and "list_all domain_char dst"
  shows "sublist (a # w) t' \<Longrightarrow> sublist (a # w) t"
  using assms(1)
proof (induction rule: rewr.induct)
  case (copy t t' c)
  then show ?case using rewr_prefix [OF rewr.copy [OF copy(1)] assms(2), of c] by (auto simp: sublist_Cons_right)
next
  case (subst t t' u v)
  then have "sublist (a # w) u \<or> sublist (a # w) t"
    using sublist_subst [OF assms(2-4), of u t'] by blast
  then show ?case by (rule sublist_parts)
qed simp

definition incomparable :: "string \<Rightarrow> string \<Rightarrow> bool" where
  "incomparable x y \<longleftrightarrow> \<not> prefix x y \<and> \<not> prefix y x"

lemma incomparable_append: "incomparable x y \<Longrightarrow> \<not> prefix x (y @ z)"
  by (auto simp: incomparable_def dest: prefix_same_cases [of x "y @ z" y])

lemma safe_delimited:
  assumes "list_all domain_char src" and "incomparable src dst" and "\<not> domain_char a"
  shows "safe dst (a # src)"
  unfolding safe_def
proof (intro allI impI)
  fix u x
  assume u: "u \<noteq> []" "\<not> domain_char (last u)" and p: "prefix (a # src) (u @ dst @ x)"
  then obtain u' where u': "u = a # u'" "prefix src (u' @ dst @ x)" by (cases u) auto
  then have "u' \<noteq> []" using incomparable_append [OF assms(2), of x] by auto
  then show "prefix (a # src) u" using u' u(2) domain_free_prefix [OF u'(2) assms(1)] by simp
qed

section \<open>The steps of the rewriting\<close>

lemma two_groups:
  assumes "(rest, c) \<in> set (rx_all (Cat (Grp 1 r1) (Cat (Grp 2 r2) r3)) s Map.empty)"
    and "rx_grps r1 = {}" and "rx_grps r2 = {}" and "rx_grps r3 = {}"
  shows "\<exists>x1 \<in> rx_lang r1. \<exists>x2 \<in> rx_lang r2. \<exists>x3 \<in> rx_lang r3. s = x1 @ x2 @ x3 @ rest \<and> c 1 = Some x1 \<and> c 2 = Some x2"
proof -
  obtain s1 c1 s2 c2 where m: "(s1, c1) \<in> set (rx_all (Grp 1 r1) s Map.empty)"
      "(s2, c2) \<in> set (rx_all (Grp 2 r2) s1 c1)" "(rest, c) \<in> set (rx_all r3 s2 c2)"
    using assms(1) by fastforce
  show ?thesis
    using Grp_consumes [OF m(1)] Grp_consumes [OF m(2)] rx_all_consumes [OF m(3)] assms(2-4)
    by (fastforce simp: consumes_def)
qed

lemma retargets_Lit:
  assumes "d \<noteq> []" and "\<not> domain_char (last d)"
  shows "retargets (Lit (d @ src)) (\<lambda>_. d @ dst) dst"
  unfolding retargets_def
proof (intro allI impI)
  fix s rest c
  assume "rx_first (Lit (d @ src)) s = Some (rest, c)"
  then have "s = d @ src @ rest" using rx_all_consumes [OF rx_first_in] by (fastforce simp: consumes_def)
  then show "\<exists>u v w. s = u @ v @ w @ rest \<and> d @ dst = u @ dst @ w \<and> u \<noteq> [] \<and> \<not> domain_char (last u)"
    using assms by (intro exI [of _ d] exI [of _ src] exI [of _ "[]"]) simp
qed

lemma grps_alts: "rx_grps (foldr (\<lambda>w. Alt (LitI w)) ws (LitI w')) = {}"
  by (induction ws) auto

lemma lang_ends: "x \<in> rx_lang (Cat r1 (Cat r2 (Cat r3 (Lit w)))) \<Longrightarrow> \<exists>y. x = y @ w"
  by auto

lemma retargets_header: "retargets (headerRegex names src) (\<lambda>c. grp 1 c @ grp 2 c @ dst) dst"
  unfolding retargets_def
proof (intro allI impI)
  fix s rest c
  assume "rx_first (headerRegex names src) s = Some (rest, c)"
  then have "(rest, c) \<in> set (rx_all (headerRegex names src) s Map.empty)" by (rule rx_first_in)
  from two_groups [OF this [unfolded headerRegex_def]] obtain x1 x2' x3 where m': "s = x1 @ x2' @ x3 @ rest"
      "c 1 = Some x1" "c 2 = Some x2'"
      "x2' \<in> rx_lang (Cat (Rep (NotIn crlf)) (Cat (LitI ''sip:'') (Cat (Plus (NotIn (CHR ''@'' # crlf))) (Lit ''@''))))"
    by (auto simp: grps_alts NotIn_def Plus_def simp del: rx_lang.simps)
  obtain x2 where m: "s = x1 @ (x2 @ ''@'') @ x3 @ rest" "c 1 = Some x1" "c 2 = Some (x2 @ ''@'')"
    using m'(1-3) lang_ends [OF m'(4)] by auto
  then show "\<exists>u v w. s = u @ v @ w @ rest \<and> grp 1 c @ grp 2 c @ dst = u @ dst @ w \<and> u \<noteq> [] \<and> \<not> domain_char (last u)"
    by (intro exI [of _ "x1 @ x2 @ ''@''"] exI [of _ x3] exI [of _ "[]"]) (simp add: grp_def domain_char_def)
qed

lemma retargets_domain: "retargets (domainRegex src) (\<lambda>c. grp 1 c @ dst @ grp 2 c) dst"
  unfolding retargets_def
proof (intro allI impI)
  fix s rest c
  assume "rx_first (domainRegex src) s = Some (rest, c)"
  then have "(rest, c) \<in> set (rx_all (domainRegex src) s Map.empty)" by (rule rx_first_in)
  then obtain s1 c1 s2 c2 where m: "(s1, c1) \<in> set (rx_all (Grp 1 (Chr (\<lambda>c. \<not> domain_char c))) s Map.empty)"
      "(s2, c2) \<in> set (rx_all (Lit src) s1 c1)" "(rest, c) \<in> set (rx_all (Grp 2 (Chr (\<lambda>c. \<not> domain_char c))) s2 c2)"
    unfolding domainRegex_def by fastforce
  obtain a where a: "\<not> domain_char a" "s = [a] @ s1" "c1 1 = Some [a]" using Grp_consumes [OF m(1)] by auto
  obtain b where b: "s2 = [b] @ rest" "c 2 = Some [b]" "c 1 = c2 1" using Grp_consumes [OF m(3)] by auto
  have "s1 = src @ s2" "c2 1 = c1 1" using rx_all_consumes [OF m(2)] by (auto simp: consumes_def)
  then show "\<exists>u v w. s = u @ v @ w @ rest \<and> grp 1 c @ dst @ grp 2 c = u @ dst @ w \<and> u \<noteq> [] \<and> \<not> domain_char (last u)"
    using a b by (intro exI [of _ "[a]"] exI [of _ src] exI [of _ "[b]"]) (simp add: grp_def)
qed

section \<open>What is left of the source domain\<close>

lemma safe_marked:
  assumes "list_all domain_char src" and "incomparable src dst" and "\<not> domain_char a" and "\<not> domain_char b"
    and "list_all domain_char m" and "list_all domain_char dst" and "\<not> prefix dst m"
  shows "safe dst (a # m @ b # src)"
  unfolding safe_def
proof (intro allI impI)
  fix u x
  assume u: "u \<noteq> []" "\<not> domain_char (last u)" and p: "prefix (a # m @ b # src) (u @ dst @ x)"
  then obtain u' where u': "u = a # u'" "prefix (m @ b # src) (u' @ dst @ x)" by (cases u) auto
  have "u' \<noteq> []"
  proof
    assume "u' = []"
    then have "prefix m (dst @ x)" "prefix (m @ [b]) (dst @ x)"
      using u'(2) by (auto simp: prefix_def)
    then have "prefix (m @ [b]) dst" using assms(7) prefix_same_cases [of "m @ [b]" "dst @ x" dst] by auto
    then show False using assms(4,6) by (auto simp: prefix_def)
  qed
  then have last: "\<not> domain_char (last u')" using u u'(1) by simp
  have "prefix m u'"
    using domain_free_prefix [OF _ assms(5) \<open>u' \<noteq> []\<close> last, of "dst @ x"] u'(2) by (auto simp: prefix_def)
  then obtain u'' where u'': "u' = m @ u''" by (auto simp: prefix_def)
  moreover have "u'' \<noteq> []" using last u'' \<open>u' \<noteq> []\<close> assms(5) by (auto simp: list_all_iff)
  moreover have "\<not> domain_char (last u'')" using last u'' \<open>u'' \<noteq> []\<close> by simp
  ultimately have "prefix (b # src) u''"
    using u'(2) safeD [OF safe_delimited [OF assms(1,2,4)], of u'' x] by simp
  then show "prefix (a # m @ b # src) u" using u' u'' by simp
qed

lemma Replace_same: "\<not> sublist old t \<Longrightarrow> Replace old new t = t"
proof (induction old new t rule: Replace.induct)
  case (2 old new x xs)
  then have "take (length old) (x # xs) \<noteq> old" by (metis sublist_Cons_right take_is_prefix)
  then show ?case using 2 by (auto simp: sublist_Cons_right)
qed simp

lemma no_match:
  assumes "\<And>x. x \<in> rx_lang r \<Longrightarrow> sublist p x" and "\<not> sublist p t"
  shows "rx_first r t = None"
proof (rule ccontr)
  assume "rx_first r t \<noteq> None"
  then obtain rest c where "(rest, c) \<in> set (rx_all r t Map.empty)" by (auto dest: rx_first_in)
  then obtain x where "x \<in> rx_lang r" "t = x @ rest" using rx_all_consumes by (fastforce simp: consumes_def)
  then show False using assms(1) [of x] assms(2) sublist_parts [of p x rest "[]"] by simp
qed

lemma replace_rx_same:
  assumes "\<And>x. x \<in> rx_lang r \<Longrightarrow> sublist p x"
  shows "\<not> sublist p t \<Longrightarrow> replace_rx r f t = t"
proof (induction t)
  case Nil
  then show ?case using no_match [of r p "[]", OF assms] by simp
next
  case (Cons c t)
  then show ?case using no_match [of r p "c # t", OF assms] by (simp add: sublist_Cons_right)
qed

lemma Replace_removes:
  assumes "d @ src = a # w" and "d \<noteq> []" and "\<not> domain_char (last d)" and "\<not> domain_char a" and "src \<noteq> []"
    and "safe dst (a # w)" and "list_all domain_char dst"
  shows "\<not> sublist (d @ src) (Replace (d @ src) (d @ dst) t)"
proof (induction "d @ src" "d @ dst" t rule: Replace.induct)
  case (2 x xs)
  show ?case
  proof (cases "take (length (d @ src)) (x # xs) = d @ src")
    case True
    let ?R = "Replace (d @ src) (d @ dst) (drop (length (d @ src)) (x # xs))"
    have "\<not> sublist (d @ src) ?R" using 2(1) True assms(2) by simp
    moreover have "\<not> sublist (d @ src) d" using assms(5) sublist_length_le [of "d @ src" d] by auto
    ultimately have "\<not> sublist (d @ src) (d @ dst @ ?R)"
      using sublist_subst [OF assms(6,4,7,2,3), of ?R] assms(1) by metis
    then show ?thesis using True assms(2) by simp
  next
    case False
    let ?R = "Replace (d @ src) (d @ dst) xs"
    have rewr: "rewr dst (x # xs) (x # ?R)" by (rule rewr.copy [OF Replace_rewr [OF assms(2,3)]])
    have "\<not> prefix (d @ src) (x # xs)" using False by (auto simp: prefix_def)
    then have "\<not> prefix (d @ src) (x # ?R)" using rewr_prefix [OF rewr, of "d @ src"] assms(1,6) by metis
    moreover have "\<not> sublist (d @ src) ?R" using 2(2) False by blast
    ultimately have "\<not> sublist (d @ src) (x # ?R)" by (simp add: sublist_Cons_right)
    moreover have "Replace (d @ src) (d @ dst) (x # xs) = x # ?R" using False by simp
    ultimately show ?thesis by metis
  qed
qed (use assms in simp)

text \<open>The assumption on the two domains: domain names neither of which is a prefix of the other.\<close>

definition rewritable :: "string \<Rightarrow> string \<Rightarrow> bool" where
  "rewritable src dst \<longleftrightarrow>
     src \<noteq> [] \<and> list_all domain_char src \<and> list_all domain_char dst \<and> incomparable src dst \<and>
     \<not> prefix dst ''sip'' \<and> \<not> prefix dst ''domain''"

lemma delimiters [simp]:
  "\<not> domain_char CHR ''@''" "\<not> domain_char CHR '':''" "\<not> domain_char CHR ''=''" "\<not> domain_char CHR '';''" "\<not> domain_char CHR ''<''"
  by (simp_all add: domain_char_def)

lemma domain_letters [simp]:
  "domain_char CHR ''s''" "domain_char CHR ''i''" "domain_char CHR ''p''" "domain_char CHR ''d''" "domain_char CHR ''o''"
  "domain_char CHR ''m''" "domain_char CHR ''a''" "domain_char CHR ''n''"
  by (simp_all add: domain_char_def)

lemma rewritable_safe:
  assumes "rewritable src dst"
  shows "safe dst (CHR ''@'' # src)" "safe dst (CHR ''<'' # ''sip'' @ CHR '':'' # src)"
    "safe dst (CHR '';'' # ''domain'' @ CHR ''='' # src)"
  using assms safe_delimited [of src dst "CHR ''@''"] safe_marked [of src dst "CHR ''<''" "CHR '':''" "''sip''"]
    safe_marked [of src dst "CHR '';''" "CHR ''=''" "''domain''"]
  by (simp_all add: rewritable_def)

lemma headers_sublist:
  assumes "safe dst (a # w)" and "\<not> domain_char a" and "list_all domain_char dst"
  shows "sublist (a # w) (rewrite_headers src dst t) \<Longrightarrow> sublist (a # w) t"
proof -
  have "sublist (a # w) (fold (rewrite_header src dst) hs t) \<Longrightarrow> sublist (a # w) t" for hs
  proof (induction hs arbitrary: t)
    case (Cons h hs)
    then have "sublist (a # w) (rewrite_header src dst h t)" by simp
    then show ?case
      unfolding rewrite_header_def by (rule rewr_sublist [OF replace_rx_rewr [OF retargets_header] assms])
  qed simp
  then show "sublist (a # w) (rewrite_headers src dst t) \<Longrightarrow> sublist (a # w) t" unfolding rewrite_headers_def .
qed

lemma aor_same:
  assumes "\<not> sublist (CHR ''@'' # src) t"
  shows "replace_rx (aorRegex src) f t = t"
proof (rule replace_rx_same [OF _ assms])
  fix x
  assume "x \<in> rx_lang (aorRegex src)"
  then have "\<exists>y z. x = y @ (CHR ''@'' # src) @ z"
    by (auto simp: aorRegex_def) (metis append.assoc append_Cons append_Nil)
  then show "sublist (CHR ''@'' # src) x" by (auto simp: sublist_def)
qed

text \<open>The texts between the steps of \<open>rewriteSIPDomains\<close>, and what each of them no longer contains.\<close>

definition uris :: "string \<Rightarrow> string \<Rightarrow> string \<Rightarrow> string" where
  "uris src dst msg =
     Replace (''sip:'' @ src) (''sip:'' @ dst) (Replace (''@'' @ src) (''@'' @ dst) (rewrite_first_line src dst msg))"

definition params :: "string \<Rightarrow> string \<Rightarrow> string \<Rightarrow> string" where
  "params src dst t =
     replace_rx (Lit ('';host='' @ src)) (\<lambda>_. '';host='' @ dst)
       (rewrite_headers src dst (Replace ('';domain='' @ src) ('';domain='' @ dst) t))"

lemma rewriteSIPDomains_stages:
  "rewriteSIPDomains msg src dst =
     replace_rx (domainRegex src) (\<lambda>c. grp 1 c @ dst @ grp 2 c)
       (replace_rx (aorRegex src) (\<lambda>c. ''<'' @ grp 1 c @ dst @ ''>'')
         (replace_rx (Lit ('';domain='' @ src)) (\<lambda>_. '';domain='' @ dst)
           (params src dst (Replace (''<sip:'' @ src) (''<sip:'' @ dst) (uris src dst msg)))))"
  unfolding rewriteSIPDomains_def params_def uris_def Let_def ..

lemma uris_no_at:
  assumes "rewritable src dst"
  shows "\<not> sublist (CHR ''@'' # src) (uris src dst msg)"
proof -
  have "\<not> sublist (CHR ''@'' # src) (Replace (''@'' @ src) (''@'' @ dst) t)" for t
    using Replace_removes [of "''@''" src "CHR ''@''" src dst t] rewritable_safe(1) [OF assms] assms
    by (simp add: rewritable_def)
  then show ?thesis
    unfolding uris_def
    using rewr_sublist [OF Replace_rewr [of "''sip:''"] rewritable_safe(1) [OF assms]] assms by (auto simp: rewritable_def)
qed

lemma uris_no_sip:
  assumes "rewritable src dst"
  shows "\<not> sublist (''<sip:'' @ src) (Replace (''sip:'' @ src) (''sip:'' @ dst) t)"
proof (induction "''sip:'' @ src" "''sip:'' @ dst" t rule: Replace.induct)
  case (2 x xs)
  let ?p = "CHR ''<'' # ''sip'' @ CHR '':'' # src" and ?R = "Replace (''sip:'' @ src) (''sip:'' @ dst)"
  note safe = rewritable_safe(2) [OF assms] and dst = assms [unfolded rewritable_def]
  show ?case
  proof (cases "take (length (''sip:'' @ src)) (x # xs) = ''sip:'' @ src")
    case True
    let ?rest = "drop (length (''sip:'' @ src)) (x # xs)"
    have "\<not> sublist ?p ''sip:''" using sublist_length_le [of ?p "''sip:''"] by auto
    moreover have "\<not> sublist ?p (?R ?rest)" using 2(1) True by simp
    ultimately have "\<not> sublist ?p (''sip:'' @ dst @ ?R ?rest)"
      using sublist_subst [OF safe, of "''sip:''" "?R ?rest"] dst by auto
    then show ?thesis using True by simp
  next
    case False
    have "\<not> prefix ?p (x # ?R xs)"
    proof
      assume "prefix ?p (x # ?R xs)"
      then have R: "prefix (''sip:'' @ src) (?R xs)" by simp
      have "safe dst (''sip:'' @ src)" using safe_tl [OF safe] by simp
      then have "prefix (''sip:'' @ src) xs" using rewr_prefix [OF Replace_rewr [of "''sip:''"] _ R] by simp
      then obtain z where "xs = ''sip:'' @ src @ z" by (auto simp: prefix_def)
      then have "?R xs = ''sip:'' @ dst @ ?R z" by simp
      then show False using R incomparable_append [of src dst] dst by auto
    qed
    moreover have "\<not> sublist ?p (?R xs)" using 2(2) False by auto
    moreover have "?R (x # xs) = x # ?R xs" using False by auto
    ultimately show ?thesis by (simp add: sublist_Cons_right)
  qed
qed simp

lemma params_keep:
  assumes "safe dst (a # w)" and "\<not> domain_char a" and "list_all domain_char dst"
    and "\<not> sublist (a # w) (Replace ('';domain='' @ src) ('';domain='' @ dst) t)"
  shows "\<not> sublist (a # w) (params src dst t)"
proof -
  let ?t = "rewrite_headers src dst (Replace ('';domain='' @ src) ('';domain='' @ dst) t)"
  have "\<not> sublist (a # w) ?t" using headers_sublist [OF assms(1-3)] assms(4) by blast
  moreover have "rewr dst ?t (params src dst t)"
    unfolding params_def by (intro replace_rx_rewr retargets_Lit) simp_all
  ultimately show ?thesis using rewr_sublist [OF _ assms(1-3)] by blast
qed

lemma params_no_at:
  assumes "rewritable src dst" and "\<not> sublist (CHR ''@'' # src) t"
  shows "\<not> sublist (CHR ''@'' # src) (params src dst t)"
proof (rule params_keep [OF rewritable_safe(1) [OF assms(1)]])
  show "\<not> sublist (CHR ''@'' # src) (Replace ('';domain='' @ src) ('';domain='' @ dst) t)"
  proof -
    have "rewr dst t (Replace ('';domain='' @ src) ('';domain='' @ dst) t)" by (rule Replace_rewr) simp_all
    moreover have "list_all domain_char dst" using assms(1) by (simp add: rewritable_def)
    ultimately show ?thesis using rewr_sublist [OF _ rewritable_safe(1) [OF assms(1)] delimiters(1)] assms(2) by blast
  qed
qed (use assms in \<open>simp_all add: rewritable_def\<close>)

lemma params_no_domain:
  assumes "rewritable src dst"
  shows "\<not> sublist ('';domain='' @ src) (params src dst t)"
proof -
  have "\<not> sublist ('';domain='' @ src) (Replace ('';domain='' @ src) ('';domain='' @ dst) t)"
    using rewritable_safe(3) [OF assms] assms
    by (intro Replace_removes [where a = "CHR '';''" and w = "''domain='' @ src"]) (simp_all add: rewritable_def)
  then show ?thesis
    using params_keep [OF rewritable_safe(3) [OF assms]] assms by (simp add: rewritable_def)
qed

lemma rewriteSIPDomains_reduced:
  assumes "rewritable src dst"
  shows "rewriteSIPDomains msg src dst =
     replace_rx (domainRegex src) (\<lambda>c. grp 1 c @ dst @ grp 2 c) (params src dst (uris src dst msg))"
proof -
  have "\<not> sublist (''<sip:'' @ src) (uris src dst msg)"
    unfolding uris_def by (rule uris_no_sip [OF assms])
  then have sip: "Replace (''<sip:'' @ src) (''<sip:'' @ dst) (uris src dst msg) = uris src dst msg"
    by (rule Replace_same)
  have "\<not> sublist ('';domain='' @ src) (params src dst (uris src dst msg))" by (rule params_no_domain [OF assms])
  then have domain: "replace_rx (Lit ('';domain='' @ src)) (\<lambda>_. '';domain='' @ dst) (params src dst (uris src dst msg)) =
      params src dst (uris src dst msg)"
    by (intro replace_rx_same [of _ "'';domain='' @ src"]) auto
  have aor: "replace_rx (aorRegex src) f (params src dst (uris src dst msg)) = params src dst (uris src dst msg)" for f
    by (rule aor_same [OF params_no_at [OF assms uris_no_at [OF assms]]])
  show ?thesis unfolding rewriteSIPDomains_stages sip domain aor ..
qed


definition platform :: string where
  "platform = ''platform.qalqul.io''"

definition qa :: string where
  "qa = ''qa.qalqul.io''"

lemma rewritable_sample: "rewritable platform qa"
  by (simp add: rewritable_def platform_def qa_def domain_char_def incomparable_def)



definition sample_sip :: string where
  "sample_sip = ''BYE sip:a@platform.qalqul.io SIP/2.0'' @ crlf @ ''From: <sip:b@platform.qalqul.io>'' @ crlf"

lemma sample_sip_domain: "isSipMessage sample_sip \<and> extractDomainFromSIP sample_sip = platform"
  by code_simp


end
