(* ===== verification/WebSocket_Server.thy ===== *)
theory WebSocket_Server
  imports Circuit_Breaker Memory_Storage SIP_Proxy Domain_Rewrite
begin

text \<open>
  The WebSocket server of \<open>pkg/websocket/server.go\<close>: clients connect by WebSocket, each is paired
  with a connection to one of several backends, and messages are copied both ways. A client's
  goroutines are its readers; one step is what a reader does with one result of its blocking read.
  \<open>ws_clients\<close> is the memory of all client objects (goroutines keep their pointer), while
  \<open>ws_connections\<close> are the keys of the server's table. What the network does during a step, and
  the parser of the SIP library, are arguments.
\<close>

section \<open>State\<close>

datatype msg_type = TextMessage | BinaryMessage

record ServerConfig =
  wc_BindAddr :: string
  wc_MaxConnections :: int
  wc_ReadTimeout :: duration
  wc_WriteTimeout :: duration
  wc_IdleTimeout :: duration
  wc_ServerName :: string
  wc_BackendServers :: "string list"
  wc_FailoverThreshold :: int
  wc_DisableWSSIPProcessing :: bool

record ClientConnection =
  cc_RemoteAddr :: string
  cc_Protocol :: string
  cc_LastActivity :: gotime
  cc_SIPAddress :: string
  cc_BackendConn :: "nat option"
  cc_CurrentBackend :: string
  cc_ErrorCount :: int
  cc_LastSIPCallID :: string
  cc_LastSIPFromTag :: string
  cc_LastSIPToTag :: string
  cc_closed :: bool
  cc_clientDone :: bool
  cc_backendDone :: bool
  cc_errors :: nat
  cc_readerConn :: nat
  cc_closedConns :: "nat list"
  cc_toBackend :: "(nat \<times> msg_type \<times> string) list"
  cc_toClient :: "(msg_type \<times> bytes) list"

record Server =
  ws_config :: ServerConfig
  ws_storage :: MemoryStorage
  ws_handler :: "Proxy option"
  ws_circuitBreaker :: CircuitBreaker
  ws_domainProxy :: DomainRewriteProxy
  ws_clients :: "string \<rightharpoonup> ClientConnection"
  ws_connections :: "string list"
  ws_backendHealth :: "(string \<times> bool) list"
  ws_startTime :: gotime
  ws_nextConn :: nat

definition with_defaults :: "ServerConfig \<Rightarrow> ServerConfig" where
  "with_defaults c =
     (let c = (if wc_MaxConnections c \<le> 0 then c\<lparr>wc_MaxConnections := 1000\<rparr> else c);
          c = (if wc_ReadTimeout c \<le> 0 then c\<lparr>wc_ReadTimeout := 30 * Second\<rparr> else c);
          c = (if wc_WriteTimeout c \<le> 0 then c\<lparr>wc_WriteTimeout := 30 * Second\<rparr> else c);
          c = (if wc_IdleTimeout c \<le> 0 then c\<lparr>wc_IdleTimeout := 120 * Second\<rparr> else c);
          c = (if wc_ServerName c = [] then c\<lparr>wc_ServerName := ''WebRTC-SIP-Gateway''\<rparr> else c);
          c = (if wc_FailoverThreshold c \<le> 0 then c\<lparr>wc_FailoverThreshold := 1\<rparr> else c)
      in if wc_BackendServers c = [] \<and> wc_ServerName c \<noteq> [] then c\<lparr>wc_BackendServers := [wc_ServerName c]\<rparr> else c)"

definition NewServer :: "gotime \<Rightarrow> ServerConfig \<Rightarrow> MemoryStorage \<Rightarrow> Server" where
  "NewServer now config storage =
     (let config = with_defaults config
      in \<lparr>ws_config = config, ws_storage = storage, ws_handler = None,
          ws_circuitBreaker = NewCircuitBreaker ''websocket''
            \<lparr>FailureThreshold = 5, ResetTimeout = 30 * Second, HalfOpenMaxReqs = 3\<rparr> now,
          ws_domainProxy = NewDomainRewriteProxy, ws_clients = Map.empty, ws_connections = [],
          ws_backendHealth = map (\<lambda>b. (b, True)) (remdups (wc_BackendServers config)),
          ws_startTime = now, ws_nextConn = 0\<rparr>)"

definition SetSIPHandler :: "Proxy \<Rightarrow> Server \<Rightarrow> Server" where
  "SetSIPHandler handler s = s\<lparr>ws_handler := Some handler\<rparr>"

definition update_conn :: "string \<Rightarrow> (ClientConnection \<Rightarrow> ClientConnection) \<Rightarrow> Server \<Rightarrow> Server" where
  "update_conn i f s = s\<lparr>ws_clients := (ws_clients s)(i := map_option f (ws_clients s i))\<rparr>"

section \<open>Backends\<close>

definition UpdateBackendHealth :: "string \<Rightarrow> bool \<Rightarrow> Server \<Rightarrow> Server" where
  "UpdateBackendHealth backend healthy s = s\<lparr>ws_backendHealth := AList.update backend healthy (ws_backendHealth s)\<rparr>"

definition selectHealthyBackend :: "Server \<Rightarrow> string" where
  "selectHealthyBackend s =
     (case wc_BackendServers (ws_config s) of
        [] \<Rightarrow> wc_ServerName (ws_config s)
      | b # bs \<Rightarrow>
          (case List.find (\<lambda>b. map_of (ws_backendHealth s) b = Some True) (b # bs) of Some b' \<Rightarrow> b' | None \<Rightarrow> b))"

definition TrimPrefix :: "string \<Rightarrow> string \<Rightarrow> string" where
  "TrimPrefix p s = (if prefix p s then drop (length p) s else s)"

definition backend_url :: "string \<Rightarrow> string" where
  "backend_url backend = (if prefix ''ws'' backend then backend else ''wss://'' @ backend)"

definition url_rest :: "string \<Rightarrow> string" where
  "url_rest url = TrimPrefix ''ws://'' (TrimPrefix ''wss://'' url)"

text \<open>\<open>s[:idx]\<close> for the first index of a character, unless it is 0 or missing.\<close>

definition cut_at :: "char \<Rightarrow> string \<Rightarrow> string" where
  "cut_at c s = (let h = takeWhile (\<lambda>x. x \<noteq> c) s in if h = [] \<or> c \<notin> set s then s else h)"

definition health_target :: "string \<Rightarrow> string" where
  "health_target backend = cut_at CHR ''/'' (cut_at CHR '':'' (url_rest (backend_url backend))) @ '':6060''"

text \<open>
  \<open>testBackendConnection\<close>; \<open>exchange\<close> is the answer to the OPTIONS request sent to an address,
  if there is one. The slices \<open>response[:15]\<close> and \<open>response[:100]\<close> of the log lines panic when
  the response is shorter.
\<close>

definition testBackendConnection :: "(string \<Rightarrow> string option) \<Rightarrow> string \<Rightarrow> (unit, bool) outcome" where
  "testBackendConnection exchange backend =
     (if backend = [] then Ret False
      else case exchange (health_target backend) of
        None \<Rightarrow> Ret False
      | Some response \<Rightarrow>
          if sublist ''SIP/2.0 200'' response \<or> sublist ''SIP/2.0 405'' response \<or> sublist ''SIP/2.0 403'' response
          then (if length response < 15 then Panic IndexOutOfRange else Ret True)
          else if length response < 100 then Panic IndexOutOfRange else Ret False)"

fun check_backends :: "(string \<Rightarrow> string option) \<Rightarrow> string list \<Rightarrow> Server \<Rightarrow> Server \<times> (unit, unit) outcome" where
  "check_backends exchange [] s = (s, Ret ())"
| "check_backends exchange (b # bs) s =
     (case testBackendConnection exchange b of
        Ret healthy \<Rightarrow> check_backends exchange bs (UpdateBackendHealth b healthy s)
      | Fail e \<Rightarrow> (s, Fail e)
      | Panic p \<Rightarrow> (s, Panic p)
      | Blocked \<Rightarrow> (s, Blocked))"

definition CheckBackendHealth :: "(string \<Rightarrow> string option) \<Rightarrow> Server \<Rightarrow> Server \<times> (unit, unit) outcome" where
  "CheckBackendHealth exchange s = check_backends exchange (wc_BackendServers (ws_config s)) s"

definition HasBackends :: "Server \<Rightarrow> bool" where
  "HasBackends s \<longleftrightarrow> wc_BackendServers (ws_config s) \<noteq> []"

definition opt_header :: "string \<Rightarrow> string \<Rightarrow> (string \<times> string) list" where
  "opt_header k v = (if v = [] then [] else [(k, v)])"

text \<open>The URL and the headers of a backend connection; \<open>dial\<close> says whether dialling succeeds.\<close>

definition backend_headers :: "string \<Rightarrow> ClientConnection \<Rightarrow> (string \<times> string) list" where
  "backend_headers url c =
     (let host = takeWhile (\<lambda>x. x \<noteq> CHR '':'') (url_rest url)
      in [(''Origin'', ''https://'' @ host), (''Host'', host), (''User-Agent'', ''QalqulVoiceGateway/1.0'')] @
         opt_header ''X-SIP-Call-ID'' (cc_LastSIPCallID c) @ opt_header ''X-SIP-From-Tag'' (cc_LastSIPFromTag c) @
         opt_header ''X-SIP-To-Tag'' (cc_LastSIPToTag c))"

type_synonym dialler = "string \<Rightarrow> (string \<times> string) list \<Rightarrow> bool"

definition connectToBackend :: "dialler \<Rightarrow> string \<Rightarrow> ClientConnection \<Rightarrow> bool" where
  "connectToBackend dial backendURL c = (let url = backend_url backendURL in dial url (backend_headers url c))"

section \<open>Connections\<close>

text \<open>A handshake: the request, and what the upgrader does with it.\<close>

record handshake =
  hs_now :: gotime
  hs_remoteAddr :: string
  hs_isUpgrade :: bool
  hs_upgraded :: bool
  hs_protocol :: string

datatype handshake_result = Rejected int | UpgradeFailed | Accepted string

definition client_id :: "handshake \<Rightarrow> string" where
  "client_id h = hs_remoteAddr h @ ''-'' @ fmt_d (UnixNano (hs_now h))"

definition new_client :: "handshake \<Rightarrow> ClientConnection" where
  "new_client h =
     \<lparr>cc_RemoteAddr = hs_remoteAddr h, cc_Protocol = hs_protocol h, cc_LastActivity = hs_now h, cc_SIPAddress = [],
      cc_BackendConn = None, cc_CurrentBackend = [], cc_ErrorCount = 0, cc_LastSIPCallID = [], cc_LastSIPFromTag = [],
      cc_LastSIPToTag = [], cc_closed = False, cc_clientDone = False, cc_backendDone = False, cc_errors = 0,
      cc_readerConn = 0, cc_closedConns = [], cc_toBackend = [], cc_toClient = []\<rparr>"

definition handleWebSocket :: "handshake \<Rightarrow> Server \<Rightarrow> Server \<times> handshake_result" where
  "handleWebSocket h s =
     (if wc_MaxConnections (ws_config s) \<le> int (length (ws_connections s)) then (s, Rejected 503)
      else let (cb, allowed) = AllowRequest (hs_now h) (ws_circuitBreaker s); s = s\<lparr>ws_circuitBreaker := cb\<rparr>
           in if \<not> allowed then (s, Rejected 503)
              else if \<not> hs_isUpgrade h then (s, Rejected 400)
              else if \<not> hs_upgraded h
                   then (s\<lparr>ws_circuitBreaker := RecordFailure (hs_now h) cb\<rparr>, UpgradeFailed)
              else let i = client_id h
                   in (s\<lparr>ws_clients := (ws_clients s)(i \<mapsto> new_client h),
                         ws_connections := List.insert i (ws_connections s),
                         ws_storage := fst (Set (hs_now h) (''ws:'' @ i) (Some (Text (hs_remoteAddr h))) (1 * Hour) (ws_storage s)),
                         ws_circuitBreaker := RecordSuccess (hs_now h) cb\<rparr>, Accepted i))"

definition closeConnection :: "string \<Rightarrow> Server \<Rightarrow> Server" where
  "closeConnection i s =
     (case ws_clients s i of
        None \<Rightarrow> s
      | Some c \<Rightarrow>
          if cc_closed c then s
          else s\<lparr>ws_clients := (ws_clients s)(i \<mapsto> c\<lparr>cc_closed := True,
                    cc_closedConns := (case cc_BackendConn c of None \<Rightarrow> [] | Some b \<Rightarrow> [b]) @ cc_closedConns c\<rparr>),
                 ws_connections := removeAll i (ws_connections s),
                 ws_storage := fst (Delete (''ws:'' @ i) (ws_storage s))\<rparr>)"

definition closeAllConnections :: "Server \<Rightarrow> Server" where
  "closeAllConnections s = fold closeConnection (ws_connections s) s"

definition inactive :: "gotime \<Rightarrow> Server \<Rightarrow> string \<Rightarrow> bool" where
  "inactive now s i =
     (case ws_clients s i of None \<Rightarrow> False | Some c \<Rightarrow> Before (cc_LastActivity c) (now - 30 * Minute))"

definition cleanConnections :: "gotime \<Rightarrow> Server \<Rightarrow> Server" where
  "cleanConnections now s = fold closeConnection (filter (inactive now s) (ws_connections s)) s"

definition target_domain :: "string \<Rightarrow> string" where
  "target_domain backend =
     (if sublist ''qa.qalqul.io'' backend then ''qa.qalqul.io''
      else if sublist ''businessoperations.qalqul.io'' backend then ''businessoperations.qalqul.io'' else [])"

text \<open>The start of \<open>handleClient\<close>: the backend connection and the domain mappings.\<close>

definition handleClient_start :: "dialler \<Rightarrow> string \<Rightarrow> Server \<Rightarrow> Server" where
  "handleClient_start dial i s =
     (case ws_clients s i of
        None \<Rightarrow> s
      | Some c \<Rightarrow>
          (let backendURL = selectHealthyBackend s
           in if backendURL = [] \<or> \<not> connectToBackend dial backendURL c then closeConnection i s
              else let conn = ws_nextConn s; target = target_domain backendURL;
                       s = update_conn i (\<lambda>c. c\<lparr>cc_BackendConn := Some conn, cc_readerConn := conn,
                             cc_CurrentBackend := backendURL\<rparr>) (s\<lparr>ws_nextConn := Suc conn\<rparr>)
                   in if target = [] then s
                      else s\<lparr>ws_domainProxy := SetDomainMapping i ''businessoperations.qalqul.io'' target
                               (SetDomainMapping i ''platform.qalqul.io'' target (ws_domainProxy s))\<rparr>))"

text \<open>The end of \<open>handleClient\<close>: it waits for the first error (or the context) and then closes.\<close>

definition handleClient_end :: "string \<Rightarrow> Server \<Rightarrow> Server" where
  "handleClient_end i s =
     (case ws_clients s i of
        None \<Rightarrow> s
      | Some c \<Rightarrow> if 0 < cc_errors c \<or> cc_closed c then closeConnection i s else s)"

section \<open>Messages\<close>

text \<open>What the network does during a step.\<close>

record ws_io =
  wi_now :: gotime
  wi_write :: bool
  wi_dial :: dialler
  wi_retry :: bool
  wi_clientWrite :: bool
  wi_tx :: "nat \<Rightarrow> tx_result"

datatype read_event = ReadMsg msg_type string | ClosedNormally | ReadError

type_synonym sip_parser = "string \<Rightarrow> sip_message option"

definition if_set :: "string option \<Rightarrow> string \<Rightarrow> string" where
  "if_set v old = (case v of Some x \<Rightarrow> if x = [] then old else x | None \<Rightarrow> old)"

definition sip_state :: "sip_request \<Rightarrow> ClientConnection \<Rightarrow> ClientConnection" where
  "sip_state req c =
     c\<lparr>cc_LastSIPCallID := (case rq_CallID req of Some x \<Rightarrow> x | None \<Rightarrow> cc_LastSIPCallID c),
       cc_LastSIPFromTag := if_set (rq_FromTag req) (cc_LastSIPFromTag c),
       cc_LastSIPToTag := if_set (rq_ToTag req) (cc_LastSIPToTag c)\<rparr>"

definition extractSIPState :: "gotime \<Rightarrow> sip_message \<Rightarrow> string \<Rightarrow> Server \<Rightarrow> Server" where
  "extractSIPState now msg i s =
     (case (msg, ws_clients s i) of
        (SIPRequest req, Some c) \<Rightarrow>
          (let c = sip_state req c; s = s\<lparr>ws_clients := (ws_clients s)(i \<mapsto> c)\<rparr>
           in if cc_LastSIPCallID c = [] then s
              else s\<lparr>ws_storage := fst (Set now (''sip:session:'' @ cc_LastSIPCallID c)
                     (Some (Json [(''clientID'', JStr i), (''callID'', JStr (cc_LastSIPCallID c)),
                        (''fromTag'', JStr (cc_LastSIPFromTag c)), (''toTag'', JStr (cc_LastSIPToTag c)),
                        (''backend'', JStr (cc_CurrentBackend c)), (''timestamp'', JStr (fmt_d (Time_Unix now)))]))
                     (1 * Hour) (ws_storage s))\<rparr>)
      | _ \<Rightarrow> s)"

definition extract_if_sip :: "sip_parser \<Rightarrow> gotime \<Rightarrow> string \<Rightarrow> string \<Rightarrow> Server \<Rightarrow> Server" where
  "extract_if_sip parse now msg i s =
     (if msg = [] then s else case parse msg of Some m \<Rightarrow> extractSIPState now m i s | None \<Rightarrow> s)"

text \<open>
  The failover both readers attempt when an error reaches the threshold: the current backend is
  marked unhealthy and another one is dialled. The result is the server after a failover, or
  \<open>None\<close> with the server when none was possible.
\<close>

definition try_backend_failover :: "ws_io \<Rightarrow> string \<Rightarrow> Server \<Rightarrow> Server \<times> nat option" where
  "try_backend_failover io i s =
     (case ws_clients s i of
        None \<Rightarrow> (s, None)
      | Some c \<Rightarrow>
          if cc_ErrorCount c < wc_FailoverThreshold (ws_config s) then (s, None)
          else let s = UpdateBackendHealth (cc_CurrentBackend c) False s; newBackendURL = selectHealthyBackend s
               in if newBackendURL \<noteq> [] \<and> newBackendURL \<noteq> cc_CurrentBackend c \<and> connectToBackend (wi_dial io) newBackendURL c
                  then let conn = ws_nextConn s
                       in (update_conn i (\<lambda>c. c\<lparr>cc_BackendConn := Some conn, cc_CurrentBackend := newBackendURL, cc_ErrorCount := 0\<rparr>)
                             (s\<lparr>ws_nextConn := Suc conn\<rparr>), Some conn)
                  else (s, None))"

definition write_backend :: "bool \<Rightarrow> msg_type \<Rightarrow> string \<Rightarrow> ClientConnection \<Rightarrow> ClientConnection" where
  "write_backend ok ty msg c =
     (case cc_BackendConn c of
        Some b \<Rightarrow> if ok then c\<lparr>cc_toBackend := cc_toBackend c @ [(b, ty, msg)]\<rparr> else c
      | None \<Rightarrow> c)"

text \<open>The forwarding of a message to the backend; the result says whether the reader goes on.\<close>

definition forward_to_backend :: "ws_io \<Rightarrow> msg_type \<Rightarrow> string \<Rightarrow> string \<Rightarrow> Server \<Rightarrow> Server \<times> bool option" where
  "forward_to_backend io ty msg i s =
     (case ws_clients s i of
        None \<Rightarrow> (s, Some True)
      | Some c \<Rightarrow>
          (case cc_BackendConn c of
             None \<Rightarrow> (s, Some True)
           | Some old \<Rightarrow>
               if wi_write io
               then (update_conn i (\<lambda>c. (write_backend True ty msg c)\<lparr>cc_ErrorCount := 0\<rparr>) s, Some True)
               else (case try_backend_failover io i (update_conn i (\<lambda>c. c\<lparr>cc_ErrorCount := cc_ErrorCount c + 1\<rparr>) s) of
                       (s, Some conn) \<Rightarrow>
                         (update_conn i (\<lambda>c. write_backend (wi_retry io) ty msg (c\<lparr>cc_closedConns := old # cc_closedConns c\<rparr>)) s, None)
                     | (s, None) \<Rightarrow>
                         (update_conn i (\<lambda>c. c\<lparr>cc_errors := cc_errors c + 1, cc_clientDone := True\<rparr>) s, Some False))))"

text \<open>The SIP handler for a message of the client; a missing From header skips it.\<close>

definition handle_client_sip :: "sip_parser \<Rightarrow> ws_io \<Rightarrow> string \<Rightarrow> string \<Rightarrow> string \<Rightarrow> Server \<Rightarrow> Server" where
  "handle_client_sip parse io sipTransport msg i s =
     (if msg = [] then s
      else case (parse msg, ws_clients s i) of
        (Some (SIPRequest req), Some c) \<Rightarrow>
          (case rq_From req of
             None \<Rightarrow> s
           | Some from_addr \<Rightarrow>
               (let s = update_conn i (\<lambda>c. c\<lparr>cc_SIPAddress := from_addr\<rparr>) s
                in case ws_handler s of
                     Some p \<Rightarrow>
                       if wc_DisableWSSIPProcessing (ws_config s) then s
                       else s\<lparr>ws_handler := Some (fst (HandleMessage (wi_tx io) (SIPRequest req) sipTransport (cc_RemoteAddr c) p))\<rparr>
                   | None \<Rightarrow> s))
      | _ \<Rightarrow> s)"

text \<open>One result of the client's reader.\<close>

definition client_read :: "sip_parser \<Rightarrow> ws_io \<Rightarrow> string \<Rightarrow> read_event \<Rightarrow> string \<Rightarrow> Server \<Rightarrow> Server" where
  "client_read parse io sipTransport ev i s =
     (case ws_clients s i of
        None \<Rightarrow> s
      | Some c \<Rightarrow>
          if cc_clientDone c then s
          else if cc_closed c then update_conn i (\<lambda>c. c\<lparr>cc_clientDone := True\<rparr>) s
          else (case ev of
            ClosedNormally \<Rightarrow> update_conn i (\<lambda>c. c\<lparr>cc_clientDone := True\<rparr>) s
          | ReadError \<Rightarrow> update_conn i (\<lambda>c. c\<lparr>cc_errors := cc_errors c + 1, cc_clientDone := True\<rparr>) s
          | ReadMsg ty raw \<Rightarrow>
              (let s = update_conn i (\<lambda>c. c\<lparr>cc_LastActivity := wi_now io\<rparr>) s;
                   s = extract_if_sip parse (wi_now io) raw i s;
                   msg = (if ty = TextMessage \<and> raw \<noteq> [] then RewriteClientToBackend i raw (ws_domainProxy s) else raw)
               in case forward_to_backend io ty msg i s of
                    (s, Some True) \<Rightarrow> handle_client_sip parse io sipTransport msg i s
                  | (s, _) \<Rightarrow> s)))"

fun critical :: "sip_message \<Rightarrow> bool" where
  "critical (SIPRequest req) \<longleftrightarrow> rq_Method req = ''CANCEL'' \<or> rq_Method req = ''BYE''"
| "critical (SIPResponse res) \<longleftrightarrow> False"

text \<open>The SIP handler for a message of the backend: calling a handler that was never set panics.\<close>

definition handle_backend_sip :: "sip_parser \<Rightarrow> ws_io \<Rightarrow> string \<Rightarrow> string \<Rightarrow> Server \<Rightarrow> Server \<times> (unit, unit) outcome" where
  "handle_backend_sip parse io msg i s =
     (if msg = [] then (s, Ret ())
      else case (parse msg, ws_clients s i) of
        (Some m, Some c) \<Rightarrow>
          (let s = extractSIPState (wi_now io) m i s
           in if (ws_handler s \<noteq> None \<and> \<not> wc_DisableWSSIPProcessing (ws_config s)) \<or> critical m
              then (case ws_handler s of
                      None \<Rightarrow> (s, Panic NilDereference)
                    | Some p \<Rightarrow>
                        (s\<lparr>ws_handler := Some (fst (HandleMessage (wi_tx io) m ''wss'' (cc_CurrentBackend c) p))\<rparr>, Ret ()))
              else (s, Ret ()))
      | _ \<Rightarrow> (s, Ret ()))"

definition write_client :: "bool \<Rightarrow> msg_type \<Rightarrow> bytes \<Rightarrow> string \<Rightarrow> Server \<Rightarrow> Server" where
  "write_client ok ty msg i s =
     (case ws_clients s i of
        None \<Rightarrow> s
      | Some c \<Rightarrow>
          if cc_closed c then update_conn i (\<lambda>c. c\<lparr>cc_backendDone := True\<rparr>) s
          else if ok then update_conn i (\<lambda>c. c\<lparr>cc_toClient := cc_toClient c @ [(ty, msg)]\<rparr>) s
          else update_conn i (\<lambda>c. c\<lparr>cc_errors := cc_errors c + 1, cc_backendDone := True\<rparr>) s)"

text \<open>
  One result of the backend's reader, which was reading the connection \<open>cc_readerConn\<close>: if that
  connection was closed meanwhile, the result is an error. Before it reads again, the reader
  takes the client's current connection and stops if the client's reader has ended.
\<close>

definition next_read :: "string \<Rightarrow> Server \<Rightarrow> Server" where
  "next_read i = update_conn i (\<lambda>c.
     if cc_closed c \<or> cc_clientDone c then c\<lparr>cc_backendDone := True\<rparr>
     else case cc_BackendConn c of Some b \<Rightarrow> c\<lparr>cc_readerConn := b\<rparr> | None \<Rightarrow> c)"

definition backend_read :: "sip_parser \<Rightarrow> ws_io \<Rightarrow> read_event \<Rightarrow> string \<Rightarrow> Server \<Rightarrow> Server \<times> (unit, unit) outcome" where
  "backend_read parse io ev i s =
     (case ws_clients s i of
        None \<Rightarrow> (s, Ret ())
      | Some c \<Rightarrow>
          if cc_backendDone c then (s, Ret ())
          else (case (if cc_readerConn c \<in> set (cc_closedConns c) then ReadError else ev) of
            ClosedNormally \<Rightarrow> (update_conn i (\<lambda>c. c\<lparr>cc_backendDone := True\<rparr>) s, Ret ())
          | ReadError \<Rightarrow>
              (case try_backend_failover io i (update_conn i (\<lambda>c. c\<lparr>cc_ErrorCount := cc_ErrorCount c + 1\<rparr>) s) of
                 (s, Some conn) \<Rightarrow> (next_read i s, Ret ())
               | (s, None) \<Rightarrow>
                   (update_conn i (\<lambda>c. c\<lparr>cc_errors := cc_errors c + 1, cc_backendDone := True\<rparr>) s, Ret ()))
          | ReadMsg ty msg \<Rightarrow>
              (case handle_backend_sip parse io msg i s of
                 (s, Ret _) \<Rightarrow> (next_read i (write_client (wi_clientWrite io) ty (Text msg) i s), Ret ())
               | (s, r) \<Rightarrow> (s, r))))"

section \<open>Messages from the server itself\<close>

datatype ws_error = ClientNotFound | ConnectionClosed | WriteFailed

definition SendMessage :: "bool \<Rightarrow> string \<Rightarrow> bytes \<Rightarrow> Server \<Rightarrow> Server \<times> (ws_error, unit) outcome" where
  "SendMessage ok clientID msg s =
     (if clientID \<notin> set (ws_connections s) then (s, Fail ClientNotFound)
      else case ws_clients s clientID of
        None \<Rightarrow> (s, Fail ClientNotFound)
      | Some c \<Rightarrow>
          if cc_closed c then (s, Fail ConnectionClosed)
          else if ok then (update_conn clientID (\<lambda>c. c\<lparr>cc_toClient := cc_toClient c @ [(TextMessage, msg)]\<rparr>) s, Ret ())
          else (s, Fail WriteFailed))"

definition RedirectClient :: "bool \<Rightarrow> gotime \<Rightarrow> string \<Rightarrow> string \<Rightarrow> Server \<Rightarrow> Server \<times> (ws_error, unit) outcome" where
  "RedirectClient ok now clientID newServerAddr s =
     SendMessage ok clientID
       (Json [(''event'', JStr ''system-redirect''), (''serverAddr'', JStr newServerAddr), (''timestamp'', JNum (Time_Unix now))]) s"

definition PrepareForFailover :: "(string \<Rightarrow> bool) \<Rightarrow> gotime \<Rightarrow> Server \<Rightarrow> Server" where
  "PrepareForFailover ok now s =
     fold (\<lambda>i s. fst (SendMessage (ok i) i
        (Json [(''event'', JStr ''system-notification''), (''type'', JStr ''failover-preparation''),
           (''message'', JStr ''Server maintenance imminent, please prepare for reconnection''),
           (''timestamp'', JNum (Time_Unix now))]) s)) (ws_connections s) s"

text \<open>The keep-alive of a client: an OPTIONS request every 30 seconds.\<close>

definition buildSipOptionsKeepAlive :: "gotime \<Rightarrow> string \<Rightarrow> string \<Rightarrow> string \<Rightarrow> string" where
  "buildSipOptionsKeepAlive now userAgent clientAddr serverName =
     (let stamp = fmt_d (UnixNano now) in
      ''OPTIONS sip:keepalive@'' @ clientAddr @ '' SIP/2.0'' @ [LF] @
      ''Via: SIP/2.0/WSS '' @ serverName @ '';branch=z9hG4bK-'' @ stamp @ '';rport'' @ [LF] @
      ''Max-Forwards: 70'' @ [LF] @
      ''From: <sip:monitor@'' @ serverName @ ''>;tag=fromTag-'' @ stamp @ [LF] @
      ''To: <sip:keepalive@'' @ clientAddr @ ''>'' @ [LF] @
      ''Call-ID: keepalive-'' @ stamp @ [LF] @
      ''CSeq: 1 OPTIONS'' @ [LF] @
      ''User-Agent: '' @ userAgent @ [LF] @
      ''Allow: INVITE, ACK, CANCEL, OPTIONS, BYE, REFER, SUBSCRIBE, NOTIFY, INFO, PUBLISH, MESSAGE'' @ [LF] @
      ''Supported: replaces, timer'' @ [LF] @
      ''Content-Length: 0'' @ [LF] @ [LF])"

definition keepalive_tick :: "bool \<Rightarrow> gotime \<Rightarrow> string \<Rightarrow> string \<Rightarrow> Server \<Rightarrow> Server" where
  "keepalive_tick ok now backendURL i s =
     (case ws_clients s i of
        None \<Rightarrow> s
      | Some c \<Rightarrow>
          if cc_closed c \<or> cc_clientDone c \<or> \<not> ok then s
          else update_conn i (\<lambda>c. c\<lparr>cc_toClient := cc_toClient c @
                 [(TextMessage, Text (buildSipOptionsKeepAlive now (wc_ServerName (ws_config s)) (cc_RemoteAddr c) backendURL))]\<rparr>) s)"

section \<open>Health\<close>

definition health_monitor_tick :: "gotime \<Rightarrow> string \<Rightarrow> Server \<Rightarrow> Server" where
  "health_monitor_tick now hostname s =
     s\<lparr>ws_storage := fst (Set now (''ws-health:'' @ hostname)
          (Some (Json [(''addr'', JStr (wc_BindAddr (ws_config s))), (''connections'', JNum (int (length (ws_connections s)))),
             (''timestamp'', JNum (Time_Unix now)), (''status'', JStr ''healthy'')])) (30 * Second) (ws_storage s))\<rparr>"

definition HasHealthyBackends :: "Server \<Rightarrow> bool" where
  "HasHealthyBackends s \<longleftrightarrow> list_ex snd (ws_backendHealth s)"

definition checkStorageHealth :: "gotime \<Rightarrow> Server \<Rightarrow> Server \<times> bool" where
  "checkStorageHealth now s =
     (case Set now ''health_check_test'' (Some (Text (''test_'' @ fmt_d (UnixNano now)))) (5 * Second) (ws_storage s) of
        (st, Ret _) \<Rightarrow>
          (case Get now ''health_check_test'' st of
             (st, Ret _) \<Rightarrow> (s\<lparr>ws_storage := st\<rparr>, True)
           | (st, _) \<Rightarrow> (s\<lparr>ws_storage := st\<rparr>, False))
      | (st, _) \<Rightarrow> (s\<lparr>ws_storage := st\<rparr>, False))"

text \<open>Active clients, clients since the start (a counter that is never increased), registrations.\<close>

definition getClientStats :: "Server \<Rightarrow> int \<times> int \<times> int" where
  "getClientStats s =
     (int (length (ws_connections s)), 0,
      int (length (filter (\<lambda>i. case ws_clients s i of Some c \<Rightarrow> cc_SIPAddress c \<noteq> [] | None \<Rightarrow> False) (ws_connections s))))"

definition getHealthReason :: "bool \<Rightarrow> bool \<Rightarrow> string" where
  "getHealthReason backendsHealthy storageHealthy =
     (if backendsHealthy \<and> storageHealthy then ''all systems operational''
      else if storageHealthy then ''no healthy backends available''
      else if backendsHealthy then ''storage not healthy''
      else ''no healthy backends available, storage not healthy'')"

record health_response =
  hr_statusCode :: int
  hr_connections :: int
  hr_backends :: "(string \<times> bool) list"
  hr_storage :: bool
  hr_uptime :: int
  hr_clientStats :: "int \<times> int \<times> int"
  hr_reason :: string

definition handleHealthCheck :: "gotime \<Rightarrow> Server \<Rightarrow> Server \<times> health_response" where
  "handleHealthCheck now s =
     (let healthy = HasHealthyBackends s; (s, storageHealthy) = checkStorageHealth now s
      in (s, \<lparr>hr_statusCode = (if healthy then 200 else 503), hr_connections = int (length (ws_connections s)),
              hr_backends = ws_backendHealth s, hr_storage = storageHealthy,
              hr_uptime = (now - ws_startTime s) div Second, hr_clientStats = getClientStats s,
              hr_reason = getHealthReason healthy storageHealthy\<rparr>))"

end
