(* ===== verification/Gateway_Config.thy ===== *)
theory Gateway_Config
  imports AMI_Manager RTP_Manager SIP_Proxy Coordinator_Model WebSocket_Server
begin

text \<open>
  The configuration (\<open>config/config.go\<close>): the structs that the YAML file is read into, the defaults
  that \<open>LoadConfig\<close> fills in, and the conversions to the configurations of the components.
  Reading the file and the YAML library are the arguments of \<open>LoadConfig\<close>.
\<close>

section \<open>The structs\<close>

record ServiceTestConfig =
  tc_Enabled :: bool
  tc_EnableWebSocket :: bool
  tc_EnableSIP :: bool
  tc_EnableRTP :: bool
  tc_EnableAMI :: bool
  tc_VerboseLogging :: bool
  tc_LogSIPMessages :: bool
  tc_SimulateBackendDelay :: int

record LogConfig =
  lc_UseConsole :: bool
  lc_UseJSON :: bool
  lc_LogFile :: string
  lc_Directory :: string
  lc_MaxSize :: int
  lc_MaxBackups :: int
  lc_MaxAge :: int
  lc_Compress :: bool
  lc_IncludeDateTime :: bool

record RedisConfig =
  rd_Enabled :: bool
  rd_Addresses :: "string list"
  rd_Password :: string
  rd_DB :: int
  rd_PoolSize :: int
  rd_MaxRetries :: int
  rd_DialTimeout :: int

record MemoryYaml =
  my_MaxKeys :: int
  my_CleanupIntervalSeconds :: int
  my_PersistPath :: string
  my_PersistOnShutdown :: bool
  my_ShardCount :: int

record BreakerYaml =
  by_FailureThreshold :: int
  by_ResetSeconds :: int
  by_HalfOpenMax :: int

record RTPEngineInstanceConfig =
  ri_Address :: string
  ri_Port :: int
  ri_TimeoutMS :: int
  ri_Weight :: int
  ri_CircuitBreaker :: BreakerYaml

record AsteriskClientConfig =
  al_Address :: string
  al_Username :: string
  al_Secret :: string
  al_TimeoutMS :: int
  al_CircuitBreaker :: BreakerYaml

record AsteriskConfig =
  as_Clients :: "AsteriskClientConfig list"
  as_DefaultClient :: int
  as_HealthCheckIntervalSeconds :: int
  as_ConnectionTimeoutSeconds :: int
  as_EnableReconnect :: bool
  as_ReconnectIntervalSeconds :: int
  as_MaxReconnectAttempts :: int
  as_MaxRetries :: int
  as_RetryDelay :: string
  as_EnableHAProxy :: bool
  as_OriginalAddresses :: "string list"

record SIPYaml =
  sy_UDPBindAddr :: string
  sy_ProxyURI :: string
  sy_DefaultNextHop :: string
  sy_MaxForwards :: int
  sy_UserAgent :: string
  sy_DisableSIPProcessing :: bool
  sy_DisableUDPSIPProcessing :: bool
  sy_DisableWSSIPProcessing :: bool
  sy_Backends :: "string list"

record WebSocketConfig =
  wy_BindAddr :: string
  wy_CertFile :: string
  wy_KeyFile :: string
  wy_MaxConnections :: int
  wy_ReadTimeoutMS :: int
  wy_WriteTimeoutMS :: int
  wy_IdleTimeoutMS :: int
  wy_EnableIPv4Only :: bool
  wy_ServerName :: string
  wy_BackendServers :: "string list"
  wy_FailoverThreshold :: int
  wy_DisableUDPSIPProcessing :: bool
  wy_DisableSIPProcessing :: bool
  wy_DisableWSSIPProcessing :: bool
  wy_DomainRewriteEnabled :: bool
  wy_SIPHeaderRewriting :: bool
  wy_LogSIPTransformations :: bool

record MetricsConfig =
  me_Enabled :: bool
  me_BindAddr :: string

record HAConfig =
  ha_Enabled :: bool
  ha_HeartbeatInterval :: int
  ha_LeaseTimeout :: int
  ha_NodeID :: string

record Config =
  cf_LogLevel :: string
  cf_Logging :: LogConfig
  cf_ShutdownWaitSeconds :: int
  cf_Redis :: RedisConfig
  cf_MemoryStorage :: MemoryYaml
  cf_RTPEngine :: "RTPEngineInstanceConfig list"
  cf_Asterisk :: AsteriskConfig
  cf_SIP :: SIPYaml
  cf_WebSocket :: WebSocketConfig
  cf_Metrics :: MetricsConfig
  cf_HighAvailability :: HAConfig
  cf_TestingMode :: ServiceTestConfig

section \<open>Defaults\<close>

text \<open>\<open>if x <= 0 { x = default }\<close> and \<open>if x == "" { x = default }\<close>.\<close>

definition or_int :: "int \<Rightarrow> int \<Rightarrow> int" where
  "or_int x dflt = (if x \<le> 0 then dflt else x)"

definition or_string :: "string \<Rightarrow> string \<Rightarrow> string" where
  "or_string x dflt = (if x = [] then dflt else x)"

definition log_defaults :: "LogConfig \<Rightarrow> LogConfig" where
  "log_defaults l = l\<lparr>lc_Directory := or_string (lc_Directory l) ''/var/logs/voiceproxy'', lc_MaxSize := or_int (lc_MaxSize l) 100,
     lc_MaxBackups := or_int (lc_MaxBackups l) 10, lc_MaxAge := or_int (lc_MaxAge l) 30,
     lc_UseConsole := lc_UseConsole l \<or> lc_LogFile l = []\<rparr>"

definition memory_defaults :: "MemoryYaml \<Rightarrow> MemoryYaml" where
  "memory_defaults m = m\<lparr>my_MaxKeys := or_int (my_MaxKeys m) 10000,
     my_CleanupIntervalSeconds := or_int (my_CleanupIntervalSeconds m) 300, my_ShardCount := or_int (my_ShardCount m) 32\<rparr>"

definition sip_defaults :: "SIPYaml \<Rightarrow> SIPYaml" where
  "sip_defaults s = s\<lparr>sy_MaxForwards := or_int (sy_MaxForwards s) 70, sy_UserAgent := or_string (sy_UserAgent s) ''WebRTC-SIP Gateway''\<rparr>"

definition websocket_defaults :: "WebSocketConfig \<Rightarrow> WebSocketConfig" where
  "websocket_defaults w = w\<lparr>wy_MaxConnections := or_int (wy_MaxConnections w) 1000, wy_ReadTimeoutMS := or_int (wy_ReadTimeoutMS w) 30000,
     wy_WriteTimeoutMS := or_int (wy_WriteTimeoutMS w) 30000, wy_IdleTimeoutMS := or_int (wy_IdleTimeoutMS w) 120000,
     wy_ServerName := or_string (wy_ServerName w) ''WebRTC-SIP Gateway''\<rparr>"

definition ha_defaults :: "HAConfig \<Rightarrow> HAConfig" where
  "ha_defaults h = h\<lparr>ha_HeartbeatInterval := or_int (ha_HeartbeatInterval h) 2000, ha_LeaseTimeout := or_int (ha_LeaseTimeout h) 7000\<rparr>"

definition testing_defaults :: "ServiceTestConfig \<Rightarrow> ServiceTestConfig" where
  "testing_defaults t =
     (if tc_Enabled t \<and> \<not> tc_EnableWebSocket t \<and> \<not> tc_EnableSIP t \<and> \<not> tc_EnableRTP t \<and> \<not> tc_EnableAMI t
      then t\<lparr>tc_EnableWebSocket := True, tc_EnableSIP := True, tc_EnableRTP := True, tc_EnableAMI := True\<rparr> else t)"

definition set_defaults :: "Config \<Rightarrow> Config" where
  "set_defaults c = c\<lparr>cf_LogLevel := or_string (cf_LogLevel c) ''info'', cf_ShutdownWaitSeconds := or_int (cf_ShutdownWaitSeconds c) 30,
     cf_Logging := log_defaults (cf_Logging c), cf_MemoryStorage := memory_defaults (cf_MemoryStorage c),
     cf_SIP := sip_defaults (cf_SIP c), cf_WebSocket := websocket_defaults (cf_WebSocket c),
     cf_HighAvailability := ha_defaults (cf_HighAvailability c), cf_TestingMode := testing_defaults (cf_TestingMode c)\<rparr>"

datatype config_error = ReadFailed | YamlFailed

text \<open>\<open>yaml\<close> is \<open>yaml.Unmarshal\<close> into a zero \<open>Config\<close>.\<close>

definition LoadConfig :: "(string \<Rightarrow> string option) \<Rightarrow> (string \<Rightarrow> Config option) \<Rightarrow> string \<Rightarrow> (config_error, Config) outcome" where
  "LoadConfig read yaml path =
     (case read path of
        None \<Rightarrow> Fail ReadFailed
      | Some data \<Rightarrow> (case yaml data of None \<Rightarrow> Fail YamlFailed | Some config \<Rightarrow> Ret (set_defaults config)))"

section \<open>Durations\<close>

text \<open>
  \<open>time.ParseDuration\<close>: an optional sign and numbers with units, without the overflow check; the
  digits after the point are multiplied exactly.
\<close>

definition unit_of :: "string \<Rightarrow> duration option" where
  "unit_of u = map_of [(''ns'', 1), (''us'', 1000), ([CHR 0xC2, CHR 0xB5, CHR ''s''], 1000), ([CHR 0xCE, CHR 0xBC, CHR ''s''], 1000),
     (''ms'', Millisecond), (''s'', Second), (''m'', Minute), (''h'', Hour)] u"

definition fraction :: "string \<Rightarrow> string \<times> string" where
  "fraction s = (case s of c # t \<Rightarrow> if c = CHR ''.'' then (takeWhile is_digit t, dropWhile is_digit t) else ([], s) | [] \<Rightarrow> ([], []))"

definition unit_char :: "char \<Rightarrow> bool" where
  "unit_char c \<longleftrightarrow> c \<noteq> CHR ''.'' \<and> \<not> is_digit c"

lemma fraction_length: "length (snd (fraction s)) \<le> length s"
  using length_dropWhile_le le_Suc_eq by (fastforce simp: fraction_def split: list.split)

function parse_terms :: "string \<Rightarrow> int \<Rightarrow> int option" where
  "parse_terms s d =
     (if s = [] then Some d
      else let whole = takeWhile is_digit s; (frac, rest) = fraction (dropWhile is_digit s);
               name = takeWhile unit_char rest
           in if whole = [] \<and> frac = [] \<or> name = [] then None
              else case unit_of name of
                None \<Rightarrow> None
              | Some u \<Rightarrow> parse_terms (dropWhile unit_char rest)
                  (d + digits_value 0 whole * u + digits_value 0 frac * u div 10 ^ length frac))"
  by pat_completeness auto
termination
proof (relation "measure (length \<circ> fst)", goal_cases)
  case (2 s d whole frac_rest frac rest name u)
  then have "length rest \<le> length s" and ne: "takeWhile unit_char rest \<noteq> []"
    using fraction_length [of "dropWhile is_digit s"] length_dropWhile_le [of is_digit s] by (auto dest!: sym [of "(frac, rest)"])
  moreover have "length (dropWhile unit_char rest) < length rest"
    using ne arg_cong [OF takeWhile_dropWhile_id [of unit_char rest], of length] by (cases "takeWhile unit_char rest") auto
  ultimately show ?case by simp
qed simp

declare parse_terms.simps [simp del]

definition ParseDuration :: "string \<Rightarrow> duration option" where
  "ParseDuration s =
     (let neg = (s \<noteq> [] \<and> hd s = CHR ''-''); rest = (if s \<noteq> [] \<and> (hd s = CHR ''-'' \<or> hd s = CHR ''+'') then tl s else s)
      in if rest = ''0'' then Some 0
         else if rest = [] then None
         else map_option (\<lambda>d. if neg then - d else d) (parse_terms rest 0))"

definition GetAsteriskRetryDelay :: "Config \<Rightarrow> duration" where
  "GetAsteriskRetryDelay c = (case ParseDuration (as_RetryDelay (cf_Asterisk c)) of None \<Rightarrow> 5 * Second | Some d \<Rightarrow> d)"

definition GetWebSocketReadTimeout :: "Config \<Rightarrow> duration" where
  "GetWebSocketReadTimeout c = wy_ReadTimeoutMS (cf_WebSocket c) * Millisecond"

definition GetWebSocketWriteTimeout :: "Config \<Rightarrow> duration" where
  "GetWebSocketWriteTimeout c = wy_WriteTimeoutMS (cf_WebSocket c) * Millisecond"

definition GetWebSocketIdleTimeout :: "Config \<Rightarrow> duration" where
  "GetWebSocketIdleTimeout c = wy_IdleTimeoutMS (cf_WebSocket c) * Millisecond"

definition GetHeartbeatInterval :: "Config \<Rightarrow> duration" where
  "GetHeartbeatInterval c = ha_HeartbeatInterval (cf_HighAvailability c) * Millisecond"

definition GetLeaseTimeout :: "Config \<Rightarrow> duration" where
  "GetLeaseTimeout c = ha_LeaseTimeout (cf_HighAvailability c) * Millisecond"

section \<open>Configurations of the managers\<close>

definition breaker_config :: "BreakerYaml \<Rightarrow> CircuitBreakerConfig" where
  "breaker_config b = \<lparr>FailureThreshold = by_FailureThreshold b, ResetTimeout = by_ResetSeconds b * Second, HalfOpenMaxReqs = by_HalfOpenMax b\<rparr>"

definition ToRTPEngineManagerConfig :: "Config \<Rightarrow> rtp_Config list" where
  "ToRTPEngineManagerConfig c =
     map (\<lambda>e. \<lparr>rc_Address = ri_Address e, rc_Port = ri_Port e, rc_Timeout = ri_TimeoutMS e * Millisecond, rc_Weight = ri_Weight e,
               rc_CircuitBreaker = breaker_config (ri_CircuitBreaker e)\<rparr>) (cf_RTPEngine c)"

record ami_ManagerConfig =
  mgc_Clients :: "ami_Config list"
  mgc_MaxRetries :: int
  mgc_RetryDelay :: duration
  mgc_EnableHAProxy :: bool
  mgc_OriginalAddresses :: "string list"

definition ami_client_config :: "AsteriskClientConfig \<Rightarrow> ami_Config" where
  "ami_client_config a = \<lparr>amc_Address = al_Address a, amc_Username = al_Username a, amc_Secret = al_Secret a,
     amc_Timeout = (if al_TimeoutMS a * Millisecond \<le> 0 then 5 * Second else al_TimeoutMS a * Millisecond),
     amc_CircuitBreaker = breaker_config (al_CircuitBreaker a)\<rparr>"

definition ToAsteriskManagerConfig :: "Config \<Rightarrow> ami_ManagerConfig" where
  "ToAsteriskManagerConfig c = \<lparr>mgc_Clients = map ami_client_config (as_Clients (cf_Asterisk c)),
     mgc_MaxRetries = as_MaxRetries (cf_Asterisk c), mgc_RetryDelay = GetAsteriskRetryDelay c,
     mgc_EnableHAProxy = as_EnableHAProxy (cf_Asterisk c), mgc_OriginalAddresses = as_OriginalAddresses (cf_Asterisk c)\<rparr>"

end
