(* ===== verification/Gateway_Logging.thy ===== *)
theory Gateway_Logging
  imports Gateway_Config "HOL-Library.Sublist"
begin

text \<open>
  The loggers: \<open>setupLogger\<close> and \<open>getZapLevel\<close> of \<open>cmd/gateway/main.go\<close>, which choose where log lines go,
  and \<open>pkg/log/logging.go\<close>, which gives events of the high-availability parts a fixed form. The zap
  library is not modelled: a logger is the list of the cores it is built from, a log line the
  entry that is handed to it. Paths are those of a Unix system.
\<close>

section \<open>Paths\<close>

fun split_slash :: "string \<Rightarrow> string list" where
  "split_slash [] = [[]]"
| "split_slash (c # cs) = (if c = CHR ''/'' then [] # split_slash cs
     else (case split_slash cs of e # es \<Rightarrow> (c # e) # es | [] \<Rightarrow> [[c]]))"

fun join_slash :: "string list \<Rightarrow> string" where
  "join_slash [] = []"
| "join_slash [e] = e"
| "join_slash (e # es) = e @ ''/'' @ join_slash es"

definition IsAbs :: "string \<Rightarrow> bool" where
  "IsAbs p = (p \<noteq> [] \<and> hd p = CHR ''/'')"

text \<open>One element of a path in \<open>filepath.Clean\<close>; the elements kept so far are in reverse.\<close>

definition clean_elem :: "bool \<Rightarrow> string \<Rightarrow> string list \<Rightarrow> string list" where
  "clean_elem rooted e acc =
     (if e = [] \<or> e = ''.'' then acc
      else if e \<noteq> ''..'' then e # acc
      else case acc of
        [] \<Rightarrow> if rooted then [] else [e]
      | x # xs \<Rightarrow> if x = ''..'' then e # acc else xs)"

definition clean_elems :: "string \<Rightarrow> string list" where
  "clean_elems p = rev (fold (clean_elem (IsAbs p)) (split_slash p) [])"

definition Clean :: "string \<Rightarrow> string" where
  "Clean p =
     (let es = clean_elems p
      in if IsAbs p then ''/'' @ join_slash es else if es = [] then ''.'' else join_slash es)"

text \<open>\<open>filepath.Join\<close> of two elements: leading empty ones are skipped.\<close>

definition Join :: "string \<Rightarrow> string \<Rightarrow> string" where
  "Join a b = (if a = [] then (if b = [] then [] else Clean b) else Clean (a @ ''/'' @ b))"

section \<open>setupLogger\<close>

datatype zap_level = DebugLevel | InfoLevel | WarnLevel | ErrorLevel | DPanicLevel | PanicLevel | FatalLevel

definition getZapLevel :: "string \<Rightarrow> zap_level" where
  "getZapLevel level =
     (if level = ''debug'' then DebugLevel
      else if level = ''info'' then InfoLevel
      else if level = ''warn'' then WarnLevel
      else if level = ''error'' then ErrorLevel
      else InfoLevel)"

record rotation =
  ro_Filename :: string
  ro_MaxSize :: int
  ro_MaxBackups :: int
  ro_MaxAge :: int
  ro_Compress :: bool

datatype sink = Stdout | Stderr | LogFile rotation

datatype encoder = ConsoleEncoder | JSONEncoder

record log_core =
  lo_encoder :: encoder
  lo_colour :: bool
  lo_sink :: sink
  lo_level :: zap_level

text \<open>The name of the log file; \<open>stamp\<close> is the formatted time.\<close>

definition log_file_path :: "string \<Rightarrow> LogConfig \<Rightarrow> string" where
  "log_file_path stamp l =
     (if lc_LogFile l \<noteq> []
      then if IsAbs (lc_LogFile l) then lc_LogFile l else Join (lc_Directory l) (lc_LogFile l)
      else Join (lc_Directory l) (if lc_IncludeDateTime l then ''voiceproxy_'' @ stamp @ ''.log'' else ''voiceproxy.log''))"

text \<open>That the directory cannot be made is only printed.\<close>

definition setupLogger :: "string \<Rightarrow> string \<Rightarrow> LogConfig \<Rightarrow> log_core list" where
  "setupLogger stamp level l =
     (let logLevel = getZapLevel level;
          core = (\<lambda>enc out. \<lparr>lo_encoder = enc, lo_colour = lc_UseConsole l, lo_sink = out, lo_level = logLevel\<rparr>)
      in (if lc_UseConsole l
          then core ConsoleEncoder Stdout # (if lc_UseJSON l then [core JSONEncoder Stderr] else [])
          else []) @
         (if lc_LogFile l \<noteq> [] \<or> lc_Directory l \<noteq> []
          then [core (if lc_UseJSON l then JSONEncoder else ConsoleEncoder)
                  (LogFile \<lparr>ro_Filename = log_file_path stamp l, ro_MaxSize = lc_MaxSize l, ro_MaxBackups = lc_MaxBackups l,
                            ro_MaxAge = lc_MaxAge l, ro_Compress = lc_Compress l\<rparr>)]
          else []))"

section \<open>The logger of pkg/log\<close>

datatype log_field = FString string | FBool bool | FInt int | FDuration duration

record log_entry =
  lt_level :: zap_level
  lt_msg :: string
  lt_fields :: "(string \<times> log_field) list"

record HALogger =
  hl_nodeID :: string
  hl_version :: string

record LoggerConfig =
  lg_Development :: bool
  lg_Level :: zap_level
  lg_NodeID :: string
  lg_Version :: string

text \<open>\<open>build\<close> says whether the library can build its logger for this configuration.\<close>

definition NewLogger :: "(bool \<Rightarrow> zap_level \<Rightarrow> bool) \<Rightarrow> LoggerConfig \<Rightarrow> (unit, HALogger) outcome" where
  "NewLogger build c =
     (if build (lg_Development c) (lg_Level c) then Ret \<lparr>hl_nodeID = lg_NodeID c, hl_version = lg_Version c\<rparr> else Fail ())"

text \<open>\<open>Log\<close>: a level it does not know is logged as \<open>info\<close>.\<close>

definition log_at :: "zap_level \<Rightarrow> string \<Rightarrow> (string \<times> log_field) list \<Rightarrow> log_entry" where
  "log_at level msg fs =
     \<lparr>lt_level = (case level of DPanicLevel \<Rightarrow> InfoLevel | PanicLevel \<Rightarrow> InfoLevel | l \<Rightarrow> l), lt_msg = msg, lt_fields = fs\<rparr>"

definition LogFailoverEvent :: "string \<Rightarrow> string \<Rightarrow> string \<Rightarrow> string \<Rightarrow> duration \<Rightarrow> HALogger \<Rightarrow> log_entry" where
  "LogFailoverEvent comp_name fromBackend toBackend reason d l =
     log_at InfoLevel ''Failover event''
       [(''event_type'', FString ''failover''), (''component'', FString comp_name), (''from_backend'', FString fromBackend),
        (''to_backend'', FString toBackend), (''reason'', FString reason), (''duration'', FDuration d), (''node_id'', FString (hl_nodeID l))]"

definition LogLeadershipChange :: "bool \<Rightarrow> int \<Rightarrow> HALogger \<Rightarrow> log_entry" where
  "LogLeadershipChange isLeader lease_term l =
     log_at InfoLevel ''Leadership change''
       [(''event_type'', FString ''leadership_change''), (''is_leader'', FBool isLeader), (''term'', FInt lease_term),
        (''node_id'', FString (hl_nodeID l))]"

definition LogHealthChange :: "string \<Rightarrow> string \<Rightarrow> bool \<Rightarrow> int \<Rightarrow> HALogger \<Rightarrow> log_entry" where
  "LogHealthChange comp_name backend isHealthy failCount l =
     log_at (if isHealthy then InfoLevel else WarnLevel) ''Health status changed''
       [(''event_type'', FString ''health_changed''), (''component'', FString comp_name), (''backend'', FString backend),
        (''is_healthy'', FBool isHealthy), (''fail_count'', FInt failCount), (''node_id'', FString (hl_nodeID l))]"

definition LogCircuitBreakerStateChange :: "string \<Rightarrow> string \<Rightarrow> string \<Rightarrow> string \<Rightarrow> HALogger \<Rightarrow> log_entry" where
  "LogCircuitBreakerStateChange comp_name backend state reason l =
     log_at InfoLevel ''Circuit breaker state changed''
       [(''event_type'', FString ''circuit_breaker_state''), (''component'', FString comp_name), (''backend'', FString backend),
        (''state'', FString state), (''reason'', FString reason), (''node_id'', FString (hl_nodeID l))]"

definition LogBackendConnection :: "string \<Rightarrow> string \<Rightarrow> bool \<Rightarrow> string \<Rightarrow> HALogger \<Rightarrow> log_entry" where
  "LogBackendConnection comp_name backend isConnected reason l =
     log_at InfoLevel ''Backend connection status changed''
       [(''event_type'', FString (if isConnected then ''backend_connected'' else ''backend_disconnected'')), (''component'', FString comp_name),
        (''backend'', FString backend), (''connected'', FBool isConnected), (''reason'', FString reason), (''node_id'', FString (hl_nodeID l))]"

section \<open>Cleaned paths\<close>

lemma split_slash_nonempty: "split_slash p \<noteq> []"
  by (induction p) (auto split: list.split)

lemma split_slash_append: "split_slash (a @ CHR ''/'' # b) = split_slash a @ split_slash b"
  using split_slash_nonempty by (induction a) (auto split: list.split)

lemma join_slash_append:
  "join_slash (xs @ ys) = (if ys = [] then join_slash xs else if xs = [] then join_slash ys else join_slash xs @ ''/'' @ join_slash ys)"
proof (induction xs rule: join_slash.induct)
  case (2 e)
  then show ?case by (cases ys) auto
qed auto

lemma clean_push:
  "''..'' \<notin> set es \<Longrightarrow> \<exists>new. fold (clean_elem rooted) es acc = new @ acc"
proof (induction es arbitrary: acc)
  case (Cons e es)
  then obtain new where "fold (clean_elem rooted) es (clean_elem rooted e acc) = new @ clean_elem rooted e acc" by auto
  moreover have "clean_elem rooted e acc = acc \<or> clean_elem rooted e acc = e # acc"
    using Cons.prems by (auto simp: clean_elem_def)
  ultimately show ?case by (metis append.assoc append_Cons append_Nil fold_simps(2))
qed simp

lemma Clean_below:
  assumes "IsAbs dir" and "''..'' \<notin> set (split_slash f)"
  shows "prefix (Clean dir) (Clean (dir @ ''/'' @ f))"
proof -
  have abs: "IsAbs (dir @ ''/'' @ f)" using assms(1) by (cases dir) (auto simp: IsAbs_def)
  obtain new where "fold (clean_elem True) (split_slash f) (fold (clean_elem True) (split_slash dir) []) =
      new @ fold (clean_elem True) (split_slash dir) []"
    using clean_push [OF assms(2)] by blast
  then have "clean_elems (dir @ ''/'' @ f) = clean_elems dir @ rev new"
    using assms(1) abs by (simp add: clean_elems_def split_slash_append)
  then show ?thesis using assms(1) abs by (simp add: Clean_def Let_def join_slash_append prefix_def)
qed

lemma split_slash_one: "CHR ''/'' \<notin> set p \<Longrightarrow> split_slash p = [p]"
  by (induction p) auto

lemma log_file_below:
  assumes "IsAbs (lc_Directory l)" and "\<not> IsAbs (lc_LogFile l)" and "''..'' \<notin> set (split_slash (lc_LogFile l))"
    and "CHR ''/'' \<notin> set stamp"
  shows "prefix (Clean (lc_Directory l)) (log_file_path stamp l)"
proof -
  have "lc_Directory l \<noteq> []" using assms(1) by (auto simp: IsAbs_def)
  moreover have "''..'' \<notin> set (split_slash (if lc_IncludeDateTime l then ''voiceproxy_'' @ stamp @ ''.log'' else ''voiceproxy.log''))"
    using assms(4) by (simp add: split_slash_one)
  ultimately show ?thesis
    using assms(2,3) Clean_below [OF assms(1)] by (simp add: log_file_path_def Join_def)
qed

section \<open>Where the gateway logs to\<close>

definition log_files :: "log_core list \<Rightarrow> string list" where
  "log_files cores = concat (map (\<lambda>c. case lo_sink c of LogFile f \<Rightarrow> [ro_Filename f] | _ \<Rightarrow> []) cores)"

text \<open>
  C96: A gateway with a loaded configuration always writes exactly one log file, even when it is told
  to log to the console; the console gets the lines exactly when it is asked for or no file is
  named, and standard error exactly when JSON is asked for as well; every output has the
  configured level. The file lies below the configured directory unless its name is absolute or
  has a \<open>..\<close> in it.
\<close>

theorem gateway_log_outputs:
  "let c = set_defaults config; l = cf_Logging c; cores = setupLogger stamp (cf_LogLevel c) l
   in log_files cores = [log_file_path stamp l] \<and>
      (list_ex (\<lambda>k. lo_sink k = Stdout) cores \<longleftrightarrow> lc_UseConsole (cf_Logging config) \<or> lc_LogFile (cf_Logging config) = []) \<and>
      (list_ex (\<lambda>k. lo_sink k = Stderr) cores \<longleftrightarrow> list_ex (\<lambda>k. lo_sink k = Stdout) cores \<and> lc_UseJSON l) \<and>
      list_all (\<lambda>k. lo_level k = getZapLevel (cf_LogLevel c)) cores \<and>
      (IsAbs (lc_Directory l) \<and> \<not> IsAbs (lc_LogFile l) \<and> ''..'' \<notin> set (split_slash (lc_LogFile l)) \<and> CHR ''/'' \<notin> set stamp \<longrightarrow>
         prefix (Clean (lc_Directory l)) (log_file_path stamp l))"
proof -
  let ?l = "cf_Logging (set_defaults config)"
  have "lc_Directory ?l \<noteq> []" "lc_UseConsole ?l = (lc_UseConsole (cf_Logging config) \<or> lc_LogFile (cf_Logging config) = [])"
    by (simp_all add: set_defaults_def log_defaults_def or_string_def)
  then show ?thesis
    using log_file_below [of ?l stamp]
    by (cases "lc_UseConsole ?l"; cases "lc_UseJSON ?l"; simp add: setupLogger_def log_files_def Let_def)
qed

theorem gateway_log_outputs_witness:
  "\<exists>config. let l = cf_Logging (set_defaults config)
     in lc_LogFile l = ''gw.log'' \<and> lc_UseConsole l \<and>
        log_files (setupLogger ''t'' (cf_LogLevel (set_defaults config)) l) = [''/var/logs/voiceproxy/gw.log''] \<and>
        prefix (Clean (lc_Directory l)) ''/var/logs/voiceproxy/gw.log''"
proof -
  let ?l = "\<lparr>lc_UseConsole = True, lc_UseJSON = False, lc_LogFile = ''gw.log'', lc_Directory = [], lc_MaxSize = 0, lc_MaxBackups = 0,
     lc_MaxAge = 0, lc_Compress = False, lc_IncludeDateTime = False\<rparr>"
  let ?config = "undefined\<lparr>cf_Logging := ?l\<rparr> :: Config"
  have l: "cf_Logging (set_defaults ?config) = log_defaults ?l" by (simp add: set_defaults_def)
  have "log_file_path ''t'' (log_defaults ?l) = ''/var/logs/voiceproxy/gw.log''"
    "IsAbs (lc_Directory (log_defaults ?l))" "\<not> IsAbs (lc_LogFile (log_defaults ?l))"
    "''..'' \<notin> set (split_slash (lc_LogFile (log_defaults ?l)))" "lc_LogFile (log_defaults ?l) = ''gw.log''" "lc_UseConsole (log_defaults ?l)"
    by code_simp+
  then show ?thesis
    using gateway_log_outputs [of ?config "''t''"] by (intro exI [of _ ?config]) (simp add: l Let_def)
qed

end
