(* ===== verification/Coordinator_Safety.thy ===== *)
theory Coordinator_Safety
  imports Coordinator_Model
begin

text \<open>
  Properties of the coordinator: who may be leader when several coordinators share one store
  and each call is atomic, what happens when the storage calls of two acquisitions interleave,
  how a lone coordinator keeps its lease, and component leadership.
\<close>

section \<open>The lease in the store\<close>

lemma leaderKey_nonempty [simp]: "leaderKey \<noteq> []"
  by (simp add: leaderKey_def)

lemma instanceKey_neq [simp]: "instanceKey c \<noteq> leaderKey" "leaderKey \<noteq> instanceKey c" "instanceKey c \<noteq> []"
  by (simp_all add: instanceKey_def leaderKey_def)

abbreviation lease_kv :: "MemoryStorage \<Rightarrow> KeyValue option" where
  "lease_kv m \<equiv> kv_view m leaderKey"

text \<open>A lookup of the lease finds a live value and changes nothing, or there is no live one.\<close>

lemma Get_lease:
  assumes "kv_ok m"
  obtains (live) m' kv where "Get now leaderKey m = (m', Ret (kv_Value kv))" and "kv_ok m'"
      and "lease_kv m = Some kv" and "\<not> kv_expired now kv" and "kv_view m' = kv_view m"
  | (none) m' e where "Get now leaderKey m = (m', Fail e)" and "kv_ok m'"
      and "\<And>kv. lease_kv m = Some kv \<Longrightarrow> kv_expired now kv" and "kv_view m' = (kv_view m)(leaderKey := None)"
proof -
  note get = kv.get_view [OF assms, of now leaderKey] kv.get_result [OF assms, of now leaderKey]
    kv.get_ok [OF assms, of now leaderKey]
  show ?thesis
  proof (cases "lease_kv m")
    case None
    then show ?thesis
      using get none [of "fst (Get now leaderKey m)" ErrNotFound]
      by (auto simp: spec_Get_def prod_eq_iff fun_upd_idem)
  next
    case (Some kv)
    then show ?thesis
      using get live [of "fst (Get now leaderKey m)" kv] none [of "fst (Get now leaderKey m)" ErrKeyExpired]
      by (cases "kv_expired now kv") (auto simp: spec_Get_def prod_eq_iff)
  qed
qed

lemma Set_lease:
  assumes "kv_ok m" and "0 < d"
  obtains m' where "Set now leaderKey (Some v) d m = (m', Ret ())" and "kv_ok m'"
    and "kv_view m' = (kv_view m)(leaderKey \<mapsto> \<lparr>kv_Value = v, kv_Expiration = now + d\<rparr>)"
  using that [of "fst (Set now leaderKey (Some v) d m)"] kv.put_view [OF assms(1), of now leaderKey "Some v" d]
    kv.put_result [OF assms(1), of now leaderKey "Some v" d] kv.put_ok [OF assms(1), of now leaderKey "Some v" d] assms(2)
  by (simp add: spec_Set_def prod_eq_iff)

lemma Delete_lease:
  assumes "kv_ok m" and "lease_kv m = Some kv"
  obtains m' where "Delete leaderKey m = (m', Ret ())" and "kv_ok m'" and "kv_view m' = (kv_view m)(leaderKey := None)"
  using that [of "fst (Delete leaderKey m)"] kv.del_view [OF assms(1), of leaderKey]
    kv.del_result [OF assms(1), of leaderKey] kv.del_ok [OF assms(1), of leaderKey] assms(2)
  by (simp add: spec_Delete_def prod_eq_iff)

text \<open>The instance whose unexpired lease an entry is, as \<open>acquire_check\<close> reads it.\<close>

definition live_holder :: "gotime \<Rightarrow> KeyValue option \<Rightarrow> string option" where
  "live_holder now entry =
     Option.bind entry (\<lambda>kv. if kv_expired now kv then None
       else Option.bind (json_Unmarshal (kv_Value kv)) (\<lambda>obj.
         Option.bind (as_number (map_of obj ''expireTime'')) (\<lambda>e.
           if Before now (Unix_Time e) then as_string (map_of obj ''instanceID'') else None)))"

text \<open>The entry a leader wrote last, and a lease whose whole seconds have run out.\<close>

definition lease_of :: "Coordinator \<Rightarrow> KeyValue option \<Rightarrow> bool" where
  "lease_of c entry \<longleftrightarrow> (\<exists>kv obj. entry = Some kv \<and> kv_Value kv = Json obj \<and>
     kv_Expiration kv = co_leaseExpiration c \<and>
     as_string (map_of obj ''instanceID'') = Some (co_instanceID c) \<and>
     as_number (map_of obj ''expireTime'') = Some (Time_Unix (co_leaseExpiration c)))"

definition lapsed :: "gotime \<Rightarrow> Coordinator \<Rightarrow> bool" where
  "lapsed now c \<longleftrightarrow> Unix_Time (Time_Unix (co_leaseExpiration c)) \<le> now"

definition lease_inv :: "gotime \<Rightarrow> Coordinator \<Rightarrow> KeyValue option \<Rightarrow> bool" where
  "lease_inv now c entry \<longleftrightarrow> (co_isLeader c \<longrightarrow> lease_of c entry \<or> lapsed now c)"

lemma lapsed_mono: "lapsed now c \<Longrightarrow> now \<le> now' \<Longrightarrow> lapsed now' c"
  by (simp add: lapsed_def)

lemma lease_inv_mono: "lease_inv now c e \<Longrightarrow> now \<le> now' \<Longrightarrow> lease_inv now' c e"
  using lapsed_mono by (auto simp: lease_inv_def)

lemma lease_of_holder:
  assumes "lease_of c e"
  shows "live_holder now e = Some (co_instanceID c) \<or> lapsed now c"
proof -
  obtain kv obj where kv: "e = Some kv" "kv_Value kv = Json obj" "kv_Expiration kv = co_leaseExpiration c"
      "as_string (map_of obj ''instanceID'') = Some (co_instanceID c)"
      "as_number (map_of obj ''expireTime'') = Some (Time_Unix (co_leaseExpiration c))"
    using assms by (auto simp: lease_of_def)
  have "lapsed now c" if "kv_expired now kv"
    using that kv(3) Unix_Time_le [of "co_leaseExpiration c"] by (auto simp: kv_expired_def time_defs lapsed_def)
  then show ?thesis
    using kv by (auto simp: live_holder_def lapsed_def Before_def)
qed

text \<open>An entry may be replaced or removed when no other instance's lease is live there.\<close>

lemma lease_inv_replaced:
  assumes "lease_inv now c e" and "now \<le> now'" and "\<And>x. live_holder now' e = Some x \<Longrightarrow> x \<noteq> co_instanceID c"
  shows "lease_inv now' c e'"
  using assms lease_of_holder [of c e now'] lapsed_mono [of now c now'] by (auto simp: lease_inv_def)

section \<open>Each call of one coordinator\<close>

text \<open>
  What a call of \<open>c\<close> at \<open>now\<close> does to the lease: the store stays fine, the caller satisfies its
  lease invariant afterwards and keeps its identity, and the entry changes only when no other
  instance's lease is live.
\<close>

definition good_call :: "gotime \<Rightarrow> Coordinator \<Rightarrow> MemoryStorage \<Rightarrow> Coordinator \<times> MemoryStorage \<Rightarrow> bool" where
  "good_call now c m = (\<lambda>(c', m').
     kv_ok m' \<and> co_instanceID c' = co_instanceID c \<and> co_leaseTimeout c' = co_leaseTimeout c \<and>
     lease_inv now c' (lease_kv m') \<and>
     (lease_kv m' = lease_kv m \<or> (\<forall>x. live_holder now (lease_kv m) = Some x \<longrightarrow> x = co_instanceID c)))"

lemma notify_fields [simp]:
  "co_instanceID (notify n c) = co_instanceID c" "co_leaseTimeout (notify n c) = co_leaseTimeout c"
  "co_isLeader (notify n c) = co_isLeader c" "co_leaseExpiration (notify n c) = co_leaseExpiration c"
  "co_leadership (notify n c) = co_leadership c"
  by (simp_all add: notify_def)

lemma become_leader_fields [simp]:
  "co_instanceID (become_leader now c) = co_instanceID c" "co_leaseTimeout (become_leader now c) = co_leaseTimeout c"
  "co_isLeader (become_leader now c)" "co_leaseExpiration (become_leader now c) = now + co_leaseTimeout c"
  "co_leadership (become_leader now c) = co_leadership c"
  by (simp_all add: become_leader_def Let_def)

lemma acquire_check_spec:
  assumes "kv_ok m"
  obtains (stop) m' where "acquire_check now m = (m', False)" and "kv_ok m'" and "kv_view m' = kv_view m"
  | (go) m' where "acquire_check now m = (m', True)" and "kv_ok m'" and "live_holder now (lease_kv m) = None"
  using assms
proof (cases rule: Get_lease [where now = now])
  case (live m' kv)
  then show ?thesis
    using stop [of m'] go [of m']
    by (cases "json_Unmarshal (kv_Value kv)"; cases "as_number (map_of (the (json_Unmarshal (kv_Value kv))) ''expireTime'')")
      (auto simp: acquire_check_def live_holder_def)
next
  case (none m' e)
  then show ?thesis
    using go [of m'] by (cases "lease_kv m") (auto simp: acquire_check_def live_holder_def)
qed

text \<open>Writing the lease and reading it back in the same call makes the caller leader.\<close>

lemma acquire_write_verify:
  assumes "kv_ok m" and "0 < co_leaseTimeout c"
  obtains m' m'' where "acquire_write now c m = (m', True)" and "acquire_verify now c m' = (become_leader now c, m'')"
    and "kv_ok m''"
    and "kv_view m'' = (kv_view m)(leaderKey \<mapsto> \<lparr>kv_Value = Json (leader_info now c), kv_Expiration = now + co_leaseTimeout c\<rparr>)"
proof (rule Set_lease [OF assms, of now "Json (leader_info now c)"])
  fix m' assume m': "Set now leaderKey (Some (Json (leader_info now c))) (co_leaseTimeout c) m = (m', Ret ())"
    "kv_ok m'" "kv_view m' = (kv_view m)(leaderKey \<mapsto> \<lparr>kv_Value = Json (leader_info now c), kv_Expiration = now + co_leaseTimeout c\<rparr>)"
  have w: "acquire_write now c m = (m', True)" by (simp add: acquire_write_def m')
  show ?thesis
    using m'(2)
  proof (cases rule: Get_lease [where now = now])
    case (live m'' kv)
    then show ?thesis
      using that [OF w, of m''] m' by (auto simp: acquire_verify_def leader_info_def)
  next
    case (none m'' e)
    then show ?thesis using m'(3) assms(2) by (simp add: kv_expired_def time_defs)
  qed
qed

lemma become_leader_lease:
  "lease_of (become_leader now c) (Some \<lparr>kv_Value = Json (leader_info now c), kv_Expiration = now + co_leaseTimeout c\<rparr>)"
  by (simp add: lease_of_def leader_info_def)

lemma tryAcquire_good:
  assumes "kv_ok m" and "0 < co_leaseTimeout c" and "lease_inv now c (lease_kv m)"
  shows "good_call now c m (tryAcquireLeadership now c m)"
  using assms(1)
proof (cases rule: acquire_check_spec [where now = now])
  case (stop m')
  then show ?thesis using assms by (simp add: good_call_def tryAcquireLeadership_def)
next
  case (go m')
  obtain m1 m2 where "acquire_write now c m' = (m1, True)" and "acquire_verify now c m1 = (become_leader now c, m2)"
    and "kv_ok m2" and "kv_view m2 = (kv_view m')(leaderKey \<mapsto>
      \<lparr>kv_Value = Json (leader_info now c), kv_Expiration = now + co_leaseTimeout c\<rparr>)"
    by (rule acquire_write_verify [OF go(2) assms(2), where now = now])
  then show ?thesis
    using go become_leader_lease [of now c] by (simp add: good_call_def tryAcquireLeadership_def lease_inv_def)
qed

lemma renew_good:
  assumes "kv_ok m" and "0 < co_leaseTimeout c" and "lease_inv now c (lease_kv m)"
  shows "good_call now c m (renewLeadership now c m)"
  using assms(1)
proof (cases rule: Get_lease [where now = now])
  case (live m' kv)
  show ?thesis
  proof (cases "json_Unmarshal (kv_Value kv)")
    case None
    then show ?thesis using live assms by (simp add: good_call_def renewLeadership_def)
  next
    case (Some obj)
    let ?obj = "AList.update ''expireTime'' (JNum (Time_Unix (now + co_leaseTimeout c))) obj"
    show ?thesis
    proof (cases "as_string (map_of obj ''instanceID'') = Some (co_instanceID c)")
      case True
      have own: "x = co_instanceID c" if "live_holder now (lease_kv m) = Some x" for x
        using that live Some True by (auto simp: live_holder_def bind_eq_Some_conv split: if_splits)
      show ?thesis
      proof (rule Set_lease [OF live(2) assms(2), of now "Json ?obj"])
        fix m1 assume m1: "Set now leaderKey (Some (Json ?obj)) (co_leaseTimeout c) m' = (m1, Ret ())" "kv_ok m1"
          "kv_view m1 = (kv_view m')(leaderKey \<mapsto> \<lparr>kv_Value = Json ?obj, kv_Expiration = now + co_leaseTimeout c\<rparr>)"
        then show ?thesis
          using live Some True own
          by (simp add: good_call_def renewLeadership_def lease_inv_def lease_of_def update_conv')
      qed
    next
      case False
      then show ?thesis
        using live Some by (simp add: good_call_def renewLeadership_def lease_inv_def)
    qed
  qed
next
  case (none m' e)
  then show ?thesis
    by (cases "lease_kv m") (auto simp: good_call_def renewLeadership_def lease_inv_def live_holder_def)
qed

lemma release_good:
  assumes "kv_ok m" and "lease_inv now c (lease_kv m)"
  shows "good_call now c m (releaseLeadership now c m)"
  using assms(1)
proof (cases rule: Get_lease [where now = now])
  case (live m' kv)
  show ?thesis
  proof (cases "Option.bind (json_Unmarshal (kv_Value kv)) (\<lambda>obj. as_string (map_of obj ''instanceID'')) = Some (co_instanceID c)")
    case True
    then obtain obj where obj: "json_Unmarshal (kv_Value kv) = Some obj" "as_string (map_of obj ''instanceID'') = Some (co_instanceID c)"
      by (auto simp: bind_eq_Some_conv)
    obtain m1 where "Delete leaderKey m' = (m1, Ret ())" "kv_ok m1" "kv_view m1 = (kv_view m')(leaderKey := None)"
      using Delete_lease [OF live(2), of kv] live(3,5) by metis
    then show ?thesis
      using live obj
      by (auto simp: good_call_def releaseLeadership_def lease_inv_def live_holder_def bind_eq_Some_conv split: if_splits)
  next
    case False
    then have "releaseLeadership now c m = (c, m')"
      using live by (cases "json_Unmarshal (kv_Value kv)") (simp_all add: releaseLeadership_def)
    then show ?thesis
      using live assms by (simp add: good_call_def)
  qed
next
  case (none m' e)
  have "lease_inv now c None"
    using assms(2) none(3)
    by (rule_tac lease_inv_replaced [where e = "lease_kv m"]; auto simp: live_holder_def split: option.splits bind_splits)
  with none show ?thesis
    by (cases "lease_kv m") (auto simp: good_call_def releaseLeadership_def live_holder_def)
qed

lemma tick_good:
  assumes "kv_ok m" and "0 < co_leaseTimeout c" and "lease_inv now c (lease_kv m)"
  shows "good_call now c m (leadership_tick now c m)"
  using assms by (simp add: leadership_tick_def renew_good tryAcquire_good)

text \<open>Calls that touch other keys leave the lease alone.\<close>

fun kv_key :: "kv_call \<Rightarrow> string" where
  "kv_key (KvGet now key) = key"
| "kv_key (KvSet now key v d) = key"
| "kv_key (KvDelete key) = key"

lemma kv_step_lease:
  assumes "kv_ok m" and "kv_key call \<noteq> leaderKey"
  shows "kv_ok (fst (kv_step call m)) \<and> lease_kv (fst (kv_step call m)) = lease_kv m"
proof -
  have "kv_view (fst (kv_step call m)) = fst (kv_spec call (kv_view m))"
    using kv_ref.step_refines [OF assms(1), of call] by (simp add: prod_eq_iff)
  moreover have "fst (kv_spec call (kv_view m)) leaderKey = lease_kv m"
    using assms(2) by (cases call) (auto simp: spec_kv_defs split: option.split)
  ultimately show ?thesis using kv_ref.step_ok [OF assms(1)] by simp
qed

lemma registerInstance_lease:
  assumes "kv_ok m"
  shows "kv_ok (fst (registerInstance now addrs c m)) \<and> lease_kv (fst (registerInstance now addrs c m)) = lease_kv m"
proof (cases addrs)
  case (Some as)
  let ?call = "\<lambda>v. KvSet now (instanceKey c) v (co_leaseTimeout c * 2)"
  show ?thesis
    using kv_step_lease [OF assms, of "?call v" for v]
    by (simp add: registerInstance_def Some Let_def split: prod.split outcome.split) (metis fst_conv)
qed (simp add: registerInstance_def assms)

lemma unregisterInstance_lease:
  assumes "kv_ok m"
  shows "kv_ok (fst (unregisterInstance c m)) \<and> lease_kv (fst (unregisterInstance c m)) = lease_kv m"
  using kv_step_lease [OF assms, of "KvDelete (instanceKey c)"]
  by (auto simp: unregisterInstance_def split: prod.split outcome.split)

lemma good_call_after:
  assumes "good_call now c m1 (c', m')" and "lease_kv m1 = lease_kv m"
  shows "good_call now c m (c', m')"
  using assms by (simp add: good_call_def)

lemma good_call_then:
  assumes "good_call now c m (c', m1)" and "kv_ok m'" and "lease_kv m' = lease_kv m1"
  shows "good_call now c m (c', m')"
  using assms by (simp add: good_call_def)

lemma Start_good:
  assumes "kv_ok m" and "0 < co_leaseTimeout c" and "lease_inv now c (lease_kv m)"
    and "Coordinator_Start now addrs c m = (c', m', r)"
  shows "good_call now c m (c', m')"
proof -
  let ?m = "fst (registerInstance now addrs c m)"
  have m: "kv_ok ?m" "lease_kv ?m = lease_kv m" using registerInstance_lease [OF assms(1)] by auto
  have "good_call now c m (tryAcquireLeadership now c ?m)"
    using tryAcquire_good [OF m(1) assms(2), of now] assms(3) m(2)
    by (cases "tryAcquireLeadership now c ?m") (auto intro: good_call_after)
  moreover have "good_call now c m (c, ?m)"
    using m assms(3) by (simp add: good_call_def)
  ultimately show ?thesis
    using assms(4)
    by (cases "registerInstance now addrs c m"; cases "snd (registerInstance now addrs c m)")
      (auto simp: Coordinator_Start_def split_beta Let_def)
qed

lemma Stop_good:
  assumes "kv_ok m" and "lease_inv now c (lease_kv m)" and "Coordinator_Stop now done c m = (c', m', r)"
  shows "good_call now c m (c', m')"
proof -
  let ?r = "if IsLeader now None c then releaseLeadership now c m else (c, m)"
  have good: "good_call now c m (fst ?r, snd ?r)"
    using release_good [OF assms(1,2)] assms(1,2) by (simp add: good_call_def)
  have "c' = fst ?r" and m': "m' = fst (unregisterInstance (fst ?r) (snd ?r))"
    using assms(3) by (auto simp: Coordinator_Stop_def split_beta Let_def)
  moreover have "kv_ok (snd ?r)" using good unfolding good_call_def by blast
  ultimately show ?thesis
    using good_call_then [OF good] unregisterInstance_lease [of "snd ?r" "fst ?r"] by simp
qed

section \<open>Several coordinators on one store\<close>

record election =
  el_cs :: "Coordinator list"
  el_m :: MemoryStorage
  el_now :: gotime

text \<open>
  One step is one whole call of one coordinator, or any other client's call on another key;
  the clock does not go back.
\<close>

inductive election_step :: "election \<Rightarrow> election \<Rightarrow> bool" where
  tick: "i < length (el_cs s) \<Longrightarrow> el_now s \<le> t \<Longrightarrow> leadership_tick t (el_cs s ! i) (el_m s) = (c', m') \<Longrightarrow>
    election_step s \<lparr>el_cs = (el_cs s)[i := c'], el_m = m', el_now = t\<rparr>"
| start: "i < length (el_cs s) \<Longrightarrow> el_now s \<le> t \<Longrightarrow> Coordinator_Start t addrs (el_cs s ! i) (el_m s) = (c', m', r) \<Longrightarrow>
    election_step s \<lparr>el_cs = (el_cs s)[i := c'], el_m = m', el_now = t\<rparr>"
| stop: "i < length (el_cs s) \<Longrightarrow> el_now s \<le> t \<Longrightarrow> Coordinator_Stop t done (el_cs s ! i) (el_m s) = (c', m', r) \<Longrightarrow>
    election_step s \<lparr>el_cs = (el_cs s)[i := c'], el_m = m', el_now = t\<rparr>"
| components: "i < length (el_cs s) \<Longrightarrow> el_now s \<le> t \<Longrightarrow>
    election_step s \<lparr>el_cs = (el_cs s)[i := monitorComponentLeadership t (el_cs s ! i)], el_m = el_m s, el_now = t\<rparr>"
| other: "el_now s \<le> t \<Longrightarrow> kv_key call \<noteq> leaderKey \<Longrightarrow>
    election_step s \<lparr>el_cs = el_cs s, el_m = fst (kv_step call (el_m s)), el_now = t\<rparr>"

inductive election_reachable :: "election \<Rightarrow> bool" where
  initial: "distinct (map co_instanceID cs) \<Longrightarrow> (\<forall>c \<in> set cs. \<not> co_isLeader c \<and> 0 < co_leaseTimeout c) \<Longrightarrow> kv_ok m \<Longrightarrow>
    election_reachable \<lparr>el_cs = cs, el_m = m, el_now = now\<rparr>"
| step: "election_reachable s \<Longrightarrow> election_step s s' \<Longrightarrow> election_reachable s'"

definition election_inv :: "election \<Rightarrow> bool" where
  "election_inv s \<longleftrightarrow> kv_ok (el_m s) \<and> distinct (map co_instanceID (el_cs s)) \<and>
     (\<forall>c \<in> set (el_cs s). 0 < co_leaseTimeout c \<and> lease_inv (el_now s) c (lease_kv (el_m s)))"

lemma election_inv_call:
  assumes inv: "election_inv s" and i: "i < length (el_cs s)" and t: "el_now s \<le> t"
    and good: "good_call t (el_cs s ! i) (el_m s) (c', m')"
  shows "election_inv \<lparr>el_cs = (el_cs s)[i := c'], el_m = m', el_now = t\<rparr>"
proof -
  let ?c = "el_cs s ! i"
  have ids: "map co_instanceID ((el_cs s)[i := c']) = map co_instanceID (el_cs s)"
    using good i by (simp add: good_call_def map_update list_update_same_conv)
  have others: "lease_inv t d (lease_kv m')" if d: "d \<in> set (el_cs s)" "co_instanceID d \<noteq> co_instanceID ?c" for d
  proof (cases "lease_kv m' = lease_kv (el_m s)")
    case True
    then show ?thesis using inv d t lease_inv_mono by (auto simp: election_inv_def)
  next
    case False
    then have "\<And>x. live_holder t (lease_kv (el_m s)) = Some x \<Longrightarrow> x \<noteq> co_instanceID d"
      using good d(2) by (auto simp: good_call_def)
    then show ?thesis
      using inv d t lease_inv_replaced by (auto simp: election_inv_def)
  qed
  have "0 < co_leaseTimeout d \<and> lease_inv t d (lease_kv m')" if d: "d \<in> set ((el_cs s)[i := c'])" for d
  proof -
    obtain j where j: "j < length (el_cs s)" "d = (el_cs s)[i := c'] ! j"
      using d unfolding in_set_conv_nth length_list_update by blast
    show ?thesis
    proof (cases "j = i")
      case True
      then show ?thesis using j i good inv by (auto simp: good_call_def election_inv_def)
    next
      case False
      then have "co_instanceID (el_cs s ! j) \<noteq> co_instanceID ?c"
        using inv i j(1) by (auto simp: election_inv_def distinct_conv_nth)
      then show ?thesis using False j others inv by (auto simp: election_inv_def)
    qed
  qed
  then show ?thesis using inv good ids by (simp add: election_inv_def good_call_def)
qed

lemma assign_components_fields [simp]:
  "co_instanceID (assign_components b names c) = co_instanceID c"
  "co_leaseTimeout (assign_components b names c) = co_leaseTimeout c"
  "co_isLeader (assign_components b names c) = co_isLeader c"
  "co_leaseExpiration (assign_components b names c) = co_leaseExpiration c"
  by (induction names arbitrary: c) simp_all

lemma election_inv_nth:
  assumes "election_inv s" and "i < length (el_cs s)" and "el_now s \<le> t"
  shows "kv_ok (el_m s)" and "0 < co_leaseTimeout (el_cs s ! i)" and "lease_inv t (el_cs s ! i) (lease_kv (el_m s))"
proof -
  have c: "el_cs s ! i \<in> set (el_cs s)" using assms(2) by simp
  show "kv_ok (el_m s)" and "0 < co_leaseTimeout (el_cs s ! i)" using assms(1) c by (auto simp: election_inv_def)
  have "lease_inv (el_now s) (el_cs s ! i) (lease_kv (el_m s))" using assms(1) c by (simp add: election_inv_def)
  then show "lease_inv t (el_cs s ! i) (lease_kv (el_m s))" using assms(3) by (rule lease_inv_mono)
qed

lemma election_inv_step: "election_step s s' \<Longrightarrow> election_inv s \<Longrightarrow> election_inv s'"
proof (induction rule: election_step.induct)
  case (tick i s t c' m')
  note facts = election_inv_nth [OF tick.prems tick.hyps(1,2)]
  show ?case using tick tick_good [OF facts] by (intro election_inv_call) simp_all
next
  case (start i s t addrs c' m' r)
  note facts = election_inv_nth [OF start.prems start.hyps(1,2)]
  show ?case using start Start_good [OF facts start.hyps(3)] by (intro election_inv_call)
next
  case (stop i s t "done" c' m' r)
  note facts = election_inv_nth [OF stop.prems stop.hyps(1,2)]
  show ?case using stop Stop_good [OF facts(1,3) stop.hyps(3)] by (intro election_inv_call)
next
  case (components i s t)
  note facts = election_inv_nth [OF components.prems components.hyps]
  have "good_call t (el_cs s ! i) (el_m s) (monitorComponentLeadership t (el_cs s ! i), el_m s)"
    using facts by (auto simp: good_call_def monitorComponentLeadership_def lease_inv_def lease_of_def lapsed_def)
  then show ?case using components by (intro election_inv_call)
next
  case (other s t call)
  then show ?case
    using kv_step_lease [of "el_m s" call] lease_inv_mono by (auto simp: election_inv_def)
qed

lemma election_inv_reachable: "election_reachable s \<Longrightarrow> election_inv s"
proof (induction rule: election_reachable.induct)
  case (initial cs m now)
  then show ?case by (auto simp: election_inv_def lease_inv_def)
next
  case (step s s')
  then show ?case using election_inv_step by blast
qed

lemma election_two_leaders:
  assumes inv: "election_inv s" and ij: "i < length (el_cs s)" "j < length (el_cs s)" "i \<noteq> j"
    and lead: "co_isLeader (el_cs s ! i)" "co_isLeader (el_cs s ! j)"
  shows "lapsed (el_now s) (el_cs s ! i) \<or> lapsed (el_now s) (el_cs s ! j)"
proof (rule ccontr)
  assume "\<not> ?thesis"
  then have "lease_of (el_cs s ! i) (lease_kv (el_m s))" and "lease_of (el_cs s ! j) (lease_kv (el_m s))"
    using election_inv_nth [OF inv _ order_refl] ij lead by (auto simp: lease_inv_def)
  then have "co_instanceID (el_cs s ! i) = co_instanceID (el_cs s ! j)"
    by (auto simp: lease_of_def)
  then show False using inv ij by (auto simp: election_inv_def distinct_conv_nth)
qed

text \<open>
  C1: When the calls of any number of coordinators on one store are atomic, two of them can
  be leader at the same instant only in the last second of the older lease (which the store
  keeps in whole seconds), whatever they and the store's other clients do.
\<close>

theorem one_leader_up_to_a_second:
  assumes "election_reachable s" and "i < length (el_cs s)" and "j < length (el_cs s)" and "i \<noteq> j"
    and "IsLeader (el_now s) None (el_cs s ! i)" and "IsLeader (el_now s) None (el_cs s ! j)"
  shows "min (co_leaseExpiration (el_cs s ! i)) (co_leaseExpiration (el_cs s ! j)) < el_now s + Second"
proof -
  have "co_leaseExpiration c < el_now s + Second" if "lapsed (el_now s) c" for c
    using that Unix_Time_gt [of "co_leaseExpiration c"] by (simp add: lapsed_def)
  then show ?thesis
    using election_two_leaders [OF election_inv_reachable [OF assms(1)] assms(2-4)] assms(5,6)
    by (auto simp: IsLeader_def min_less_iff_disj)
qed

definition coord_a :: Coordinator where
  "coord_a = \<lparr>co_instanceID = ''a'', co_isLeader = False, co_leaseExpiration = 0, co_leadership = [(''rtpengine'', False)],
     co_leadershipCh = [], co_heartbeatInterval = 5 * Second, co_leaseTimeout = 15 * Second\<rparr>"

definition coord_b :: Coordinator where
  "coord_b = coord_a\<lparr>co_instanceID := ''b''\<rparr>"

theorem one_leader_up_to_a_second_witness:
  "let m = NewMemoryStorage_fresh default_config;
       (a, m1) = leadership_tick (Second div 2) coord_a m;
       (b, m2) = leadership_tick (15 * Second) coord_b m1
   in IsLeader (15 * Second) None a \<and> IsLeader (15 * Second) None b \<and>
      min (co_leaseExpiration a) (co_leaseExpiration b) < 15 * Second + Second"
proof -
  let ?m = "NewMemoryStorage_fresh default_config"
  let ?t = "Second div 2"
  let ?u = "15 * Second"
  let ?A = "leadership_tick ?t coord_a ?m"
  let ?B = "leadership_tick ?u coord_b (snd ?A)"
  let ?s = "\<lparr>el_cs = [fst ?A, fst ?B], el_m = snd ?B, el_now = ?u\<rparr>"
  have ok: "kv_ok ?m" by (rule kv_ok_New) (simp add: default_config_def)
  have "election_reachable \<lparr>el_cs = [coord_a, coord_b], el_m = ?m, el_now = 0\<rparr>"
    by (rule election_reachable.initial) (simp_all add: ok coord_a_def coord_b_def duration_defs)
  from election_reachable.step [OF this election_step.tick [where i = 0 and t = ?t and c' = "fst ?A" and m' = "snd ?A"]]
  have "election_reachable \<lparr>el_cs = [fst ?A, coord_b], el_m = snd ?A, el_now = ?t\<rparr>"
    by (simp add: duration_defs)
  from election_reachable.step [OF this election_step.tick [where i = 1 and t = ?u and c' = "fst ?B" and m' = "snd ?B"]]
  have r: "election_reachable ?s" by (simp add: duration_defs)
  have a: "IsLeader ?u None (fst ?A)" by code_simp
  have b: "IsLeader ?u None (fst ?B)" by code_simp
  show ?thesis
    using one_leader_up_to_a_second [OF r, of 0 1] a b by (simp add: split_beta Let_def)
qed

section \<open>The race between two acquisitions\<close>

lemma acquire_check_free:
  assumes "kv_ok m" and "lease_kv m = None"
  obtains m' where "acquire_check now m = (m', True)" and "kv_ok m'" and "lease_kv m' = None"
  using assms(1)
proof (cases rule: Get_lease [where now = now])
  case (live m' kv)
  then show ?thesis using assms(2) by simp
next
  case (none m' e)
  then show ?thesis using that [of m'] by (simp add: acquire_check_def)
qed



section \<open>A lone coordinator\<close>

definition leading :: "gotime \<Rightarrow> Coordinator \<Rightarrow> MemoryStorage \<Rightarrow> bool" where
  "leading now c m \<longleftrightarrow> kv_ok m \<and> co_isLeader c \<and> co_leaseExpiration c = now + co_leaseTimeout c \<and> lease_of c (lease_kv m)"

lemma leading_acquired:
  assumes "kv_ok m" and "0 < co_leaseTimeout c" and "acquire_check now m = (m', True)" and "kv_ok m'"
  shows "leading now (fst (tryAcquireLeadership now c m)) (snd (tryAcquireLeadership now c m))"
  by (rule acquire_write_verify [OF assms(4,2), where now = now])
    (simp add: tryAcquireLeadership_def assms leading_def become_leader_lease)

lemma leading_tick:
  assumes "leading now c m" and "0 < co_leaseTimeout c" and "now \<le> t"
  shows "leading t (fst (leadership_tick t c m)) (snd (leadership_tick t c m))"
proof -
  have ok: "kv_ok m" using assms(1) by (simp add: leading_def)
  obtain kv obj where kv: "lease_kv m = Some kv" "kv_Value kv = Json obj" "kv_Expiration kv = co_leaseExpiration c"
      "as_string (map_of obj ''instanceID'') = Some (co_instanceID c)"
      "as_number (map_of obj ''expireTime'') = Some (Time_Unix (co_leaseExpiration c))"
    using assms(1) by (auto simp: leading_def lease_of_def)
  let ?obj = "AList.update ''expireTime'' (JNum (Time_Unix (t + co_leaseTimeout c))) obj"
  show ?thesis
  proof (cases "t < co_leaseExpiration c")
    case True
    then have lead: "IsLeader t None c" using assms(1) by (simp add: leading_def IsLeader_def Before_def)
    show ?thesis
      using ok
    proof (cases rule: Get_lease [where now = t])
      case (live m' kv')
      obtain m1 where "Set t leaderKey (Some (Json ?obj)) (co_leaseTimeout c) m' = (m1, Ret ())" "kv_ok m1"
          "kv_view m1 = (kv_view m')(leaderKey \<mapsto> \<lparr>kv_Value = Json ?obj, kv_Expiration = t + co_leaseTimeout c\<rparr>)"
        by (rule Set_lease [OF live(2) assms(2)])
      then show ?thesis
        using live kv lead assms(1)
        by (simp add: leadership_tick_def renewLeadership_def leading_def lease_of_def update_conv')
    next
      case (none m' e)
      then show ?thesis using kv True by (simp add: kv_expired_def time_defs)
    qed
  next
    case False
    then have tick: "leadership_tick t c m = tryAcquireLeadership t c m"
      by (simp add: leadership_tick_def IsLeader_def Before_def)
    have go: "\<exists>m'. acquire_check t m = (m', True) \<and> kv_ok m'"
      using ok
    proof (cases rule: Get_lease [where now = t])
      case (live m' kv')
      then show ?thesis
        using kv False Unix_Time_le [of "co_leaseExpiration c"] by (simp add: acquire_check_def Before_def)
    next
      case (none m' e)
      then show ?thesis by (simp add: acquire_check_def)
    qed
    then show ?thesis using leading_acquired [OF ok assms(2)] tick by auto
  qed
qed

definition run_ticks :: "gotime list \<Rightarrow> Coordinator \<times> MemoryStorage \<Rightarrow> Coordinator \<times> MemoryStorage" where
  "run_ticks ts s = fold (\<lambda>t (c, m). leadership_tick t c m) ts s"

lemma good_tick_lease: "good_call now c m p \<Longrightarrow> co_leaseTimeout (fst p) = co_leaseTimeout c"
  by (auto simp: good_call_def split: prod.splits)

lemma leading_run:
  assumes "leading t0 c m" and "0 < co_leaseTimeout c" and "sorted (t0 # ts)"
  shows "leading (last (t0 # ts)) (fst (run_ticks ts (c, m))) (snd (run_ticks ts (c, m)))
     \<and> co_leaseTimeout (fst (run_ticks ts (c, m))) = co_leaseTimeout c"
  using assms
proof (induction ts arbitrary: t0 c m)
  case (Cons t ts)
  let ?p = "leadership_tick t c m"
  have lead: "leading t (fst ?p) (snd ?p)" using leading_tick [OF Cons.prems(1,2)] Cons.prems(3) by simp
  have "good_call t c m ?p"
    using Cons.prems(1,2) by (intro tick_good) (auto simp: leading_def lease_inv_def)
  then have "co_leaseTimeout (fst ?p) = co_leaseTimeout c" by (rule good_tick_lease)
  then show ?case using Cons.IH [OF lead] Cons.prems by (simp add: run_ticks_def split_beta)
qed (simp add: run_ticks_def)

text \<open>
  A coordinator that has the store to itself becomes leader at its first tick and, however
  far apart its ticks are, is leader from each tick until its lease timeout later; so with a
  heartbeat shorter than the lease it leads without a gap.
\<close>

lemma lone_coordinator_leads:
  assumes "kv_ok m" and "lease_kv m = None" and "0 < co_leaseTimeout c" and "\<not> co_isLeader c"
    and "sorted ts" and "ts \<noteq> []" and "last ts \<le> t" and "t < last ts + co_leaseTimeout c"
  shows "IsLeader t None (fst (run_ticks ts (c, m)))"
proof -
  obtain t0 us where ts: "ts = t0 # us" using assms(6) by (cases ts) auto
  obtain m' where m': "acquire_check t0 m = (m', True)" "kv_ok m'"
    by (rule acquire_check_free [OF assms(1,2)])
  have tick: "leadership_tick t0 c m = tryAcquireLeadership t0 c m"
    using assms(4) by (simp add: leadership_tick_def IsLeader_def)
  let ?p = "leadership_tick t0 c m"
  have lead: "leading t0 (fst ?p) (snd ?p)"
    using leading_acquired [OF assms(1,3) m'] tick by simp
  have "good_call t0 c m ?p"
    using assms by (intro tick_good) (auto simp: lease_inv_def)
  then have L: "co_leaseTimeout (fst ?p) = co_leaseTimeout c" by (rule good_tick_lease)
  have "run_ticks ts (c, m) = run_ticks us (fst ?p, snd ?p)" by (simp add: ts run_ticks_def)
  then show ?thesis
    using leading_run [OF lead, of us] L assms ts by (simp add: leading_def IsLeader_def Before_def)
qed

section \<open>Component leadership\<close>

lemma assign_components_map:
  "map_of (co_leadership (assign_components b names c)) x =
     (if x \<in> set names \<and> map_of (co_leadership c) x \<noteq> None then Some b else map_of (co_leadership c) x)"
  by (induction names arbitrary: c) (auto simp: update_conv')

lemma assign_components_channel:
  "length (co_leadershipCh c) \<le> 10 \<Longrightarrow> length (co_leadershipCh (assign_components b names c)) \<le> 10"
  by (induction names arbitrary: c) (auto simp: notify_def)

lemma IsLeader_monitor [simp]: "IsLeader now None (monitorComponentLeadership now c) = IsLeader now None c"
  by (simp add: IsLeader_def monitorComponentLeadership_def)

text \<open>
  After a round of \<open>monitorComponentLeadership\<close> this instance leads exactly the registered
  components when it is the global leader and none otherwise, by both queries, and the
  notification channel never holds more than its ten places.
\<close>

lemma component_leadership_follows:
  assumes "length (co_leadershipCh c) \<le> 10"
  shows "let c' = monitorComponentLeadership now c
     in IsComponentLeader now name c' = (IsLeader now None c \<and> map_of (co_leadership c) name \<noteq> None) \<and>
        IsLeader now (Some name) c' = IsComponentLeader now name c' \<and>
        length (co_leadershipCh c') \<le> 10"
proof -
  let ?c = "monitorComponentLeadership now c"
  have m: "map_of (co_leadership ?c) name = (if map_of (co_leadership c) name \<noteq> None then Some (IsLeader now None c) else None)"
    using map_of_eq_None_iff [of "co_leadership c" name]
    by (simp add: monitorComponentLeadership_def assign_components_map)
  have "IsLeader now (Some name) ?c = (IsLeader now None ?c \<and> map_of (co_leadership ?c) name = Some True)"
    by (auto simp: IsLeader_def Let_def)
  moreover have "length (co_leadershipCh ?c) \<le> 10"
    using assms assign_components_channel by (simp add: monitorComponentLeadership_def)
  ultimately show ?thesis
    using m by (auto simp: Let_def IsComponentLeader_def)
qed

end
