(* ===== verification/Gateway_Metrics.thy ===== *)
theory Gateway_Metrics
  imports Coordinator_Safety
begin

text \<open>
  The metrics of the gateway (\<open>pkg/metrics/metrics.go\<close>) and the metrics server of
  \<open>pkg/common/metrics.go\<close>, which nothing uses. The Prometheus library is not modelled: an operation
  returns the call it makes on a collector. A value that the code converts to \<open>float64\<close> is the
  integer it converts, a duration is in nanoseconds.
\<close>

section \<open>Collectors\<close>

datatype collector_kind = Gauge | Counter | Histogram

datatype collector_action = SetTo int | Inc | Dec | Observe duration

record collector =
  cv_name :: string
  cv_kind :: collector_kind
  cv_labels :: "string list"

record collector_call =
  ml_name :: string
  ml_labels :: "string list"
  ml_action :: collector_action

text \<open>A call that fits its collector: \<open>WithLabelValues\<close> takes one value for each label.\<close>

fun action_fits :: "collector_kind \<Rightarrow> collector_action \<Rightarrow> bool" where
  "action_fits Gauge (SetTo v) = True"
| "action_fits Gauge Inc = True"
| "action_fits Gauge Dec = True"
| "action_fits Counter Inc = True"
| "action_fits Histogram (Observe d) = True"
| "action_fits _ _ = False"

definition call_fits :: "collector list \<Rightarrow> collector_call \<Rightarrow> bool" where
  "call_fits cs k = list_ex (\<lambda>c. cv_name c = ml_name k \<and> length (cv_labels c) = length (ml_labels k) \<and> action_fits (cv_kind c) (ml_action k)) cs"

section \<open>The package metrics\<close>

definition metric_collectors :: "collector list" where
  "metric_collectors =
     [\<lparr>cv_name = ''gateway_coordinator_leader_status'', cv_kind = Gauge, cv_labels = [''component'', ''node_id'']\<rparr>,
      \<lparr>cv_name = ''gateway_backend_health'', cv_kind = Gauge, cv_labels = [''type'', ''address'', ''node_id'']\<rparr>,
      \<lparr>cv_name = ''gateway_backend_active'', cv_kind = Gauge, cv_labels = [''type'', ''address'', ''node_id'']\<rparr>,
      \<lparr>cv_name = ''gateway_failover_total'', cv_kind = Counter, cv_labels = [''component'', ''from'', ''to'', ''reason'', ''node_id'']\<rparr>,
      \<lparr>cv_name = ''gateway_circuitbreaker_state'', cv_kind = Gauge, cv_labels = [''name'', ''node_id'']\<rparr>,
      \<lparr>cv_name = ''gateway_circuitbreaker_changes_total'', cv_kind = Counter, cv_labels = [''name'', ''from_state'', ''to_state'', ''node_id'']\<rparr>,
      \<lparr>cv_name = ''gateway_connections'', cv_kind = Gauge, cv_labels = [''type'', ''node_id'']\<rparr>,
      \<lparr>cv_name = ''gateway_storage_operations_total'', cv_kind = Counter, cv_labels = [''operation'', ''type'', ''node_id'']\<rparr>,
      \<lparr>cv_name = ''gateway_storage_errors_total'', cv_kind = Counter, cv_labels = [''operation'', ''type'', ''node_id'']\<rparr>,
      \<lparr>cv_name = ''gateway_storage_operation_seconds'', cv_kind = Histogram, cv_labels = [''operation'', ''type'', ''node_id'']\<rparr>]"

text \<open>The package variables; \<open>None\<close> is the nil registry before \<open>metricsOnce\<close> has run.\<close>

record Metrics =
  mt_registry :: "collector list option"
  mt_nodeID :: string
  mt_version :: string

definition no_metrics :: Metrics where
  "no_metrics = \<lparr>mt_registry = None, mt_nodeID = [], mt_version = []\<rparr>"

definition InitMetrics :: "string \<Rightarrow> string \<Rightarrow> Metrics \<Rightarrow> Metrics" where
  "InitMetrics version nodeID m =
     m\<lparr>mt_version := version, mt_nodeID := nodeID,
       mt_registry := (case mt_registry m of None \<Rightarrow> Some metric_collectors | Some cs \<Rightarrow> Some cs)\<rparr>"

text \<open>A method of a collector that is still nil panics.\<close>

definition on_collector :: "string \<Rightarrow> string list \<Rightarrow> collector_action \<Rightarrow> Metrics \<Rightarrow> (unit, collector_call) outcome" where
  "on_collector name values a m =
     (if mt_registry m = None then Panic NilDereference else Ret \<lparr>ml_name = name, ml_labels = values, ml_action = a\<rparr>)"

definition SetLeaderStatus :: "bool \<Rightarrow> Metrics \<Rightarrow> (unit, collector_call) outcome" where
  "SetLeaderStatus isLeader m =
     on_collector ''gateway_coordinator_leader_status'' [''gateway'', mt_nodeID m] (SetTo (if isLeader then 1 else 0)) m"

definition SetBackendHealth :: "string \<Rightarrow> string \<Rightarrow> string \<Rightarrow> bool \<Rightarrow> Metrics \<Rightarrow> (unit, collector_call) outcome" where
  "SetBackendHealth backendType address nodeID isHealthy m =
     on_collector ''gateway_backend_health'' [backendType, address, nodeID] (SetTo (if isHealthy then 1 else 0)) m"

definition SetBackendActive :: "string \<Rightarrow> string \<Rightarrow> string \<Rightarrow> bool \<Rightarrow> Metrics \<Rightarrow> (unit, collector_call) outcome" where
  "SetBackendActive backendType address nodeID isActive m =
     on_collector ''gateway_backend_active'' [backendType, address, nodeID] (SetTo (if isActive then 1 else 0)) m"

definition RecordFailoverEvent :: "string \<Rightarrow> string \<Rightarrow> string \<Rightarrow> string \<Rightarrow> string \<Rightarrow> Metrics \<Rightarrow> (unit, collector_call) outcome" where
  "RecordFailoverEvent comp_name from_b to_b reason nodeID m =
     on_collector ''gateway_failover_total'' [comp_name, from_b, to_b, reason, nodeID] Inc m"

definition SetCircuitBreakerState :: "string \<Rightarrow> string \<Rightarrow> int \<Rightarrow> Metrics \<Rightarrow> (unit, collector_call) outcome" where
  "SetCircuitBreakerState name nodeID state m = on_collector ''gateway_circuitbreaker_state'' [name, nodeID] (SetTo state) m"

definition RecordCircuitBreakerChange :: "string \<Rightarrow> string \<Rightarrow> string \<Rightarrow> string \<Rightarrow> Metrics \<Rightarrow> (unit, collector_call) outcome" where
  "RecordCircuitBreakerChange name fromState toState nodeID m =
     on_collector ''gateway_circuitbreaker_changes_total'' [name, fromState, toState, nodeID] Inc m"

definition SetConnectionCount :: "string \<Rightarrow> string \<Rightarrow> int \<Rightarrow> Metrics \<Rightarrow> (unit, collector_call) outcome" where
  "SetConnectionCount connectionType nodeID n m = on_collector ''gateway_connections'' [connectionType, nodeID] (SetTo n) m"

definition RecordStorageOperation :: "string \<Rightarrow> string \<Rightarrow> string \<Rightarrow> Metrics \<Rightarrow> (unit, collector_call) outcome" where
  "RecordStorageOperation op storageType nodeID m =
     on_collector ''gateway_storage_operations_total'' [op, storageType, nodeID] Inc m"

definition RecordStorageError :: "string \<Rightarrow> string \<Rightarrow> string \<Rightarrow> Metrics \<Rightarrow> (unit, collector_call) outcome" where
  "RecordStorageError op storageType nodeID m =
     on_collector ''gateway_storage_errors_total'' [op, storageType, nodeID] Inc m"

definition ObserveStorageOperationDuration :: "string \<Rightarrow> string \<Rightarrow> string \<Rightarrow> duration \<Rightarrow> Metrics \<Rightarrow> (unit, collector_call) outcome" where
  "ObserveStorageOperationDuration op storageType nodeID d m =
     on_collector ''gateway_storage_operation_seconds'' [op, storageType, nodeID] (Observe d) m"

text \<open>The answers of \<open>StartMetricsServer\<close>; \<open>timestamp\<close> is the formatted time, \<open>scrape\<close> what the library writes.\<close>

definition metrics_endpoint :: "string \<Rightarrow> string \<Rightarrow> Metrics \<Rightarrow> string \<Rightarrow> (int \<times> string) option" where
  "metrics_endpoint scrape timestamp m path =
     (if path = ''/metrics'' then Some (200, scrape)
      else if path = ''/health'' then Some (200, [])
      else if path = ''/status''
           then Some (200, ''{'' @ [CHR 0x22] @ ''status'' @ [CHR 0x22] @ '':'' @ [CHR 0x22] @ ''active'' @ [CHR 0x22] @ '', '' @ [CHR 0x22] @ ''node_id'' @
                  [CHR 0x22] @ '':'' @ [CHR 0x22] @ mt_nodeID m @ [CHR 0x22] @ '', '' @ [CHR 0x22] @ ''timestamp'' @ [CHR 0x22] @ '':'' @ [CHR 0x22] @
                  timestamp @ [CHR 0x22] @ ''}'')
      else None)"

text \<open>One tick of the leader gauge in \<open>main\<close>.\<close>

definition leader_metric_tick :: "gotime \<Rightarrow> Coordinator \<Rightarrow> Metrics \<Rightarrow> (unit, collector_call) outcome" where
  "leader_metric_tick now co m = SetLeaderStatus (IsLeader now None co) m"

section \<open>The metrics server of the package common\<close>

definition server_collectors :: "collector list" where
  "server_collectors =
     [\<lparr>cv_name = ''gateway_calls_active'', cv_kind = Gauge, cv_labels = []\<rparr>,
      \<lparr>cv_name = ''gateway_calls_total'', cv_kind = Counter, cv_labels = []\<rparr>,
      \<lparr>cv_name = ''gateway_call_duration_seconds'', cv_kind = Histogram, cv_labels = []\<rparr>,
      \<lparr>cv_name = ''gateway_errors_total'', cv_kind = Counter, cv_labels = [''type'']\<rparr>,
      \<lparr>cv_name = ''gateway_rtp_sessions'', cv_kind = Gauge, cv_labels = []\<rparr>,
      \<lparr>cv_name = ''gateway_sip_transactions'', cv_kind = Gauge, cv_labels = []\<rparr>]"

record MetricsServer =
  mv_addr :: string
  mv_registry :: "collector list"
  mv_collectors :: "collector list"

definition NewMetricsServer :: "string \<Rightarrow> MetricsServer" where
  "NewMetricsServer addr = \<lparr>mv_addr = addr, mv_registry = server_collectors, mv_collectors = []\<rparr>"

text \<open>\<open>accepts\<close> says whether the library accepts a further collector; \<open>MustRegister\<close> panics when not.\<close>

definition RegisterCollector :: "(collector list \<Rightarrow> collector \<Rightarrow> bool) \<Rightarrow> collector \<Rightarrow> MetricsServer \<Rightarrow> (unit, MetricsServer) outcome" where
  "RegisterCollector accepts c m =
     (if accepts (mv_registry m) c
      then Ret (m\<lparr>mv_registry := mv_registry m @ [c], mv_collectors := mv_collectors m @ [c]\<rparr>)
      else Panic AlreadyRegistered)"

datatype server_op =
    IncrementCallsActive | DecrementCallsActive | IncrementCallsTotal | ObserveCallDuration duration
  | IncrementError string | SetRTPSessions int | SetSIPTransactions int

fun server_call :: "server_op \<Rightarrow> collector_call" where
  "server_call IncrementCallsActive = \<lparr>ml_name = ''gateway_calls_active'', ml_labels = [], ml_action = Inc\<rparr>"
| "server_call DecrementCallsActive = \<lparr>ml_name = ''gateway_calls_active'', ml_labels = [], ml_action = Dec\<rparr>"
| "server_call IncrementCallsTotal = \<lparr>ml_name = ''gateway_calls_total'', ml_labels = [], ml_action = Inc\<rparr>"
| "server_call (ObserveCallDuration d) = \<lparr>ml_name = ''gateway_call_duration_seconds'', ml_labels = [], ml_action = Observe d\<rparr>"
| "server_call (IncrementError errorType) = \<lparr>ml_name = ''gateway_errors_total'', ml_labels = [errorType], ml_action = Inc\<rparr>"
| "server_call (SetRTPSessions n) = \<lparr>ml_name = ''gateway_rtp_sessions'', ml_labels = [], ml_action = SetTo n\<rparr>"
| "server_call (SetSIPTransactions n) = \<lparr>ml_name = ''gateway_sip_transactions'', ml_labels = [], ml_action = SetTo n\<rparr>"

section \<open>Every call fits\<close>

definition init_run :: "(string \<times> string) list \<Rightarrow> Metrics" where
  "init_run inits = fold (\<lambda>(version, nodeID). InitMetrics version nodeID) inits no_metrics"

lemma init_run_snoc:
  "init_run (inits @ [(version, nodeID)]) =
     \<lparr>mt_registry = Some metric_collectors, mt_nodeID = nodeID, mt_version = version\<rparr>"
proof -
  have "mt_registry (init_run inits) = (if inits = [] then None else Some metric_collectors)"
    by (induction inits rule: rev_induct) (auto simp: init_run_def no_metrics_def InitMetrics_def split: option.split)
  then show ?thesis by (simp add: init_run_def InitMetrics_def)
qed

lemmas metric_defs = SetLeaderStatus_def SetBackendHealth_def SetBackendActive_def RecordFailoverEvent_def SetCircuitBreakerState_def
  RecordCircuitBreakerChange_def SetConnectionCount_def RecordStorageOperation_def RecordStorageError_def
  ObserveStorageOperationDuration_def

text \<open>
  However often \<open>InitMetrics\<close> has run, every function of the package then makes one call that fits
  the collector it is for (its kind and the number of its labels), the names of the collectors
  are distinct, and the leader gauge shows \<open>IsLeader\<close> under the node identifier given last; before
  the first \<open>InitMetrics\<close> each function panics. The same holds of the other metrics server.
\<close>

theorem metrics_calls_fit:
  "list_all (\<lambda>f. f no_metrics = Panic NilDereference \<and> (\<exists>k. f (init_run (inits @ [i])) = Ret k \<and> call_fits metric_collectors k))
     [SetLeaderStatus b, SetBackendHealth t a n b, SetBackendActive t a n b, RecordFailoverEvent c x y r n, SetCircuitBreakerState c n v,
      RecordCircuitBreakerChange c x y n, SetConnectionCount t n v, RecordStorageOperation c t n, RecordStorageError c t n,
      ObserveStorageOperationDuration c t n d] \<and>
   distinct (map cv_name metric_collectors) \<and> distinct (map cv_name server_collectors) \<and>
   leader_metric_tick now co (init_run (inits @ [i])) = Ret \<lparr>ml_name = ''gateway_coordinator_leader_status'', ml_labels = [''gateway'', snd i],
     ml_action = SetTo (if IsLeader now None co then 1 else 0)\<rparr> \<and>
   call_fits (mv_registry (NewMetricsServer addr)) (server_call op)"
proof -
  have "distinct (map cv_name metric_collectors)" "distinct (map cv_name server_collectors)"
    by (simp_all add: metric_collectors_def server_collectors_def)
  moreover have "leader_metric_tick now co (init_run (inits @ [i])) = Ret \<lparr>ml_name = ''gateway_coordinator_leader_status'',
      ml_labels = [''gateway'', snd i], ml_action = SetTo (if IsLeader now None co then 1 else 0)\<rparr>"
    by (cases i) (simp add: leader_metric_tick_def SetLeaderStatus_def on_collector_def init_run_snoc)
  moreover have "call_fits (mv_registry (NewMetricsServer addr)) (server_call op)"
    by (cases op) (simp_all add: NewMetricsServer_def server_collectors_def call_fits_def)
  ultimately show ?thesis
    by (cases i) (simp add: metric_defs on_collector_def no_metrics_def init_run_snoc call_fits_def metric_collectors_def)
qed

end
