(* ===== verification/Persistence.thy ===== *)
theory Persistence
  imports Storage_Runs
begin

text \<open>
  Persistence of the storage: \<open>persistToFile\<close>, \<open>loadFromFile\<close>, \<open>Close\<close> and the whole constructor
  \<open>NewMemoryStorage\<close> of \<open>memory.go\<close>. The file system maps a path to the JSON values written
  there, one per \<open>Encode\<close>. The fields of \<open>disk_io\<close> say which of the operating system's calls
  succeed in this run; \<open>encoded\<close> is the number of \<open>Encode\<close> calls that do. An element of a
  decoded list is an object: \<open>persistToFile\<close> writes no nulls inside a list.
\<close>

section \<open>Files\<close>

datatype json_section =
    SHeader int StorageStats gotime
  | SDialogs "Dialog list"
  | SRTPSessions "RTPSession list"
  | SClientSessions "ClientSession list"
  | SRegistrations "Registration list"
  | SAMIActions "AMIAction list"

type_synonym disk = "string \<rightharpoonup> json_section list"

record disk_io =
  mkdir_ok :: bool
  create_ok :: bool
  encoded :: nat
  rename_ok :: bool
  open_ok :: bool

datatype persist_error = MkdirFailed | CreateFailed | EncodeFailed nat | RenameFailed | OpenFailed | DecodeFailed nat

section \<open>persistToFile\<close>

definition persistable_actions :: "gotime \<Rightarrow> AMIAction syncmap \<Rightarrow> AMIAction list" where
  "persistable_actions now es =
     map snd (filter (\<lambda>(k, a). \<not> IsZero (act_ExpireTime a) \<and> \<not> Before (act_ExpireTime a) now) es)"

text \<open>
  The values handed to the encoder, in order, with the storage as each listing leaves it. The
  \<open>k\<close>-th failing \<open>Encode\<close> returns before the listings after it have run.
\<close>

definition persist_sections :: "gotime \<Rightarrow> nat \<Rightarrow> MemoryStorage \<Rightarrow> MemoryStorage \<times> json_section list" where
  "persist_sections now n m0 =
     (let header = SHeader 1 (ms_stats m0) now in
      if n = 0 then (m0, []) else
      let (m1, dialogs) = ListDialogs now m0 in
      if n = 1 then (m1, [header]) else
      let (m2, rtpSessions) = ListRTPSessions now m1 in
      if n = 2 then (m2, [header, SDialogs dialogs]) else
      let (m3, clientSessions) = ListClientSessions now m2 in
      if n = 3 then (m3, [header, SDialogs dialogs, SRTPSessions rtpSessions]) else
      let (m4, registrations) = ListRegistrations now m3 in
      if n = 4 then (m4, [header, SDialogs dialogs, SRTPSessions rtpSessions, SClientSessions clientSessions]) else
      let sections = [header, SDialogs dialogs, SRTPSessions rtpSessions, SClientSessions clientSessions,
                      SRegistrations registrations] in
      if n = 5 then (m4, sections)
      else (m4, sections @ [SAMIActions (persistable_actions now (ms_amiActions m4))]))"

definition persistToFile :: "gotime \<Rightarrow> disk_io \<Rightarrow> MemoryStorage \<Rightarrow> disk \<Rightarrow>
    MemoryStorage \<times> disk \<times> (persist_error, unit) outcome" where
  "persistToFile now io m fs =
     (let tempFile = ms_persistPath m @ ''.tmp'' in
      if \<not> mkdir_ok io then (m, fs, Fail MkdirFailed)
      else if \<not> create_ok io then (m, fs, Fail CreateFailed)
      else let (m', sections) = persist_sections now (encoded io) m;
               fs = fs(tempFile \<mapsto> sections)
           in if encoded io < 6 then (m', fs, Fail (EncodeFailed (encoded io)))
              else if \<not> rename_ok io then (m', fs, Fail RenameFailed)
              else (m', (fs(tempFile := None))(ms_persistPath m \<mapsto> sections), Ret ()))"

section \<open>loadFromFile\<close>

definition load_dialog :: "gotime \<Rightarrow> Dialog \<Rightarrow> MemoryStorage \<Rightarrow> MemoryStorage" where
  "load_dialog now d m =
     (if IsZero (dlg_ExpireTime d) \<or> \<not> Before (dlg_ExpireTime d) now
      then m\<lparr>ms_dialogs := sm_Store (dlg_CallID d) d (ms_dialogs m),
             ms_stats := (ms_stats m)\<lparr>DialogCount := DialogCount (ms_stats m) + 1\<rparr>\<rparr>
      else m)"

definition load_rtpSession :: "gotime \<Rightarrow> RTPSession \<Rightarrow> MemoryStorage \<Rightarrow> MemoryStorage" where
  "load_rtpSession now d m =
     (if IsZero (rtp_ExpireTime d) \<or> \<not> Before (rtp_ExpireTime d) now
      then m\<lparr>ms_rtpSessions := sm_Store (rtp_CallID d) d (ms_rtpSessions m),
             ms_stats := (ms_stats m)\<lparr>RTPSessionCount := RTPSessionCount (ms_stats m) + 1\<rparr>\<rparr>
      else m)"

definition load_clientSession :: "gotime \<Rightarrow> ClientSession \<Rightarrow> MemoryStorage \<Rightarrow> MemoryStorage" where
  "load_clientSession now d m =
     (if IsZero (cls_ExpireTime d) \<or> \<not> Before (cls_ExpireTime d) now
      then m\<lparr>ms_clientSessions := sm_Store (cls_ClientID d) d (ms_clientSessions m),
             ms_stats := (ms_stats m)\<lparr>ClientCount := ClientCount (ms_stats m) + 1\<rparr>\<rparr>
      else m)"

definition load_registration :: "gotime \<Rightarrow> Registration \<Rightarrow> MemoryStorage \<Rightarrow> MemoryStorage" where
  "load_registration now d m =
     (if \<not> Before (reg_ExpireTime d) now
      then m\<lparr>ms_registrations := sm_Store (reg_AOR d) d (ms_registrations m),
             ms_stats := (ms_stats m)\<lparr>RegCount := RegCount (ms_stats m) + 1\<rparr>\<rparr>
      else m)"

definition load_amiAction :: "gotime \<Rightarrow> AMIAction \<Rightarrow> MemoryStorage \<Rightarrow> MemoryStorage" where
  "load_amiAction now d m =
     (if IsZero (act_ExpireTime d) \<or> \<not> Before (act_ExpireTime d) now
      then m\<lparr>ms_amiActions := sm_Store (act_ActionID d) d (ms_amiActions m),
             ms_stats := (ms_stats m)\<lparr>AMIActionCount := AMIActionCount (ms_stats m) + 1\<rparr>\<rparr>
      else m)"

text \<open>
  The six \<open>Decode\<close> calls: the error names the first section that is missing or of another kind
  than the one \<open>persistToFile\<close> writes there. What follows the sixth is not read.
\<close>

fun as_header :: "json_section list \<Rightarrow> json_section list option" where
  "as_header (SHeader v st t # rest) = Some rest"
| "as_header _ = None"

fun as_dialogs :: "json_section list \<Rightarrow> (Dialog list \<times> json_section list) option" where
  "as_dialogs (SDialogs xs # rest) = Some (xs, rest)"
| "as_dialogs _ = None"

fun as_rtpSessions :: "json_section list \<Rightarrow> (RTPSession list \<times> json_section list) option" where
  "as_rtpSessions (SRTPSessions xs # rest) = Some (xs, rest)"
| "as_rtpSessions _ = None"

fun as_clientSessions :: "json_section list \<Rightarrow> (ClientSession list \<times> json_section list) option" where
  "as_clientSessions (SClientSessions xs # rest) = Some (xs, rest)"
| "as_clientSessions _ = None"

fun as_registrations :: "json_section list \<Rightarrow> (Registration list \<times> json_section list) option" where
  "as_registrations (SRegistrations xs # rest) = Some (xs, rest)"
| "as_registrations _ = None"

fun as_amiActions :: "json_section list \<Rightarrow> (AMIAction list \<times> json_section list) option" where
  "as_amiActions (SAMIActions xs # rest) = Some (xs, rest)"
| "as_amiActions _ = None"

definition decode_sections :: "json_section list \<Rightarrow>
    nat + (Dialog list \<times> RTPSession list \<times> ClientSession list \<times> Registration list \<times> AMIAction list)" where
  "decode_sections file =
     (case as_header file of None \<Rightarrow> Inl 0 | Some file \<Rightarrow>
     (case as_dialogs file of None \<Rightarrow> Inl 1 | Some (dialogs, file) \<Rightarrow>
     (case as_rtpSessions file of None \<Rightarrow> Inl 2 | Some (rtpSessions, file) \<Rightarrow>
     (case as_clientSessions file of None \<Rightarrow> Inl 3 | Some (clientSessions, file) \<Rightarrow>
     (case as_registrations file of None \<Rightarrow> Inl 4 | Some (registrations, file) \<Rightarrow>
     (case as_amiActions file of None \<Rightarrow> Inl 5 | Some (amiActions, file) \<Rightarrow>
        Inr (dialogs, rtpSessions, clientSessions, registrations, amiActions)))))))"

definition loadFromFile :: "gotime \<Rightarrow> disk_io \<Rightarrow> disk \<Rightarrow> MemoryStorage \<Rightarrow>
    MemoryStorage \<times> (persist_error, unit) outcome" where
  "loadFromFile now io fs m =
     (case fs (ms_persistPath m) of
        None \<Rightarrow> (m, Ret ())
      | Some sections \<Rightarrow>
          if \<not> open_ok io then (m, Fail OpenFailed)
          else case decode_sections sections of
            Inl k \<Rightarrow> (m, Fail (DecodeFailed k))
          | Inr (dialogs, rtpSessions, clientSessions, registrations, amiActions) \<Rightarrow>
              (let m = fold (load_dialog now) dialogs m;
                   m = fold (load_rtpSession now) rtpSessions m;
                   m = fold (load_clientSession now) clientSessions m;
                   m = fold (load_registration now) registrations m;
                   m = fold (load_amiAction now) amiActions m
               in (m, Ret ())))"

section \<open>NewMemoryStorage and Close\<close>

definition NewMemoryStorage :: "gotime \<Rightarrow> disk_io \<Rightarrow> disk \<Rightarrow> MemoryConfig \<Rightarrow> MemoryStorage" where
  "NewMemoryStorage now io fs config =
     (let storage = NewMemoryStorage_fresh config
      in if mc_PersistPath config \<noteq> [] then fst (loadFromFile now io fs storage) else storage)"

definition Close :: "gotime \<Rightarrow> disk_io \<Rightarrow> MemoryStorage \<Rightarrow> disk \<Rightarrow>
    MemoryStorage \<times> disk \<times> (persist_error, unit) outcome" where
  "Close now io m fs =
     (if ms_stopped m then (m, fs, Panic CloseOfClosedChannel)
      else let m = m\<lparr>ms_stopped := True\<rparr>
           in if ms_persistOnShutdown m \<and> ms_persistPath m \<noteq> [] then persistToFile now io m fs
              else (m, fs, Ret ()))"

text \<open>
  A tick of \<open>cleanupLoop\<close>: the loop ends when \<open>stopCleanup\<close> is closed, otherwise it cleans up.
\<close>

definition cleanupLoop_tick :: "gotime \<Rightarrow> MemoryStorage \<Rightarrow> MemoryStorage option" where
  "cleanupLoop_tick now m = (if ms_stopped m then None else Some (fst (Cleanup now m)))"

section \<open>Entries are stored under their own key\<close>

definition keyed :: "('v \<Rightarrow> string) \<Rightarrow> 'v syncmap \<Rightarrow> bool" where
  "keyed f t \<longleftrightarrow> (\<forall>k v. sm_Load t k = Some v \<longrightarrow> f v = k)"

lemma keyed_Nil [simp]: "keyed f []"
  by (simp add: keyed_def)

lemma keyed_Store [simp]: "keyed f t \<Longrightarrow> keyed f (sm_Store (f v) v t)"
  by (simp add: keyed_def)

lemma keyed_Delete [simp]: "keyed f t \<Longrightarrow> keyed f (sm_Delete k t)"
  by (simp add: keyed_def)

lemma keyed_filter: "sm_ok t \<Longrightarrow> keyed f t \<Longrightarrow> keyed f (filter (\<lambda>(k, v). P v) t)"
  by (simp add: keyed_def sm_Load_filter [where P = "\<lambda>_. P"] split: option.split)

lemma keyed_set: "sm_ok t \<Longrightarrow> keyed f t \<Longrightarrow> (k, v) \<in> set t \<Longrightarrow> f v = k"
  by (simp add: keyed_def sm.Load_entries)

text \<open>Storing the listed values of a keyed table, in order, rebuilds it.\<close>

lemma sm_Store_append: "sm_Load t k = None \<Longrightarrow> sm_Store k v t = t @ [(k, v)]"
  by (induction t) (auto split: if_splits)

lemma keyed_tail:
  assumes "keyed f ((k, v) # u)" and "k \<notin> fst ` set u"
  shows "keyed f u"
  unfolding keyed_def
proof (intro allI impI)
  fix k' v' assume l: "sm_Load u k' = Some v'"
  then have "k' \<noteq> k" using assms(2) by (metis map_of_SomeD fst_conv image_eqI)
  then show "f v' = k'" using assms(1) l by (simp add: keyed_def)
qed

lemma fold_Store_append:
  assumes "sm_ok (t @ u)" and "keyed f u"
  shows "fold (\<lambda>v. sm_Store (f v) v) (map snd u) t = t @ u"
  using assms
proof (induction u arbitrary: t)
  case (Cons e u)
  obtain k v where e: "e = (k, v)" by (cases e)
  have fv: "f v = k" using Cons.prems(2) by (auto simp: keyed_def e)
  have no: "sm_Load t k = None" using Cons.prems(1) by (auto simp: sm_ok_def e map_of_eq_None_iff)
  have "k \<notin> fst ` set u" using Cons.prems(1) by (auto simp: sm_ok_def e)
  then have ku: "keyed f u"
    using Cons.prems(2) keyed_tail [of f k v u] by (simp add: e)
  show ?case
    using Cons.IH [of "t @ [e]"] Cons.prems(1) ku by (simp add: e fv sm_Store_append [OF no])
qed simp

section \<open>Loading a table\<close>

text \<open>The five loading loops of \<open>loadFromFile\<close> have one contract.\<close>

locale table_loader =
  fixes load :: "gotime \<Rightarrow> 'v \<Rightarrow> 's \<Rightarrow> 's"
    and expired :: "gotime \<Rightarrow> 'v \<Rightarrow> bool"
    and key :: "'v \<Rightarrow> string"
    and tbl :: "'s \<Rightarrow> 'v syncmap"
    and cnt :: "'s \<Rightarrow> int"
  assumes load_tbl: "tbl (load now v s) = (if expired now v then tbl s else sm_Store (key v) v (tbl s))"
    and load_cnt: "cnt (load now v s) = (if expired now v then cnt s else cnt s + 1)"
begin

lemma fold_load_tbl:
  "tbl (fold (load now) vs s) = fold (\<lambda>v. sm_Store (key v) v) (filter (\<lambda>v. \<not> expired now v) vs) (tbl s)"
  by (induction vs arbitrary: s) (simp_all add: load_tbl)

lemma fold_load_cnt:
  "cnt (fold (load now) vs s) = cnt s + int (length (filter (\<lambda>v. \<not> expired now v) vs))"
  by (induction vs arbitrary: s) (simp_all add: load_cnt)

lemma load_listed:
  assumes "sm_ok t" and "keyed key t" and "tbl s = []"
  shows "tbl (fold (load now) (map snd t) s) = filter (\<lambda>(k, v). \<not> expired now v) t"
proof -
  have "filter (\<lambda>v. \<not> expired now v) (map snd t) = map snd (filter (\<lambda>(k, v). \<not> expired now v) t)"
    by (simp add: filter_map comp_def case_prod_unfold)
  moreover have "keyed key (filter (\<lambda>(k, v). \<not> expired now v) t)"
    using assms(1,2) by (rule keyed_filter)
  ultimately show ?thesis
    using fold_Store_append [of "[]" "filter (\<lambda>(k, v). \<not> expired now v) t" key] assms
    by (simp add: fold_load_tbl)
qed

end

interpretation load_dlgs: table_loader load_dialog dlg_expired dlg_CallID ms_dialogs "\<lambda>m. DialogCount (ms_stats m)"
  by unfold_locales (auto simp: load_dialog_def dlg_expired_def)

interpretation load_rtps: table_loader load_rtpSession rtp_expired rtp_CallID ms_rtpSessions "\<lambda>m. RTPSessionCount (ms_stats m)"
  by unfold_locales (auto simp: load_rtpSession_def rtp_expired_def)

interpretation load_clss: table_loader load_clientSession cls_expired cls_ClientID ms_clientSessions "\<lambda>m. ClientCount (ms_stats m)"
  by unfold_locales (auto simp: load_clientSession_def cls_expired_def)

interpretation load_regs: table_loader load_registration reg_expired reg_AOR ms_registrations "\<lambda>m. RegCount (ms_stats m)"
  by unfold_locales (auto simp: load_registration_def reg_expired_def)

interpretation load_acts: table_loader load_amiAction act_expired act_ActionID ms_amiActions "\<lambda>m. AMIActionCount (ms_stats m)"
  by unfold_locales (auto simp: load_amiAction_def act_expired_def)

lemma fold_frame:
  assumes "\<And>v s. f (load v s) = f s"
  shows "f (fold load vs s) = f s"
  using assms by (induction vs arbitrary: s) simp_all

lemma load_dialog_frame [simp]:
  "ms_rtpSessions (fold (load_dialog now) vs m) = ms_rtpSessions m"
  "ms_clientSessions (fold (load_dialog now) vs m) = ms_clientSessions m"
  "ms_registrations (fold (load_dialog now) vs m) = ms_registrations m"
  "ms_amiActions (fold (load_dialog now) vs m) = ms_amiActions m"
  by (rule fold_frame, simp add: load_dialog_def)+

lemma load_rtpSession_frame [simp]:
  "ms_dialogs (fold (load_rtpSession now) vs m) = ms_dialogs m"
  "ms_clientSessions (fold (load_rtpSession now) vs m) = ms_clientSessions m"
  "ms_registrations (fold (load_rtpSession now) vs m) = ms_registrations m"
  "ms_amiActions (fold (load_rtpSession now) vs m) = ms_amiActions m"
  by (rule fold_frame, simp add: load_rtpSession_def)+

lemma load_clientSession_frame [simp]:
  "ms_dialogs (fold (load_clientSession now) vs m) = ms_dialogs m"
  "ms_rtpSessions (fold (load_clientSession now) vs m) = ms_rtpSessions m"
  "ms_registrations (fold (load_clientSession now) vs m) = ms_registrations m"
  "ms_amiActions (fold (load_clientSession now) vs m) = ms_amiActions m"
  by (rule fold_frame, simp add: load_clientSession_def)+

lemma load_registration_frame [simp]:
  "ms_dialogs (fold (load_registration now) vs m) = ms_dialogs m"
  "ms_rtpSessions (fold (load_registration now) vs m) = ms_rtpSessions m"
  "ms_clientSessions (fold (load_registration now) vs m) = ms_clientSessions m"
  "ms_amiActions (fold (load_registration now) vs m) = ms_amiActions m"
  by (rule fold_frame, simp add: load_registration_def)+

lemma load_amiAction_frame [simp]:
  "ms_dialogs (fold (load_amiAction now) vs m) = ms_dialogs m"
  "ms_rtpSessions (fold (load_amiAction now) vs m) = ms_rtpSessions m"
  "ms_clientSessions (fold (load_amiAction now) vs m) = ms_clientSessions m"
  "ms_registrations (fold (load_amiAction now) vs m) = ms_registrations m"
  by (rule fold_frame, simp add: load_amiAction_def)+

section \<open>Every reachable storage is keyed\<close>

definition storage_keyed :: "MemoryStorage \<Rightarrow> bool" where
  "storage_keyed m \<longleftrightarrow> keyed dlg_CallID (ms_dialogs m) \<and> keyed rtp_CallID (ms_rtpSessions m) \<and>
     keyed act_ActionID (ms_amiActions m) \<and> keyed cls_ClientID (ms_clientSessions m) \<and>
     keyed reg_AOR (ms_registrations m)"

text \<open>The tables and settings that persistence reads.\<close>

definition persisted_part :: "MemoryStorage \<Rightarrow> string \<times> bool \<times> bool" where
  "persisted_part m = (ms_persistPath m, ms_persistOnShutdown m, ms_stopped m)"

lemmas typed_op_defs =
  GetDialog_def StoreDialog_def DeleteDialog_def drop_Dialog_def
  GetRTPSession_def StoreRTPSession_def DeleteRTPSession_def drop_RTPSession_def
  GetAMIAction_def StoreAMIAction_def DeleteAMIAction_def drop_AMIAction_def
  GetClientSession_def StoreClientSession_def DeleteClientSession_def drop_ClientSession_def
  GetWSConnection_def StoreWSConnection_def DeleteWSConnection_def drop_WSConnection_def
  GetRegistration_def StoreRegistration_def DeleteRegistration_def drop_Registration_def

lemmas list_op_defs =
  ListDialogs_def ListRTPSessions_def ListAMIActionIDs_def ListClientSessions_def ListRegistrations_def

lemma keyed_Store_stamp:
  "keyed dlg_CallID t1 \<Longrightarrow> keyed dlg_CallID (sm_Store (dlg_CallID d) (stamp_Dialog now d) t1)"
  "keyed rtp_CallID t2 \<Longrightarrow> keyed rtp_CallID (sm_Store (rtp_CallID r) (stamp_RTPSession now r) t2)"
  "keyed act_ActionID t3 \<Longrightarrow> keyed act_ActionID (sm_Store (act_ActionID a) (stamp_AMIAction now a) t3)"
  "keyed cls_ClientID t4 \<Longrightarrow> keyed cls_ClientID (sm_Store (cls_ClientID c) (stamp_ClientSession now c) t4)"
  "keyed reg_AOR t5 \<Longrightarrow> keyed reg_AOR (sm_Store (reg_AOR g) (stamp_Registration now g) t5)"
  by (simp_all add: keyed_def)

lemma storage_keyed_list:
  assumes "storage_inv m" and "storage_keyed m"
  shows "storage_keyed (fst (ListDialogs now m))" "storage_keyed (fst (ListRTPSessions now m))"
    "storage_keyed (fst (ListAMIActionIDs now m))" "storage_keyed (fst (ListClientSessions now m))"
    "storage_keyed (fst (ListRegistrations now m))"
proof -
  have "ms_amiActions (fst (ListAMIActionIDs now m)) = filter (\<lambda>(k, v). \<not> act_expired now v) (ms_amiActions m)"
    using assms(1) by (simp add: ListAMIActionIDs_def acts.list_tbl storage_inv_def acts.counted_def)
  then show "storage_keyed (fst (ListDialogs now m))" "storage_keyed (fst (ListRTPSessions now m))"
    "storage_keyed (fst (ListAMIActionIDs now m))" "storage_keyed (fst (ListClientSessions now m))"
    "storage_keyed (fst (ListRegistrations now m))"
    using assms
    by (simp_all add: storage_keyed_def gw_frame list_tables keyed_filter storage_inv_def counted_defs)
qed

lemma same_typed_keyed: "same_typed m m' \<Longrightarrow> storage_keyed m' = storage_keyed m"
  by (auto simp: same_typed_def storage_keyed_def)

lemma storage_keyed_kv: "storage_keyed m \<Longrightarrow> storage_keyed (fst (kv_step c m))"
  by (cases c) (simp_all add: same_typed_keyed [OF same_typed_Get] same_typed_keyed [OF same_typed_Set]
      same_typed_keyed [OF same_typed_Delete])

lemma storage_keyed_Cleanup:
  assumes "storage_inv m" and "storage_keyed m"
  shows "storage_keyed (fst (Cleanup now m))"
  by (rule Cleanup_unfold [OF assms(1), where now = now])
    (simp add: storage_keyed_list storage_inv_typed same_typed_keyed assms)

lemma storage_keyed_typed:
  assumes "storage_keyed m"
  shows
    "storage_keyed (fst (GetDialog now k m))"
    "storage_keyed (fst (StoreDialog now argDialog m))"
    "storage_keyed (fst (DeleteDialog k m))"
    "storage_keyed (fst (GetRTPSession now k m))"
    "storage_keyed (fst (StoreRTPSession now argRTPSession m))"
    "storage_keyed (fst (DeleteRTPSession k m))"
    "storage_keyed (fst (GetAMIAction now k m))"
    "storage_keyed (fst (StoreAMIAction now argAMIAction m))"
    "storage_keyed (fst (DeleteAMIAction k m))"
    "storage_keyed (fst (GetClientSession now k m))"
    "storage_keyed (fst (StoreClientSession now argClientSession m))"
    "storage_keyed (fst (DeleteClientSession k m))"
    "storage_keyed (fst (GetWSConnection now k m))"
    "storage_keyed (fst (StoreWSConnection now k argWSConnection m))"
    "storage_keyed (fst (DeleteWSConnection k m))"
    "storage_keyed (fst (GetRegistration now k m))"
    "storage_keyed (fst (StoreRegistration now argRegistration m))"
    "storage_keyed (fst (DeleteRegistration k m))"
  using assms
  by (simp_all add: storage_keyed_def typed_op_defs keyed_Store_stamp Let_def split: option.split)

lemma storage_keyed_apply:
  assumes "storage_inv m" and "storage_keyed m"
  shows "storage_keyed (storage_apply c m)"
  using assms by (cases c) (simp_all add: storage_keyed_typed storage_keyed_list storage_keyed_kv storage_keyed_Cleanup)

lemma storage_run_inv_keyed:
  "storage_inv m \<Longrightarrow> storage_keyed m \<Longrightarrow> storage_keyed (fold storage_apply cs m)"
  by (induction cs arbitrary: m) (simp_all add: storage_inv_apply storage_keyed_apply)

lemma storage_keyed_New: "storage_keyed (NewMemoryStorage_fresh config)"
  by (simp add: storage_keyed_def NewMemoryStorage_fresh_def Let_def)

lemma persisted_part_list:
  "persisted_part (fst (ListDialogs now m)) = persisted_part m"
  "persisted_part (fst (ListRTPSessions now m)) = persisted_part m"
  "persisted_part (fst (ListAMIActionIDs now m)) = persisted_part m"
  "persisted_part (fst (ListClientSessions now m)) = persisted_part m"
  "persisted_part (fst (ListRegistrations now m)) = persisted_part m"
  by (simp_all add: list_op_defs, (rule Range_frame, simp add: persisted_part_def typed_op_defs)+)

lemma same_typed_persisted: "same_typed m m' \<Longrightarrow> persisted_part m' = persisted_part m"
  by (auto simp: same_typed_def persisted_part_def)

lemma persisted_part_kv: "persisted_part (fst (kv_step c m)) = persisted_part m"
  by (cases c) (simp_all add: same_typed_persisted [OF same_typed_Get] same_typed_persisted [OF same_typed_Set]
      same_typed_persisted [OF same_typed_Delete])

lemma persisted_part_Cleanup:
  assumes "storage_inv m"
  shows "persisted_part (fst (Cleanup now m)) = persisted_part m"
  by (rule Cleanup_unfold [OF assms, where now = now]) (simp add: persisted_part_list same_typed_persisted)

lemma persisted_part_typed:
  shows "persisted_part (fst (GetDialog now k m)) = persisted_part m"
    "persisted_part (fst (StoreDialog now argDialog m)) = persisted_part m"
    "persisted_part (fst (DeleteDialog k m)) = persisted_part m"
    "persisted_part (fst (GetRTPSession now k m)) = persisted_part m"
    "persisted_part (fst (StoreRTPSession now argRTPSession m)) = persisted_part m"
    "persisted_part (fst (DeleteRTPSession k m)) = persisted_part m"
    "persisted_part (fst (GetAMIAction now k m)) = persisted_part m"
    "persisted_part (fst (StoreAMIAction now argAMIAction m)) = persisted_part m"
    "persisted_part (fst (DeleteAMIAction k m)) = persisted_part m"
    "persisted_part (fst (GetClientSession now k m)) = persisted_part m"
    "persisted_part (fst (StoreClientSession now argClientSession m)) = persisted_part m"
    "persisted_part (fst (DeleteClientSession k m)) = persisted_part m"
    "persisted_part (fst (GetWSConnection now k m)) = persisted_part m"
    "persisted_part (fst (StoreWSConnection now k argWSConnection m)) = persisted_part m"
    "persisted_part (fst (DeleteWSConnection k m)) = persisted_part m"
    "persisted_part (fst (GetRegistration now k m)) = persisted_part m"
    "persisted_part (fst (StoreRegistration now argRegistration m)) = persisted_part m"
    "persisted_part (fst (DeleteRegistration k m)) = persisted_part m"
  by (simp_all add: persisted_part_def typed_op_defs Let_def split: option.split)

lemma persisted_part_apply: "storage_inv m \<Longrightarrow> persisted_part (storage_apply c m) = persisted_part m"
  by (cases c) (simp_all add: persisted_part_list persisted_part_kv persisted_part_Cleanup persisted_part_typed)

lemma persisted_part_run: "storage_inv m \<Longrightarrow> persisted_part (fold storage_apply cs m) = persisted_part m"
  by (induction cs arbitrary: m) (simp_all add: storage_inv_apply persisted_part_apply)

section \<open>Persisting and loading\<close>

lemma list_results:
  "snd (ListDialogs now m) = map snd (filter (\<lambda>(k, v). \<not> dlg_expired now v) (ms_dialogs m))"
  "snd (ListRTPSessions now m) = map snd (filter (\<lambda>(k, v). \<not> rtp_expired now v) (ms_rtpSessions m))"
  "snd (ListClientSessions now m) = map snd (filter (\<lambda>(k, v). \<not> cls_expired now v) (ms_clientSessions m))"
  "snd (ListRegistrations now m) = map snd (filter (\<lambda>(k, v). \<not> reg_expired now v) (ms_registrations m))"
  by (simp_all add: list_op_defs dlgs.Range_result rtps.Range_result clss.Range_result regs.Range_result)

lemma persist_sections_all:
  assumes "6 \<le> n"
  shows "snd (persist_sections now n m) =
     [SHeader 1 (ms_stats m) now,
      SDialogs (map snd (filter (\<lambda>(k, v). \<not> dlg_expired now v) (ms_dialogs m))),
      SRTPSessions (map snd (filter (\<lambda>(k, v). \<not> rtp_expired now v) (ms_rtpSessions m))),
      SClientSessions (map snd (filter (\<lambda>(k, v). \<not> cls_expired now v) (ms_clientSessions m))),
      SRegistrations (map snd (filter (\<lambda>(k, v). \<not> reg_expired now v) (ms_registrations m))),
      SAMIActions (persistable_actions now (ms_amiActions m))]"
  using assms by (simp add: persist_sections_def Let_def split_beta list_results gw_frame)

lemma expired_mono:
  assumes "now \<le> now'"
  shows "dlg_expired now d \<Longrightarrow> dlg_expired now' d" "rtp_expired now r \<Longrightarrow> rtp_expired now' r"
    "cls_expired now c \<Longrightarrow> cls_expired now' c" "reg_expired now g \<Longrightarrow> reg_expired now' g"
    "act_expired now a \<Longrightarrow> act_expired now' a"
  using assms
  by (auto simp: dlg_expired_def rtp_expired_def cls_expired_def reg_expired_def act_expired_def time_defs)

lemma persistable_actions_eq:
  "persistable_actions now t = map snd (filter (\<lambda>(k, a). act_ExpireTime a \<noteq> 0 \<and> \<not> act_expired now a) t)"
  unfolding persistable_actions_def
  by (rule arg_cong [where f = "map snd"], rule filter_cong) (auto simp: act_expired_def time_defs)

lemma loadFromFile_tables:
  assumes "fs (ms_persistPath m) = Some [SHeader v st t, SDialogs (map snd ds), SRTPSessions (map snd rs),
      SClientSessions (map snd cs), SRegistrations (map snd gs), SAMIActions (map snd as)]"
    and "open_ok io"
    and "sm_ok ds" "keyed dlg_CallID ds" "sm_ok rs" "keyed rtp_CallID rs" "sm_ok cs" "keyed cls_ClientID cs"
      "sm_ok gs" "keyed reg_AOR gs" "sm_ok as" "keyed act_ActionID as"
    and "ms_dialogs m = []" "ms_rtpSessions m = []" "ms_clientSessions m = []" "ms_registrations m = []"
      "ms_amiActions m = []"
  shows "let m' = fst (loadFromFile now io fs m)
     in ms_dialogs m' = filter (\<lambda>(k, v). \<not> dlg_expired now v) ds \<and>
        ms_rtpSessions m' = filter (\<lambda>(k, v). \<not> rtp_expired now v) rs \<and>
        ms_clientSessions m' = filter (\<lambda>(k, v). \<not> cls_expired now v) cs \<and>
        ms_registrations m' = filter (\<lambda>(k, v). \<not> reg_expired now v) gs \<and>
        ms_amiActions m' = filter (\<lambda>(k, v). \<not> act_expired now v) as"
  using assms
  by (simp add: loadFromFile_def decode_sections_def Let_def
      load_dlgs.load_listed load_rtps.load_listed load_clss.load_listed load_regs.load_listed load_acts.load_listed)

lemma live_later:
  assumes "now \<le> now'"
  shows
    "filter (\<lambda>(k, v). \<not> dlg_expired now' v) (filter (\<lambda>(k, v). \<not> dlg_expired now v) ds) = filter (\<lambda>(k, v). \<not> dlg_expired now' v) ds"
    "filter (\<lambda>(k, v). \<not> rtp_expired now' v) (filter (\<lambda>(k, v). \<not> rtp_expired now v) rs) = filter (\<lambda>(k, v). \<not> rtp_expired now' v) rs"
    "filter (\<lambda>(k, v). \<not> cls_expired now' v) (filter (\<lambda>(k, v). \<not> cls_expired now v) cs) = filter (\<lambda>(k, v). \<not> cls_expired now' v) cs"
    "filter (\<lambda>(k, v). \<not> reg_expired now' v) (filter (\<lambda>(k, v). \<not> reg_expired now v) gs) = filter (\<lambda>(k, v). \<not> reg_expired now' v) gs"
    "filter (\<lambda>(k, v). \<not> act_expired now' v) (filter (\<lambda>(k, v). act_ExpireTime v \<noteq> 0 \<and> \<not> act_expired now v) as) =
     filter (\<lambda>(k, v). act_ExpireTime v \<noteq> 0 \<and> \<not> act_expired now' v) as"
  unfolding filter_filter by (rule filter_cong; use expired_mono [OF assms] in auto)+

lemma keyed_filter_act:
  "sm_ok t \<Longrightarrow> keyed f t \<Longrightarrow> keyed f (filter (\<lambda>(k, a). P a \<and> Q a) t)"
  by (rule keyed_filter [where P = "\<lambda>a. P a \<and> Q a"])

definition io_fine :: "disk_io \<Rightarrow> bool" where
  "io_fine io \<longleftrightarrow> mkdir_ok io \<and> create_ok io \<and> 6 \<le> encoded io \<and> rename_ok io \<and> open_ok io"


definition sample_action :: AMIAction where
  "sample_action = \<lparr>act_ActionID = ''x'', act_Command = ''Originate'', act_Params = [], act_ClientID = ''c'',
     act_Timestamp = 0, act_Retries = 0, act_ExpireTime = 0\<rparr>"


text \<open>
  A \<open>persistToFile\<close> that reports an error leaves the file of the previous run as it was,
  and a \<open>loadFromFile\<close> that reports an error leaves the storage as it was.
\<close>

theorem persist_errors_harmless:
  "(case persistToFile now io m fs of (m', fs', r) \<Rightarrow>
      r = Ret () \<or> fs' (ms_persistPath m) = fs (ms_persistPath m)) \<and>
   (case loadFromFile now io fs m of (m', r) \<Rightarrow> r = Ret () \<or> m' = m)"
  by (auto simp: persistToFile_def loadFromFile_def Let_def split_beta split: option.split sum.split)

end
