(* ===== verification/AMI_Failover.thy ===== *)
theory AMI_Failover
  imports AMI_Manager Persistence
begin

text \<open>
  Properties of the AMI manager and of the \<open>BackendManager\<close>: the active index over runs of calls,
  when an action can hang, which client a failover may choose, and how often a stored action is
  replayed.
\<close>

section \<open>Runs\<close>

lemma kept_fst:
  "send_to io action i m = (m1, r1) \<Longrightarrow> pool_kept m m1"
  "connect_client cio i m = (m1, r2) \<Longrightarrow> pool_kept m m1"
  "AMI_tryFailover now m = (m1, r3) \<Longrightarrow> pool_kept m m1"
  using pool_kept_send pool_kept_connect pool_kept_tryFailover by (metis fst_conv)+

lemma kept_Manager_SendAction: "pool_kept m (fst (Manager_SendAction sio now action m))"
proof (cases "GetActiveClient m")
  case (Some a)
  obtain m1 r1 where s1: "send_to (sio 0 a) action a m = (m1, r1)" by (cases "send_to (sio 0 a) action a m")
  let ?m = "recordClientFailure now (ac_address (am_clients m1 ! a)) m1"
  obtain m2 r2 where s2: "AMI_tryFailover now ?m = (m2, r2)" by (cases "AMI_tryFailover now ?m")
  have k1: "pool_kept m m1" using s1 kept_fst by blast
  have k2: "pool_kept m m2"
    using k1 pool_kept_record kept_fst(3) [OF s2] pool_kept_trans by blast
  have "pool_kept m (fst (send_to io act i m2))" for io act i
    using k2 pool_kept_send pool_kept_trans by blast
  then show ?thesis
    using k1 k2 Some s1 s2
    by (auto simp: Manager_SendAction_def split: outcome.split option.split prod.split) (metis fst_conv)+
qed (simp add: Manager_SendAction_def)

lemma kept_connect_first: "\<forall>i \<in> set is. i < length (am_clients m) \<Longrightarrow> pool_kept m (fst (connect_first cio is m))"
proof (induction "is" arbitrary: m)
  case (Cons i "is")
  obtain m1 r1 where s1: "connect_client cio i m = (m1, r1)" by (cases "connect_client cio i m")
  have k1: "pool_kept m m1" using s1 kept_fst by blast
  have len: "length (am_clients m1) = length (am_clients m)"
    using s1 by (auto simp: connect_client_def set_client_def split_beta Let_def)
  have "pool_kept m1 (m1\<lparr>am_activeIdx := int i\<rparr>)" using Cons.prems len by (intro pool_kept_active) simp
  then have k2: "pool_kept m (m1\<lparr>am_activeIdx := int i\<rparr>)" using k1 pool_kept_trans by blast
  have "pool_kept m1 (fst (connect_first cio is m1))" using Cons.IH Cons.prems len by simp
  then have "pool_kept m (fst (connect_first cio is m1))" using k1 pool_kept_trans by blast
  then show ?case using k1 k2 s1 by (simp split: outcome.split)
qed simp

lemma others_lt: "\<forall>i \<in> set (others cur m). i < length (am_clients m)"
  by (simp add: others_def)

lemma kept_connect_first_fst: "connect_first cio (others cur m) m = (m1, r) \<Longrightarrow> pool_kept m m1"
  using kept_connect_first [OF others_lt] by (metis fst_conv)

lemma kept_Reconnect: "pool_kept m (fst (Manager_Reconnect cio m))"
  by (auto simp: Manager_Reconnect_def split: option.split outcome.split prod.split
      dest!: kept_fst(2) kept_connect_first_fst intro: pool_kept_trans)

lemma kept_monitor: "pool_kept m (fst (monitor_tick m))"
  by (auto simp: monitor_tick_def find_Some_iff others_def split: option.split
      intro!: pool_kept_active dest: nth_mem)

lemma kept_active_after:
  assumes "pool_kept m m1" and "i < length (am_clients m1)"
  shows "pool_kept m (m1\<lparr>am_activeIdx := int i\<rparr>)"
  using assms pool_kept_active pool_kept_trans by blast

lemma connect_client_length: "length (am_clients (fst (connect_client cio i m))) = length (am_clients m)"
  by (simp add: connect_client_def set_client_def split_beta Let_def)

lemma kept_monitor_reconnect: "pool_kept m (fst (monitor_reconnect cio f i m))"
proof -
  obtain m1 r1 where s1: "connect_client cio i m = (m1, r1)" by (cases "connect_client cio i m")
  have "i < length (am_clients m) \<Longrightarrow> pool_kept m (m1\<lparr>am_activeIdx := int i\<rparr>)"
    using kept_fst(2) [OF s1] connect_client_length [of cio i m] s1 by (intro kept_active_after) simp_all
  then show ?thesis
    using s1 kept_fst(2) [OF s1] by (simp add: monitor_reconnect_def split: outcome.split)
qed

lemma kept_retry: "pool_kept m (fst (retry_attempt cio i m))"
proof -
  obtain m1 r1 where s1: "connect_client cio i m = (m1, r1)" by (cases "connect_client cio i m")
  have "i < length (am_clients m) \<Longrightarrow> pool_kept m (m1\<lparr>am_activeIdx := int i\<rparr>)"
    using kept_fst(2) [OF s1] connect_client_length [of cio i m] s1 by (intro kept_active_after) simp_all
  then show ?thesis
    using s1 kept_fst(2) [OF s1] by (simp add: retry_attempt_def split: outcome.split option.split)
qed

lemma kept_start_client:
  "pool_kept m (fst (start_client cio expired i m)) \<and>
   length (am_clients (fst (start_client cio expired i m))) = length (am_clients m)"
  by (auto simp: start_client_def split_beta Let_def set_client_def split: prod.split outcome.split
      intro!: pool_kept_set_client [unfolded set_client_def])

lemma kept_start_backups:
  "\<forall>i \<in> set is. i < length (am_clients m) \<Longrightarrow> pool_kept m (fst (start_backups cio expired is m))"
proof (induction "is" arbitrary: m)
  case (Cons i "is")
  obtain m1 r1 where s1: "start_client cio expired i m = (m1, r1)" by (cases "start_client cio expired i m")
  have k1: "pool_kept m m1" and len: "length (am_clients m1) = length (am_clients m)"
    using kept_start_client [of m cio expired i] s1 by simp_all
  have a: "pool_kept m (m1\<lparr>am_activeIdx := int i\<rparr>)" using k1 Cons.prems len by (intro kept_active_after) simp_all
  have "pool_kept m1 (fst (start_backups cio expired is m1))" using Cons.prems len by (intro Cons.IH) simp
  then have "pool_kept m (fst (start_backups cio expired is m1))" by (rule pool_kept_trans [OF k1])
  then show ?case using s1 k1 a by (simp split: outcome.split bool.split)
qed simp

lemma pool_kept_initializing [simp]: "pool_kept m (m\<lparr>am_initializing := b\<rparr>)"
  by (simp add: pool_kept_def ami_ok_def)

lemma kept_Start: "pool_kept m (fst (AMI_Start cio expired m))"
proof -
  let ?m = "m\<lparr>am_initializing := True\<rparr>"
  obtain m1 r1 where s1: "start_client cio expired 0 ?m = (m1, r1)" by (cases "start_client cio expired 0 ?m")
  obtain m2 r2 where s2: "start_backups cio expired [1..<length (am_clients m1)] m1 = (m2, r2)"
    by (cases "start_backups cio expired [1..<length (am_clients m1)] m1")
  have "pool_kept ?m m1" using kept_start_client [of ?m cio expired 0] s1 by simp
  then have k1: "pool_kept m m1" using pool_kept_initializing pool_kept_trans by blast
  have "pool_kept m1 m2" using kept_start_backups [of "[1..<length (am_clients m1)]" m1 cio expired] s2 by simp
  then have k2: "pool_kept m m2" using k1 pool_kept_trans by blast
  have "pool_kept m (m1\<lparr>am_initializing := False\<rparr>)" "pool_kept m (m2\<lparr>am_initializing := False\<rparr>)"
    using k1 k2 pool_kept_initializing pool_kept_trans by blast+
  then show ?thesis using s1 s2 by (simp add: AMI_Start_def split: outcome.split bool.split)
qed

lemma disconnect_all_length: "length (fst (disconnect_all cs)) = length cs"
  by (induction cs) (auto simp: split_beta Let_def split: prod.split outcome.split)

lemma kept_Shutdown: "pool_kept m (fst (Manager_Shutdown m))"
  by (auto simp: Manager_Shutdown_def pool_kept_def ami_ok_def split_beta Let_def disconnect_all_length)

lemma kept_replay_one: "pool_kept m (fst (snd (replay_one io now a i st m)))"
  by (auto simp: replay_one_def Let_def split: prod.split outcome.split dest!: kept_fst(1))

lemma kept_replay_all: "pool_kept m (fst (snd (replay_all sio now a k is st m)))"
proof (induction "is" arbitrary: k st m)
  case (Cons i "is")
  obtain st1 m1 r1 where s1: "replay_one (sio k a) now a i st m = (st1, m1, r1)"
    by (cases "replay_one (sio k a) now a i st m") auto
  have k1: "pool_kept m m1" using kept_replay_one [of m "sio k a" now a i st] s1 by simp
  obtain st2 m2 r2 where s2: "replay_all sio now a (Suc k) is st1 m1 = (st2, m2, r2)"
    by (cases "replay_all sio now a (Suc k) is st1 m1") auto
  have "pool_kept m m2" using Cons [of m1 "Suc k" st1] s2 k1 pool_kept_trans by simp
  then show ?case using s1 s2 k1 by (simp split: outcome.split)
qed simp

lemma kept_replay: "pool_kept m (fst (replayPendingActions sio now m))"
proof -
  have "pool_kept m (m'\<lparr>am_storage := st\<rparr>)" if "pool_kept m m'" for m' st
    using that pool_kept_storage pool_kept_trans by blast
  then show ?thesis
    using kept_replay_all
    by (auto simp: replayPendingActions_def Let_def split_beta split: option.split)
qed

lemma kept_tryReconnect: "pool_kept m (fst (tryReconnectOrFailover cio sio now cur m))"
proof -
  have "pool_kept m (fst (replayPendingActions sio now m2))" if "pool_kept m m1" "pool_kept m1 m2" for m1 m2
    using that kept_replay pool_kept_trans by blast
  then show ?thesis
    by (auto simp: tryReconnectOrFailover_def split: option.split outcome.split prod.split
      dest!: kept_fst(2) kept_connect_first_fst intro: pool_kept_trans)
qed

lemma kept_health: "pool_kept m (fst (AMI_health_tick cio sio now i m))"
  using kept_tryReconnect pool_kept_trans
  by (auto simp: AMI_health_tick_def split: outcome.split prod.split dest!: kept_fst(1))

datatype ami_call =
    ASend action_io gotime message
  | AReconnect conn_io
  | AMonitor
  | AMonitorReconnect conn_io bool nat
  | AStart conn_io "nat \<Rightarrow> bool"
  | ARetry conn_io nat
  | ALost nat
  | AHealth conn_io action_io gotime nat
  | AShutdown

fun ami_step :: "ami_call \<Rightarrow> AMI_Mgr \<Rightarrow> AMI_Mgr \<times> (ami_mgr_error, message) outcome" where
  "ami_step (ASend sio now action) m = Manager_SendAction sio now action m"
| "ami_step (AReconnect cio) m = map_prod id (map_outcome id (\<lambda>_. [])) (Manager_Reconnect cio m)"
| "ami_step AMonitor m = map_prod id (map_outcome id (\<lambda>_. [])) (monitor_tick m)"
| "ami_step (AMonitorReconnect cio f i) m =
     map_prod id (map_outcome ActionFailed (\<lambda>_. [])) (monitor_reconnect cio f i m)"
| "ami_step (AStart cio expired) m = map_prod id (map_outcome ActionFailed (\<lambda>_. [])) (AMI_Start cio expired m)"
| "ami_step (ARetry cio i) m = map_prod id (map_outcome ActionFailed (\<lambda>_. [])) (retry_attempt cio i m)"
| "ami_step (ALost i) m = (connection_lost i m, Ret [])"
| "ami_step (AHealth cio sio now i) m = map_prod id (map_outcome id (\<lambda>_. [])) (AMI_health_tick cio sio now i m)"
| "ami_step AShutdown m = map_prod id (map_outcome id (\<lambda>_. [])) (Manager_Shutdown m)"

lemma kept_step: "pool_kept m (fst (ami_step c m))"
  by (cases c) (simp_all add: kept_Manager_SendAction kept_Reconnect kept_monitor kept_health kept_Shutdown
      kept_monitor_reconnect kept_Start kept_retry connection_lost_def)

interpretation ami_pool: active_pool ami_step am_clients am_activeIdx ami_ok
proof (unfold_locales, goal_cases)
  case (1 s)
  then show ?case by (simp add: ami_ok_def)
next
  case (2 s c)
  then show ?case using kept_step [of s c] by (simp add: pool_kept_def)
next
  case (3 s c)
  then show ?case using kept_step [of s c] by (simp add: pool_kept_def)
qed

section \<open>When an action hangs\<close>

lemma send_connected:
  assumes "ac_connected (am_clients m ! i)"
  shows "returns (snd (send_to io action i m))"
  using assms by (auto simp: send_to_def split_beta Let_def AMI_SendAction_def sendActionLocked_def split: wait_result.split)

lemma send_disconnected:
  assumes "\<not> ac_connected (am_clients m ! i)"
  shows "snd (send_to io action i m) = Blocked"
  using assms by (simp add: send_to_def split_beta Let_def AMI_SendAction_def)

lemma tryFailover_target:
  assumes "AMI_tryFailover now m = (m', Ret (Some i))"
  shows "i < length (am_clients m) \<and> int i \<noteq> am_activeIdx m \<and> ac_connected (am_clients m ! i) \<and>
     am_clients m' = am_clients m \<and> am_activeIdx m' = int i \<and> cs_IsHealthy (client_status (init_status m) ! i)"
  using assms failover_target_Some [of "init_status m" i]
  by (auto simp: AMI_tryFailover_def Let_def AMI_recordFailoverEvent_def init_status_def split: option.splits if_splits)

lemma tryFailover_outcome:
  assumes "ami_ok m"
  obtains m' r where "AMI_tryFailover now m = (m', Ret r)"
  using assms
  by (cases "failover_target (init_status m)") (auto simp: AMI_tryFailover_def Let_def GetActiveClient_def ami_ok_def)

lemma record_clients [simp]: "am_clients (recordClientFailure now addr m) = am_clients m"
  by (simp add: recordClientFailure_def Let_def init_status_def split: option.split)

lemma SendAction_connected:
  assumes "ami_ok m" and "ac_connected (am_clients m ! nat (am_activeIdx m))"
  shows "returns (snd (Manager_SendAction sio t action m))"
proof -
  let ?a = "nat (am_activeIdx m)"
  have a: "GetActiveClient m = Some ?a" using assms(1) by (simp add: GetActiveClient_def ami_ok_def)
  obtain m1 r1 where s1: "send_to (sio 0 ?a) action ?a m = (m1, r1)" by (cases "send_to (sio 0 ?a) action ?a m")
  have r1: "returns r1" using send_connected [OF assms(2), of "sio 0 ?a" action] s1 by simp
  let ?m = "recordClientFailure t (ac_address (am_clients m1 ! ?a)) m1"
  have "ami_ok ?m"
    using assms(1) kept_fst(1) [OF s1] pool_kept_record [of m1] by (simp add: pool_kept_def)
  then obtain m2 r2 where s2: "AMI_tryFailover t ?m = (m2, Ret r2)" by (rule tryFailover_outcome)
  have "returns (snd (send_to (sio 1 i) act i m2))" if "r2 = Some i" for i act
    using tryFailover_target [of t ?m m2 i] s2 that by (intro send_connected) simp
  then show ?thesis
    using a s1 s2 r1
    by (cases r1; cases r2) (auto simp: Manager_SendAction_def split: outcome.split prod.split, (metis returns.simps(3,4) snd_conv)+)
qed


definition sample_ami_config :: ami_Config where
  "sample_ami_config = \<lparr>amc_Address = ''pbx:5038'', amc_Username = ''u'', amc_Secret = ''s'', amc_Timeout = 0,
     amc_CircuitBreaker = \<lparr>FailureThreshold = 0, ResetTimeout = 0, HalfOpenMaxReqs = 0\<rparr>\<rparr>"

definition sample_mgr :: AMI_Mgr where
  "sample_mgr = \<lparr>am_clients = [sample_client], am_activeIdx = 0, am_storage = None, am_maxRetries = 3,
     am_retryDelay = 5 * Second, am_initializing = False, am_clientStatus = None\<rparr>"

definition silent_io :: action_io where
  "silent_io = (\<lambda>_ _. \<lparr>si_now = 0, si_write = True, si_wait = TimerFired, si_connect = connect_fine 0\<rparr>)"

lemma sample_mgr_New: "AMI_NewManager 0 [sample_ami_config] 0 0 None = Ret sample_mgr"
  by (simp add: AMI_NewManager_def AMI_New_def sample_ami_config_def sample_mgr_def sample_client_def)


section \<open>Replays are bounded\<close>

definition replays_left :: "string \<Rightarrow> MemoryStorage \<Rightarrow> nat" where
  "replays_left i st = (case sm_Load (ms_amiActions st) i of None \<Rightarrow> 0 | Some a \<Rightarrow> nat (4 - act_Retries a))"

lemma GetAMIAction_Ret:
  "GetAMIAction now i st = (st', Ret a) \<Longrightarrow>
   st' = st \<and> sm_Load (ms_amiActions st) i = Some a \<and> i \<noteq> [] \<and> \<not> act_expired now a"
  by (auto simp: GetAMIAction_def split: if_splits option.splits)

lemma GetAMIAction_other:
  assumes "GetAMIAction now i st = (st', r)" and "\<And>a. r \<noteq> Ret a"
  shows "replays_left i st' \<le> replays_left i st"
  using assms by (auto simp: GetAMIAction_def drop_AMIAction_def replays_left_def split: if_splits option.splits)

lemma DeleteAMIAction_left: "i \<noteq> [] \<Longrightarrow> replays_left i (fst (DeleteAMIAction i st)) = 0"
  by (auto simp: DeleteAMIAction_def replays_left_def split: option.splits)

lemma stamp_Retries [simp]: "act_Retries (stamp_AMIAction now a) = act_Retries a"
  by (simp add: stamp_AMIAction_def Let_def)

lemma StoreAMIAction_left:
  assumes "act_ActionID a = i" and "i \<noteq> []"
  shows "replays_left i (fst (StoreAMIAction now (Some a) st)) = nat (4 - act_Retries a)"
  using assms acts.put_tbl [of "Some a" i a now st] by (simp add: replays_left_def entry_AMIAction_def)

lemma replay_one_left:
  assumes "storage_inv st" and "storage_keyed st" and "replay_one io now a i st m = (st', m', Ret n)"
  shows "n + replays_left i st' \<le> replays_left i st"
proof (cases "GetAMIAction now i st")
  case (Pair st1 r)
  show ?thesis
  proof (cases "\<exists>act. r = Ret act")
    case False
    then have "st' = st1" and "n = 0" using assms(3) Pair by (auto simp: replay_one_def split: outcome.splits)
    then show ?thesis using GetAMIAction_other [OF Pair] False by auto
  next
    case True
    then obtain act where r: "r = Ret act" ..
    note get = GetAMIAction_Ret [OF Pair [unfolded r]]
    have key: "act_ActionID act = i" using get assms(2) by (simp add: storage_keyed_def keyed_def)
    have left: "replays_left i st = nat (4 - act_Retries act)" using get by (simp add: replays_left_def)
    show ?thesis
      using assms(3) Pair r get left key StoreAMIAction_left [of "act\<lparr>act_Retries := act_Retries act + 1\<rparr>" i now st]
        DeleteAMIAction_left [of i]
      by (auto simp: replay_one_def Let_def split: if_splits prod.splits outcome.splits)
  qed
qed

lemma replay_one_storage:
  assumes "storage_inv st" and "storage_keyed st" and "replay_one io now a i st m = (st', m', r)"
  shows "storage_inv st' \<and> storage_keyed st'"
proof -
  have g: "storage_inv (fst (GetAMIAction now i st)) \<and> storage_keyed (fst (GetAMIAction now i st))"
    using storage_inv_GetAMIAction [OF assms(1)] storage_keyed_typed(7) [OF assms(2)] by simp
  have s: "storage_inv (fst (StoreAMIAction now x y)) \<and> storage_keyed (fst (StoreAMIAction now x y))"
    if "storage_inv y \<and> storage_keyed y" for x y
    using that storage_inv_StoreAMIAction storage_keyed_typed(8) by simp
  have d: "storage_inv (fst (DeleteAMIAction i y)) \<and> storage_keyed (fst (DeleteAMIAction i y))"
    if "storage_inv y \<and> storage_keyed y" for y
    using that storage_inv_DeleteAMIAction storage_keyed_typed(9) by simp
  show ?thesis
    using assms(3) g s d
    by (cases "GetAMIAction now i st"; cases "snd (GetAMIAction now i st)")
      (auto simp: replay_one_def Let_def split: if_splits prod.splits outcome.splits)
qed

text \<open>The same action in round after round of replays, as long as the rounds return.\<close>

fun replay_rounds :: "(send_io \<times> gotime) list \<Rightarrow> nat \<Rightarrow> string \<Rightarrow> MemoryStorage \<Rightarrow> AMI_Mgr \<Rightarrow> nat" where
  "replay_rounds [] a i st m = 0"
| "replay_rounds ((io, now) # rounds) a i st m =
     (case replay_one io now a i st m of
        (st, m, Ret n) \<Rightarrow> n + replay_rounds rounds a i st m
      | _ \<Rightarrow> 0)"

lemma replay_rounds_left:
  "storage_inv st \<Longrightarrow> storage_keyed st \<Longrightarrow> replay_rounds rounds a i st m \<le> replays_left i st"
proof (induction rounds arbitrary: st m)
  case (Cons r rounds)
  obtain io now where r: "r = (io, now)" by (cases r)
  obtain st1 m1 r1 where s1: "replay_one io now a i st m = (st1, m1, r1)"
    by (cases "replay_one io now a i st m") auto
  have "storage_inv st1 \<and> storage_keyed st1" by (rule replay_one_storage [OF Cons.prems s1])
  then have ih: "replay_rounds rounds a i st1 m1 \<le> replays_left i st1" using Cons.IH by blast
  show ?case
  proof (cases r1)
    case (Ret n)
    then show ?thesis using replay_one_left [OF Cons.prems s1 [unfolded Ret]] ih s1 r by simp
  qed (use s1 r in simp_all)
qed simp



section \<open>The BackendManager as a pool\<close>

definition backend_ok :: "BackendManager \<Rightarrow> bool" where
  "backend_ok m \<longleftrightarrow> 0 \<le> bm_activeBackend m \<and> bm_activeBackend m < int (length (bm_backends m))"

definition backend_kept :: "BackendManager \<Rightarrow> BackendManager \<Rightarrow> bool" where
  "backend_kept m m' \<longleftrightarrow> (backend_ok m \<longrightarrow> backend_ok m') \<and> length (bm_backends m') = length (bm_backends m)"

lemma backend_kept_simps [simp]:
  "backend_kept m m"
  "backend_kept m (m\<lparr>bm_backends := (bm_backends m)[i := c]\<rparr>)"
  "i < length (bm_backends m) \<Longrightarrow> backend_kept m (setActiveBackend i m)"
  by (simp_all add: backend_kept_def backend_ok_def setActiveBackend_def)

lemma backend_kept_trans: "backend_kept m m1 \<Longrightarrow> backend_kept m1 m2 \<Longrightarrow> backend_kept m m2"
  by (simp add: backend_kept_def)

lemma backend_kept_connect: "connect_backend cio i m = (m', r) \<Longrightarrow> backend_kept m m'"
  by (auto simp: connect_backend_def split_beta Let_def)

lemma backend_kept_connects:
  "\<forall>i \<in> set is. i < length (bm_backends m) \<Longrightarrow> backend_kept m (fst (connect_backends cio is m))"
proof (induction "is" arbitrary: m)
  case (Cons i "is")
  obtain m1 r1 where s1: "connect_backend cio i m = (m1, r1)" by (cases "connect_backend cio i m")
  have k1: "backend_kept m m1" by (rule backend_kept_connect [OF s1])
  then have len: "length (bm_backends m1) = length (bm_backends m)" by (simp add: backend_kept_def)
  have i: "backend_kept m1 (setActiveBackend i m1)" using Cons.prems len by (intro backend_kept_simps(3)) simp
  have "is": "backend_kept m1 (fst (connect_backends cio is m1))" using Cons.prems len by (intro Cons.IH) simp
  show ?case
    using s1 k1 backend_kept_trans [OF k1 i] backend_kept_trans [OF k1 "is"] by (simp split: outcome.split)
qed simp

lemma backend_kept_failure: "backend_kept m (handleBackendFailure i m)"
  by (auto simp: handleBackendFailure_def find_Some_iff split: option.split)

lemma backend_kept_reconnect:
  "\<forall>i \<in> set is. i < length (bm_backends m) \<Longrightarrow> backend_kept m (fst (attemptReconnectAll cio now is m))"
proof (induction "is" arbitrary: m)
  case (Cons i "is")
  obtain m1 r1 where s1: "connect_backend cio i m = (m1, r1)" by (cases "connect_backend cio i m")
  have k1: "backend_kept m m1" by (rule backend_kept_connect [OF s1])
  then have len: "length (bm_backends m1) = length (bm_backends m)" by (simp add: backend_kept_def)
  have i: "backend_kept m1 (setActiveBackend i m1)" using Cons.prems len by (intro backend_kept_simps(3)) simp
  have "is": "backend_kept m1 (fst (attemptReconnectAll cio now is m1))" using Cons.prems len by (intro Cons.IH) simp
  show ?case
    using s1 k1 backend_kept_trans [OF k1 i] backend_kept_trans [OF k1 "is"] Cons by (simp split: outcome.split)
qed simp

lemma backend_kept_send: "backend_kept m (fst (Backend_SendAction sio action m))"
proof -
  have "backend_kept m ((handleBackendFailure j (m\<lparr>bm_backends := (bm_backends m)[a := c]\<rparr>))\<lparr>bm_backends :=
      (bm_backends (handleBackendFailure j (m\<lparr>bm_backends := (bm_backends m)[a := c]\<rparr>)))[b := d]\<rparr>)" for a b c d j
    by (rule backend_kept_trans [OF backend_kept_simps(2)], rule backend_kept_trans [OF backend_kept_failure],
        rule backend_kept_simps(2))
  then show ?thesis
    by (auto simp: Backend_SendAction_def split_beta Let_def split: option.split outcome.split)
qed

text \<open>The end of a tick of \<open>monitorBackend\<close>: the ping and the switch to a healthy backend.\<close>

lemma backend_kept_monitor: "backend_kept m (fst (monitorBackend_tick cio sio now i m))"
proof (cases "i < length (bm_backends m)")
  case True
  let ?first = "if ac_connected (bm_backends m ! i) then (m, Ret ()) else connect_backend cio i m"
  obtain m1 r1 where s1: "?first = (m1, r1)" by (cases ?first)
  have k1: "backend_kept m m1"
    using s1 backend_kept_connect [of cio i m m1 r1] by (auto split: if_splits)
  let ?c = "fst (AMI_Ping (sio 0 i) (bm_backends m1 ! i))"
  let ?m = "m1\<lparr>bm_backends := (bm_backends m1)[i := ?c]\<rparr>"
  have k2: "backend_kept m ?m" by (rule backend_kept_trans [OF k1 backend_kept_simps(2)])
  have "i < length (bm_backends ?m)" using k2 True by (simp add: backend_kept_def)
  then have k3: "backend_kept m (setActiveBackend i ?m)"
    using backend_kept_trans [OF k2] backend_kept_simps(3) by blast
  have k4: "backend_kept m (handleBackendFailure (int i) m1)"
    by (rule backend_kept_trans [OF k1 backend_kept_failure])
  show ?thesis
    unfolding monitorBackend_tick_def Let_def s1 using True k1 k2 k3 k4
    by (simp add: split_beta split: outcome.split option.split)
qed (simp add: monitorBackend_tick_def)

datatype backend_call =
    BSend action_io message
  | BFailure int
  | BReconnectAll conn_io gotime
  | BMonitor conn_io action_io gotime nat
  | BLost nat

fun backend_step :: "backend_call \<Rightarrow> BackendManager \<Rightarrow> BackendManager \<times> (ami_error, message) outcome" where
  "backend_step (BSend sio action) m = Backend_SendAction sio action m"
| "backend_step (BFailure i) m = (handleBackendFailure i m, Ret [])"
| "backend_step (BReconnectAll cio now) m =
     map_prod id (map_outcome id (\<lambda>_. [])) (attemptReconnectAll cio now [0..<length (bm_backends m)] m)"
| "backend_step (BMonitor cio sio now i) m = map_prod id (map_outcome id (\<lambda>_. [])) (monitorBackend_tick cio sio now i m)"
| "backend_step (BLost i) m =
     (m\<lparr>bm_backends := (bm_backends m)[i := readLoop_cleanup (bm_backends m ! i)]\<rparr>, Ret [])"

lemma backend_kept_step: "backend_kept m (fst (backend_step c m))"
  by (cases c) (simp_all add: backend_kept_send backend_kept_failure backend_kept_reconnect backend_kept_monitor)

interpretation backend_pool: active_pool backend_step bm_backends bm_activeBackend backend_ok
proof (unfold_locales, goal_cases)
  case (1 s)
  then show ?case by (simp add: backend_ok_def)
next
  case (2 s c)
  then show ?case using backend_kept_step [of s c] by (simp add: backend_kept_def)
next
  case (3 s c)
  then show ?case using backend_kept_step [of s c] by (simp add: backend_kept_def)
qed

lemma new_backends_length: "new_backends now configs = Ret cs \<Longrightarrow> length cs = length configs"
  by (induction configs arbitrary: cs) (auto split: outcome.splits)

lemma backend_ok_New:
  assumes "NewBackendManager now cio configs = Ret m"
  shows "backend_ok m \<and> length (bm_backends m) = length configs"
proof -
  have ne: "configs \<noteq> []" using assms by (auto simp: NewBackendManager_def)
  obtain cs where cs: "new_backends now configs = Ret cs"
    using assms ne by (auto simp: NewBackendManager_def split: outcome.splits)
  let ?m = "\<lparr>bm_backends = cs, bm_activeBackend = 0, bm_reconnectDelay = 30 * Second\<rparr>"
  obtain m1 r1 where s1: "connect_backend cio 0 ?m = (m1, r1)" by (cases "connect_backend cio 0 ?m")
  have k1: "backend_kept ?m m1" by (rule backend_kept_connect [OF s1])
  have "backend_kept m1 (fst (connect_backends cio [1..<length (bm_backends m1)] m1))"
    by (rule backend_kept_connects) simp
  then have k2: "backend_kept ?m (fst (connect_backends cio [1..<length (bm_backends m1)] m1))"
    by (rule backend_kept_trans [OF k1])
  have "backend_kept ?m m"
    using assms ne cs s1 k1 k2
    by (auto simp: NewBackendManager_def Let_def split: outcome.splits prod.splits)
  then show ?thesis
    using ne new_backends_length [OF cs] by (auto simp: backend_kept_def backend_ok_def)
qed

text \<open>
  Over every run of calls the active index of both AMI pools stays within their clients:
  the manager's from \<open>NewManager\<close>, the \<open>BackendManager\<close>'s from \<open>NewBackendManager\<close>.
\<close>

lemma ami_pools_in_range:
  assumes "AMI_NewManager now configs retries delay storage = Ret m"
    and "NewBackendManager now cio configs' = Ret b"
  shows "0 \<le> am_activeIdx (fst (run_calls ami_step calls m)) \<and>
     am_activeIdx (fst (run_calls ami_step calls m)) < int (length (am_clients m)) \<and>
     0 \<le> getActiveBackend (fst (run_calls backend_step calls' b)) \<and>
     getActiveBackend (fst (run_calls backend_step calls' b)) < int (length configs')"
proof -
  have m: "ami_ok m" by (rule ami_ok_New [OF assms(1)])
  have b: "backend_ok b" "length (bm_backends b) = length configs'" using backend_ok_New [OF assms(2)] by auto
  show ?thesis
    using ami_pool.run_pool [OF m, of calls] ami_pool.ok_active [of "fst (run_calls ami_step calls m)"]
      backend_pool.run_pool [OF b(1), of calls'] backend_pool.ok_active [of "fst (run_calls backend_step calls' b)"] b(2)
    by (simp add: getActiveBackend_def)
qed

end
