(* ===== verification/AMI_Proxy.thy ===== *)
theory AMI_Proxy
  imports AMI_Failover
begin

text \<open>
  The AMI proxy server of \<open>pkg/ami/proxy.go\<close>: clients connect to it as to an Asterisk server, log
  in, and have their actions forwarded to the active backend of a \<open>BackendManager\<close>; the events of
  a backend are copied to the clients. A connection is a number; \<open>pc_input\<close> is what its reader has
  still to deliver and \<open>pc_output\<close> what was written to it. The handlers that the proxy registers
  at the backends are kept with the proxy, as pairs of a backend and a connection.
\<close>

section \<open>State\<close>

record clientInfo =
  pc_input :: string
  pc_output :: string
  pc_authenticated :: bool
  pc_username :: string
  pc_sourceAddr :: string

record AMIProxyServer =
  ps_listeners :: "string list"
  ps_backendManager :: BackendManager
  ps_clients :: "nat \<rightharpoonup> clientInfo"
  ps_next :: nat
  ps_handlers :: "(nat \<times> nat) list"
  ps_stopClosed :: bool
  ps_running :: bool

datatype proxy_error = NoBackends "ami_error option" | NoListeners

text \<open>\<open>listen addr\<close> says whether listening on an address succeeds.\<close>

definition NewProxyServer :: "gotime \<Rightarrow> conn_io \<Rightarrow> (string \<Rightarrow> bool) \<Rightarrow> string list \<Rightarrow> ami_Config list \<Rightarrow>
    (proxy_error, AMIProxyServer) outcome" where
  "NewProxyServer now cio listen addresses configs =
     (case NewBackendManager now cio configs of
        Ret bm \<Rightarrow>
          (let listeners = remdups (filter listen addresses)
           in if listeners = [] then Fail NoListeners
              else Ret \<lparr>ps_listeners = listeners, ps_backendManager = bm, ps_clients = Map.empty, ps_next = 0,
                        ps_handlers = [], ps_stopClosed = False, ps_running = False\<rparr>)
      | Fail e \<Rightarrow> Fail (NoBackends e)
      | Panic p \<Rightarrow> Panic p
      | Blocked \<Rightarrow> Blocked)"

definition Proxy_Start :: "AMIProxyServer \<Rightarrow> AMIProxyServer" where
  "Proxy_Start s = (if ps_running s then s else s\<lparr>ps_running := True\<rparr>)"

text \<open>\<open>Stop\<close> closes every client connection; their goroutines then read the end of the input.\<close>

definition Proxy_Stop :: "AMIProxyServer \<Rightarrow> AMIProxyServer \<times> (ami_error, unit) outcome" where
  "Proxy_Stop s =
     (if \<not> ps_running s then (s, Ret ())
      else let s = s\<lparr>ps_running := False\<rparr>
           in if ps_stopClosed s then (s, Panic CloseOfClosedChannel)
              else (s\<lparr>ps_stopClosed := True,
                      ps_clients := (\<lambda>conn. map_option (\<lambda>info. info\<lparr>pc_input := []\<rparr>) (ps_clients s conn))\<rparr>, Ret ()))"

section \<open>Reading and answering\<close>

function read_action :: "string \<Rightarrow> message \<Rightarrow> (message \<times> string) option" where
  "read_action input action =
     (case ReadString input of
        None \<Rightarrow> None
      | Some (l, rest) \<Rightarrow>
          (let line = TrimSpace l
           in if line = [] then Some (action, rest)
              else case SplitN_colon line of
                None \<Rightarrow> read_action rest action
              | Some (k, v) \<Rightarrow> read_action rest (AList.update (TrimSpace k) (TrimSpace v) action)))"
  by pat_completeness auto
termination
  by (relation "measure (length \<circ> fst)") (auto dest: ReadString_shorter)

declare read_action.simps [simp del]

definition update_client :: "nat \<Rightarrow> (clientInfo \<Rightarrow> clientInfo) \<Rightarrow> AMIProxyServer \<Rightarrow> AMIProxyServer" where
  "update_client conn f s =
     (case ps_clients s conn of
        None \<Rightarrow> s
      | Some info \<Rightarrow> s\<lparr>ps_clients := (ps_clients s)(conn \<mapsto> f info)\<rparr>)"

definition sendResponse :: "nat \<Rightarrow> message \<Rightarrow> AMIProxyServer \<Rightarrow> AMIProxyServer" where
  "sendResponse conn response =
     update_client conn (\<lambda>info. info\<lparr>pc_output := pc_output info @ format_action response\<rparr>)"

definition sendErrorResponse :: "nat \<Rightarrow> string \<Rightarrow> AMIProxyServer \<Rightarrow> AMIProxyServer" where
  "sendErrorResponse conn msg = sendResponse conn [(''Response'', ''Error''), (''Message'', msg)]"

text \<open>
  \<open>err.Error()\<close> for the errors \<open>SendAction\<close> can return; \<open>os\<close> is the text of an error of the
  operating system.
\<close>

definition error_text :: "string \<Rightarrow> string \<Rightarrow> ami_error \<Rightarrow> string" where
  "error_text os actionName e =
     (case e of
        NoActiveConnection \<Rightarrow> ''no active connection for action '' @ actionName
      | SendFailed \<Rightarrow> ''failed to send action: '' @ os
      | ResponseChannelClosed \<Rightarrow> ''response channel closed''
      | AMIErrorResponse msg \<Rightarrow> ''AMI error: '' @ msg
      | ResponseTimeout \<Rightarrow> ''timeout waiting for response''
      | _ \<Rightarrow> os)"

text \<open>\<open>strings.EqualFold(action["Action"], "login")\<close>.\<close>

definition is_login :: "message \<Rightarrow> bool" where
  "is_login action \<longleftrightarrow> map lower (field ''Action'' action) = ''login''"

definition login_action :: "message \<Rightarrow> message" where
  "login_action action =
     [(''Action'', ''Login''), (''Username'', field ''Username'' action), (''Secret'', field ''Secret'' action)]"

definition handleLoginAction :: "send_io \<Rightarrow> nat \<Rightarrow> message \<Rightarrow> AMIProxyServer \<Rightarrow>
    AMIProxyServer \<times> (ami_error, unit) outcome" where
  "handleLoginAction io conn action s =
     (if field ''Username'' action = [] \<or> field ''Secret'' action = []
      then (sendErrorResponse conn ''Missing credentials'' s, Ret ())
      else let bm = ps_backendManager s in
        case slice_get (bm_backends bm) (bm_activeBackend bm) of
          None \<Rightarrow> (s, Panic IndexOutOfRange)
        | Some activeClient \<Rightarrow>
            (let (c, r) = AMI_SendAction io (login_action action) activeClient;
                 s = s\<lparr>ps_backendManager := bm\<lparr>bm_backends := (bm_backends bm)[nat (bm_activeBackend bm) := c]\<rparr>\<rparr>
             in case r of
                  Ret response \<Rightarrow>
                    (if field ''Response'' response \<noteq> ''Success''
                     then (sendErrorResponse conn ''Authentication failed'' s, Ret ())
                     else (sendResponse conn [(''Response'', ''Success''), (''Message'', ''Authentication accepted'')]
                             (update_client conn
                                (\<lambda>info. info\<lparr>pc_authenticated := True, pc_username := field ''Username'' action\<rparr>) s),
                           Ret ()))
                | Fail e \<Rightarrow> (sendErrorResponse conn ''Authentication failed'' s, Ret ())
                | Panic p \<Rightarrow> (s, Panic p)
                | Blocked \<Rightarrow> (s, Blocked)))"

section \<open>Connections\<close>

text \<open>The start of \<open>handleClient\<close>: the banner and the event handler.\<close>

definition handleClient_begin :: "nat \<Rightarrow> AMIProxyServer \<Rightarrow> AMIProxyServer \<times> (ami_error, bool) outcome" where
  "handleClient_begin conn s =
     (let s = update_client conn (\<lambda>info. info\<lparr>pc_output := pc_output info @ ''Asterisk Call Manager/1.4'' @ crlf\<rparr>) s;
          bm = ps_backendManager s
      in case slice_get (bm_backends bm) (bm_activeBackend bm) of
           None \<Rightarrow> (s, Panic IndexOutOfRange)
         | Some _ \<Rightarrow> (s\<lparr>ps_handlers := ps_handlers s @ [(nat (bm_activeBackend bm), conn)]\<rparr>, Ret True))"

text \<open>
  One round of \<open>acceptLoop\<close> for the listener on \<open>addr\<close>; \<open>accepted\<close> is the input of the accepted
  connection, if \<open>Accept\<close> succeeds. The result says whether the loop goes on.
\<close>

definition acceptLoop_step :: "bool \<Rightarrow> string option \<Rightarrow> string \<Rightarrow> AMIProxyServer \<Rightarrow>
    AMIProxyServer \<times> (ami_error, bool) outcome" where
  "acceptLoop_step leader accepted addr s =
     (if ps_stopClosed s then (s, Ret False)
      else if \<not> leader then (s, Ret True)
      else case accepted of
        None \<Rightarrow> (s, Ret True)
      | Some input \<Rightarrow>
          (let conn = ps_next s;
               info = \<lparr>pc_input = input, pc_output = [], pc_authenticated = False, pc_username = [], pc_sourceAddr = addr\<rparr>
           in handleClient_begin conn (s\<lparr>ps_clients := (ps_clients s)(conn \<mapsto> info), ps_next := Suc conn\<rparr>)))"

text \<open>
  One round of the loop of \<open>handleClient\<close>; at the end of the input the deferred function closes
  the connection and forgets the client.
\<close>

definition handleClient_step :: "action_io \<Rightarrow> string \<Rightarrow> nat \<Rightarrow> AMIProxyServer \<Rightarrow>
    AMIProxyServer \<times> (ami_error, bool) outcome" where
  "handleClient_step sio os conn s =
     (case ps_clients s conn of
        None \<Rightarrow> (s, Ret False)
      | Some info \<Rightarrow>
          (case read_action (pc_input info) [] of
             None \<Rightarrow> (s\<lparr>ps_clients := (ps_clients s)(conn := None)\<rparr>, Ret False)
           | Some (action, rest) \<Rightarrow>
               (let s = update_client conn (\<lambda>info. info\<lparr>pc_input := rest\<rparr>) s
                in if is_login action
                   then let (s, r) = handleLoginAction (sio 0 (nat (bm_activeBackend (ps_backendManager s)))) conn action s
                        in (s, map_outcome id (\<lambda>_. True) r)
                   else if \<not> pc_authenticated info then (sendErrorResponse conn ''Not authenticated'' s, Ret True)
                   else let (bm, r) = Backend_SendAction sio action (ps_backendManager s);
                            s = s\<lparr>ps_backendManager := bm\<rparr>
                        in case r of
                             Ret response \<Rightarrow> (sendResponse conn response s, Ret True)
                           | Fail e \<Rightarrow> (sendErrorResponse conn (error_text os (field ''Action'' action) e) s, Ret True)
                           | Panic p \<Rightarrow> (s, Panic p)
                           | Blocked \<Rightarrow> (s, Blocked))))"

text \<open>The handler \<open>handleClient\<close> registers, and an event of backend \<open>b\<close> at all its handlers.\<close>

definition forward_event :: "message \<Rightarrow> nat \<Rightarrow> AMIProxyServer \<Rightarrow> AMIProxyServer" where
  "forward_event event conn =
     update_client conn (\<lambda>info. if pc_authenticated info
                                then info\<lparr>pc_output := pc_output info @ format_action event\<rparr> else info)"

definition dispatch_event :: "nat \<Rightarrow> message \<Rightarrow> AMIProxyServer \<Rightarrow> AMIProxyServer" where
  "dispatch_event b event s = fold (\<lambda>(b', conn). if b' = b then forward_event event conn else id) (ps_handlers s) s"

section \<open>Who is authenticated\<close>

datatype proxy_call =
    PAccept bool "string option" string
  | PServe action_io string nat
  | PEvent nat message
  | PBackend backend_call
  | PStart
  | PStop

fun proxy_step :: "proxy_call \<Rightarrow> AMIProxyServer \<Rightarrow> AMIProxyServer \<times> (ami_error, bool) outcome" where
  "proxy_step (PAccept leader accepted addr) s = acceptLoop_step leader accepted addr s"
| "proxy_step (PServe sio os conn) s = handleClient_step sio os conn s"
| "proxy_step (PEvent b event) s = (dispatch_event b event s, Ret True)"
| "proxy_step (PBackend c) s =
     (let (bm, r) = backend_step c (ps_backendManager s)
      in (s\<lparr>ps_backendManager := bm\<rparr>, map_outcome id (\<lambda>_. True) r))"
| "proxy_step PStart s = (Proxy_Start s, Ret True)"
| "proxy_step PStop s = map_prod id (map_outcome id (\<lambda>_. True)) (Proxy_Stop s)"

definition authenticated_as :: "AMIProxyServer \<Rightarrow> nat \<times> string \<Rightarrow> bool" where
  "authenticated_as s = (\<lambda>(conn, user).
     \<exists>info. ps_clients s conn = Some info \<and> pc_authenticated info \<and> pc_username info = user)"

definition active_backend :: "AMIProxyServer \<Rightarrow> AMIClient option" where
  "active_backend s = slice_get (bm_backends (ps_backendManager s)) (bm_activeBackend (ps_backendManager s))"

text \<open>The call reads a login of \<open>user\<close> from \<open>conn\<close> and the active backend answers it with success.\<close>

fun accepted_login :: "proxy_call \<Rightarrow> AMIProxyServer \<Rightarrow> nat \<times> string \<Rightarrow> bool" where
  "accepted_login (PServe sio os conn) s (conn', user) \<longleftrightarrow>
     conn = conn' \<and> user \<noteq> [] \<and>
     (\<exists>info action rest client response.
        ps_clients s conn = Some info \<and> read_action (pc_input info) [] = Some (action, rest) \<and>
        is_login action \<and> field ''Username'' action = user \<and> field ''Secret'' action \<noteq> [] \<and>
        active_backend s = Some client \<and>
        snd (AMI_SendAction (sio 0 (nat (bm_activeBackend (ps_backendManager s)))) (login_action action) client) = Ret response \<and>
        field ''Response'' response = ''Success'')"
| "accepted_login _ s _ \<longleftrightarrow> False"

lemma update_client_simps [simp]:
  "ps_backendManager (update_client conn f s) = ps_backendManager s"
  "ps_handlers (update_client conn f s) = ps_handlers s"
  "ps_next (update_client conn f s) = ps_next s"
  "ps_stopClosed (update_client conn f s) = ps_stopClosed s"
  "ps_clients (update_client conn f s) = (ps_clients s)(conn := map_option f (ps_clients s conn))"
  by (auto simp: update_client_def fun_eq_iff split: option.split)

text \<open>What a write does not change: who is logged in under which name.\<close>

definition login_of :: "AMIProxyServer \<Rightarrow> nat \<Rightarrow> (bool \<times> string) option" where
  "login_of s conn = map_option (\<lambda>info. (pc_authenticated info, pc_username info)) (ps_clients s conn)"

lemma authenticated_login_of: "authenticated_as s (conn, user) \<longleftrightarrow> login_of s conn = Some (True, user)"
  by (auto simp: authenticated_as_def login_of_def)

lemma login_of_update [simp]:
  assumes "\<And>info. pc_authenticated (f info) = pc_authenticated info \<and> pc_username (f info) = pc_username info"
  shows "login_of (update_client conn f s) = login_of s"
  using assms by (auto simp: login_of_def fun_eq_iff option.map_comp comp_def)

lemma login_of_writes [simp]:
  "login_of (sendResponse conn m s) = login_of s"
  "login_of (sendErrorResponse conn e s) = login_of s"
  "login_of (forward_event event conn s) = login_of s"
  "login_of (s\<lparr>ps_backendManager := bm\<rparr>) = login_of s"
  "login_of (s\<lparr>ps_handlers := hs\<rparr>) = login_of s"
  by (simp_all add: sendErrorResponse_def sendResponse_def forward_event_def) (simp_all add: login_of_def fun_eq_iff)

lemma login_of_dispatch [simp]: "login_of (dispatch_event b event s) = login_of s"
proof -
  have "login_of (fold (\<lambda>(b', conn). if b' = b then forward_event event conn else id) hs s) = login_of s" for hs
    by (induction hs arbitrary: s) (auto simp: split_beta)
  then show ?thesis by (simp add: dispatch_event_def)
qed

lemma login_of_handleLogin:
  assumes "login_of (fst (handleLoginAction io conn action s)) k = Some (True, user)"
    and "login_of s k \<noteq> Some (True, user)"
  shows "k = conn \<and> user = field ''Username'' action \<and> user \<noteq> [] \<and> field ''Secret'' action \<noteq> [] \<and>
     (\<exists>client response. active_backend s = Some client \<and>
        snd (AMI_SendAction io (login_action action) client) = Ret response \<and> field ''Response'' response = ''Success'')"
proof (cases "active_backend s")
  case (Some client)
  obtain c r where send: "AMI_SendAction io (login_action action) client = (c, r)"
    by (cases "AMI_SendAction io (login_action action) client")
  show ?thesis
    using assms Some send
    by (cases r) (auto simp: handleLoginAction_def active_backend_def Let_def login_of_def sendResponse_def
        sendErrorResponse_def split: if_splits)
next
  case None
  then show ?thesis
    using assms by (auto simp: handleLoginAction_def active_backend_def Let_def split: if_splits)
qed

lemma active_backend_update [simp]: "active_backend (update_client conn f s) = active_backend s"
  by (simp add: active_backend_def)

lemma login_of_serve:
  assumes "login_of (fst (handleClient_step sio os conn s)) k = Some (True, user)"
    and "login_of s k \<noteq> Some (True, user)"
  shows "accepted_login (PServe sio os conn) s (k, user)"
proof -
  obtain info where info: "ps_clients s conn = Some info"
    using assms by (auto simp: handleClient_step_def split: option.splits)
  obtain action rest where read: "read_action (pc_input info) [] = Some (action, rest)"
    using assms info by (auto simp: handleClient_step_def login_of_def split: option.splits if_splits)
  let ?s = "update_client conn (\<lambda>info. info\<lparr>pc_input := rest\<rparr>) s"
  have s: "login_of ?s = login_of s" by simp
  have "is_login action"
    using assms info read
    by (auto simp: handleClient_step_def Let_def split_beta split: if_splits outcome.splits)
  then have "login_of (fst (handleLoginAction (sio 0 (nat (bm_activeBackend (ps_backendManager s)))) conn action ?s)) k =
      Some (True, user)"
    using assms(1) info read by (simp add: handleClient_step_def Let_def split_beta)
  from login_of_handleLogin [OF this] show ?thesis
    using assms(2) s info read \<open>is_login action\<close> by auto
qed

lemma login_of_accept:
  "login_of (fst (acceptLoop_step leader accepted addr s)) k = Some (True, user) \<Longrightarrow> login_of s k = Some (True, user)"
  by (auto simp: acceptLoop_step_def handleClient_begin_def Let_def split: if_splits option.splits)
    (auto simp: login_of_def split: if_splits)

lemma login_of_Stop: "login_of (fst (Proxy_Stop s)) = login_of s"
  by (auto simp: Proxy_Stop_def Let_def login_of_def fun_eq_iff option.map_comp comp_def)

interpretation proxy_logins: granted proxy_step authenticated_as accepted_login
proof (unfold_locales, goal_cases)
  case (1 c s k)
  obtain conn user where k: "k = (conn, user)" by (cases k)
  have after: "login_of (fst (proxy_step c s)) conn = Some (True, user)"
    using 1 by (simp add: k authenticated_login_of)
  have "login_of s conn = Some (True, user) \<or> accepted_login c s (conn, user)"
  proof (cases c)
    case (PServe sio os conn')
    then show ?thesis using after login_of_serve [of sio os conn' s conn user] by (simp only: proxy_step.simps) blast
  next
    case (PAccept leader accepted addr)
    then show ?thesis using after login_of_accept [of leader accepted addr s conn user] by simp
  qed (use after login_of_Stop [of s] in \<open>simp_all add: split_beta Let_def Proxy_Start_def login_of_def split: if_splits\<close>)
  then show ?case by (simp add: k authenticated_login_of)
qed

lemma NewProxyServer_clients:
  "NewProxyServer now cio listen addresses configs = Ret s \<Longrightarrow> ps_clients s = Map.empty \<and> ps_handlers s = [] \<and> ps_next s = 0"
  by (auto simp: NewProxyServer_def Let_def split: outcome.splits if_splits)

text \<open>
  C6: A client of the proxy is authenticated only if, earlier in the run, it sent a Login action
  with a user name (the one it is known by) and a secret, and the backend that was active then
  answered exactly those credentials with success. Whatever other clients, events, failovers,
  stops and starts are interleaved.
\<close>

theorem proxy_authentication:
  assumes "NewProxyServer now cio listen addresses configs = Ret s0"
    and "ps_clients (fst (run_calls proxy_step calls s0)) conn = Some info"
    and "pc_authenticated info"
  shows "\<exists>before c after. calls = before @ c # after \<and>
     accepted_login c (fst (run_calls proxy_step before s0)) (conn, pc_username info)"
proof (rule proxy_logins.run_granted)
  show "authenticated_as (fst (run_calls proxy_step calls s0)) (conn, pc_username info)"
    using assms(2,3) by (simp add: authenticated_as_def)
  show "\<not> authenticated_as s0 (conn, pc_username info)"
    using NewProxyServer_clients [OF assms(1)] by (simp add: authenticated_as_def)
qed

definition success_io :: action_io where
  "success_io = (\<lambda>_ _. \<lparr>si_now = 0, si_write = True, si_wait = GotResponse [(''Response'', ''Success'')],
     si_connect = connect_fine 0\<rparr>)"

definition login_session :: "action_io \<Rightarrow> proxy_call list" where
  "login_session sio =
     [PAccept True (Some (format_action [(''Action'', ''login''), (''Username'', ''u''), (''Secret'', ''s'')])) ''a'',
      PServe sio [] 0]"

definition sample_proxy :: "(proxy_error, AMIProxyServer) outcome" where
  "sample_proxy = NewProxyServer 0 (\<lambda>_. connect_fine (5 * Second)) (\<lambda>_. True) [''a''] [sample_ami_config]"

lemma login_session_run:
  "case sample_proxy of
     Ret s0 \<Rightarrow> (case ps_clients (fst (run_calls proxy_step (login_session success_io) s0)) 0 of
        Some info \<Rightarrow> pc_authenticated info \<and> pc_username info = ''u'' | None \<Rightarrow> False)
   | _ \<Rightarrow> False"
  by code_simp

theorem proxy_authentication_witness:
  "\<exists>s0 before c after. sample_proxy = Ret s0 \<and> login_session success_io = before @ c # after \<and>
     accepted_login c (fst (run_calls proxy_step before s0)) (0, ''u'')"
proof -
  obtain s0 info where s0: "sample_proxy = Ret s0"
    and info: "ps_clients (fst (run_calls proxy_step (login_session success_io) s0)) 0 = Some info"
      "pc_authenticated info" "pc_username info = ''u''"
    using login_session_run by (auto split: outcome.splits option.splits)
  show ?thesis
    using proxy_authentication [OF s0 [unfolded sample_proxy_def] info(1,2)] s0 info(3) by auto
qed

text \<open>A call during which no backend delivers a response (they time out, or the connection ends).\<close>

fun unanswered :: "proxy_call \<Rightarrow> bool" where
  "unanswered (PServe sio os conn) \<longleftrightarrow> (\<forall>k i m. si_wait (sio k i) \<noteq> GotResponse m)"
| "unanswered _ \<longleftrightarrow> True"

lemma login_unanswered:
  assumes "\<And>m. si_wait io \<noteq> GotResponse m"
  shows "snd (AMI_SendAction io (login_action action) c) \<noteq> Ret response"
  using assms
  by (cases "si_wait io") (auto simp: AMI_SendAction_def sendActionLocked_def Let_def login_action_def field_def)


lemma silent_session_run:
  "case sample_proxy of
     Ret s0 \<Rightarrow> ps_clients (fst (run_calls proxy_step (login_session silent_io) s0)) 0 \<noteq> None
   | _ \<Rightarrow> False"
  by code_simp


end
