(* ===== verification/Health_Monitor.thy ===== *)
theory Health_Monitor
  imports AMI_Failover RTP_Manager WebSocket_Server
begin

text \<open>
  The health monitor (\<open>health/health.go\<close>): the status of every component, the OPTIONS probes of the
  OpenSIPS backends, the choice of another backend when the active one fails, and what the monitor
  asks of the AMI manager and of the WebSocket server. The loop is its round, \<open>checkAllComponents\<close>.
\<close>

section \<open>State\<close>

datatype Status = StatusHealthy | StatusUnhealthy | StatusDegraded | StatusFailover

fun status_string :: "Status \<Rightarrow> string" where
  "status_string StatusHealthy = ''HEALTHY''"
| "status_string StatusUnhealthy = ''UNHEALTHY''"
| "status_string StatusDegraded = ''DEGRADED''"
| "status_string StatusFailover = ''FAILOVER''"

record BackendHealth =
  bh_Address :: string
  bh_Status :: Status
  bh_LastChecked :: gotime
  bh_Message :: string
  bh_FailCount :: int
  bh_IsActive :: bool

record ComponentHealth =
  ch_Component :: string
  ch_Status :: Status
  ch_LastChecked :: gotime
  ch_Message :: string
  ch_Backends :: "BackendHealth list"
  ch_Stats :: "(string \<times> int) list"

record FailoverEvent =
  fe_Component :: string
  fe_FromBackend :: string
  fe_ToBackend :: string
  fe_Timestamp :: gotime
  fe_Reason :: string

text \<open>The SIP transport and the coordinator are only kept or logged about; they are left out.\<close>

record HealthMonitor =
  hm_amiManager :: "AMI_Mgr option"
  hm_rtpManager :: "Manager option"
  hm_wsServer :: "Server option"
  hm_storage :: "MemoryStorage option"
  hm_opensipsAddress :: string
  hm_opensipsBackends :: "string list"
  hm_checkInterval :: duration
  hm_failoverEnabled :: bool
  hm_failureThreshold :: int
  hm_componentStatus :: "(string \<times> ComponentHealth) list"
  hm_stopped :: bool
  hm_failoverHistory :: "(string \<times> FailoverEvent list) list"

record HealthConfig =
  hc_OpenSIPSAddress :: string
  hc_OpenSIPSBackends :: "string list"
  hc_CheckInterval :: duration
  hc_EnableFailover :: bool
  hc_FailureThreshold :: int

definition NewHealthMonitor :: "AMI_Mgr option \<Rightarrow> Manager option \<Rightarrow> Server option \<Rightarrow> MemoryStorage option \<Rightarrow> HealthConfig \<Rightarrow> HealthMonitor" where
  "NewHealthMonitor amiManager rtpManager wsServer storage config =
     \<lparr>hm_amiManager = amiManager, hm_rtpManager = rtpManager, hm_wsServer = wsServer, hm_storage = storage,
      hm_opensipsAddress = hc_OpenSIPSAddress config,
      hm_opensipsBackends =
        (if hc_OpenSIPSBackends config = [] \<and> hc_OpenSIPSAddress config \<noteq> [] then [hc_OpenSIPSAddress config]
         else hc_OpenSIPSBackends config),
      hm_checkInterval = (if 0 < hc_CheckInterval config then hc_CheckInterval config else 3 * Second),
      hm_failoverEnabled = hc_EnableFailover config,
      hm_failureThreshold = (if 0 < hc_FailureThreshold config then hc_FailureThreshold config else 3),
      hm_componentStatus = [], hm_stopped = False, hm_failoverHistory = []\<rparr>"

text \<open>
  What the outside does during one round: the clock, the answer to an OPTIONS request sent to an
  address (none when the address does not resolve, or the socket fails, or the five seconds pass),
  the same for the probes of the WebSocket server, whether a client can be notified, what the
  Asterisk servers do on a connection attempt, and the local zone's notation of an instant.
\<close>

record health_io =
  hk_now :: gotime
  hk_probe :: "nat \<Rightarrow> string \<Rightarrow> string \<Rightarrow> string option"
  hk_exchange :: "string \<Rightarrow> string option"
  hk_notify :: "string \<Rightarrow> bool"
  hk_connect :: conn_io
  hk_rfc3339 :: "gotime \<Rightarrow> string"

text \<open>\<open>Stats[key]++\<close>: a missing key counts from zero.\<close>

definition inc :: "string \<Rightarrow> (string \<times> int) list \<Rightarrow> (string \<times> int) list" where
  "inc key stats = AList.update key ((case map_of stats key of Some n \<Rightarrow> n | None \<Rightarrow> 0) + 1) stats"

definition put_status :: "string \<Rightarrow> ComponentHealth \<Rightarrow> HealthMonitor \<Rightarrow> HealthMonitor" where
  "put_status name status h = h\<lparr>hm_componentStatus := AList.update name status (hm_componentStatus h)\<rparr>"

definition component :: "string \<Rightarrow> HealthMonitor \<Rightarrow> ComponentHealth option" where
  "component name h = map_of (hm_componentStatus h) name"

definition GetComponentHealth :: "string \<Rightarrow> HealthMonitor \<Rightarrow> ComponentHealth option" where
  "GetComponentHealth name h = component name h"

definition GetAllComponentHealth :: "HealthMonitor \<Rightarrow> (string \<times> ComponentHealth) list" where
  "GetAllComponentHealth h = hm_componentStatus h"

definition GetFailoverHistory :: "string \<Rightarrow> HealthMonitor \<Rightarrow> FailoverEvent list option" where
  "GetFailoverHistory name h = map_of (hm_failoverHistory h) name"

definition GetAllFailoverHistory :: "HealthMonitor \<Rightarrow> (string \<times> FailoverEvent list) list" where
  "GetAllFailoverHistory h = hm_failoverHistory h"

text \<open>\<open>append(h.failoverHistory[name], event)\<close>.\<close>

definition add_event :: "string \<Rightarrow> FailoverEvent \<Rightarrow> HealthMonitor \<Rightarrow> HealthMonitor" where
  "add_event name event h = h\<lparr>hm_failoverHistory :=
     AList.update name ((case GetFailoverHistory name h of Some es \<Rightarrow> es | None \<Rightarrow> []) @ [event]) (hm_failoverHistory h)\<rparr>"

section \<open>Failover of a component\<close>

definition triggerFailover :: "health_io \<Rightarrow> string \<Rightarrow> HealthMonitor \<Rightarrow> HealthMonitor \<times> (unit, unit) outcome" where
  "triggerFailover io name h =
     (if name = ''opensips''
      then (h\<lparr>hm_wsServer := map_option (PrepareForFailover (hk_notify io) (hk_now io)) (hm_wsServer h)\<rparr>, Ret ())
      else if name = ''asterisk'' then
        (case hm_amiManager h of
           None \<Rightarrow> (h, Ret ())
         | Some m \<Rightarrow>
             (case Manager_Reconnect (hk_connect io) m of
                (m, Panic p) \<Rightarrow> (h\<lparr>hm_amiManager := Some m\<rparr>, Panic p)
              | (m, Blocked) \<Rightarrow> (h\<lparr>hm_amiManager := Some m\<rparr>, Blocked)
              | (m, _) \<Rightarrow> (h\<lparr>hm_amiManager := Some m\<rparr>, Ret ())))
      else (h, Ret ()))"

section \<open>OpenSIPS\<close>

definition buildSipOptionsMessage :: "gotime \<Rightarrow> string \<Rightarrow> string" where
  "buildSipOptionsMessage now serverAddress =
     (let stamp = fmt_d (UnixNano now) in
      ''OPTIONS sip:'' @ serverAddress @ '' SIP/2.0'' @ crlf @
      ''Via: SIP/2.0/UDP health.monitor;branch=z9hG4bK-'' @ stamp @ '';rport'' @ crlf @
      ''Max-Forwards: 69'' @ crlf @
      ''From: <sip:proxy@localhost>;tag=fromTag-'' @ stamp @ crlf @
      ''To: <sip:'' @ serverAddress @ ''>'' @ crlf @
      ''Call-ID: health-'' @ stamp @ crlf @
      ''CSeq: 1 OPTIONS'' @ crlf @
      ''User-Agent: Qalqul-Health-Monitor'' @ crlf @
      ''Allow: INVITE, ACK, CANCEL, OPTIONS, BYE'' @ crlf @
      ''Content-Length: 0'' @ crlf @ crlf)"

text \<open>\<open>host[:strings.LastIndex(host, ":")]\<close> when that index is positive.\<close>

definition host_part :: "string \<Rightarrow> string" where
  "host_part address =
     (case dropWhile (\<lambda>c. c \<noteq> CHR '':'') (rev address) of
        [] \<Rightarrow> address
      | c # rest \<Rightarrow> if rest = [] then address else rev rest)"

text \<open>
  The slices \<open>response[:15]\<close> and \<open>response[:100]\<close> of the two log lines are evaluated whatever the
  log level is, and panic when the response is shorter.
\<close>

definition checkSingleOpenSIPSBackend :: "health_io \<Rightarrow> nat \<Rightarrow> string \<Rightarrow> (unit, bool) outcome" where
  "checkSingleOpenSIPSBackend io index address =
     (let host = host_part address
      in case hk_probe io index (host @ '':6060'') (buildSipOptionsMessage (hk_now io) host) of
           None \<Rightarrow> Ret False
         | Some datagram \<Rightarrow>
             (let response = take 4096 datagram
              in if sublist ''SIP/2.0 200'' response \<or> sublist ''SIP/2.0 405'' response \<or> sublist ''SIP/2.0 403'' response
                 then (if length response < 15 then Panic IndexOutOfRange else Ret True)
                 else if length response < 100 then Panic IndexOutOfRange else Ret False))"

text \<open>
  The goroutines of one check, one per backend. A panic in one of them ends the program; which of
  the others were done by then makes no difference to what follows.
\<close>

fun probe_all :: "health_io \<Rightarrow> nat \<Rightarrow> string list \<Rightarrow> (unit, bool list) outcome" where
  "probe_all io i [] = Ret []"
| "probe_all io i (addr # addrs) =
     (case checkSingleOpenSIPSBackend io i addr of
        Ret healthy \<Rightarrow> map_outcome id ((#) healthy) (probe_all io (Suc i) addrs)
      | Fail e \<Rightarrow> Fail e
      | Panic p \<Rightarrow> Panic p
      | Blocked \<Rightarrow> Blocked)"

definition mark_backend :: "gotime \<Rightarrow> int \<Rightarrow> bool \<Rightarrow> BackendHealth \<Rightarrow> BackendHealth" where
  "mark_backend now threshold healthy b =
     (let b = b\<lparr>bh_LastChecked := now\<rparr>
      in if healthy then b\<lparr>bh_Status := StatusHealthy, bh_Message := ''OpenSIPS responding to OPTIONS'', bh_FailCount := 0\<rparr>
         else let b = b\<lparr>bh_FailCount := bh_FailCount b + 1\<rparr>
              in if threshold \<le> bh_FailCount b
                 then b\<lparr>bh_Status := StatusUnhealthy,
                        bh_Message := ''Failed health check '' @ fmt_d (bh_FailCount b) @ '' times''\<rparr>
                 else b)"

definition opensips_active :: "BackendHealth list \<Rightarrow> nat option" where
  "opensips_active bs = List.find (\<lambda>i. bh_IsActive (bs ! i)) [0..<length bs]"

definition set_active :: "nat \<Rightarrow> BackendHealth list \<Rightarrow> BackendHealth list" where
  "set_active n bs = map (\<lambda>i. (bs ! i)\<lparr>bh_IsActive := (i = n)\<rparr>) [0..<length bs]"

definition count_healthy :: "bool list \<Rightarrow> nat" where
  "count_healthy results = length (filter id results)"

definition overall_status :: "gotime \<Rightarrow> bool list \<Rightarrow> ComponentHealth \<Rightarrow> ComponentHealth" where
  "overall_status now results status =
     (let status = status\<lparr>ch_LastChecked := now\<rparr>; n = count_healthy results
      in if n = length results then status\<lparr>ch_Status := StatusHealthy, ch_Message := ''All OpenSIPS backends healthy''\<rparr>
         else if 0 < n
           then status\<lparr>ch_Status := StatusDegraded,
                       ch_Message := fmt_d (int n) @ ''/'' @ fmt_d (int (length results)) @ '' OpenSIPS backends healthy''\<rparr>
         else status\<lparr>ch_Status := StatusUnhealthy, ch_Message := ''All OpenSIPS backends unhealthy''\<rparr>)"

definition opensips_stats :: "bool list \<Rightarrow> (string \<times> int) list \<Rightarrow> (string \<times> int) list" where
  "opensips_stats results stats = inc (if 0 < count_healthy results then ''success'' else ''failure'') (inc ''total_checks'' stats)"

definition opensips_target :: "bool \<Rightarrow> nat \<Rightarrow> bool list \<Rightarrow> nat option" where
  "opensips_target enabled active results =
     (if \<not> (active < length results \<and> results ! active) \<and> 0 < count_healthy results \<and> enabled
      then List.find (\<lambda>i. results ! i \<and> i \<noteq> active) [0..<length results] else None)"

text \<open>The second half of \<open>checkOpenSIPSBackends\<close>, after \<open>wg.Wait()\<close>.\<close>

definition process_results :: "health_io \<Rightarrow> nat \<Rightarrow> bool list \<Rightarrow> ComponentHealth \<Rightarrow> HealthMonitor \<Rightarrow> HealthMonitor \<times> (unit, unit) outcome" where
  "process_results io active results status h =
     (let now = hk_now io; status = status\<lparr>ch_Stats := opensips_stats results (ch_Stats status)\<rparr>
      in case opensips_target (hm_failoverEnabled h) active results of
           None \<Rightarrow> (put_status ''opensips'' (overall_status now results status) h, Ret ())
         | Some new \<Rightarrow>
             (case slice_get (hm_opensipsBackends h) (int active) of
                None \<Rightarrow> (h, Panic IndexOutOfRange)
              | Some old \<Rightarrow>
                  (let event = \<lparr>fe_Component = ''opensips'', fe_FromBackend = old, fe_ToBackend = hm_opensipsBackends h ! new,
                         fe_Timestamp = now,
                         fe_Reason = ''Health check failure count: '' @ fmt_d (bh_FailCount (ch_Backends status ! active))\<rparr>;
                       status = status\<lparr>ch_Backends := set_active new (ch_Backends status), ch_Stats := inc ''failovers'' (ch_Stats status)\<rparr>;
                       (h, r) = triggerFailover io ''opensips'' (add_event ''opensips'' event h)
                   in (put_status ''opensips'' (overall_status now results status) h, r))))"

definition checkOpenSIPSBackends :: "health_io \<Rightarrow> HealthMonitor \<Rightarrow> HealthMonitor \<times> (unit, unit) outcome" where
  "checkOpenSIPSBackends io h =
     (if hm_opensipsBackends h = [] then (h, Ret ())
      else case component ''opensips'' h of
        None \<Rightarrow> (h, Panic NilDereference)
      | Some status \<Rightarrow>
          (let active = (case opensips_active (ch_Backends status) of Some i \<Rightarrow> i | None \<Rightarrow> 0);
               bs = (ch_Backends status)[active := (ch_Backends status ! active)\<lparr>bh_IsActive := True\<rparr>]
           in case probe_all io 0 (hm_opensipsBackends h) of
                Ret results \<Rightarrow>
                  if length bs < length results then (h, Panic IndexOutOfRange)
                  else process_results io active results
                    (status\<lparr>ch_Backends := map2 (mark_backend (hk_now io) (hm_failureThreshold h)) results bs @ drop (length results) bs\<rparr>) h
              | Fail e \<Rightarrow> (h, Fail e)
              | Panic p \<Rightarrow> (h, Panic p)
              | Blocked \<Rightarrow> (h, Blocked)))"

section \<open>Asterisk\<close>

definition ami_backend :: "gotime \<Rightarrow> bool \<Rightarrow> AMIClient \<Rightarrow> BackendHealth \<Rightarrow> BackendHealth" where
  "ami_backend now isActive client b =
     (let b = b\<lparr>bh_Address := GetAddress client, bh_LastChecked := now, bh_IsActive := isActive\<rparr>
      in if AMI_IsConnected client \<and> IsBannerReceived client
         then b\<lparr>bh_Status := StatusHealthy, bh_Message := ''AMI connected and banner received'', bh_FailCount := 0\<rparr>
         else if AMI_IsConnected client
         then b\<lparr>bh_Status := StatusDegraded, bh_Message := ''AMI connected but no banner'', bh_FailCount := 0\<rparr>
         else b\<lparr>bh_FailCount := bh_FailCount b + 1, bh_Status := StatusUnhealthy,
                bh_Message := ''AMI not connected (failures: '' @ fmt_d (bh_FailCount b + 1) @ '')''\<rparr>)"

definition fresh_backend :: "string \<Rightarrow> bool \<Rightarrow> BackendHealth" where
  "fresh_backend address isActive = \<lparr>bh_Address = address, bh_Status = StatusUnhealthy, bh_LastChecked = 0,
     bh_Message = [], bh_FailCount = 0, bh_IsActive = isActive\<rparr>"

text \<open>The list of backends is made anew when the number of clients is another one.\<close>

definition ami_backends :: "nat \<Rightarrow> AMIClient list \<Rightarrow> BackendHealth list \<Rightarrow> BackendHealth list" where
  "ami_backends active clients bs =
     (if length bs \<noteq> length clients
      then map (\<lambda>i. fresh_backend (GetAddress (clients ! i)) (i = active)) [0..<length clients] else bs)"

text \<open>
  \<open>checkAsterisk\<close>. A client is its position in the manager, so the comparison of pointers is one of
  positions. \<open>GetActiveClient\<close> indexes the clients: it panics where the code goes on to test for a
  nil client or for an empty list, so these two branches are never taken.
\<close>

definition checkAsterisk :: "health_io \<Rightarrow> HealthMonitor \<Rightarrow> HealthMonitor \<times> (unit, unit) outcome" where
  "checkAsterisk io h =
     (case hm_amiManager h of
        None \<Rightarrow> (h, Panic NilDereference)
      | Some m \<Rightarrow>
          (case GetActiveClient m of
             None \<Rightarrow> (h, Panic IndexOutOfRange)
           | Some a \<Rightarrow>
               (case component ''asterisk'' h of
                  None \<Rightarrow> (h, Panic NilDereference)
                | Some status \<Rightarrow>
                    (let now = hk_now io; clients = am_clients m; bs = ami_backends a clients (ch_Backends status);
                         status = status\<lparr>ch_LastChecked := now,
                           ch_Backends := map (\<lambda>i. ami_backend now (i = a) (clients ! i) (bs ! i)) [0..<length clients]\<rparr>;
                         healthyCount = length (filter AMI_IsConnected clients)
                     in if IsBannerReceived (clients ! a)
                        then (put_status ''asterisk'' (status\<lparr>ch_Status := StatusHealthy,
                                ch_Message := ''AMI banner received - Asterisk ready'', ch_Stats := inc ''success'' (ch_Stats status)\<rparr>) h, Ret ())
                        else if AMI_IsConnected (clients ! a)
                        then (put_status ''asterisk'' (status\<lparr>ch_Status := StatusDegraded,
                                ch_Message := ''AMI connected but waiting for banner'', ch_Stats := inc ''success'' (ch_Stats status)\<rparr>) h, Ret ())
                        else let status = status\<lparr>ch_Status := StatusUnhealthy,
                                   ch_Message := ''Active AMI client not connected'', ch_Stats := inc ''failure'' (ch_Stats status)\<rparr>
                             in if 0 < healthyCount \<and> hm_failoverEnabled h
                                then (case triggerFailover io ''asterisk'' (put_status ''asterisk'' status h) of
                                        (h, Ret _) \<Rightarrow> (put_status ''asterisk'' (status\<lparr>ch_Stats := inc ''failovers'' (ch_Stats status)\<rparr>) h, Ret ())
                                      | (h, r) \<Rightarrow> (h, r))
                                else (put_status ''asterisk'' status h, Ret ())))))"

section \<open>RTPEngine, WebSocket backends, the stored status\<close>

definition checkRTPEngine :: "health_io \<Rightarrow> HealthMonitor \<Rightarrow> HealthMonitor \<times> (unit, unit) outcome" where
  "checkRTPEngine io h =
     (case component ''rtpengine'' h of
        None \<Rightarrow> (h, Panic NilDereference)
      | Some status \<Rightarrow>
          (let status = status\<lparr>ch_LastChecked := hk_now io\<rparr>
           in if hm_rtpManager h \<noteq> None
              then (put_status ''rtpengine'' (status\<lparr>ch_Status := StatusHealthy, ch_Message := ''RTPEngine manager available''\<rparr>) h, Ret ())
              else let h = put_status ''rtpengine'' (status\<lparr>ch_Status := StatusUnhealthy, ch_Message := ''RTPEngine manager not available''\<rparr>) h
                   in if hm_failoverEnabled h then triggerFailover io ''rtpengine'' h else (h, Ret ())))"

definition checkWebSocketBackends :: "health_io \<Rightarrow> HealthMonitor \<Rightarrow> HealthMonitor \<times> (unit, unit) outcome" where
  "checkWebSocketBackends io h =
     (case hm_wsServer h of
        None \<Rightarrow> (h, Ret ())
      | Some s \<Rightarrow>
          (case CheckBackendHealth (hk_exchange io) s of
             (s, Ret _) \<Rightarrow>
               (let h = h\<lparr>hm_wsServer := Some s\<rparr>;
                    status = (case component ''websocket_backends'' h of
                       Some status \<Rightarrow> status
                     | None \<Rightarrow> \<lparr>ch_Component = ''websocket_backends'', ch_Status = StatusUnhealthy, ch_LastChecked = 0,
                                 ch_Message = [], ch_Backends = [], ch_Stats = []\<rparr>);
                    status = status\<lparr>ch_LastChecked := hk_now io\<rparr>
                in (put_status ''websocket_backends''
                      (if HasHealthyBackends s
                       then status\<lparr>ch_Status := StatusHealthy, ch_Message := ''At least one WebSocket backend is healthy''\<rparr>
                       else status\<lparr>ch_Status := StatusUnhealthy, ch_Message := ''No healthy WebSocket backends available''\<rparr>) h, Ret ()))
           | (s, r) \<Rightarrow> (h\<lparr>hm_wsServer := Some s\<rparr>, r)))"

definition backend_json :: "(gotime \<Rightarrow> string) \<Rightarrow> BackendHealth \<Rightarrow> jval" where
  "backend_json rfc b = JObj [(''address'', JStr (bh_Address b)), (''status'', JStr (status_string (bh_Status b))),
     (''lastChecked'', JStr (rfc (bh_LastChecked b))), (''message'', JStr (bh_Message b)),
     (''failCount'', JNum (bh_FailCount b)), (''isActive'', JBool (bh_IsActive b))]"

definition component_json :: "(gotime \<Rightarrow> string) \<Rightarrow> ComponentHealth \<Rightarrow> jval" where
  "component_json rfc c = JObj
     ([(''component'', JStr (ch_Component c)), (''status'', JStr (status_string (ch_Status c))),
       (''lastChecked'', JStr (rfc (ch_LastChecked c))), (''message'', JStr (ch_Message c))] @
      (if ch_Backends c = [] then [] else [(''backends'', JArr (map (backend_json rfc) (ch_Backends c)))]) @
      (if ch_Stats c = [] then [] else [(''stats'', JObj (map (\<lambda>(k, n). (k, JNum n)) (ch_Stats c)))]))"

definition storeHealthStatus :: "health_io \<Rightarrow> HealthMonitor \<Rightarrow> HealthMonitor" where
  "storeHealthStatus io h =
     (case hm_storage h of
        None \<Rightarrow> h
      | Some st \<Rightarrow> h\<lparr>hm_storage := Some (fst (Set (hk_now io) ''health:status''
          (Some (Json (map (\<lambda>(name, c). (name, component_json (hk_rfc3339 io) c)) (hm_componentStatus h)))) 0 st))\<rparr>)"

section \<open>Rounds\<close>

text \<open>One call after the other; a panic ends the sequence.\<close>

definition and_then :: "('s \<Rightarrow> 's \<times> (unit, unit) outcome) \<Rightarrow> ('s \<Rightarrow> 's \<times> (unit, unit) outcome) \<Rightarrow> 's \<Rightarrow> 's \<times> (unit, unit) outcome" where
  "and_then f g s = (case f s of (s, Ret _) \<Rightarrow> g s | (s, r) \<Rightarrow> (s, r))"

definition check_ws_if_any :: "health_io \<Rightarrow> HealthMonitor \<Rightarrow> HealthMonitor \<times> (unit, unit) outcome" where
  "check_ws_if_any io h =
     (case hm_wsServer h of
        Some s \<Rightarrow> if HasBackends s then checkWebSocketBackends io h else (h, Ret ())
      | None \<Rightarrow> (h, Ret ()))"

definition checkAllComponents :: "health_io \<Rightarrow> HealthMonitor \<Rightarrow> HealthMonitor \<times> (unit, unit) outcome" where
  "checkAllComponents io =
     and_then (checkOpenSIPSBackends io)
       (and_then (checkAsterisk io)
          (and_then (checkRTPEngine io)
             (and_then (check_ws_if_any io) (\<lambda>h. (storeHealthStatus io h, Ret ())))))"

definition zero_component :: "string \<Rightarrow> BackendHealth list \<Rightarrow> ComponentHealth" where
  "zero_component name bs = \<lparr>ch_Component = name, ch_Status = StatusUnhealthy, ch_LastChecked = 0, ch_Message = [],
     ch_Backends = bs, ch_Stats = [(''success'', 0), (''failure'', 0), (''failovers'', 0)]\<rparr>"

text \<open>The backends \<open>Start\<close> lists for Asterisk: the first one with the address of the active client is active.\<close>

definition start_ami_backends :: "AMI_Mgr option \<Rightarrow> (unit, BackendHealth list) outcome" where
  "start_ami_backends amiManager =
     (case amiManager of
        None \<Rightarrow> Ret []
      | Some m \<Rightarrow>
          if am_clients m = [] then Ret []
          else (case GetActiveClient m of
             None \<Rightarrow> Panic IndexOutOfRange
           | Some a \<Rightarrow>
               (let addrs = map GetAddress (am_clients m); first = length (takeWhile (\<lambda>x. x \<noteq> GetAddress (am_clients m ! a)) addrs)
                in Ret (map (\<lambda>i. fresh_backend (addrs ! i) (i = first)) [0..<length addrs]))))"

definition init_components :: "HealthMonitor \<Rightarrow> HealthMonitor \<times> (unit, unit) outcome" where
  "init_components h =
     (let bs = map (\<lambda>i. fresh_backend (hm_opensipsBackends h ! i) (i = 0)) [0..<length (hm_opensipsBackends h)];
          h = put_status ''opensips'' (zero_component ''opensips'' bs) h
      in case start_ami_backends (hm_amiManager h) of
           Ret bs \<Rightarrow> (put_status ''rtpengine'' (zero_component ''rtpengine'' [])
             (put_status ''asterisk'' (zero_component ''asterisk'' bs) h), Ret ())
         | Fail e \<Rightarrow> (h, Fail e)
         | Panic p \<Rightarrow> (h, Panic p)
         | Blocked \<Rightarrow> (h, Blocked))"

definition Health_Start :: "health_io \<Rightarrow> HealthMonitor \<Rightarrow> HealthMonitor \<times> (unit, unit) outcome" where
  "Health_Start io = and_then init_components (checkAllComponents io)"

definition Health_Stop :: "HealthMonitor \<Rightarrow> HealthMonitor \<times> (unit, unit) outcome" where
  "Health_Stop h = (if hm_stopped h then (h, Panic CloseOfClosedChannel) else (h\<lparr>hm_stopped := True\<rparr>, Ret ()))"

text \<open>
  The rounds of \<open>monitorLoop\<close>, one per tick, until a panic. What the other goroutines do to the
  AMI manager and to the WebSocket server between two rounds is the argument \<open>between\<close>.
\<close>

fun health_rounds :: "(health_io \<times> (AMI_Mgr \<Rightarrow> AMI_Mgr) \<times> (Server \<Rightarrow> Server)) list \<Rightarrow> HealthMonitor \<Rightarrow> HealthMonitor \<times> (unit, unit) outcome" where
  "health_rounds [] h = (h, Ret ())"
| "health_rounds ((io, ami, ws) # rounds) h =
     and_then (checkAllComponents io) (health_rounds rounds)
       (h\<lparr>hm_amiManager := map_option ami (hm_amiManager h), hm_wsServer := map_option ws (hm_wsServer h)\<rparr>)"

end
