(* ===== verification/Status_API.thy ===== *)
theory Status_API
  imports Health_Monitor Coordinator_Model
begin

text \<open>
  The status endpoint (\<open>api/status.go\<close>). An \<open>interface{}\<close> value keeps its dynamic type, which is
  what a type assertion looks at.
\<close>

section \<open>Values and requests\<close>

datatype any_value =
    AnyNil
  | AnyComponent ComponentHealth
  | AnyStats StorageStats
  | AnyString string
  | AnyBool bool
  | AnyInt int
  | AnyMap "(string \<times> any_value) list"

text \<open>The type assertion \<open>v.(map[string]interface{})\<close>; failing, it panics.\<close>

fun as_any_map :: "any_value \<Rightarrow> (string \<times> any_value) list option" where
  "as_any_map (AnyMap m) = Some m"
| "as_any_map _ = None"

record StatusHandler =
  sh_amiManager :: "AMI_Mgr option"
  sh_rtpManager :: "Manager option"
  sh_wsServer :: "Server option"
  sh_coordinator :: "Coordinator option"
  sh_healthMonitor :: "HealthMonitor option"
  sh_storage :: "MemoryStorage option"
  sh_nodeID :: string
  sh_version :: string
  sh_startTime :: gotime

definition NewStatusHandler :: "gotime \<Rightarrow> AMI_Mgr option \<Rightarrow> Manager option \<Rightarrow> Server option \<Rightarrow> Coordinator option \<Rightarrow>
    HealthMonitor option \<Rightarrow> MemoryStorage option \<Rightarrow> string \<Rightarrow> string \<Rightarrow> StatusHandler" where
  "NewStatusHandler now amiManager rtpManager wsServer coordinator healthMonitor storage nodeID version =
     \<lparr>sh_amiManager = amiManager, sh_rtpManager = rtpManager, sh_wsServer = wsServer, sh_coordinator = coordinator,
      sh_healthMonitor = healthMonitor, sh_storage = storage, sh_nodeID = nodeID, sh_version = version, sh_startTime = now\<rparr>"

text \<open>What the operating system and the run-time system say during one request.\<close>

record status_env =
  se_now :: gotime
  se_hostname :: string
  se_uptime :: "duration \<Rightarrow> string"
  se_rfc3339 :: "gotime \<Rightarrow> string"
  se_systemInfo :: "(string \<times> any_value) list"

record SystemStatus =
  ss_Status :: string
  ss_NodeID :: string
  ss_Hostname :: string
  ss_Version :: string
  ss_UpTime :: string
  ss_UpTimeSeconds :: int
  ss_Timestamp :: string
  ss_IsLeader :: bool
  ss_Components :: "(string \<times> any_value) list"
  ss_AMI :: any_value
  ss_RTPEngine :: any_value
  ss_WebSocket :: any_value
  ss_Storage :: any_value
  ss_SystemInfo :: "(string \<times> any_value) list"
  ss_FailoverEvents :: "any_value list"
  ss_ActiveConnections :: int

section \<open>getStatus\<close>

definition component_values :: "StatusHandler \<Rightarrow> (string \<times> any_value) list" where
  "component_values h =
     (case sh_healthMonitor h of
        None \<Rightarrow> []
      | Some hm \<Rightarrow> map (\<lambda>(name, c). (name, AnyComponent c)) (GetAllComponentHealth hm))"

text \<open>The loop over the components; \<open>None\<close> is the panic of the type assertion.\<close>

fun overall :: "(string \<times> any_value) list \<Rightarrow> string option" where
  "overall [] = Some ''healthy''"
| "overall ((name, v) # rest) =
     (case as_any_map v of
        None \<Rightarrow> None
      | Some m \<Rightarrow> if map_of m ''status'' = Some (AnyString ''unhealthy'') then Some ''unhealthy'' else overall rest)"

definition shown :: "string \<Rightarrow> string \<Rightarrow> 'a option \<Rightarrow> ('a \<Rightarrow> any_value) \<Rightarrow> any_value" where
  "shown requested name x f = (if requested = [] \<or> requested = name then (case x of Some a \<Rightarrow> f a | None \<Rightarrow> AnyNil) else AnyNil)"

definition getStatus :: "status_env \<Rightarrow> string \<Rightarrow> StatusHandler \<Rightarrow> (unit, SystemStatus) outcome" where
  "getStatus env requested h =
     (case overall (component_values h) of
        None \<Rightarrow> Panic TypeAssertion
      | Some status \<Rightarrow> Ret
          \<lparr>ss_Status = status, ss_NodeID = sh_nodeID h, ss_Hostname = se_hostname env, ss_Version = sh_version h,
           ss_UpTime = se_uptime env (se_now env - sh_startTime h), ss_UpTimeSeconds = (se_now env - sh_startTime h) div Second,
           ss_Timestamp = se_rfc3339 env (se_now env),
           ss_IsLeader = (case sh_coordinator h of Some c \<Rightarrow> IsLeader (se_now env) None c | None \<Rightarrow> False),
           ss_Components = component_values h,
           ss_AMI = shown requested ''ami'' (sh_amiManager h) (\<lambda>_. AnyMap [(''status'', AnyString ''OK''), (''clients_connected'', AnyBool True)]),
           ss_RTPEngine = shown requested ''rtpengine'' (sh_rtpManager h) (\<lambda>_. AnyMap [(''status'', AnyString ''OK''), (''active_calls'', AnyInt 0)]),
           ss_WebSocket = shown requested ''websocket'' (sh_wsServer h) (\<lambda>_. AnyMap [(''status'', AnyString ''OK''), (''connections'', AnyInt 0)]),
           ss_Storage = shown requested ''storage'' (sh_storage h) (\<lambda>st. AnyStats (Stats st)),
           ss_SystemInfo = se_systemInfo env, ss_FailoverEvents = [], ss_ActiveConnections = 0\<rparr>)"

section \<open>The handlers\<close>

record status_response =
  sr_code :: int
  sr_contentType :: string
  sr_pretty :: bool
  sr_body :: SystemStatus

definition ServeHTTP :: "status_env \<Rightarrow> (string \<times> string) list \<Rightarrow> StatusHandler \<Rightarrow> (unit, status_response) outcome" where
  "ServeHTTP env query h =
     (let get = (\<lambda>k. case map_of query k of Some v \<Rightarrow> v | None \<Rightarrow> [])
      in map_outcome id (\<lambda>status. \<lparr>sr_code = (if ss_Status status = ''healthy'' then 200 else 503), sr_contentType = ''application/json'',
            sr_pretty = (get ''format'' = ''pretty''), sr_body = status\<rparr>) (getStatus env (get ''component'') h))"

definition health_endpoint :: "status_env \<Rightarrow> StatusHandler \<Rightarrow> (unit, int \<times> string) outcome" where
  "health_endpoint env h =
     map_outcome id (\<lambda>status. if ss_Status status = ''healthy'' then (200, ''OK'') else (503, ''Service Unavailable'')) (getStatus env [] h)"

section \<open>What the endpoints answer\<close>

lemma overall_components: "overall (component_values h) = (if component_values h = [] then Some ''healthy'' else None)"
  by (cases "component_values h")
    (auto simp: component_values_def GetAllComponentHealth_def split: option.splits)

text \<open>
  Both endpoints panic exactly when there is a health monitor with the status of some component,
  since a \<open>*ComponentHealth\<close> is no map; in every other case they answer 200, whatever the state of the
  components is. Neither ever answers 503.
\<close>

lemma status_endpoints_answer:
  "if \<exists>hm. sh_healthMonitor h = Some hm \<and> GetAllComponentHealth hm \<noteq> []
   then ServeHTTP env query h = Panic TypeAssertion \<and> health_endpoint env h = Panic TypeAssertion
   else (\<exists>r. ServeHTTP env query h = Ret r \<and> sr_code r = 200) \<and> health_endpoint env h = Ret (200, ''OK'')"
proof -
  have "(\<exists>hm. sh_healthMonitor h = Some hm \<and> GetAllComponentHealth hm \<noteq> []) \<longleftrightarrow> component_values h \<noteq> []"
    by (auto simp: component_values_def split: option.split)
  then show ?thesis by (simp add: ServeHTTP_def health_endpoint_def getStatus_def overall_components Let_def)
qed

end
