(* ===== verification/Gateway_Main.thy ===== *)
theory Gateway_Main
  imports Gateway_Config AMI_Proxy Persistence Status_API
begin

text \<open>
  The program itself (\<open>cmd/gateway/main.go\<close>): how the components are configured, created, started
  and stopped. A \<open>logger.Fatal\<close> ends the program and is an error here. Every component keeps its
  own record of the storage it was given, as it was then.
\<close>

section \<open>Inputs and result\<close>

record main_io =
  mi_now :: gotime
  mi_diskio :: disk_io
  mi_disk :: disk
  mi_hostname :: "string option"
  mi_addrs :: "if_addr list option"
  mi_resolves :: "string \<Rightarrow> bool"
  mi_sipgo :: bool
  mi_udp :: "string \<Rightarrow> bool"
  mi_connect :: conn_io
  mi_expired :: "nat \<Rightarrow> bool"
  mi_listen :: "string \<Rightarrow> bool"
  mi_version :: string

record Gateway =
  gw_storage :: MemoryStorage
  gw_coordinator :: Coordinator
  gw_rtpManager :: "Manager option"
  gw_amiManager :: "AMI_Mgr option"
  gw_amiProxy :: "AMIProxyServer option"
  gw_sipProxy :: "Proxy option"
  gw_udpTransport :: "string option"
  gw_wsServer :: "Server option"
  gw_status :: "StatusHandler option"

datatype main_error =
    FatalConfig config_error
  | FatalCoordinator coord_error
  | FatalRTP mgr_error
  | FatalAMI ami_mgr_error
  | FatalSIP
  | FatalUDP

fun bind_outcome :: "('e, 'a) outcome \<Rightarrow> ('a \<Rightarrow> ('e, 'b) outcome) \<Rightarrow> ('e, 'b) outcome" where
  "bind_outcome (Ret a) f = f a"
| "bind_outcome (Fail e) f = Fail e"
| "bind_outcome (Panic p) f = Panic p"
| "bind_outcome Blocked f = Blocked"

lemma bind_outcome_Ret: "bind_outcome r f = Ret b \<longleftrightarrow> (\<exists>a. r = Ret a \<and> f a = Ret b)"
  by (cases r) auto

lemma map_outcome_Ret: "map_outcome f g r = Ret b \<longleftrightarrow> (\<exists>a. r = Ret a \<and> g a = b)"
  by (cases r) auto

lemmas outcome_Ret = bind_outcome_Ret map_outcome_Ret

section \<open>The configurations that main passes on\<close>

definition nodeID_of :: "string option \<Rightarrow> Config \<Rightarrow> string" where
  "nodeID_of hostname c = (if ha_NodeID (cf_HighAvailability c) = [] then (case hostname of Some h \<Rightarrow> h | None \<Rightarrow> [])
     else ha_NodeID (cf_HighAvailability c))"

text \<open>\<open>PersistOnShutdown\<close> and \<open>ShardCount\<close> are not set and keep their zero values.\<close>

definition main_storage_config :: "Config \<Rightarrow> MemoryConfig" where
  "main_storage_config c = \<lparr>mc_MaxKeys = my_MaxKeys (cf_MemoryStorage c),
     mc_CleanupInterval = my_CleanupIntervalSeconds (cf_MemoryStorage c) * Second,
     mc_PersistPath = my_PersistPath (cf_MemoryStorage c), mc_PersistOnShutdown = False, mc_ShardCount = 0\<rparr>"

definition main_coordinator_config :: "Config \<Rightarrow> CoordinatorConfig" where
  "main_coordinator_config c = \<lparr>cc_HeartbeatInterval = GetHeartbeatInterval c, cc_LeaseTimeout = GetLeaseTimeout c\<rparr>"

definition main_sip_config :: "Config \<Rightarrow> SIPConfig" where
  "main_sip_config c = \<lparr>sc_DisableUDPSIPProcessing = sy_DisableUDPSIPProcessing (cf_SIP c),
     sc_DisableWSSIPProcessing = sy_DisableWSSIPProcessing (cf_SIP c)\<rparr>"

definition main_ws_config :: "Config \<Rightarrow> ServerConfig" where
  "main_ws_config c = (let w = cf_WebSocket c in
     \<lparr>wc_BindAddr = wy_BindAddr w, wc_MaxConnections = wy_MaxConnections w, wc_ReadTimeout = GetWebSocketReadTimeout c,
      wc_WriteTimeout = GetWebSocketWriteTimeout c, wc_IdleTimeout = GetWebSocketIdleTimeout c, wc_ServerName = wy_ServerName w,
      wc_BackendServers = wy_BackendServers w, wc_FailoverThreshold = wy_FailoverThreshold w,
      wc_DisableWSSIPProcessing = wy_DisableWSSIPProcessing w\<rparr>)"

section \<open>Creating the components\<close>

text \<open>A service runs unless testing mode is on and leaves it out.\<close>

definition service :: "(ServiceTestConfig \<Rightarrow> bool) \<Rightarrow> Config \<Rightarrow> bool" where
  "service flag c \<longleftrightarrow> \<not> tc_Enabled (cf_TestingMode c) \<or> flag (cf_TestingMode c)"

definition create_coordinator :: "main_io \<Rightarrow> Config \<Rightarrow> MemoryStorage \<Rightarrow> (main_error, Coordinator \<times> MemoryStorage) outcome" where
  "create_coordinator io c st =
     bind_outcome (map_outcome FatalCoordinator id (NewCoordinator (mi_now io) (mi_hostname io) False (main_coordinator_config c)))
       (\<lambda>co. case Coordinator_Start (mi_now io) (mi_addrs io) co st of (co, st, r) \<Rightarrow>
          map_outcome FatalCoordinator
            (\<lambda>_. (fold RegisterComponentLeadership [''rtpengine'', ''ami'', ''sip'', ''websocket''] co, st)) r)"

definition create_rtp :: "main_io \<Rightarrow> Config \<Rightarrow> MemoryStorage \<Rightarrow> (main_error, Manager option) outcome" where
  "create_rtp io c st =
     (if service tc_EnableRTP c
      then map_outcome FatalRTP Some (NewManager (mi_now io) (mi_resolves io) (ToRTPEngineManagerConfig c) (Some st))
      else Ret (case NewManager (mi_now io) (mi_resolves io) [] (Some st) of Ret m \<Rightarrow> Some m | _ \<Rightarrow> None))"

text \<open>\<open>ami.NewManager\<close> also creates the AMI proxy; that it cannot is not fatal.\<close>

definition create_ami_proxy :: "main_io \<Rightarrow> ami_ManagerConfig \<Rightarrow> ('e, AMIProxyServer option) outcome" where
  "create_ami_proxy io mc =
     (if mgc_EnableHAProxy mc \<and> mgc_OriginalAddresses mc \<noteq> []
      then (case NewProxyServer (mi_now io) (mi_connect io) (mi_listen io) (mgc_OriginalAddresses mc) (mgc_Clients mc) of
              Ret s \<Rightarrow> Ret (Some s) | Fail e \<Rightarrow> Ret None | Panic p \<Rightarrow> Panic p | Blocked \<Rightarrow> Blocked)
      else Ret None)"

definition create_ami :: "main_io \<Rightarrow> Config \<Rightarrow> MemoryStorage \<Rightarrow> (main_error, AMI_Mgr option \<times> AMIProxyServer option) outcome" where
  "create_ami io c st =
     (if service tc_EnableAMI c
      then let mc = ToAsteriskManagerConfig c
           in bind_outcome (map_outcome FatalAMI id
                  (AMI_NewManager (mi_now io) (mgc_Clients mc) (mgc_MaxRetries mc) (mgc_RetryDelay mc) (Some st)))
                (\<lambda>m. map_outcome id (\<lambda>p. (Some m, p)) (create_ami_proxy io mc))
      else Ret (case AMI_NewManager (mi_now io) [] 0 0 (Some st) of Ret m \<Rightarrow> Some m | _ \<Rightarrow> None, None))"

definition create_sip :: "main_io \<Rightarrow> Config \<Rightarrow> (main_error, Proxy option \<times> string option) outcome" where
  "create_sip io c =
     (if service tc_EnableSIP c
      then if \<not> mi_sipgo io then Fail FatalSIP
           else if \<not> mi_udp io (sy_UDPBindAddr (cf_SIP c)) then Fail FatalUDP
           else Ret (Some (NewProxy (main_sip_config c) (sy_DefaultNextHop (cf_SIP c))), Some (sy_UDPBindAddr (cf_SIP c)))
      else Ret (if mi_sipgo io then Some (NewProxy \<lparr>sc_DisableUDPSIPProcessing = False, sc_DisableWSSIPProcessing = False\<rparr> []) else None, None))"

definition create_ws :: "main_io \<Rightarrow> Config \<Rightarrow> MemoryStorage \<Rightarrow> Proxy option \<Rightarrow> Server option" where
  "create_ws io c st sip =
     (if service tc_EnableWebSocket c
      then let s = NewServer (mi_now io) (main_ws_config c) st
           in Some (case sip of Some p \<Rightarrow> SetSIPHandler p s | None \<Rightarrow> s)
      else None)"

text \<open>\<open>main\<close> up to the start of the services: no health monitor is made.\<close>

definition main_create :: "main_io \<Rightarrow> Config \<Rightarrow> (main_error, Gateway) outcome" where
  "main_create io c =
     bind_outcome (create_coordinator io c (NewMemoryStorage (mi_now io) (mi_diskio io) (mi_disk io) (main_storage_config c))) (\<lambda>(co, st).
     bind_outcome (create_rtp io c st) (\<lambda>rtp.
     bind_outcome (create_ami io c st) (\<lambda>(ami, proxy).
     bind_outcome (create_sip io c) (\<lambda>(sip, udp).
       let ws = create_ws io c st sip
       in Ret \<lparr>gw_storage = st, gw_coordinator = co, gw_rtpManager = rtp, gw_amiManager = ami, gw_amiProxy = proxy,
               gw_sipProxy = sip, gw_udpTransport = udp, gw_wsServer = ws,
               gw_status = map_option (\<lambda>s. NewStatusHandler (mi_now io) ami rtp (Some s) (Some co) None (Some st)
                 (nodeID_of (mi_hostname io) c) (mi_version io)) ws\<rparr>))))"

text \<open>The services that have something to do when they start: the AMI manager connects, its proxy listens.\<close>

definition main_start :: "main_io \<Rightarrow> Config \<Rightarrow> Gateway \<Rightarrow> (main_error, Gateway) outcome" where
  "main_start io c g =
     (case gw_amiManager g of
        Some m \<Rightarrow>
          (if service tc_EnableAMI c
           then (case AMI_Start (mi_connect io) (mi_expired io) m of
                   (m, Panic p) \<Rightarrow> Panic p
                 | (m, Blocked) \<Rightarrow> Blocked
                 | (m, _) \<Rightarrow> Ret (g\<lparr>gw_amiManager := Some m, gw_amiProxy := map_option Proxy_Start (gw_amiProxy g)\<rparr>))
           else Ret g)
      | None \<Rightarrow> Ret g)"

definition main_run :: "main_io \<Rightarrow> (string \<Rightarrow> string option) \<Rightarrow> (string \<Rightarrow> Config option) \<Rightarrow> string \<Rightarrow> (main_error, Gateway) outcome" where
  "main_run io read yaml path =
     bind_outcome (map_outcome FatalConfig id (LoadConfig read yaml path))
       (\<lambda>c. bind_outcome (main_create io c) (main_start io c))"

section \<open>Shutting down\<close>

text \<open>
  After the signal: WebSocket server, SIP proxy (nothing), AMI manager, RTPEngine manager, and the
  deferred \<open>Stop\<close> of the coordinator, on the storage as it is then. \<open>Close\<close> of the storage is not called.
\<close>

definition main_shutdown :: "gotime \<Rightarrow> bool \<Rightarrow> Gateway \<Rightarrow> Gateway \<times> (main_error, unit) outcome" where
  "main_shutdown now goroutines_exit g =
     (let g = g\<lparr>gw_wsServer := map_option closeAllConnections (gw_wsServer g)\<rparr>;
          (ami, r) = (case gw_amiManager g of
             None \<Rightarrow> (None, Ret ())
           | Some m \<Rightarrow> (case Manager_Shutdown m of (m, Panic p) \<Rightarrow> (Some m, Panic p) | (m, _) \<Rightarrow> (Some m, Ret ())));
          g = g\<lparr>gw_amiManager := ami\<rparr>;
          g = (if r = Ret () then g\<lparr>gw_rtpManager := map_option RTP_Stop (gw_rtpManager g)\<rparr> else g);
          (co, st, r') = Coordinator_Stop now goroutines_exit (gw_coordinator g) (gw_storage g)
      in (g\<lparr>gw_coordinator := co, gw_storage := st\<rparr>, r))"

end
