(* ===== verification/Health_Safety.thy ===== *)
theory Health_Safety
  imports Health_Monitor
begin

text \<open>
  Properties of the health monitor: which OpenSIPS backend is active after a check, what the
  failover history records over any number of rounds, which answers make a check panic, and what
  the status of Asterisk says after its connection is lost.
\<close>

section \<open>Frames\<close>

lemma component_put [simp]: "component n (put_status k s h) = (if n = k then Some s else component n h)"
  by (simp add: component_def put_status_def update_conv')

lemma put_status_fields [simp]:
  "hm_amiManager (put_status n s h) = hm_amiManager h" "hm_rtpManager (put_status n s h) = hm_rtpManager h"
  "hm_wsServer (put_status n s h) = hm_wsServer h" "hm_storage (put_status n s h) = hm_storage h"
  "hm_opensipsBackends (put_status n s h) = hm_opensipsBackends h" "hm_failoverEnabled (put_status n s h) = hm_failoverEnabled h"
  "hm_failureThreshold (put_status n s h) = hm_failureThreshold h" "hm_failoverHistory (put_status n s h) = hm_failoverHistory h"
  by (simp_all add: put_status_def)

lemma component_fields [simp]:
  "component n (hm_amiManager_update f h) = component n h" "component n (hm_wsServer_update g h) = component n h"
  "component n (hm_storage_update k h) = component n h" "component n (hm_failoverHistory_update l h) = component n h"
  by (simp_all add: component_def)

lemma add_event_fields [simp]:
  "component n (add_event k e h) = component n h" "hm_amiManager (add_event k e h) = hm_amiManager h"
  "hm_opensipsBackends (add_event k e h) = hm_opensipsBackends h" "hm_wsServer (add_event k e h) = hm_wsServer h"
  "hm_failoverEnabled (add_event k e h) = hm_failoverEnabled h" "hm_failureThreshold (add_event k e h) = hm_failureThreshold h"
  "hm_rtpManager (add_event k e h) = hm_rtpManager h" "hm_storage (add_event k e h) = hm_storage h"
  by (simp_all add: add_event_def)

text \<open>The events of OpenSIPS, none when the map has no entry yet.\<close>

definition opensips_events :: "HealthMonitor \<Rightarrow> FailoverEvent list" where
  "opensips_events h = (case GetFailoverHistory ''opensips'' h of Some es \<Rightarrow> es | None \<Rightarrow> [])"

lemma opensips_events_add [simp]: "opensips_events (add_event ''opensips'' e h) = opensips_events h @ [e]"
  by (simp add: opensips_events_def add_event_def GetFailoverHistory_def update_conv')

lemma opensips_events_frame [simp]:
  "opensips_events (put_status n s h) = opensips_events h" "opensips_events (hm_wsServer_update f h) = opensips_events h"
  "opensips_events (hm_amiManager_update g h) = opensips_events h" "opensips_events (hm_storage_update k h) = opensips_events h"
  by (simp_all add: opensips_events_def GetFailoverHistory_def)

definition stat :: "string \<Rightarrow> ComponentHealth \<Rightarrow> int" where
  "stat key c = (case map_of (ch_Stats c) key of Some n \<Rightarrow> n | None \<Rightarrow> 0)"

lemma stat_inc: "(case map_of (inc k stats) key of Some n \<Rightarrow> n | None \<Rightarrow> 0) =
    (case map_of stats key of Some n \<Rightarrow> n | None \<Rightarrow> 0) + (if key = k then 1 else (0 :: int))"
  by (simp add: inc_def update_conv')

section \<open>Results and the active backend\<close>

lemma count_healthy_pos: "0 < count_healthy results \<longleftrightarrow> True \<in> set results"
  by (auto simp: count_healthy_def filter_empty_conv)

lemma find_upt_Some: "List.find P [0..<n] = Some i \<longleftrightarrow> i < n \<and> P i \<and> (\<forall>j<i. \<not> P j)"
  by (auto simp: find_Some_iff)

lemma find_upt_None: "List.find P [0..<n] = None \<longleftrightarrow> (\<forall>i<n. \<not> P i)"
  by (auto simp: find_None_iff)

definition only_active :: "nat \<Rightarrow> BackendHealth list \<Rightarrow> bool" where
  "only_active a bs \<longleftrightarrow> a < length bs \<and> (\<forall>i<length bs. bh_IsActive (bs ! i) \<longleftrightarrow> i = a)"

lemma active_backend_only: "only_active a bs \<Longrightarrow> opensips_active bs = Some a"
  by (auto simp: opensips_active_def find_upt_Some only_active_def)

lemma only_active_set [simp]: "only_active a (set_active n bs) \<longleftrightarrow> a = n \<and> n < length bs"
  by (auto simp: only_active_def set_active_def)

lemma mark_backend_fields [simp]:
  "bh_IsActive (mark_backend now t r b) = bh_IsActive b" "bh_Address (mark_backend now t r b) = bh_Address b"
  by (simp_all add: mark_backend_def Let_def)

text \<open>What the active backend becomes, as a specification over the results of one check.\<close>

definition next_active :: "bool \<Rightarrow> bool list \<Rightarrow> nat \<Rightarrow> nat" where
  "next_active enabled results a =
     (if \<not> enabled \<or> results ! a \<or> True \<notin> set results then a else length (takeWhile Not results))"

lemma first_True: "True \<in> set xs \<Longrightarrow> length (takeWhile Not xs) < length xs \<and> xs ! length (takeWhile Not xs) \<and>
    (\<forall>j<length (takeWhile Not xs). \<not> xs ! j)"
proof (intro conjI allI impI)
  assume "True \<in> set xs"
  then show *: "length (takeWhile Not xs) < length xs"
    by (metis (mono_tags) length_takeWhile_le le_neq_implies_less takeWhile_eq_all_conv takeWhile_eq_take take_all order_refl)
  then show "xs ! length (takeWhile Not xs)" using nth_length_takeWhile by blast
  fix j assume "j < length (takeWhile Not xs)"
  then show "\<not> xs ! j" using nth_mem [of j "takeWhile Not xs"] set_takeWhileD takeWhile_nth by metis
qed

lemma opensips_target_next:
  assumes "a < length results"
  shows "opensips_target enabled a results =
     (if next_active enabled results a = a then None else Some (next_active enabled results a))"
proof -
  let ?f = "length (takeWhile Not results)"
  have "List.find (\<lambda>i. results ! i \<and> i \<noteq> a) [0..<length results] = Some ?f" and "?f \<noteq> a"
    if "True \<in> set results" and "\<not> results ! a"
    using first_True [OF that(1)] that(2) by (auto simp: find_upt_Some)
  then show ?thesis
    using assms by (simp add: opensips_target_def next_active_def count_healthy_pos)
qed

lemma next_active_less: "a < length results \<Longrightarrow> next_active enabled results a < length results"
  using first_True by (simp add: next_active_def)

section \<open>The answers to the probes\<close>

definition answers_ok :: "string \<Rightarrow> bool" where
  "answers_ok r \<longleftrightarrow> sublist ''SIP/2.0 200'' r \<or> sublist ''SIP/2.0 405'' r \<or> sublist ''SIP/2.0 403'' r"

definition too_short :: "string \<Rightarrow> bool" where
  "too_short r \<longleftrightarrow> length r < (if answers_ok r then 15 else 100)"

text \<open>What the check reads from backend \<open>i\<close>.\<close>

definition opensips_reply :: "health_io \<Rightarrow> string \<Rightarrow> nat \<Rightarrow> string option" where
  "opensips_reply io addr i = map_option (take 4096)
     (hk_probe io i (host_part addr @ '':6060'') (buildSipOptionsMessage (hk_now io) (host_part addr)))"

lemma checkSingle_reply:
  "checkSingleOpenSIPSBackend io i addr =
     (case opensips_reply io addr i of
        None \<Rightarrow> Ret False
      | Some r \<Rightarrow> if too_short r then Panic IndexOutOfRange else Ret (answers_ok r))"
  by (auto simp: checkSingleOpenSIPSBackend_def opensips_reply_def too_short_def answers_ok_def Let_def split: option.split)

definition reply_kills :: "health_io \<Rightarrow> string \<Rightarrow> nat \<Rightarrow> bool" where
  "reply_kills io addr i \<longleftrightarrow> (\<exists>r. opensips_reply io addr i = Some r \<and> too_short r)"

definition probe_healthy :: "health_io \<Rightarrow> string \<Rightarrow> nat \<Rightarrow> bool" where
  "probe_healthy io addr i \<longleftrightarrow> (\<exists>r. opensips_reply io addr i = Some r \<and> answers_ok r)"

lemma checkSingle_outcome:
  "checkSingleOpenSIPSBackend io i addr = (if reply_kills io addr i then Panic IndexOutOfRange else Ret (probe_healthy io addr i))"
  by (auto simp: checkSingle_reply reply_kills_def probe_healthy_def split: option.split)

lemma probe_all_outcome:
  "probe_all io k addrs =
     (if \<exists>i<length addrs. reply_kills io (addrs ! i) (k + i) then Panic IndexOutOfRange
      else Ret (map (\<lambda>i. probe_healthy io (addrs ! i) (k + i)) [0..<length addrs]))"
proof (induction addrs arbitrary: k)
  case (Cons a addrs)
  have "[0..<length (a # addrs)] = 0 # map Suc [0..<length addrs]"
    by (simp add: map_Suc_upt upt_conv_Cons del: upt_Suc)
  moreover have "(\<exists>i<length (a # addrs). reply_kills io ((a # addrs) ! i) (k + i)) \<longleftrightarrow>
      reply_kills io a k \<or> (\<exists>i<length addrs. reply_kills io (addrs ! i) (Suc k + i))"
    by (auto simp: less_Suc_eq_0_disj)
  ultimately show ?case by (simp add: Cons.IH checkSingle_outcome comp_def)
qed simp

section \<open>One check\<close>

text \<open>A run of failover events that leads from one address to another.\<close>

fun chained :: "string \<Rightarrow> FailoverEvent list \<Rightarrow> string \<Rightarrow> bool" where
  "chained x [] y \<longleftrightarrow> x = y"
| "chained x (e # es) y \<longleftrightarrow> fe_FromBackend e = x \<and> chained (fe_ToBackend e) es y"

lemma chained_snoc: "chained x (es @ [e]) y \<longleftrightarrow> chained x es (fe_FromBackend e) \<and> fe_ToBackend e = y"
  by (induction es arbitrary: x) auto

text \<open>The state of OpenSIPS after \<open>n\<close> checks, with backend \<open>a\<close> active.\<close>

definition opensips_inv :: "int \<Rightarrow> nat \<Rightarrow> HealthMonitor \<Rightarrow> bool" where
  "opensips_inv n a h \<longleftrightarrow>
     (\<exists>c. component ''opensips'' h = Some c \<and> map bh_Address (ch_Backends c) = hm_opensipsBackends h \<and>
        only_active a (ch_Backends c) \<and> chained (hd (hm_opensipsBackends h)) (opensips_events h) (hm_opensipsBackends h ! a) \<and>
        stat ''failovers'' c = int (length (opensips_events h)) \<and> stat ''total_checks'' c = n \<and>
        stat ''success'' c + stat ''failure'' c = n)"

lemma overall_status_fields [simp]:
  "ch_Backends (overall_status now results c) = ch_Backends c" "ch_Stats (overall_status now results c) = ch_Stats c"
  by (simp_all add: overall_status_def Let_def)

lemma stat_overall [simp]: "stat k (overall_status now results c) = stat k c"
  by (simp add: stat_def)

lemma stat_opensips:
  "stat k (c\<lparr>ch_Stats := opensips_stats results s\<rparr>) = stat k (c\<lparr>ch_Stats := s\<rparr>) + (if k = ''total_checks'' then 1 else 0) +
     (if k = (if 0 < count_healthy results then ''success'' else ''failure'') then 1 else 0)"
  unfolding stat_def opensips_stats_def by (auto simp: stat_inc)

lemma stat_failovers: "stat k (c\<lparr>ch_Backends := bs, ch_Stats := inc ''failovers'' s\<rparr>) =
    stat k (c\<lparr>ch_Stats := s\<rparr>) + (if k = ''failovers'' then 1 else 0)"
  by (simp add: stat_def stat_inc)

lemma set_active_address [simp]: "map bh_Address (set_active n bs) = map bh_Address bs"
  by (rule nth_equalityI) (simp_all add: set_active_def)

text \<open>\<open>hm_opensipsBackends\<close> and the switch for failovers are configuration: nothing changes them.\<close>

lemma trigger_opensips:
  "triggerFailover io ''opensips'' h =
     (h\<lparr>hm_wsServer := map_option (PrepareForFailover (hk_notify io) (hk_now io)) (hm_wsServer h)\<rparr>, Ret ())"
  by (simp add: triggerFailover_def)

lemma process_results_inv:
  assumes "length results = length (hm_opensipsBackends h)" and "map bh_Address (ch_Backends c) = hm_opensipsBackends h"
    and "only_active a (ch_Backends c)" and "chained (hd (hm_opensipsBackends h)) (opensips_events h) (hm_opensipsBackends h ! a)"
    and "stat ''failovers'' c = int (length (opensips_events h))" and "stat ''total_checks'' c = n"
    and "stat ''success'' c + stat ''failure'' c = n"
  shows "snd (process_results io a results c h) = Ret () \<and>
    opensips_inv (n + 1) (next_active (hm_failoverEnabled h) results a) (fst (process_results io a results c h))"
proof -
  let ?a = "next_active (hm_failoverEnabled h) results a"
  have len: "length (ch_Backends c) = length results" using assms(1) arg_cong [OF assms(2), of length] by simp
  have a: "a < length results" using assms(3) len by (simp add: only_active_def)
  have a': "?a < length (ch_Backends c)" using next_active_less [OF a] len by simp
  have old: "slice_get (hm_opensipsBackends h) (int a) = Some (hm_opensipsBackends h ! a)"
    using a assms(1) by (simp add: slice_get_def)
  have "c\<lparr>ch_Stats := ch_Stats c\<rparr> = c" by simp
  then show ?thesis
    using assms a' old
    by (auto simp: process_results_def Let_def opensips_target_next [OF a] trigger_opensips opensips_inv_def chained_snoc
      stat_opensips stat_failovers)
qed

lemma marked_backends:
  fixes now :: gotime and t :: int
  assumes "only_active a bs" and "length results = length bs"
  defines "bs' \<equiv> map2 (mark_backend now t) results (bs[a := (bs ! a)\<lparr>bh_IsActive := True\<rparr>]) @
      drop (length results) (bs[a := (bs ! a)\<lparr>bh_IsActive := True\<rparr>])"
  shows "only_active a bs'" and "map bh_Address bs' = map bh_Address bs"
proof -
  have same: "bs[a := (bs ! a)\<lparr>bh_IsActive := True\<rparr>] = bs"
    using assms(1) by (simp add: only_active_def list_update_same_conv)
  then show "only_active a bs'" using assms(1,2) by (simp add: bs'_def only_active_def)
  show "map bh_Address bs' = map bh_Address bs"
    unfolding bs'_def same by (rule nth_equalityI) (simp_all add: assms(2))
qed

definition probe_results :: "health_io \<Rightarrow> HealthMonitor \<Rightarrow> bool list" where
  "probe_results io h = map (\<lambda>i. probe_healthy io (hm_opensipsBackends h ! i) i) [0..<length (hm_opensipsBackends h)]"

definition probe_kills :: "health_io \<Rightarrow> HealthMonitor \<Rightarrow> bool" where
  "probe_kills io h \<longleftrightarrow> (\<exists>i<length (hm_opensipsBackends h). reply_kills io (hm_opensipsBackends h ! i) i)"

lemma check_opensips:
  assumes "opensips_inv n a h"
  shows "if probe_kills io h then checkOpenSIPSBackends io h = (h, Panic IndexOutOfRange)
    else snd (checkOpenSIPSBackends io h) = Ret () \<and>
      opensips_inv (n + 1) (next_active (hm_failoverEnabled h) (probe_results io h) a) (fst (checkOpenSIPSBackends io h))"
proof -
  let ?rs = "probe_results io h"
  obtain c where c: "component ''opensips'' h = Some c" "map bh_Address (ch_Backends c) = hm_opensipsBackends h"
    "only_active a (ch_Backends c)" "chained (hd (hm_opensipsBackends h)) (opensips_events h) (hm_opensipsBackends h ! a)"
    "stat ''failovers'' c = int (length (opensips_events h))" "stat ''total_checks'' c = n" "stat ''success'' c + stat ''failure'' c = n"
    using assms by (auto simp: opensips_inv_def)
  have len: "length (hm_opensipsBackends h) = length (ch_Backends c)" using arg_cong [OF c(2), of length] by simp
  let ?bs = "map2 (mark_backend (hk_now io) (hm_failureThreshold h)) ?rs ((ch_Backends c)[a := (ch_Backends c ! a)\<lparr>bh_IsActive := True\<rparr>]) @
      drop (length ?rs) ((ch_Backends c)[a := (ch_Backends c ! a)\<lparr>bh_IsActive := True\<rparr>])"
  have rs: "length ?rs = length (ch_Backends c)" by (simp add: probe_results_def len)
  have probe: "probe_all io 0 (hm_opensipsBackends h) = (if probe_kills io h then Panic IndexOutOfRange else Ret ?rs)"
    by (simp add: probe_all_outcome probe_kills_def probe_results_def)
  have "hm_opensipsBackends h \<noteq> []" using c(3) len by (auto simp: only_active_def)
  then have "checkOpenSIPSBackends io h =
      (if probe_kills io h then (h, Panic IndexOutOfRange) else process_results io a ?rs (c\<lparr>ch_Backends := ?bs\<rparr>) h)"
    using c(1,3) rs len
    by (simp add: checkOpenSIPSBackends_def Let_def active_backend_only probe)
  moreover have "stat k (c\<lparr>ch_Backends := bs\<rparr>) = stat k c" for k bs by (simp add: stat_def)
  ultimately show ?thesis
    using process_results_inv [of ?rs h "c\<lparr>ch_Backends := ?bs\<rparr>" a n io] marked_backends [OF c(3) rs] c(2,4-7) rs len by simp
qed

section \<open>What the other checks leave alone\<close>

definition opensips_same :: "HealthMonitor \<Rightarrow> HealthMonitor \<Rightarrow> bool" where
  "opensips_same h h' \<longleftrightarrow> component ''opensips'' h' = component ''opensips'' h \<and> opensips_events h' = opensips_events h \<and>
     hm_opensipsBackends h' = hm_opensipsBackends h \<and> hm_failoverEnabled h' = hm_failoverEnabled h"

lemma opensips_inv_same: "opensips_same h h' \<Longrightarrow> opensips_inv n a h \<Longrightarrow> opensips_inv n a h'"
  by (simp add: opensips_same_def opensips_inv_def)

lemma opensips_same_refl [simp]: "opensips_same h h"
  by (simp add: opensips_same_def)

lemma opensips_same_put: "opensips_same h (put_status n s h') \<longleftrightarrow> opensips_same h h'" if "n \<noteq> ''opensips''"
  using that by (simp add: opensips_same_def)

lemma opensips_same_fields [simp]:
  "opensips_same h (hm_amiManager_update f h') \<longleftrightarrow> opensips_same h h'" "opensips_same h (hm_wsServer_update g h') \<longleftrightarrow> opensips_same h h'"
  "opensips_same h (hm_storage_update k h') \<longleftrightarrow> opensips_same h h'"
  by (simp_all add: opensips_same_def)

lemma opensips_same_trigger: "opensips_same h (fst (triggerFailover io n h'))" if "n \<noteq> ''opensips''" "opensips_same h h'"
  using that by (auto simp: triggerFailover_def split: option.split prod.split outcome.split)

lemma opensips_same_asterisk: "opensips_same h (fst (checkAsterisk io h))"
proof -
  have "opensips_same h h1" if "triggerFailover io ''asterisk'' (put_status ''asterisk'' c h) = (h1, r)" for c h1 r
    using opensips_same_trigger [of "''asterisk''" h "put_status ''asterisk'' c h" io] that by (simp add: opensips_same_put)
  then show ?thesis
    by (auto simp: checkAsterisk_def Let_def opensips_same_put split: option.split prod.split outcome.split)
qed

lemma opensips_same_rtp: "opensips_same h (fst (checkRTPEngine io h))"
  by (auto simp: checkRTPEngine_def Let_def opensips_same_put opensips_same_trigger split: option.split)

lemma opensips_same_ws: "opensips_same h (fst (check_ws_if_any io h))"
  by (auto simp: check_ws_if_any_def checkWebSocketBackends_def Let_def opensips_same_put split: option.split prod.split outcome.split)

lemma opensips_same_store: "opensips_same h (storeHealthStatus io h)"
  by (simp add: storeHealthStatus_def split: option.split)

lemma and_then_Ret:
  assumes "and_then f g s = (t, Ret ())"
  obtains u where "f s = (u, Ret ())" and "g u = (t, Ret ())"
  using assms by (auto simp: and_then_def split: prod.splits outcome.splits)

text \<open>A round that returns is one check of OpenSIPS followed by calls that leave OpenSIPS alone.\<close>

lemma round_opensips:
  assumes "checkAllComponents io h = (h', Ret ())"
  obtains h1 where "checkOpenSIPSBackends io h = (h1, Ret ())" and "opensips_same h1 h'"
proof -
  obtain h1 where h1: "checkOpenSIPSBackends io h = (h1, Ret ())" and rest:
    "and_then (checkAsterisk io) (and_then (checkRTPEngine io) (and_then (check_ws_if_any io) (\<lambda>h. (storeHealthStatus io h, Ret ())))) h1 = (h', Ret ())"
    using assms unfolding checkAllComponents_def by (rule and_then_Ret)
  obtain h2 h3 h4 where "checkAsterisk io h1 = (h2, Ret ())" "checkRTPEngine io h2 = (h3, Ret ())"
    "check_ws_if_any io h3 = (h4, Ret ())" "h' = storeHealthStatus io h4"
    using rest by (elim and_then_Ret) simp
  then have "opensips_same h1 h'"
    using opensips_same_asterisk [of h1 io] opensips_same_rtp [of h2 io] opensips_same_ws [of h3 io] opensips_same_store [of h4 io]
    by (simp add: opensips_same_def)
  with h1 show thesis by (rule that)
qed

section \<open>Properties of the OpenSIPS check\<close>

lemma count_healthy_all: "count_healthy results = length results \<longleftrightarrow> False \<notin> set results"
proof -
  have "filter Not results = [] \<longleftrightarrow> False \<notin> set results" by (induction results) auto
  then show ?thesis using sum_length_filter_compl [of id results] by (auto simp: count_healthy_def)
qed

lemma ch_Status_overall: "ch_Status (overall_status now results c) =
    (if False \<notin> set results then StatusHealthy else if True \<in> set results then StatusDegraded else StatusUnhealthy)"
  by (simp add: overall_status_def Let_def count_healthy_pos count_healthy_all)

lemma check_opensips_backends [simp]: "hm_opensipsBackends (fst (checkOpenSIPSBackends io h)) = hm_opensipsBackends h"
  by (simp add: checkOpenSIPSBackends_def process_results_def trigger_opensips Let_def split: option.split outcome.split)

lemma check_opensips_status:
  assumes "snd (checkOpenSIPSBackends io h) = Ret ()" and "opensips_inv n a h"
  shows "\<exists>c. component ''opensips'' (fst (checkOpenSIPSBackends io h)) = Some (overall_status (hk_now io) (probe_results io h) c)"
proof -
  have "hm_opensipsBackends h \<noteq> []" using assms(2) by (auto simp: opensips_inv_def only_active_def)
  then show ?thesis
    using assms(1)
    by (auto simp: checkOpenSIPSBackends_def process_results_def probe_all_outcome probe_results_def trigger_opensips Let_def
      split: option.splits if_splits)
qed

text \<open>
  C21: The check of the OpenSIPS backends panics, in a goroutine that nothing recovers, exactly when
  some backend sends an answer of fewer than 100 bytes, or of fewer than 15 bytes when it has an
  accepted code. Otherwise the active backend stays the one it was when failover is off, or it
  answered, or nobody did, and else becomes the first that answered: one missed answer is enough,
  whatever the failure threshold is. The component is healthy exactly when every backend answered,
  unhealthy when none did, and degraded in between.
\<close>

theorem opensips_check_spec:
  assumes "opensips_inv n a h"
  shows "if \<exists>i<length (hm_opensipsBackends h). \<exists>r. opensips_reply io (hm_opensipsBackends h ! i) i = Some r \<and>
           length r < (if answers_ok r then 15 else 100)
     then snd (checkOpenSIPSBackends io h) = Panic IndexOutOfRange
     else snd (checkOpenSIPSBackends io h) = Ret () \<and>
       (\<exists>c. component ''opensips'' (fst (checkOpenSIPSBackends io h)) = Some c \<and>
         opensips_active (ch_Backends c) =
           Some (if \<not> hm_failoverEnabled h \<or> probe_results io h ! a \<or> True \<notin> set (probe_results io h) then a
                 else length (takeWhile Not (probe_results io h))) \<and>
         ch_Status c = (if False \<notin> set (probe_results io h) then StatusHealthy
                        else if True \<in> set (probe_results io h) then StatusDegraded else StatusUnhealthy))"
proof -
  have kills: "(\<exists>i<length (hm_opensipsBackends h). \<exists>r. opensips_reply io (hm_opensipsBackends h ! i) i = Some r \<and>
      length r < (if answers_ok r then 15 else 100)) \<longleftrightarrow> probe_kills io h"
    by (simp add: probe_kills_def reply_kills_def too_short_def)
  show ?thesis
  proof (cases "probe_kills io h")
    case False
    then have ret: "snd (checkOpenSIPSBackends io h) = Ret ()"
      and inv: "opensips_inv (n + 1) (next_active (hm_failoverEnabled h) (probe_results io h) a) (fst (checkOpenSIPSBackends io h))"
      using check_opensips [OF assms, of io] by simp_all
    obtain c0 where "component ''opensips'' (fst (checkOpenSIPSBackends io h)) = Some (overall_status (hk_now io) (probe_results io h) c0)"
      using check_opensips_status [OF ret assms] by blast
    with inv show ?thesis
      unfolding kills using False ret
      by (auto simp: opensips_inv_def next_active_def ch_Status_overall dest!: active_backend_only)
  qed (use check_opensips [OF assms, of io] in \<open>simp add: kills\<close>)
qed

lemma opensips_inv_init:
  assumes "hm_opensipsBackends h \<noteq> []" and "hm_failoverHistory h = []" and "init_components h = (h', Ret ())"
  shows "opensips_inv 0 0 h' \<and> hm_opensipsBackends h' = hm_opensipsBackends h"
proof -
  have "map bh_Address (map (\<lambda>i. fresh_backend (hm_opensipsBackends h ! i) (i = 0)) [0..<length (hm_opensipsBackends h)]) = hm_opensipsBackends h"
    by (rule nth_equalityI) (simp_all add: fresh_backend_def)
  then show ?thesis
    using assms
    by (auto simp: init_components_def Let_def opensips_inv_def only_active_def fresh_backend_def zero_component_def stat_def
      opensips_events_def GetFailoverHistory_def hd_conv_nth split: outcome.splits)
qed

lemma round_inv:
  assumes "opensips_inv n a h" and "checkAllComponents io h = (h', Ret ())"
  shows "(\<exists>a. opensips_inv (n + 1) a h') \<and> hm_opensipsBackends h' = hm_opensipsBackends h"
proof -
  obtain h1 where h1: "checkOpenSIPSBackends io h = (h1, Ret ())" "opensips_same h1 h'"
    using assms(2) by (rule round_opensips)
  then show ?thesis
    using check_opensips [OF assms(1), of io] opensips_inv_same [OF h1(2)] check_opensips_backends [of io h]
    by (auto simp: opensips_same_def split: if_splits)
qed

lemma rounds_inv:
  assumes "opensips_inv n a h" and "health_rounds rounds h = (h', Ret ())"
  shows "(\<exists>a. opensips_inv (n + int (length rounds)) a h') \<and> hm_opensipsBackends h' = hm_opensipsBackends h"
  using assms
proof (induction rounds arbitrary: n a h)
  case (Cons r rounds)
  obtain io ami ws where r: "r = (io, ami, ws)" by (cases r)
  let ?h = "h\<lparr>hm_amiManager := map_option ami (hm_amiManager h), hm_wsServer := map_option ws (hm_wsServer h)\<rparr>"
  have inv: "opensips_inv n a ?h" using Cons.prems(1) by (rule opensips_inv_same [rotated]) simp
  obtain h1 where h1: "checkAllComponents io ?h = (h1, Ret ())" and rest: "health_rounds rounds h1 = (h', Ret ())"
    using Cons.prems(2) unfolding r health_rounds.simps by (rule and_then_Ret)
  obtain b where "opensips_inv (n + 1) b h1" and "hm_opensipsBackends h1 = hm_opensipsBackends h"
    using round_inv [OF inv h1] by auto
  then show ?case using Cons.IH [of "n + 1" b, OF _ rest] by (simp add: add.assoc)
qed auto

text \<open>
  C10: However many rounds a started monitor has made, exactly one OpenSIPS backend is active, and
  the failover history is a chain of moves from the first configured backend to it; the statistics
  count the moves and the rounds.
\<close>

theorem opensips_history_explains:
  assumes "hc_OpenSIPSBackends config \<noteq> []"
    and "and_then (Health_Start io) (health_rounds rounds) (NewHealthMonitor ami rtp ws storage config) = (h, Ret ())"
  shows "\<exists>c a. component ''opensips'' h = Some c \<and> map bh_Address (ch_Backends c) = hc_OpenSIPSBackends config \<and>
     a < length (ch_Backends c) \<and> (\<forall>i<length (ch_Backends c). bh_IsActive (ch_Backends c ! i) = (i = a)) \<and>
     chained (hd (hc_OpenSIPSBackends config)) (opensips_events h) (hc_OpenSIPSBackends config ! a) \<and>
     stat ''failovers'' c = int (length (opensips_events h)) \<and> stat ''total_checks'' c = 1 + int (length rounds) \<and>
     stat ''success'' c + stat ''failure'' c = 1 + int (length rounds)"
proof -
  let ?h = "NewHealthMonitor ami rtp ws storage config"
  obtain h2 where start: "Health_Start io ?h = (h2, Ret ())" and rest: "health_rounds rounds h2 = (h, Ret ())"
    using assms(2) by (rule and_then_Ret)
  obtain h1 where h1: "init_components ?h = (h1, Ret ())" and h2: "checkAllComponents io h1 = (h2, Ret ())"
    using start unfolding Health_Start_def by (rule and_then_Ret)
  have "hm_opensipsBackends ?h = hc_OpenSIPSBackends config" "hm_failoverHistory ?h = []"
    using assms(1) by (simp_all add: NewHealthMonitor_def)
  then have "(\<exists>a. opensips_inv (1 + int (length rounds)) a h) \<and> hm_opensipsBackends h = hc_OpenSIPSBackends config"
    using opensips_inv_init [OF _ _ h1] round_inv [OF _ h2, of 0 0] rounds_inv [OF _ rest, of 1] assms(1) by (metis add_0)
  then show ?thesis by (auto simp: opensips_inv_def only_active_def)
qed

section \<open>Asterisk after its connection is lost\<close>

definition asterisk_same :: "HealthMonitor \<Rightarrow> HealthMonitor \<Rightarrow> bool" where
  "asterisk_same h h' \<longleftrightarrow> component ''asterisk'' h' = component ''asterisk'' h \<and> hm_amiManager h' = hm_amiManager h"

lemma asterisk_same_opensips: "asterisk_same h (fst (checkOpenSIPSBackends io h))"
  by (simp add: asterisk_same_def checkOpenSIPSBackends_def process_results_def trigger_opensips Let_def split: option.split outcome.split)

lemma asterisk_same_rtp: "asterisk_same h (fst (checkRTPEngine io h))"
  by (simp add: asterisk_same_def checkRTPEngine_def triggerFailover_def Let_def split: option.split)

lemma asterisk_same_ws: "asterisk_same h (fst (check_ws_if_any io h))"
  by (auto simp: asterisk_same_def check_ws_if_any_def checkWebSocketBackends_def Let_def split: option.split prod.split outcome.split)

lemma asterisk_same_store: "asterisk_same h (storeHealthStatus io h)"
  by (simp add: asterisk_same_def storeHealthStatus_def split: option.split)

lemma round_asterisk:
  assumes "checkAllComponents io h = (h', Ret ())"
  obtains h1 h2 where "asterisk_same h h1" and "checkAsterisk io h1 = (h2, Ret ())" and "asterisk_same h2 h'"
proof -
  obtain h1 h2 h3 h4 where "checkOpenSIPSBackends io h = (h1, Ret ())" and *: "checkAsterisk io h1 = (h2, Ret ())"
    "checkRTPEngine io h2 = (h3, Ret ())" "check_ws_if_any io h3 = (h4, Ret ())" "h' = storeHealthStatus io h4"
    using assms unfolding checkAllComponents_def by (elim and_then_Ret) simp
  then have "asterisk_same h h1" "asterisk_same h2 h'"
    using asterisk_same_opensips [of h io] asterisk_same_rtp [of h2 io] asterisk_same_ws [of h3 io] asterisk_same_store [of h4 io]
    by (simp_all add: asterisk_same_def)
  with * show thesis by (intro that)
qed

text \<open>The active client has no connection any more but still has its banner.\<close>

definition lost :: "AMI_Mgr \<Rightarrow> nat \<Rightarrow> bool" where
  "lost m a \<longleftrightarrow> GetActiveClient m = Some a \<and> ac_bannerReceived (am_clients m ! a) \<and> \<not> ac_connected (am_clients m ! a)"

definition lost_but_healthy :: "nat \<Rightarrow> HealthMonitor \<Rightarrow> bool" where
  "lost_but_healthy a h \<longleftrightarrow> (\<exists>c. component ''asterisk'' h = Some c \<and> ch_Status c = StatusHealthy \<and>
     bh_Status (ch_Backends c ! a) = StatusUnhealthy)"

lemma asterisk_lost:
  assumes "hm_amiManager h = Some m" and "lost m a" and "component ''asterisk'' h = Some c"
  shows "lost_but_healthy a (fst (checkAsterisk io h)) \<and> hm_amiManager (fst (checkAsterisk io h)) = Some m \<and>
    snd (checkAsterisk io h) = Ret ()"
proof -
  have "a < length (am_clients m)" using assms(2) by (auto simp: lost_def GetActiveClient_def split: if_splits)
  then show ?thesis
    using assms
    by (simp add: checkAsterisk_def lost_def lost_but_healthy_def Let_def IsBannerReceived_def AMI_IsConnected_def ami_backend_def)
qed

lemma round_lost:
  assumes "hm_amiManager h = Some m" and "lost m a" and "component ''asterisk'' h \<noteq> None"
    and "checkAllComponents io h = (h', Ret ())"
  shows "lost_but_healthy a h' \<and> hm_amiManager h' = Some m"
proof -
  obtain h1 h2 where *: "asterisk_same h h1" "checkAsterisk io h1 = (h2, Ret ())" "asterisk_same h2 h'"
    using assms(4) by (rule round_asterisk)
  then show ?thesis
    using asterisk_lost [of h1 m a _ io] assms(1-3) by (auto simp: asterisk_same_def lost_but_healthy_def)
qed

lemma rounds_lost:
  assumes "hm_amiManager h = Some m" and "lost m a" and "lost_but_healthy a h"
    and "health_rounds (map (\<lambda>(io, ws). (io, id, ws)) rounds) h = (h', Ret ())"
  shows "lost_but_healthy a h' \<and> hm_amiManager h' = Some m"
  using assms
proof (induction rounds arbitrary: h)
  case (Cons r rounds)
  obtain io ws where r: "r = (io, ws)" by (cases r)
  let ?h = "h\<lparr>hm_amiManager := map_option id (hm_amiManager h), hm_wsServer := map_option ws (hm_wsServer h)\<rparr>"
  obtain h1 where h1: "checkAllComponents io ?h = (h1, Ret ())"
    and rest: "health_rounds (map (\<lambda>(io, ws). (io, id, ws)) rounds) h1 = (h', Ret ())"
    using Cons.prems(4) unfolding r list.map prod.case health_rounds.simps by (rule and_then_Ret)
  have "lost_but_healthy a h1 \<and> hm_amiManager h1 = Some m"
    using Cons.prems(1-3) by (intro round_lost [OF _ _ _ h1]) (auto simp: lost_but_healthy_def)
  then show ?case using Cons.IH [OF _ Cons.prems(2) _ rest] by blast
qed auto

text \<open>
  When the active AMI connection of Asterisk breaks, the reading goroutine leaves the flag for
  the banner set, and the monitor goes by that flag: for as many rounds as nobody else reconnects,
  Asterisk is reported healthy although its active backend is listed as unhealthy, and the monitor
  never asks the manager for a failover.
\<close>

lemma asterisk_healthy_after_loss:
  assumes "GetActiveClient m = Some a" and "ac_bannerReceived (am_clients m ! a)" and "hm_amiManager h = Some m"
    and "component ''asterisk'' h \<noteq> None"
    and "health_rounds ((io, connection_lost a, ws) # map (\<lambda>(io, ws). (io, id, ws)) rounds) h = (h', Ret ())"
  shows "hm_amiManager h' = Some (connection_lost a m) \<and>
    (\<exists>c. component ''asterisk'' h' = Some c \<and> ch_Status c = StatusHealthy \<and> bh_Status (ch_Backends c ! a) = StatusUnhealthy)"
proof -
  let ?h = "h\<lparr>hm_amiManager := map_option (connection_lost a) (hm_amiManager h), hm_wsServer := map_option ws (hm_wsServer h)\<rparr>"
  have "a < length (am_clients m)" using assms(1) by (auto simp: GetActiveClient_def split: if_splits)
  then have lost: "lost (connection_lost a m) a"
    using assms(1,2) by (auto simp: lost_def connection_lost_def set_client_def readLoop_cleanup_def GetActiveClient_def split: if_splits)
  obtain h1 where h1: "checkAllComponents io ?h = (h1, Ret ())"
    and rest: "health_rounds (map (\<lambda>(io, ws). (io, id, ws)) rounds) h1 = (h', Ret ())"
    using assms(5) unfolding health_rounds.simps by (rule and_then_Ret)
  have "lost_but_healthy a h1 \<and> hm_amiManager h1 = Some (connection_lost a m)"
    using assms(3,4) by (intro round_lost [OF _ lost _ h1]) simp_all
  then show ?thesis using rounds_lost [OF _ lost _ rest] by (auto simp: lost_but_healthy_def)
qed

section \<open>The stored status\<close>

lemma trigger_storage [simp]: "hm_storage (fst (triggerFailover io n h)) = hm_storage h"
  by (simp add: triggerFailover_def split: option.split prod.split outcome.split)

lemma storage_opensips: "hm_storage (fst (checkOpenSIPSBackends io h)) = hm_storage h"
  by (simp add: checkOpenSIPSBackends_def process_results_def trigger_opensips Let_def split: option.split outcome.split)

lemma storage_asterisk: "hm_storage (fst (checkAsterisk io h)) = hm_storage h"
proof -
  have "hm_storage h1 = hm_storage h" if "triggerFailover io n (put_status k c h) = (h1, r)" for n k c h1 r
    using trigger_storage [of io n "put_status k c h"] that by simp
  then show ?thesis by (auto simp: checkAsterisk_def Let_def split: option.split prod.split outcome.split)
qed

lemma storage_rtp: "hm_storage (fst (checkRTPEngine io h)) = hm_storage h"
  by (simp add: checkRTPEngine_def Let_def split: option.split)

lemma storage_ws: "hm_storage (fst (check_ws_if_any io h)) = hm_storage h"
  by (auto simp: check_ws_if_any_def checkWebSocketBackends_def Let_def split: option.split prod.split outcome.split)

text \<open>
  After a round that returns, the key \<open>health:status\<close> of the shared storage holds the status of
  all components as the monitor reports it then, and never expires.
\<close>

lemma stored_health_status:
  assumes "checkAllComponents io h = (h', Ret ())" and "hm_storage h = Some st" and "kv_ok st"
  shows "\<exists>st'. hm_storage h' = Some st' \<and> snd (Get now ''health:status'' st') =
     Ret (Json (map (\<lambda>(name, c). (name, component_json (hk_rfc3339 io) c)) (GetAllComponentHealth h')))"
proof -
  obtain h1 h2 h3 h4 where "checkOpenSIPSBackends io h = (h1, Ret ())" "checkAsterisk io h1 = (h2, Ret ())"
    "checkRTPEngine io h2 = (h3, Ret ())" "check_ws_if_any io h3 = (h4, Ret ())" and h': "h' = storeHealthStatus io h4"
    using assms(1) unfolding checkAllComponents_def by (elim and_then_Ret) simp
  then have "hm_storage h4 = Some st"
    using storage_opensips [of io h] storage_asterisk [of io h1] storage_rtp [of io h2] storage_ws [of io h3] assms(2) by simp
  then show ?thesis
    using assms(3) by (simp add: h' storeHealthStatus_def GetAllComponentHealth_def kv.get_after_put)
qed

section \<open>A monitor of two OpenSIPS servers\<close>

definition sample_health_config :: HealthConfig where
  "sample_health_config = \<lparr>hc_OpenSIPSAddress = [], hc_OpenSIPSBackends = [''a:5060'', ''b:5060''], hc_CheckInterval = 0,
     hc_EnableFailover = True, hc_FailureThreshold = 5\<rparr>"

definition second_answers :: health_io where
  "second_answers = \<lparr>hk_now = unixToInternal * Second,
     hk_probe = (\<lambda>i _ _. if i = 1 then Some ''SIP/2.0 200 OK.'' else None), hk_exchange = (\<lambda>_. None),
     hk_notify = (\<lambda>_. True), hk_connect = (\<lambda>_. connect_fine 0), hk_rfc3339 = (\<lambda>_. [])\<rparr>"

definition sample_monitor :: HealthMonitor where
  "sample_monitor = NewHealthMonitor (Some sample_mgr) None None
     (Some (NewMemoryStorage_fresh default_config)) sample_health_config"

lemma sample_start: "snd (and_then (Health_Start second_answers) (health_rounds [(second_answers, id, id)]) sample_monitor) = Ret ()"
  by code_simp

theorem opensips_history_explains_witness:
  "\<exists>h c. and_then (Health_Start second_answers) (health_rounds [(second_answers, id, id)]) sample_monitor = (h, Ret ()) \<and>
     component ''opensips'' h = Some c \<and> stat ''total_checks'' c = 2 \<and>
     stat ''failovers'' c = int (length (opensips_events h))"
proof -
  obtain h where h: "and_then (Health_Start second_answers) (health_rounds [(second_answers, id, id)]) sample_monitor = (h, Ret ())"
    using sample_start by (metis prod.collapse)
  have "hc_OpenSIPSBackends sample_health_config \<noteq> []" by (simp add: sample_health_config_def)
  from opensips_history_explains [OF this h [unfolded sample_monitor_def]] show ?thesis using h by auto
qed

definition started_monitor :: HealthMonitor where
  "started_monitor = fst (init_components sample_monitor)"

lemma started_inv: "opensips_inv 0 0 started_monitor"
proof -
  have "init_components sample_monitor = (started_monitor, Ret ())"
    unfolding started_monitor_def by (rule prod_eqI) (simp, code_simp)
  then show ?thesis
    using opensips_inv_init [of sample_monitor started_monitor]
    by (simp add: sample_monitor_def NewHealthMonitor_def sample_health_config_def)
qed

lemma started_backends: "hm_opensipsBackends started_monitor = [''a:5060'', ''b:5060'']" "hm_failoverEnabled started_monitor"
  by code_simp+

lemma second_answers_reply: "opensips_reply second_answers addr i = (if i = 1 then Some ''SIP/2.0 200 OK.'' else None)"
  by (simp add: opensips_reply_def second_answers_def)

lemma sample_reply_ok: "answers_ok ''SIP/2.0 200 OK.''"
  by (simp add: answers_ok_def sublist_code)

definition short_answer :: health_io where
  "short_answer = second_answers\<lparr>hk_probe := (\<lambda>_ _ _. Some ''SIP/2.0 503 Busy'')\<rparr>"

theorem opensips_check_spec_witness:
  "snd (checkOpenSIPSBackends short_answer started_monitor) = Panic IndexOutOfRange \<and>
   (\<exists>c. component ''opensips'' (fst (checkOpenSIPSBackends second_answers started_monitor)) = Some c \<and>
     opensips_active (ch_Backends c) = Some 1 \<and> ch_Status c = StatusDegraded)"
proof
  have "\<exists>i<length (hm_opensipsBackends started_monitor). \<exists>r.
      opensips_reply short_answer (hm_opensipsBackends started_monitor ! i) i = Some r \<and> length r < (if answers_ok r then 15 else 100)"
    by (intro exI [of _ 0] conjI exI [of _ "''SIP/2.0 503 Busy''"])
      (simp_all add: started_backends opensips_reply_def short_answer_def answers_ok_def sublist_code)
  then show "snd (checkOpenSIPSBackends short_answer started_monitor) = Panic IndexOutOfRange"
    using opensips_check_spec [OF started_inv, of short_answer] by (simp only: if_True)
next
  have "probe_results second_answers started_monitor = [False, True]"
    by (simp add: probe_results_def started_backends probe_healthy_def second_answers_reply sample_reply_ok)
  then show "\<exists>c. component ''opensips'' (fst (checkOpenSIPSBackends second_answers started_monitor)) = Some c \<and>
     opensips_active (ch_Backends c) = Some 1 \<and> ch_Status c = StatusDegraded"
    using opensips_check_spec [OF started_inv, of second_answers]
    using sample_reply_ok by (auto simp: started_backends second_answers_reply split: if_splits)
qed

end
