(* ===== verification/WebSocket_Safety.thy ===== *)
theory WebSocket_Safety
  imports WebSocket_Server
begin

text \<open>
  Properties of the WebSocket server over runs of its handlers, its clients' goroutines and its
  periodic jobs: the table of connections, the failover of a client's backend, clients that leave,
  and the panics of the backend reader.
\<close>

section \<open>Runs\<close>

datatype ws_call =
    WHandshake handshake
  | WStart dialler string
  | WClient sip_parser ws_io string read_event string
  | WBackend sip_parser ws_io read_event string
  | WEnd string
  | WKeepalive bool gotime string string
  | WSend bool string bytes
  | WRedirect bool gotime string string
  | WPrepare "string \<Rightarrow> bool" gotime
  | WCheck "string \<Rightarrow> string option"
  | WHealth gotime
  | WMonitor gotime string
  | WClean gotime
  | WStop

fun ws_step :: "ws_call \<Rightarrow> Server \<Rightarrow> Server \<times> (unit, unit) outcome" where
  "ws_step (WHandshake h) s = (fst (handleWebSocket h s), Ret ())"
| "ws_step (WStart dial i) s = (handleClient_start dial i s, Ret ())"
| "ws_step (WClient parse io transport ev i) s = (client_read parse io transport ev i s, Ret ())"
| "ws_step (WBackend parse io ev i) s = backend_read parse io ev i s"
| "ws_step (WEnd i) s = (handleClient_end i s, Ret ())"
| "ws_step (WKeepalive ok now url i) s = (keepalive_tick ok now url i s, Ret ())"
| "ws_step (WSend ok i msg) s = (fst (SendMessage ok i msg s), Ret ())"
| "ws_step (WRedirect ok now i addr) s = (fst (RedirectClient ok now i addr s), Ret ())"
| "ws_step (WPrepare ok now) s = (PrepareForFailover ok now s, Ret ())"
| "ws_step (WCheck exchange) s = CheckBackendHealth exchange s"
| "ws_step (WHealth now) s = (fst (handleHealthCheck now s), Ret ())"
| "ws_step (WMonitor now hostname) s = (health_monitor_tick now hostname s, Ret ())"
| "ws_step (WClean now) s = (cleanConnections now s, Ret ())"
| "ws_step WStop s = (closeAllConnections s, Ret ())"

section \<open>The table of connections\<close>

text \<open>Which clients are open; no operation but a handshake and a close changes it.\<close>

definition open_clients :: "Server \<Rightarrow> string set" where
  "open_clients s = {i. \<exists>c. ws_clients s i = Some c \<and> \<not> cc_closed c}"

definition same_table :: "Server \<Rightarrow> Server \<Rightarrow> bool" where
  "same_table s s' \<longleftrightarrow>
     open_clients s' = open_clients s \<and> ws_connections s' = ws_connections s \<and> ws_config s' = ws_config s"

lemma write_backend_closed [simp]: "cc_closed (write_backend ok ty msg c) = cc_closed c"
  by (simp add: write_backend_def split: option.split)

text \<open>
  A relation between servers that the work on the clients \<open>who\<close> keeps: it is transitive and does
  not see updates of those clients that leave \<open>closed\<close> alone, nor the other fields of a server.
  The operations that neither open nor close a connection keep every such relation.
\<close>

locale untouched =
  fixes R :: "Server \<Rightarrow> Server \<Rightarrow> bool"
    and who :: "string \<Rightarrow> bool"
  assumes R_refl [simp]: "R s s"
    and R_trans: "R s s1 \<Longrightarrow> R s1 s2 \<Longrightarrow> R s s2"
    and R_update [simp]: "who j \<Longrightarrow> (\<And>c. cc_closed (f c) = cc_closed c) \<Longrightarrow> R s (update_conn j f s') \<longleftrightarrow> R s s'"
    and R_storage [simp]: "R s (s'\<lparr>ws_storage := st\<rparr>) \<longleftrightarrow> R s s'"
    and R_handler [simp]: "R s (s'\<lparr>ws_handler := h\<rparr>) \<longleftrightarrow> R s s'"
    and R_health [simp]: "R s (s'\<lparr>ws_backendHealth := b\<rparr>) \<longleftrightarrow> R s s'"
    and R_nextConn [simp]: "R s (s'\<lparr>ws_nextConn := n\<rparr>) \<longleftrightarrow> R s s'"
    and R_domain [simp]: "R s (s'\<lparr>ws_domainProxy := d\<rparr>) \<longleftrightarrow> R s s'"
begin

lemma R_extract: "who j \<Longrightarrow> R s (extractSIPState now m j s)"
proof (cases m)
  case (SIPRequest req)
  assume "who j"
  then have "R s (update_conn j (sip_state req) s)" by (subst R_update) (simp_all add: sip_state_def)
  then show ?thesis
    using SIPRequest
    by (cases "ws_clients s j") (simp_all add: extractSIPState_def Let_def update_conn_def)
qed (simp add: extractSIPState_def)

lemma R_extract_if: "who j \<Longrightarrow> R s (extract_if_sip parse now msg j s)"
  by (simp add: extract_if_sip_def R_extract split: option.split)

lemma R_failover: "who j \<Longrightarrow> R s (fst (try_backend_failover io j s))"
  by (simp add: try_backend_failover_def Let_def UpdateBackendHealth_def split: option.split)

lemma R_failed:
  assumes "who j"
  shows "R s (fst (try_backend_failover io j (update_conn j (\<lambda>c. c\<lparr>cc_ErrorCount := cc_ErrorCount c + 1\<rparr>) s)))"
  using assms R_trans [OF _ R_failover [OF assms]] by simp

lemma R_forward: "who j \<Longrightarrow> R s (fst (forward_to_backend io ty msg j s))"
proof -
  assume j: "who j"
  let ?s = "update_conn j (\<lambda>c. c\<lparr>cc_ErrorCount := cc_ErrorCount c + 1\<rparr>) s"
  obtain s1 r where f: "try_backend_failover io j ?s = (s1, r)" by (cases "try_backend_failover io j ?s")
  have "R s s1" using R_failed [OF j, of s io] f by simp
  then show ?thesis using f j by (simp add: forward_to_backend_def split: option.split)
qed

lemma R_client_sip: "who j \<Longrightarrow> R s (handle_client_sip parse io tr msg j s)"
  by (simp add: handle_client_sip_def Let_def split: option.split sip_message.split)

lemma R_client_read: "who j \<Longrightarrow> R s (client_read parse io tr ev j s)"
proof (cases ev)
  case (ReadMsg ty raw)
  assume j: "who j"
  let ?s0 = "update_conn j (\<lambda>c. c\<lparr>cc_LastActivity := wi_now io\<rparr>) s"
  let ?s1 = "extract_if_sip parse (wi_now io) raw j ?s0"
  let ?msg = "if ty = TextMessage \<and> raw \<noteq> [] then RewriteClientToBackend j raw (ws_domainProxy ?s1) else raw"
  obtain s2 r where f: "forward_to_backend io ty ?msg j ?s1 = (s2, r)" by (cases "forward_to_backend io ty ?msg j ?s1")
  have "R s ?s0" using j by simp
  then have "R s ?s1" using R_extract_if [OF j] R_trans by blast
  then have s2: "R s s2" using R_forward [OF j, of ?s1 io ty ?msg] f R_trans by fastforce
  then have "R s (handle_client_sip parse io tr m j s2)" for m using R_client_sip [OF j] R_trans by blast
  then show ?thesis using s2 f ReadMsg j by (simp add: client_read_def Let_def split: option.split bool.split)
qed (simp_all add: client_read_def split: option.split)

lemma R_backend_sip: "who j \<Longrightarrow> R s (fst (handle_backend_sip parse io msg j s))"
  by (simp add: handle_backend_sip_def Let_def R_extract split: option.split)

lemma R_write_client: "who j \<Longrightarrow> R s s' \<Longrightarrow> R s (write_client ok ty msg j s')"
  by (simp add: write_client_def split: option.split)

lemma R_next_read: "who j \<Longrightarrow> R s (next_read j s') \<longleftrightarrow> R s s'"
  unfolding next_read_def by (rule R_update) (simp_all split: option.split)

lemma R_backend_read: "who j \<Longrightarrow> R s (fst (backend_read parse io ev j s))"
proof -
  assume j: "who j"
  let ?s = "update_conn j (\<lambda>c. c\<lparr>cc_ErrorCount := cc_ErrorCount c + 1\<rparr>) s"
  obtain s1 r1 where f: "try_backend_failover io j ?s = (s1, r1)" by (cases "try_backend_failover io j ?s")
  have s1: "R s s1" using R_failed [OF j, of s io] f by simp
  have sip: "R s s2" if "handle_backend_sip parse io msg j s = (s2, r2)" for msg s2 r2
    using R_backend_sip [OF j, of s parse io msg] that by simp
  show ?thesis
    using f s1 sip R_next_read [OF j] R_write_client [OF j] j
    by (auto simp: backend_read_def split: option.split read_event.split prod.split outcome.split)
qed

lemma R_send: "who j \<Longrightarrow> R s s' \<Longrightarrow> R s (fst (SendMessage ok j msg s'))"
  by (simp add: SendMessage_def split: option.split)

lemma R_keepalive: "who j \<Longrightarrow> R s (keepalive_tick ok now url j s)"
  by (simp add: keepalive_tick_def split: option.split)

lemma R_check: "R s s' \<Longrightarrow> R s (fst (check_backends exchange bs s'))"
  by (induction bs arbitrary: s') (simp_all add: UpdateBackendHealth_def split: outcome.split)

lemma R_health_check: "R s (fst (handleHealthCheck now s))"
  by (simp add: handleHealthCheck_def checkStorageHealth_def Let_def split: prod.split outcome.split)

lemma R_monitor: "R s (health_monitor_tick now h s)"
  by (simp add: health_monitor_tick_def)

end

text \<open>The table of connections is such a relation, for work on any client.\<close>

interpretation table: untouched same_table "\<lambda>_. True"
proof (unfold_locales, goal_cases)
  case (2 s s1 s2)
  then show ?case by (simp add: same_table_def)
next
  case (3 j f s s')
  then have "open_clients (update_conn j f s') = open_clients s'"
    by (auto simp: open_clients_def update_conn_def split: if_splits)
  then show ?case by (simp add: same_table_def update_conn_def)
qed (simp_all add: same_table_def open_clients_def)

lemma same_table_prepare: "same_table s (PrepareForFailover ok now s)"
proof -
  have "same_table s (fold (\<lambda>i s. fst (SendMessage (ok i) i msg s)) is s')" if "same_table s s'" for "is" msg s'
    using that by (induction "is" arbitrary: s') (simp_all add: table.R_send)
  then show ?thesis by (simp add: PrepareForFailover_def)
qed

definition ws_ok :: "Server \<Rightarrow> bool" where
  "ws_ok s \<longleftrightarrow>
     distinct (ws_connections s) \<and> set (ws_connections s) = open_clients s \<and>
     int (length (ws_connections s)) \<le> wc_MaxConnections (ws_config s)"

lemma ws_ok_same: "same_table s s' \<Longrightarrow> ws_ok s \<Longrightarrow> ws_ok s' \<and> ws_config s' = ws_config s"
  by (simp add: ws_ok_def same_table_def)

lemma ws_ok_close: "ws_ok s \<Longrightarrow> ws_ok (closeConnection i s) \<and> ws_config (closeConnection i s) = ws_config s"
proof (cases "i \<in> open_clients s")
  case True
  assume ok: "ws_ok s"
  obtain c where c: "ws_clients s i = Some c" "\<not> cc_closed c" using True by (auto simp: open_clients_def)
  have "open_clients (closeConnection i s) = open_clients s - {i}"
    using c by (auto simp: closeConnection_def open_clients_def)
  moreover have "ws_connections (closeConnection i s) = removeAll i (ws_connections s)"
    "ws_config (closeConnection i s) = ws_config s"
    using c by (simp_all add: closeConnection_def)
  moreover have "int (length (removeAll i (ws_connections s))) \<le> wc_MaxConnections (ws_config s)"
    using ok length_removeAll_less_eq [of i "ws_connections s"] unfolding ws_ok_def by linarith
  ultimately show ?thesis using ok by (simp add: ws_ok_def distinct_removeAll)
next
  case False
  then have "closeConnection i s = s" by (auto simp: closeConnection_def open_clients_def split: option.split)
  then show "ws_ok s \<Longrightarrow> ?thesis" by simp
qed

lemma ws_ok_close_all: "ws_ok s \<Longrightarrow> ws_ok (fold closeConnection is s) \<and> ws_config (fold closeConnection is s) = ws_config s"
  by (induction "is" arbitrary: s) (simp_all add: ws_ok_close)

lemma close_all_connections:
  "ws_ok s \<Longrightarrow> set (ws_connections (fold closeConnection ids s)) \<subseteq> set (ws_connections s) - set ids"
proof (induction ids arbitrary: s)
  case (Cons i ids)
  have "set (ws_connections (closeConnection i s)) \<subseteq> set (ws_connections s) - {i}"
    using Cons.prems by (auto simp: closeConnection_def ws_ok_def open_clients_def split: option.split)
  then show ?case using Cons.IH [of "closeConnection i s"] Cons.prems by (auto simp: ws_ok_close)
qed simp

lemma closeAllConnections_empty: "ws_ok s \<Longrightarrow> ws_connections (closeAllConnections s) = []"
  using close_all_connections [of s "ws_connections s"] by (simp add: closeAllConnections_def)

lemma ws_ok_handshake: "ws_ok s \<Longrightarrow> ws_ok (fst (handleWebSocket h s)) \<and> ws_config (fst (handleWebSocket h s)) = ws_config s"
proof -
  assume ok: "ws_ok s"
  have "open_clients (s\<lparr>ws_clients := (ws_clients s)(i \<mapsto> new_client h), ws_connections := x, ws_storage := y, ws_circuitBreaker := z\<rparr>) =
      insert i (open_clients s)" for i x y z
    by (auto simp: open_clients_def new_client_def)
  moreover have "ws_ok (s\<lparr>ws_circuitBreaker := cb\<rparr>)" for cb using ok by (simp add: ws_ok_def open_clients_def)
  ultimately show ?thesis
    using ok by (auto simp: handleWebSocket_def split_beta Let_def ws_ok_def List.insert_def)
qed

lemma ws_ok_start: "ws_ok s \<Longrightarrow> ws_ok (handleClient_start dial i s) \<and> ws_config (handleClient_start dial i s) = ws_config s"
proof -
  assume ok: "ws_ok s"
  have "same_table s (handleClient_start dial i s) \<or> handleClient_start dial i s = closeConnection i s"
    by (simp add: handleClient_start_def Let_def split: option.split)
  then show ?thesis using ws_ok_same [OF _ ok] ws_ok_close [OF ok] by metis
qed

lemma ws_ok_end: "ws_ok s \<Longrightarrow> ws_ok (handleClient_end i s) \<and> ws_config (handleClient_end i s) = ws_config s"
  using ws_ok_close by (simp add: handleClient_end_def split: option.split)

lemma ws_ok_step: "ws_ok s \<Longrightarrow> ws_ok (fst (ws_step c s)) \<and> ws_config (fst (ws_step c s)) = ws_config s"
proof -
  assume ok: "ws_ok s"
  consider (same) "same_table s (fst (ws_step c s))"
    | (handshake) h where "c = WHandshake h" | (start) dial i where "c = WStart dial i" | (finish) i where "c = WEnd i"
    | (close) ids where "fst (ws_step c s) = fold closeConnection ids s"
    by (cases c)
      (auto simp: closeAllConnections_def cleanConnections_def RedirectClient_def CheckBackendHealth_def table.R_client_read
        table.R_backend_read table.R_keepalive table.R_send same_table_prepare table.R_check table.R_health_check
        table.R_monitor)
  then show ?thesis
  proof cases
    case same
    then show ?thesis by (rule ws_ok_same [OF _ ok])
  qed (simp_all add: ok ws_ok_handshake ws_ok_start ws_ok_end ws_ok_close_all)
qed

lemma ws_ok_New: "ws_ok (NewServer now config storage)"
  by (simp add: ws_ok_def NewServer_def Let_def open_clients_def with_defaults_def)

lemma ws_ok_run:
  "ws_ok s \<Longrightarrow> ws_ok (fst (run_calls ws_step calls s)) \<and> ws_config (fst (run_calls ws_step calls s)) = ws_config s"
  by (induction calls arbitrary: s) (simp_all add: split_beta Let_def ws_ok_step)


section \<open>A failover and the reader of the old connection\<close>

lemma update_conn_clients [simp]: "ws_clients (update_conn i f s) i = map_option f (ws_clients s i)"
  by (simp add: update_conn_def)

lemma update_conn_fields [simp]:
  "ws_config (update_conn i f s) = ws_config s" "ws_backendHealth (update_conn i f s) = ws_backendHealth s"
  "ws_handler (update_conn i f s) = ws_handler s" "ws_connections (update_conn i f s) = ws_connections s"
  "ws_nextConn (update_conn i f s) = ws_nextConn s" "ws_domainProxy (update_conn i f s) = ws_domainProxy s"
  by (simp_all add: update_conn_def)

lemma write_backend_fields [simp]:
  "cc_readerConn (write_backend ok ty msg c) = cc_readerConn c" "cc_closedConns (write_backend ok ty msg c) = cc_closedConns c"
  "cc_ErrorCount (write_backend ok ty msg c) = cc_ErrorCount c" "cc_backendDone (write_backend ok ty msg c) = cc_backendDone c"
  by (simp_all add: write_backend_def split: option.split)

text \<open>What the steps before the write leave of the connection.\<close>

definition same_conn :: "ClientConnection \<Rightarrow> ClientConnection \<Rightarrow> bool" where
  "same_conn c c' \<longleftrightarrow>
     cc_BackendConn c' = cc_BackendConn c \<and> cc_CurrentBackend c' = cc_CurrentBackend c \<and> cc_readerConn c' = cc_readerConn c \<and>
     cc_backendDone c' = cc_backendDone c \<and> cc_closed c' = cc_closed c \<and> cc_clientDone c' = cc_clientDone c \<and>
     cc_closedConns c' = cc_closedConns c \<and> cc_errors c' = cc_errors c \<and> cc_ErrorCount c' = cc_ErrorCount c"

lemma same_conn_refl [simp]: "same_conn c c"
  by (simp add: same_conn_def)

lemma extract_conn:
  assumes "ws_clients s i = Some c"
  shows "\<exists>c'. ws_clients (extractSIPState now m i s) i = Some c' \<and> same_conn c c' \<and>
     cc_LastActivity c' = cc_LastActivity c \<and> ws_config (extractSIPState now m i s) = ws_config s"
  using assms by (cases m) (auto simp: extractSIPState_def Let_def sip_state_def same_conn_def)

lemma extract_if_conn:
  assumes "ws_clients s i = Some c"
  shows "\<exists>c'. ws_clients (extract_if_sip parse now msg i s) i = Some c' \<and> same_conn c c' \<and>
     ws_config (extract_if_sip parse now msg i s) = ws_config s"
  using assms extract_conn [OF assms]
  by (cases "parse msg") (auto simp: extract_if_sip_def)

lemma failover_Some:
  assumes "try_backend_failover io i s = (s', Some conn)" and "ws_clients s i = Some c"
  shows "ws_clients s' i = Some (c\<lparr>cc_BackendConn := Some conn, cc_CurrentBackend := selectHealthyBackend
        (UpdateBackendHealth (cc_CurrentBackend c) False s), cc_ErrorCount := 0\<rparr>) \<and>
     selectHealthyBackend (UpdateBackendHealth (cc_CurrentBackend c) False s) \<noteq> cc_CurrentBackend c \<and>
     ws_config s' = ws_config s \<and>
     ws_backendHealth s' = AList.update (cc_CurrentBackend c) False (ws_backendHealth s)"
  using assms
  by (auto simp: try_backend_failover_def Let_def UpdateBackendHealth_def update_conn_def split: if_splits)

lemma failover_None:
  assumes "try_backend_failover io i s = (s', None)" and "ws_clients s i = Some c"
  shows "ws_clients s' i = Some c \<and> ws_config s' = ws_config s \<and>
     (wc_FailoverThreshold (ws_config s) \<le> cc_ErrorCount c \<longrightarrow>
        ws_backendHealth s' = AList.update (cc_CurrentBackend c) False (ws_backendHealth s))"
  using assms by (auto simp: try_backend_failover_def Let_def UpdateBackendHealth_def split: if_splits)

text \<open>The state of a connection right after a failover of the client's reader.\<close>

lemma client_read_failover:
  assumes "ws_clients s i = Some c" and "\<not> cc_closed c" and "\<not> cc_clientDone c" and "cc_BackendConn c = Some old"
    and "cc_readerConn c = old" and "\<not> wi_write io"
    and "ws_clients (client_read parse io transport (ReadMsg ty raw) i s) i = Some c1"
    and "cc_CurrentBackend c1 \<noteq> cc_CurrentBackend c"
  shows "cc_readerConn c1 = old \<and> old \<in> set (cc_closedConns c1) \<and> cc_ErrorCount c1 = 0 \<and>
     cc_backendDone c1 = cc_backendDone c \<and> ws_config (client_read parse io transport (ReadMsg ty raw) i s) = ws_config s"
proof -
  let ?s0 = "update_conn i (\<lambda>c. c\<lparr>cc_LastActivity := wi_now io\<rparr>) s"
  let ?s1 = "extract_if_sip parse (wi_now io) raw i ?s0"
  let ?msg = "if ty = TextMessage \<and> raw \<noteq> [] then RewriteClientToBackend i raw (ws_domainProxy ?s1) else raw"
  have c0: "ws_clients ?s0 i = Some (c\<lparr>cc_LastActivity := wi_now io\<rparr>)" using assms(1) by simp
  from extract_if_conn [OF this] obtain c' where c': "ws_clients ?s1 i = Some c'" "same_conn c c'" "ws_config ?s1 = ws_config s"
    by (fastforce simp: same_conn_def)
  let ?s2 = "update_conn i (\<lambda>c. c\<lparr>cc_ErrorCount := cc_ErrorCount c + 1\<rparr>) ?s1"
  obtain s3 r where f: "try_backend_failover io i ?s2 = (s3, r)" by (cases "try_backend_failover io i ?s2")
  have c2: "ws_clients ?s2 i = Some (c'\<lparr>cc_ErrorCount := cc_ErrorCount c' + 1\<rparr>)" using c'(1) by simp
  have step: "client_read parse io transport (ReadMsg ty raw) i s = fst (forward_to_backend io ty ?msg i ?s1)"
    if "\<exists>conn. r = Some conn"
    using assms(1-3,6) c' f that assms(4) by (auto simp: client_read_def Let_def forward_to_backend_def same_conn_def)
  show ?thesis
  proof (cases r)
    case (Some conn)
    note fo = failover_Some [OF f [unfolded Some] c2]
    have "client_read parse io transport (ReadMsg ty raw) i s =
        update_conn i (\<lambda>c. write_backend (wi_retry io) ty ?msg (c\<lparr>cc_closedConns := old # cc_closedConns c\<rparr>)) s3"
      using step Some f c' assms(4,6) by (simp add: forward_to_backend_def same_conn_def)
    then show ?thesis
      using fo c'(2,3) assms(5,7) by (auto simp: same_conn_def)
  next
    case None
    have "client_read parse io transport (ReadMsg ty raw) i s =
        update_conn i (\<lambda>c. c\<lparr>cc_errors := cc_errors c + 1, cc_clientDone := True\<rparr>) s3"
      using assms(1-4,6) c' f None by (simp add: client_read_def Let_def forward_to_backend_def same_conn_def)
    then have "cc_CurrentBackend c1 = cc_CurrentBackend c"
      using failover_None [OF f [unfolded None] c2] c'(2) assms(7) by (auto simp: same_conn_def)
    then show ?thesis using assms(8) by simp
  qed
qed

text \<open>
  C16: A failover of the client's reader does not last. It closes the connection that the backend's
  reader is still reading, so whatever that reader's next result, it is an error that is charged
  to the new backend: with the default threshold of one the new backend is marked unhealthy, and
  the client is either moved to yet another backend or its connection is ended by the error.
\<close>

theorem backend_failover_undone:
  assumes "ws_clients s i = Some c" and "\<not> cc_closed c" and "\<not> cc_clientDone c" and "\<not> cc_backendDone c"
    and "cc_BackendConn c = Some old" and "cc_readerConn c = old" and "\<not> wi_write io"
    and "s1 = client_read parse io transport (ReadMsg ty raw) i s"
    and "ws_clients s1 i = Some c1" and "cc_CurrentBackend c1 \<noteq> cc_CurrentBackend c"
    and "backend_read parse io' ev i s1 = (s2, r)" and "ws_clients s2 i = Some c2"
  shows "(cc_CurrentBackend c2 \<noteq> cc_CurrentBackend c1 \<or> 0 < cc_errors c2) \<and>
     (wc_FailoverThreshold (ws_config s) \<le> 1 \<longrightarrow> map_of (ws_backendHealth s2) (cc_CurrentBackend c1) = Some False)"
proof -
  note after = client_read_failover [OF assms(1-3,5-7), of parse transport ty raw c1, folded assms(8), OF assms(9,10)]
  let ?s = "update_conn i (\<lambda>c. c\<lparr>cc_ErrorCount := cc_ErrorCount c + 1\<rparr>) s1"
  have c: "ws_clients ?s i = Some (c1\<lparr>cc_ErrorCount := 1\<rparr>)" using assms(9) after by simp
  obtain s3 r3 where f: "try_backend_failover io' i ?s = (s3, r3)" by (cases "try_backend_failover io' i ?s")
  show ?thesis
  proof (cases r3)
    case (Some conn)
    note fo = failover_Some [OF f [unfolded Some] c]
    have "s2 = next_read i s3" using assms(4,9,11) after f Some by (simp add: backend_read_def)
    then show ?thesis
      using fo after assms(12)
      by (auto simp: next_read_def update_conv split: if_splits option.splits)
  next
    case None
    note fo = failover_None [OF f [unfolded None] c]
    have "s2 = update_conn i (\<lambda>c. c\<lparr>cc_errors := cc_errors c + 1, cc_backendDone := True\<rparr>) s3"
      using assms(4,9,11) after f None by (simp add: backend_read_def)
    then show ?thesis using fo after assms(12) by (auto simp: update_conv)
  qed
qed

definition sample_handshake :: handshake where
  "sample_handshake = \<lparr>hs_now = unixToInternal * Second, hs_remoteAddr = ''c'', hs_isUpgrade = True, hs_upgraded = True, hs_protocol = ''sip''\<rparr>"

definition sample_id :: string where
  "sample_id = client_id sample_handshake"

definition two_backends :: ServerConfig where
  "two_backends = \<lparr>wc_BindAddr = ''b'', wc_MaxConnections = 1, wc_ReadTimeout = 0, wc_WriteTimeout = 0, wc_IdleTimeout = 0,
     wc_ServerName = ''g'', wc_BackendServers = [''wss://one'', ''wss://two''], wc_FailoverThreshold = 0,
     wc_DisableWSSIPProcessing = True\<rparr>"

text \<open>A server with one client, which is connected to the first of two backends.\<close>

definition sample_ws :: Server where
  "sample_ws = fst (run_calls ws_step [WHandshake sample_handshake, WStart (\<lambda>_ _. True) sample_id]
     (NewServer 0 two_backends (NewMemoryStorage_fresh default_config)))"

definition broken_io :: ws_io where
  "broken_io = \<lparr>wi_now = 0, wi_write = False, wi_dial = (\<lambda>_ _. True), wi_retry = True, wi_clientWrite = True, wi_tx = (\<lambda>_. TxOk)\<rparr>"

definition after_failover :: Server where
  "after_failover = client_read (\<lambda>_. None) broken_io ''wss'' (ReadMsg TextMessage ''hello'') sample_id sample_ws"

lemma sample_ws_client:
  "ws_handler sample_ws = None \<and> wc_FailoverThreshold (ws_config sample_ws) = 1 \<and> sample_id \<in> set (ws_connections sample_ws) \<and>
   (case ws_clients sample_ws sample_id of
      Some c \<Rightarrow> \<not> cc_closed c \<and> \<not> cc_clientDone c \<and> \<not> cc_backendDone c \<and> cc_BackendConn c = Some 0 \<and> cc_readerConn c = 0 \<and>
        cc_CurrentBackend c = ''wss://one'' \<and> cc_closedConns c = [] \<and> cc_errors c = 0 \<and> cc_LastActivity c = hs_now sample_handshake
    | None \<Rightarrow> False)"
  by code_simp

lemma after_failover_client:
  "(case ws_clients after_failover sample_id of Some c \<Rightarrow> cc_CurrentBackend c = ''wss://two'' | None \<Rightarrow> False) \<and>
   ws_clients (fst (backend_read (\<lambda>_. None) broken_io (ReadMsg TextMessage ''hi'') sample_id after_failover)) sample_id \<noteq> None"
  by code_simp

theorem backend_failover_undone_witness:
  "map_of (ws_backendHealth (fst (backend_read (\<lambda>_. None) broken_io (ReadMsg TextMessage ''hi'') sample_id after_failover)))
     ''wss://two'' = Some False"
proof -
  let ?s2 = "fst (backend_read (\<lambda>_. None) broken_io (ReadMsg TextMessage ''hi'') sample_id after_failover)"
  obtain c where c: "ws_clients sample_ws sample_id = Some c" "\<not> cc_closed c" "\<not> cc_clientDone c" "\<not> cc_backendDone c"
      "cc_BackendConn c = Some 0" "cc_readerConn c = 0" "cc_CurrentBackend c = ''wss://one''"
    using sample_ws_client by (auto split: option.splits)
  obtain c1 where c1: "ws_clients after_failover sample_id = Some c1" "cc_CurrentBackend c1 = ''wss://two''"
    using after_failover_client by (auto split: option.splits)
  obtain c2 where c2: "ws_clients ?s2 sample_id = Some c2" using after_failover_client by auto
  obtain r where r: "backend_read (\<lambda>_. None) broken_io (ReadMsg TextMessage ''hi'') sample_id after_failover = (?s2, r)"
    by (metis prod.collapse)
  have io: "\<not> wi_write broken_io" by (simp add: broken_io_def)
  show ?thesis
    using backend_failover_undone [OF c(1-6) io after_failover_def c1(1) _ r c2] c(7) c1(2) sample_ws_client by simp
qed

section \<open>Panics of the backend's reader\<close>

lemma extract_handler [simp]: "ws_handler (extractSIPState now m i s) = ws_handler s"
  by (simp add: extractSIPState_def Let_def split: sip_message.split option.split)

lemma extract_config [simp]: "ws_config (extractSIPState now m i s) = ws_config s"
  by (simp add: extractSIPState_def Let_def split: sip_message.split option.split)

text \<open>
  The backend's reader panics (and with it the whole program, as its goroutine does not
  recover) exactly when no SIP handler was set and the backend sends a CANCEL or BYE request: these
  are passed to the handler even when SIP processing is disabled, without checking that there is one.
\<close>

lemma backend_reader_panics_iff:
  assumes "ws_clients s i = Some c" and "\<not> cc_backendDone c" and "cc_readerConn c \<notin> set (cc_closedConns c)"
  shows "\<not> returns (snd (backend_read parse io ev i s)) \<longleftrightarrow>
     ws_handler s = None \<and> (\<exists>ty msg m. ev = ReadMsg ty msg \<and> msg \<noteq> [] \<and> parse msg = Some m \<and> critical m)"
proof (cases ev)
  case (ReadMsg ty msg)
  have "snd (backend_read parse io ev i s) = snd (handle_backend_sip parse io msg i s)"
    using assms ReadMsg
    by (cases "handle_backend_sip parse io msg i s"; cases "snd (handle_backend_sip parse io msg i s)")
      (auto simp: backend_read_def)
  then show ?thesis
    using assms(1) ReadMsg
    by (cases "parse msg") (auto simp: handle_backend_sip_def Let_def split: option.split)
qed (use assms in \<open>auto simp: backend_read_def split: prod.split option.split\<close>)

section \<open>Clients that leave\<close>

text \<open>The object of client \<open>i\<close> and its place in the table, for work on other clients.\<close>

definition same_client :: "string \<Rightarrow> Server \<Rightarrow> Server \<Rightarrow> bool" where
  "same_client i s s' \<longleftrightarrow>
     ws_clients s' i = ws_clients s i \<and> (i \<in> set (ws_connections s') \<longleftrightarrow> i \<in> set (ws_connections s))"

interpretation other: untouched "same_client i" "\<lambda>j. j \<noteq> i" for i
  by unfold_locales (auto simp: same_client_def update_conn_def)

lemma same_client_close: "j \<noteq> i \<Longrightarrow> same_client i s (closeConnection j s)"
  by (auto simp: same_client_def closeConnection_def split: option.split)

lemma same_client_start: "j \<noteq> i \<Longrightarrow> same_client i s (handleClient_start dial j s)"
  by (simp add: handleClient_start_def Let_def same_client_close split: option.split)

lemma same_client_end: "j \<noteq> i \<Longrightarrow> same_client i s (handleClient_end j s)"
  by (simp add: handleClient_end_def same_client_close split: option.split)

lemma same_client_handshake: "client_id h \<noteq> i \<Longrightarrow> same_client i s (fst (handleWebSocket h s))"
  by (auto simp: handleWebSocket_def split_beta Let_def same_client_def)

text \<open>
  A client that has closed its side normally, last heard of at \<open>t\<close>, and calls that do not end its
  connection: its backend sends nothing more (or closes normally too), no cleanup comes later than
  30 minutes after \<open>t\<close>, and the server is not stopped.
\<close>

definition has_left :: "string \<Rightarrow> gotime \<Rightarrow> Server \<Rightarrow> bool" where
  "has_left i t s \<longleftrightarrow>
     i \<in> set (ws_connections s) \<and>
     (\<exists>c. ws_clients s i = Some c \<and> cc_clientDone c \<and> cc_errors c = 0 \<and> \<not> cc_closed c \<and> cc_LastActivity c = t \<and>
        cc_readerConn c \<notin> set (cc_closedConns c))"

fun quiet :: "string \<Rightarrow> gotime \<Rightarrow> ws_call \<Rightarrow> bool" where
  "quiet i t (WHandshake h) \<longleftrightarrow> client_id h \<noteq> i"
| "quiet i t (WStart dial j) \<longleftrightarrow> j \<noteq> i"
| "quiet i t (WBackend parse io ev j) \<longleftrightarrow> j \<noteq> i \<or> ev = ClosedNormally"
| "quiet i t (WClean now) \<longleftrightarrow> now \<le> t + 30 * Minute"
| "quiet i t WStop \<longleftrightarrow> False"
| "quiet i t _ \<longleftrightarrow> True"

lemma has_left_same: "same_client i s s' \<Longrightarrow> has_left i t s \<Longrightarrow> has_left i t s'"
  by (simp add: same_client_def has_left_def)

lemma has_left_send: "has_left i t s \<Longrightarrow> has_left i t (fst (SendMessage ok j msg s))"
  by (cases "j = i")
    (auto simp: SendMessage_def has_left_def update_conn_def split: option.split intro: has_left_same [OF other.R_send])

lemma has_left_prepare: "has_left i t s \<Longrightarrow> has_left i t (PrepareForFailover ok now s)"
proof -
  have "has_left i t s \<Longrightarrow> has_left i t (fold (\<lambda>i s. fst (SendMessage (ok i) i msg s)) is s)" for "is" msg s
    by (induction "is" arbitrary: s) (simp_all add: has_left_send)
  then show "has_left i t s \<Longrightarrow> ?thesis" by (simp add: PrepareForFailover_def)
qed

lemma has_left_clean:
  assumes "has_left i t s" and "now \<le> t + 30 * Minute"
  shows "has_left i t (cleanConnections now s)"
proof -
  have "\<not> inactive now s i" using assms by (auto simp: has_left_def inactive_def Before_def)
  then have "\<forall>j \<in> set (filter (inactive now s) (ws_connections s)). j \<noteq> i" by auto
  moreover have "\<forall>j \<in> set is. j \<noteq> i \<Longrightarrow> has_left i t s \<Longrightarrow> has_left i t (fold closeConnection is s)" for "is" s
    by (induction "is" arbitrary: s) (auto intro: has_left_same [OF same_client_close])
  ultimately show ?thesis using assms(1) by (simp add: cleanConnections_def)
qed

lemma has_left_own:
  assumes "has_left i t s"
  shows "has_left i t (client_read parse io tr ev i s)" "has_left i t (handleClient_end i s)"
    "has_left i t (keepalive_tick ok now url i s)" "has_left i t (fst (backend_read parse io ClosedNormally i s))"
  using assms
  by (auto simp: has_left_def client_read_def handleClient_end_def keepalive_tick_def backend_read_def update_conn_def)

lemma has_left_step:
  assumes "has_left i t s" and "quiet i t c"
  shows "has_left i t (fst (ws_step c s))"
proof -
  note other = has_left_same [OF _ assms(1)]
  show ?thesis
  proof (cases c)
    case (WClient parse io tr ev j)
    then show ?thesis using other [OF other.R_client_read] has_left_own(1) [OF assms(1)] by (cases "j = i") simp_all
  next
    case (WBackend parse io ev j)
    then show ?thesis using other [OF other.R_backend_read] has_left_own(4) [OF assms(1)] assms(2) by (cases "j = i") simp_all
  next
    case (WEnd j)
    then show ?thesis using other [OF same_client_end] has_left_own(2) [OF assms(1)] by (cases "j = i") simp_all
  next
    case (WKeepalive ok now url j)
    then show ?thesis using other [OF other.R_keepalive] has_left_own(3) [OF assms(1)] by (cases "j = i") simp_all
  next
    case (WCheck exchange)
    then show ?thesis using other [OF other.R_check [OF other.R_refl]] by (simp add: CheckBackendHealth_def)
  next
    case (WHealth now)
    then show ?thesis using other [OF other.R_health_check] by simp
  next
    case (WMonitor now h)
    then show ?thesis using other [OF other.R_monitor] by simp
  qed (use assms other [OF same_client_start] other [OF same_client_handshake] in
      \<open>simp_all add: has_left_send RedirectClient_def has_left_prepare has_left_clean\<close>)
qed



end
