(* ===== verification/Gateway_Safety.thy ===== *)
theory Gateway_Safety
  imports Gateway_Main Coordinator_Safety Health_Safety WebSocket_Safety RTP_Failover
begin

text \<open>
  Properties of the program as it is put together: what the configuration looks like once loaded,
  when the gateway comes up, what storage it gets, and who leads.
\<close>

section \<open>The loaded configuration\<close>

definition config_ok :: "Config \<Rightarrow> bool" where
  "config_ok c \<longleftrightarrow>
     cf_LogLevel c \<noteq> [] \<and> 0 < cf_ShutdownWaitSeconds c \<and>
     (let l = cf_Logging c in lc_Directory l \<noteq> [] \<and> 0 < lc_MaxSize l \<and> 0 < lc_MaxBackups l \<and> 0 < lc_MaxAge l \<and>
        (lc_UseConsole l \<or> lc_LogFile l \<noteq> [])) \<and>
     (let m = cf_MemoryStorage c in 0 < my_MaxKeys m \<and> 0 < my_CleanupIntervalSeconds m \<and> 0 < my_ShardCount m) \<and>
     0 < sy_MaxForwards (cf_SIP c) \<and> sy_UserAgent (cf_SIP c) \<noteq> [] \<and>
     (let w = cf_WebSocket c in 0 < wy_MaxConnections w \<and> 0 < wy_ReadTimeoutMS w \<and> 0 < wy_WriteTimeoutMS w \<and>
        0 < wy_IdleTimeoutMS w \<and> wy_ServerName w \<noteq> []) \<and>
     0 < ha_HeartbeatInterval (cf_HighAvailability c) \<and> 0 < ha_LeaseTimeout (cf_HighAvailability c) \<and>
     (let t = cf_TestingMode c in tc_Enabled t \<longrightarrow> tc_EnableWebSocket t \<or> tc_EnableSIP t \<or> tc_EnableRTP t \<or> tc_EnableAMI t)"

lemmas default_defs = set_defaults_def log_defaults_def memory_defaults_def sip_defaults_def websocket_defaults_def
  ha_defaults_def testing_defaults_def or_int_def or_string_def

lemma set_defaults_ok: "config_ok (set_defaults c)"
  by (simp add: config_ok_def default_defs Let_def)

lemma ok_set_defaults: "config_ok c \<Longrightarrow> set_defaults c = c"
proof -
  assume ok: "config_ok c"
  have "(lc_UseConsole (cf_Logging c) \<or> lc_LogFile (cf_Logging c) = []) = lc_UseConsole (cf_Logging c)"
    and "testing_defaults (cf_TestingMode c) = cf_TestingMode c"
    using ok by (auto simp: config_ok_def testing_defaults_def Let_def)
  then show ?thesis
    using ok
    by (simp add: config_ok_def set_defaults_def log_defaults_def memory_defaults_def sip_defaults_def websocket_defaults_def
        ha_defaults_def or_int_def or_string_def Let_def)
qed

text \<open>
  C40: A configuration file that can be read and parsed always loads. What \<open>LoadConfig\<close> returns is
  well formed (positive sizes and times, no empty names, some service in testing mode), it is what
  loading it again would give, and a configuration that is well formed already is not changed.
\<close>

theorem LoadConfig_well_formed:
  assumes "read path = Some data" and "yaml data = Some config"
  shows "\<exists>c. LoadConfig read yaml path = Ret c \<and> config_ok c \<and> set_defaults c = c \<and> (config_ok config \<longrightarrow> c = config)"
  using assms ok_set_defaults [OF set_defaults_ok] ok_set_defaults by (simp add: LoadConfig_def set_defaults_ok)

section \<open>The storage of a gateway\<close>

definition storage_core :: "MemoryStorage \<Rightarrow> KeyValue syncmap list \<times> int \<times> bool \<times> bool" where
  "storage_core m = (ms_data m, ms_shardCount m, ms_persistOnShutdown m, ms_stopped m)"

lemma load_core [simp]:
  "storage_core (fold (load_dialog now) vs1 m) = storage_core m" "storage_core (fold (load_rtpSession now) vs2 m) = storage_core m"
  "storage_core (fold (load_clientSession now) vs3 m) = storage_core m"
  "storage_core (fold (load_registration now) vs4 m) = storage_core m" "storage_core (fold (load_amiAction now) vs5 m) = storage_core m"
  by (rule fold_frame, simp add: storage_core_def load_dialog_def load_rtpSession_def load_clientSession_def load_registration_def
      load_amiAction_def)+

lemma NewMemoryStorage_core: "storage_core (NewMemoryStorage now io fs config) = storage_core (NewMemoryStorage_fresh config)"
  by (simp add: NewMemoryStorage_def loadFromFile_def Let_def split: option.split sum.split)

lemma kv_core: "storage_core m = storage_core m' \<Longrightarrow> kv_ok m = kv_ok m' \<and> kv_view m = kv_view m'"
  by (simp add: storage_core_def kv_ok_def shards_ok_def kv_view_def getShard_def fun_eq_iff)

lemma main_storage_ok:
  "kv_ok (NewMemoryStorage now io fs (main_storage_config c))" "kv_view (NewMemoryStorage now io fs (main_storage_config c)) = Map.empty"
proof -
  have "kv_ok (NewMemoryStorage_fresh (main_storage_config c))" by (rule kv_ok_New) (simp add: main_storage_config_def)
  then show "kv_ok (NewMemoryStorage now io fs (main_storage_config c))" "kv_view (NewMemoryStorage now io fs (main_storage_config c)) = Map.empty"
    using kv_core [OF NewMemoryStorage_core [of now io fs "main_storage_config c"]] by simp_all
qed

lemma storage_settings_kv:
  "ms_shardCount (fst (Set now k v d m)) = ms_shardCount m" "ms_persistOnShutdown (fst (Set now k v d m)) = ms_persistOnShutdown m"
  "ms_shardCount (fst (Get now k m)) = ms_shardCount m" "ms_persistOnShutdown (fst (Get now k m)) = ms_persistOnShutdown m"
  by (simp_all add: Set_def Get_def Let_def split: option.split)

text \<open>What the coordinator does when it starts leaves the settings of the storage alone.\<close>

definition same_settings :: "MemoryStorage \<Rightarrow> MemoryStorage \<Rightarrow> bool" where
  "same_settings m m' \<longleftrightarrow> ms_shardCount m' = ms_shardCount m \<and> ms_persistOnShutdown m' = ms_persistOnShutdown m"

lemma same_settings_kv:
  "Set now k v d m = (m', r) \<Longrightarrow> same_settings m m'" "Get now k m = (m', r') \<Longrightarrow> same_settings m m'"
  by (metis same_settings_def storage_settings_kv fst_conv)+

lemma same_settings_trans: "same_settings m m' \<Longrightarrow> same_settings m' m'' \<Longrightarrow> same_settings m m''"
  by (simp add: same_settings_def)

lemma same_settings_start:
  assumes "Coordinator_Start now addrs c m = (c', m', r)"
  shows "same_settings m m'"
proof -
  have "same_settings m (fst (registerInstance now addrs c m))"
    by (auto simp: registerInstance_def Let_def same_settings_def split: option.split prod.split outcome.split dest!: same_settings_kv(1))
  moreover have "same_settings m1 (snd (tryAcquireLeadership now c m1))" for m1
    by (auto simp: tryAcquireLeadership_def acquire_check_def acquire_write_def acquire_verify_def same_settings_def
      split: prod.split outcome.split option.split bool.split dest!: same_settings_kv)
  ultimately show ?thesis
    using assms
    by (auto simp: Coordinator_Start_def Let_def split: prod.splits outcome.splits) (metis same_settings_trans snd_conv)
qed

lemma create_coordinator_Ret:
  assumes "create_coordinator io c st = Ret (co, st')"
  obtains co0 co1 where "NewCoordinator (mi_now io) (mi_hostname io) False (main_coordinator_config c) = Ret co0"
    and "Coordinator_Start (mi_now io) (mi_addrs io) co0 st = (co1, st', Ret ())"
    and "co = fold RegisterComponentLeadership [''rtpengine'', ''ami'', ''sip'', ''websocket''] co1"
proof -
  obtain co0 where new: "NewCoordinator (mi_now io) (mi_hostname io) False (main_coordinator_config c) = Ret co0"
    using assms by (auto simp: create_coordinator_def outcome_Ret)
  obtain co1 st1 r where start: "Coordinator_Start (mi_now io) (mi_addrs io) co0 st = (co1, st1, r)"
    by (cases "Coordinator_Start (mi_now io) (mi_addrs io) co0 st")
  show thesis using that [OF new, of co1] start assms by (auto simp: create_coordinator_def new outcome_Ret)
qed

lemma registerInstance_Ret:
  assumes "kv_ok m"
  shows "snd (registerInstance now addrs c m) = (case addrs of None \<Rightarrow> Fail InterfaceAddrsFailed | Some _ \<Rightarrow> Ret ())"
proof (cases addrs)
  case (Some as)
  obtain i where "getShard m (instanceKey c) = Some i" using kv_ok_getShard [OF assms] by blast
  then show ?thesis using Some by (simp add: registerInstance_def Set_def Let_def)
qed (simp add: registerInstance_def)

lemma Coordinator_Start_Ret:
  assumes "kv_ok m"
  shows "snd (snd (Coordinator_Start now addrs c m)) = (case addrs of None \<Rightarrow> Fail InterfaceAddrsFailed | Some _ \<Rightarrow> Ret ())"
  using registerInstance_Ret [OF assms, of now addrs c]
  by (auto simp: Coordinator_Start_def split_beta Let_def split: prod.split outcome.split option.split)

text \<open>A coordinator that starts on a storage without a lease leads at once.\<close>

lemma leading_start:
  assumes "kv_ok m" and "lease_kv m = None" and "0 < co_leaseTimeout c" and "Coordinator_Start now addrs c m = (c', m', Ret ())"
    and "\<not> co_isLeader c"
  shows "leading now c' m' \<and> co_leaseTimeout c' = co_leaseTimeout c"
proof -
  let ?m = "fst (registerInstance now addrs c m)"
  have m: "kv_ok ?m" "lease_kv ?m = None" using registerInstance_lease [OF assms(1)] assms(2) by auto
  have p: "(c', m') = tryAcquireLeadership now c ?m"
    using assms(4) by (auto simp: Coordinator_Start_def Let_def split: prod.splits outcome.splits)
  obtain m1 where "acquire_check now ?m = (m1, True)" "kv_ok m1" by (rule acquire_check_free [OF m])
  then have "leading now c' m'" using leading_acquired [OF m(1) assms(3)] p by (metis fst_conv snd_conv)
  moreover have "good_call now c ?m (c', m')"
    unfolding p using m assms(3,5) by (intro tryAcquire_good) (simp_all add: lease_inv_def)
  ultimately show ?thesis by (simp add: good_call_def)
qed

section \<open>When a gateway comes up\<close>

text \<open>A client that was never connected connects without a panic.\<close>

definition fresh_client :: "AMIClient \<Rightarrow> bool" where
  "fresh_client c \<longleftrightarrow> \<not> ac_conn c \<and> \<not> ac_stopClosed c \<and> \<not> ac_doneClosed c \<and> ac_dispatchers c = 0"

lemma Connect_fresh: "fresh_client c \<Longrightarrow> returns (snd (Connect io c))"
  by (auto simp: fresh_client_def Connect_def connectImpl_def Let_def close_old_def stop_dispatchers_def abort_login_def close_stop_def
      send_banner_signal_def ami_failure_def closeConn_def split_beta)

lemma new_backends_fresh: "new_backends now configs = Ret cs \<Longrightarrow> c \<in> set cs \<Longrightarrow> fresh_client c"
  by (induction configs arbitrary: cs)
    (auto simp: AMI_New_def fresh_client_def split: outcome.splits if_splits)

lemma new_backends_returns: "returns (new_backends now configs)"
  by (induction configs) (auto simp: AMI_New_def split: outcome.splits)

lemma connect_backends_fresh:
  assumes "distinct ks" and "\<And>i. i \<in> set ks \<Longrightarrow> i < length (bm_backends m) \<and> fresh_client (bm_backends m ! i)"
  shows "returns (snd (connect_backends cio ks m))"
  using assms
proof (induction ks arbitrary: m)
  case (Cons i ks)
  obtain m1 r where m1: "connect_backend cio i m = (m1, r)" by (cases "connect_backend cio i m")
  have r: "returns r" using Connect_fresh [of "bm_backends m ! i" "cio i"] Cons.prems(2) [of i] m1
    by (auto simp: connect_backend_def split_beta Let_def)
  have "length (bm_backends m1) = length (bm_backends m)" and "j \<noteq> i \<Longrightarrow> bm_backends m1 ! j = bm_backends m ! j" for j
    using m1 by (auto simp: connect_backend_def split_beta Let_def)
  then have "returns (snd (connect_backends cio ks m1))"
    using Cons.prems by (intro Cons.IH) (auto, metis)
  then show ?case using r m1 by (cases r) auto
qed simp

lemma NewBackendManager_returns: "returns (NewBackendManager now cio configs)"
proof (cases "new_backends now configs")
  case (Ret cs)
  show ?thesis
  proof (cases configs)
    case (Cons cfg cfgs)
    let ?m = "\<lparr>bm_backends = cs, bm_activeBackend = 0, bm_reconnectDelay = 30 * Second\<rparr>"
    have ne: "cs \<noteq> []" using Ret Cons by (auto split: outcome.splits)
    have fresh: "fresh_client (cs ! i)" if "i < length cs" for i using new_backends_fresh [OF Ret] that by simp
    obtain m1 r where m1: "connect_backend cio 0 ?m = (m1, r)" by (cases "connect_backend cio 0 ?m")
    have r: "returns r" using Connect_fresh [OF fresh, of 0 "cio 0"] ne m1 by (auto simp: connect_backend_def split_beta Let_def)
    have "length (bm_backends m1) = length cs" and "0 < j \<Longrightarrow> bm_backends m1 ! j = cs ! j" for j
      using m1 by (auto simp: connect_backend_def split_beta Let_def)
    then have "returns (snd (connect_backends cio [1..<length (bm_backends m1)] m1))"
      using fresh by (intro connect_backends_fresh) auto
    then show ?thesis
      using r m1 Ret Cons by (cases r) (auto simp: NewBackendManager_def Let_def split: prod.splits outcome.splits)
  qed (simp add: NewBackendManager_def)
qed (use new_backends_returns [of now configs] in \<open>auto simp: NewBackendManager_def\<close>)

lemma create_ami_proxy_Ret: "\<exists>p. create_ami_proxy io mc = Ret p"
proof -
  have "returns (NewProxyServer now cio listen addrs configs)" for now cio listen addrs configs
    using NewBackendManager_returns [of now cio configs]
    by (cases "NewBackendManager now cio configs") (simp_all add: NewProxyServer_def Let_def)
  then show ?thesis
    by (auto simp: create_ami_proxy_def split: outcome.split) (metis returns.simps(3,4))+
qed

lemma init_engines_Nil: "init_engines now resolves configs = [] \<longleftrightarrow>
    (\<forall>config \<in> set configs. \<not> resolves (host_port (rc_Address config) (rc_Port config)))"
  by (induction configs) (auto simp: New_def Let_def)

lemma init_clients_Nil: "init_clients now configs = [] \<longleftrightarrow>
    (\<forall>config \<in> set configs. amc_Address config = [] \<or> amc_Username config = [] \<or> amc_Secret config = [])"
  by (induction configs) (auto simp: AMI_New_def)

lemma create_rtp_Ret: "(\<exists>m. create_rtp io c st = Ret m) \<longleftrightarrow>
    (service tc_EnableRTP c \<longrightarrow> (\<exists>e \<in> set (cf_RTPEngine c). mi_resolves io (host_port (ri_Address e) (ri_Port e))))"
  by (auto simp: create_rtp_def outcome_Ret NewManager_def Let_def init_engines_Nil ToRTPEngineManagerConfig_def)

lemma create_ami_Ret: "(\<exists>m. create_ami io c st = Ret m) \<longleftrightarrow>
    (service tc_EnableAMI c \<longrightarrow> (\<exists>a \<in> set (as_Clients (cf_Asterisk c)). al_Address a \<noteq> [] \<and> al_Username a \<noteq> [] \<and> al_Secret a \<noteq> []))"
  using create_ami_proxy_Ret [of io "ToAsteriskManagerConfig c"]
  by (auto simp: create_ami_def outcome_Ret AMI_NewManager_def Let_def init_clients_Nil ToAsteriskManagerConfig_def ami_client_config_def)

lemma create_sip_Ret: "(\<exists>p. create_sip io c = Ret p) \<longleftrightarrow> (service tc_EnableSIP c \<longrightarrow> mi_sipgo io \<and> mi_udp io (sy_UDPBindAddr (cf_SIP c)))"
  by (simp add: create_sip_def)

lemma create_coordinator_iff: "kv_ok st \<Longrightarrow> (\<exists>p. create_coordinator io c st = Ret p) \<longleftrightarrow> mi_addrs io \<noteq> None"
  using Coordinator_Start_Ret [of st "mi_now io" "mi_addrs io"]
  by (auto simp: create_coordinator_def outcome_Ret NewCoordinator_def Let_def split_beta split: option.splits)

lemma main_create_Ret_iff:
  "(\<exists>g. main_create io c = Ret g) \<longleftrightarrow>
     mi_addrs io \<noteq> None \<and>
     (service tc_EnableRTP c \<longrightarrow> (\<exists>e \<in> set (cf_RTPEngine c). mi_resolves io (host_port (ri_Address e) (ri_Port e)))) \<and>
     (service tc_EnableAMI c \<longrightarrow>
        (\<exists>a \<in> set (as_Clients (cf_Asterisk c)). al_Address a \<noteq> [] \<and> al_Username a \<noteq> [] \<and> al_Secret a \<noteq> [])) \<and>
     (service tc_EnableSIP c \<longrightarrow> mi_sipgo io \<and> mi_udp io (sy_UDPBindAddr (cf_SIP c)))"
proof -
  let ?st = "NewMemoryStorage (mi_now io) (mi_diskio io) (mi_disk io) (main_storage_config c)"
  have "(\<exists>g. main_create io c = Ret g) \<longleftrightarrow>
      (\<exists>co st. create_coordinator io c ?st = Ret (co, st) \<and> (\<exists>m. create_rtp io c st = Ret m) \<and> (\<exists>m. create_ami io c st = Ret m) \<and>
        (\<exists>p. create_sip io c = Ret p))"
    by (auto simp: main_create_def outcome_Ret Let_def split: prod.splits)
  also have "\<dots> \<longleftrightarrow> (\<exists>p. create_coordinator io c ?st = Ret p) \<and>
     (service tc_EnableRTP c \<longrightarrow> (\<exists>e \<in> set (cf_RTPEngine c). mi_resolves io (host_port (ri_Address e) (ri_Port e)))) \<and>
     (service tc_EnableAMI c \<longrightarrow>
        (\<exists>a \<in> set (as_Clients (cf_Asterisk c)). al_Address a \<noteq> [] \<and> al_Username a \<noteq> [] \<and> al_Secret a \<noteq> [])) \<and>
     (service tc_EnableSIP c \<longrightarrow> mi_sipgo io \<and> mi_udp io (sy_UDPBindAddr (cf_SIP c)))"
    unfolding create_rtp_Ret create_ami_Ret create_sip_Ret by auto
  finally show ?thesis using create_coordinator_iff [OF main_storage_ok(1)] by simp
qed

text \<open>
  C20: The gateway is created exactly when the addresses of the host can be listed and, for each
  service that testing mode does not leave out, some configured RTPEngine has an address that
  resolves, some configured Asterisk client has an address, a user and a secret, and the SIP
  library and the UDP port are available. Nothing else (the storage, the persistence file, the
  AMI proxy, the WebSocket server) can keep it from coming up.
\<close>

theorem gateway_created_iff:
  "(\<exists>g. main_create io c = Ret g) \<longleftrightarrow>
     mi_addrs io \<noteq> None \<and>
     (service tc_EnableRTP c \<longrightarrow> (\<exists>e \<in> set (cf_RTPEngine c). mi_resolves io (host_port (ri_Address e) (ri_Port e)))) \<and>
     (service tc_EnableAMI c \<longrightarrow>
        (\<exists>a \<in> set (as_Clients (cf_Asterisk c)). al_Address a \<noteq> [] \<and> al_Username a \<noteq> [] \<and> al_Secret a \<noteq> [])) \<and>
     (service tc_EnableSIP c \<longrightarrow> mi_sipgo io \<and> mi_udp io (sy_UDPBindAddr (cf_SIP c)))"
  by (rule main_create_Ret_iff)

section \<open>Who leads\<close>

lemma main_create_coordinator:
  assumes "main_create io c = Ret g"
  shows "create_coordinator io c (NewMemoryStorage (mi_now io) (mi_diskio io) (mi_disk io) (main_storage_config c)) =
    Ret (gw_coordinator g, gw_storage g)"
  using assms by (auto simp: main_create_def outcome_Ret Let_def split: prod.splits)

lemma register_fields [simp]:
  "co_isLeader (RegisterComponentLeadership n c) = co_isLeader c"
  "co_leaseExpiration (RegisterComponentLeadership n c) = co_leaseExpiration c"
  "co_leaseTimeout (RegisterComponentLeadership n c) = co_leaseTimeout c"
  "co_instanceID (RegisterComponentLeadership n c) = co_instanceID c"
  by (simp_all add: RegisterComponentLeadership_def)

lemma leading_register [simp]: "leading now (RegisterComponentLeadership n c) m \<longleftrightarrow> leading now c m"
  by (simp add: leading_def lease_of_def)

lemma gateway_leading:
  assumes "main_create io (set_defaults c) = Ret g" and "sorted (mi_now io # ts)"
    and "run_ticks ts (gw_coordinator g, gw_storage g) = (co, st)"
  shows "leading (last (mi_now io # ts)) co st \<and> co_leaseTimeout co = GetLeaseTimeout (set_defaults c)"
proof -
  let ?c = "set_defaults c"
  have pos: "0 < GetLeaseTimeout ?c"
    using set_defaults_ok [of c] by (simp add: config_ok_def GetLeaseTimeout_def Millisecond_def)
  obtain co0 co1 where new: "NewCoordinator (mi_now io) (mi_hostname io) False (main_coordinator_config ?c) = Ret co0"
    and start: "Coordinator_Start (mi_now io) (mi_addrs io) co0
      (NewMemoryStorage (mi_now io) (mi_diskio io) (mi_disk io) (main_storage_config ?c)) = (co1, gw_storage g, Ret ())"
    and co: "gw_coordinator g = fold RegisterComponentLeadership [''rtpengine'', ''ami'', ''sip'', ''websocket''] co1"
    using main_create_coordinator [OF assms(1)] by (rule create_coordinator_Ret)
  have co0: "co_leaseTimeout co0 = GetLeaseTimeout ?c" "\<not> co_isLeader co0"
    using new pos by (auto simp: NewCoordinator_def main_coordinator_config_def Let_def)
  have lead: "leading (mi_now io) co1 (gw_storage g) \<and> co_leaseTimeout co1 = co_leaseTimeout co0"
    using pos co0 by (intro leading_start [OF _ _ _ start]) (simp_all add: main_storage_ok)
  then show ?thesis
    using leading_run [of "mi_now io" "gw_coordinator g" "gw_storage g" ts] assms(2,3) pos co0 by (simp add: co)
qed

text \<open>
  C8: Every gateway leads. The storage is private to the process and its leases are not persisted,
  so the coordinator of each gateway that comes up finds no lease: it is leader from the start and
  from each later tick until a lease timeout has passed, whatever other gateways there are.
\<close>

theorem every_gateway_leads:
  assumes "main_create io (set_defaults c) = Ret g" and "sorted (mi_now io # ts)"
    and "last (mi_now io # ts) \<le> t" and "t < last (mi_now io # ts) + GetLeaseTimeout (set_defaults c)"
  shows "IsLeader t None (fst (run_ticks ts (gw_coordinator g, gw_storage g)))"
proof -
  obtain co st where run: "run_ticks ts (gw_coordinator g, gw_storage g) = (co, st)"
    by (cases "run_ticks ts (gw_coordinator g, gw_storage g)")
  then show ?thesis
    using gateway_leading [OF assms(1,2) run] assms(3,4) by (simp add: leading_def IsLeader_def Before_def)
qed

text \<open>
  Whatever the configuration says about shards and about persisting at shutdown, a gateway has
  32 shards, so that its key-value store never panics, and closing its storage writes nothing.
\<close>

lemma gateway_storage:
  assumes "main_create io c = Ret g"
  shows "kv_ok (gw_storage g) \<and> ms_shardCount (gw_storage g) = 32 \<and> fst (snd (Close now dio (gw_storage g) fs)) = fs"
proof -
  let ?st = "NewMemoryStorage (mi_now io) (mi_diskio io) (mi_disk io) (main_storage_config c)"
  obtain co0 co1 where new: "NewCoordinator (mi_now io) (mi_hostname io) False (main_coordinator_config c) = Ret co0"
    and start: "Coordinator_Start (mi_now io) (mi_addrs io) co0 ?st = (co1, gw_storage g, Ret ())"
    using main_create_coordinator [OF assms] by (rule create_coordinator_Ret)
  have "ms_shardCount ?st = 32 \<and> \<not> ms_persistOnShutdown ?st"
    using NewMemoryStorage_core [of "mi_now io" "mi_diskio io" "mi_disk io" "main_storage_config c"]
    by (simp add: storage_core_def NewMemoryStorage_fresh_def main_storage_config_def Let_def)
  then have "ms_shardCount (gw_storage g) = 32 \<and> \<not> ms_persistOnShutdown (gw_storage g)"
    using same_settings_start [OF start] by (simp add: same_settings_def)
  moreover have "0 < co_leaseTimeout co0" "\<not> co_isLeader co0"
    using new by (auto simp: NewCoordinator_def Let_def Second_def Millisecond_def split: if_splits)
  then have "good_call (mi_now io) co0 ?st (co1, gw_storage g)"
    by (intro Start_good [OF main_storage_ok(1) _ _ start]) (simp_all add: lease_inv_def)
  then have "kv_ok (gw_storage g)" by (simp add: good_call_def)
  ultimately show ?thesis by (simp add: Close_def Let_def)
qed

section \<open>Shutting down\<close>

lemma Disconnect_returned: "Disconnect c = (c', Ret ()) \<Longrightarrow> \<not> ac_connected c'"
  by (auto simp: Disconnect_def close_stop_def stop_dispatchers_def closeConn_def split: if_splits)

lemma Disconnect_outcome: "snd (Disconnect c) \<noteq> Blocked \<and> (\<forall>e. snd (Disconnect c) \<noteq> Fail e)"
  by (simp add: Disconnect_def close_stop_def stop_dispatchers_def)

lemma disconnect_all_returned:
  "disconnect_all cs = (cs', Ret ()) \<Longrightarrow> c \<in> set cs' \<Longrightarrow> \<not> ac_connected c"
proof (induction cs arbitrary: cs')
  case (Cons d cs)
  obtain d' r where d: "Disconnect d = (d', r)" by (cases "Disconnect d")
  then have "r = Ret ()" using Cons.prems(1) Disconnect_outcome [of d] by (cases r) auto
  then show ?case
    using Cons d Disconnect_returned [of d d'] by (auto split: prod.splits)
qed simp

lemma disconnect_all_outcome: "snd (disconnect_all cs) = Ret () \<or> (\<exists>p. snd (disconnect_all cs) = Panic p)"
  by (induction cs) (auto split: prod.splits outcome.splits)

lemma Shutdown_disconnects:
  assumes "c \<in> set (am_clients (fst (Manager_Shutdown m)))" and "\<forall>p. snd (Manager_Shutdown m) \<noteq> Panic p"
  shows "\<not> ac_connected c"
proof -
  obtain cs' r' where "disconnect_all (am_clients m) = (cs', r')" by (cases "disconnect_all (am_clients m)")
  then show ?thesis
    using assms disconnect_all_outcome [of "am_clients m"] disconnect_all_returned [of "am_clients m" cs' c]
    by (auto simp: Manager_Shutdown_def)
qed

lemma leading_released:
  assumes "leading t0 c m" and "now < co_leaseExpiration c"
  shows "\<not> co_isLeader (fst (releaseLeadership now c m))"
proof -
  obtain kv obj where kv: "lease_kv m = Some kv" "kv_Value kv = Json obj" "kv_Expiration kv = co_leaseExpiration c"
      "as_string (map_of obj ''instanceID'') = Some (co_instanceID c)"
    using assms(1) by (auto simp: leading_def lease_of_def)
  have "kv_ok m" using assms(1) by (simp add: leading_def)
  then show ?thesis
  proof (cases rule: Get_lease [where now = now])
    case (live m' kv')
    then show ?thesis using kv by (simp add: releaseLeadership_def split_beta)
  next
    case (none m' e)
    then show ?thesis using kv assms(2) by (simp add: kv_expired_def time_defs)
  qed
qed

lemma Stop_not_leader:
  assumes "leading t0 c m" and "Coordinator_Stop now done c m = (c', m', r)" and "now \<le> t"
  shows "\<not> IsLeader t name c'"
proof (cases "now < co_leaseExpiration c")
  case True
  then have "\<not> co_isLeader c'"
    using assms(1,2) leading_released [OF assms(1) True]
    by (auto simp: Coordinator_Stop_def IsLeader_def Before_def leading_def split_beta Let_def)
  then show ?thesis by (simp add: IsLeader_def split: option.split)
next
  case False
  then have "c' = c" using assms(2) by (auto simp: Coordinator_Stop_def IsLeader_def Before_def split_beta Let_def)
  then show ?thesis using False assms(3) by (simp add: IsLeader_def Before_def split: option.split)
qed

lemma create_ws_ok: "create_ws io c st sip = Some s \<Longrightarrow> ws_ok s"
  using ws_ok_New [of "mi_now io" "main_ws_config c" st]
  by (auto simp: create_ws_def Let_def SetSIPHandler_def ws_ok_def open_clients_def split: if_splits option.splits)

lemma main_create_ws: "main_create io c = Ret g \<Longrightarrow> gw_wsServer g = Some s \<Longrightarrow> ws_ok s"
  by (auto simp: main_create_def outcome_Ret Let_def split: prod.splits dest: create_ws_ok)

text \<open>The gateway after it has run: the coordinator has ticked, every service has served its calls.\<close>

definition served :: "gotime list \<Rightarrow> ws_call list \<Rightarrow> ami_call list \<Rightarrow> rtp_call list \<Rightarrow> Gateway \<Rightarrow> Gateway" where
  "served ts wcalls acalls rcalls g =
     (let (co, st) = run_ticks ts (gw_coordinator g, gw_storage g)
      in g\<lparr>gw_coordinator := co, gw_storage := st,
           gw_wsServer := map_option (\<lambda>s. fst (run_calls ws_step wcalls s)) (gw_wsServer g),
           gw_amiManager := map_option (\<lambda>m. fst (run_calls ami_step acalls m)) (gw_amiManager g),
           gw_rtpManager := map_option (\<lambda>m. fst (run_calls rtp_step rcalls m)) (gw_rtpManager g)\<rparr>)"


section \<open>A small configuration\<close>

definition sample_yaml :: Config where
  "sample_yaml = \<lparr>cf_LogLevel = [],
     cf_Logging = \<lparr>lc_UseConsole = False, lc_UseJSON = False, lc_LogFile = [], lc_Directory = [], lc_MaxSize = 0, lc_MaxBackups = 0,
       lc_MaxAge = 0, lc_Compress = False, lc_IncludeDateTime = False\<rparr>,
     cf_ShutdownWaitSeconds = 0,
     cf_Redis = \<lparr>rd_Enabled = False, rd_Addresses = [], rd_Password = [], rd_DB = 0, rd_PoolSize = 0, rd_MaxRetries = 0, rd_DialTimeout = 0\<rparr>,
     cf_MemoryStorage = \<lparr>my_MaxKeys = 0, my_CleanupIntervalSeconds = 0, my_PersistPath = ''/p'', my_PersistOnShutdown = True, my_ShardCount = 7\<rparr>,
     cf_RTPEngine = [\<lparr>ri_Address = ''r'', ri_Port = 22, ri_TimeoutMS = 0, ri_Weight = 0,
       ri_CircuitBreaker = \<lparr>by_FailureThreshold = 0, by_ResetSeconds = 0, by_HalfOpenMax = 0\<rparr>\<rparr>],
     cf_Asterisk = \<lparr>as_Clients = [\<lparr>al_Address = ''a'', al_Username = ''u'', al_Secret = ''s'', al_TimeoutMS = 0,
       al_CircuitBreaker = \<lparr>by_FailureThreshold = 0, by_ResetSeconds = 0, by_HalfOpenMax = 0\<rparr>\<rparr>],
       as_DefaultClient = 0, as_HealthCheckIntervalSeconds = 0, as_ConnectionTimeoutSeconds = 0, as_EnableReconnect = False,
       as_ReconnectIntervalSeconds = 0, as_MaxReconnectAttempts = 0, as_MaxRetries = 0, as_RetryDelay = ''2s'', as_EnableHAProxy = False,
       as_OriginalAddresses = []\<rparr>,
     cf_SIP = \<lparr>sy_UDPBindAddr = '':5060'', sy_ProxyURI = [], sy_DefaultNextHop = ''b:5060'', sy_MaxForwards = 0, sy_UserAgent = [],
       sy_DisableSIPProcessing = False, sy_DisableUDPSIPProcessing = False, sy_DisableWSSIPProcessing = False, sy_Backends = []\<rparr>,
     cf_WebSocket = \<lparr>wy_BindAddr = '':8080'', wy_CertFile = [], wy_KeyFile = [], wy_MaxConnections = 0, wy_ReadTimeoutMS = 0,
       wy_WriteTimeoutMS = 0, wy_IdleTimeoutMS = 0, wy_EnableIPv4Only = False, wy_ServerName = [], wy_BackendServers = [],
       wy_FailoverThreshold = 0, wy_DisableUDPSIPProcessing = False, wy_DisableSIPProcessing = False, wy_DisableWSSIPProcessing = False,
       wy_DomainRewriteEnabled = False, wy_SIPHeaderRewriting = False, wy_LogSIPTransformations = False\<rparr>,
     cf_Metrics = \<lparr>me_Enabled = False, me_BindAddr = []\<rparr>,
     cf_HighAvailability = \<lparr>ha_Enabled = False, ha_HeartbeatInterval = 0, ha_LeaseTimeout = 0, ha_NodeID = []\<rparr>,
     cf_TestingMode = \<lparr>tc_Enabled = False, tc_EnableWebSocket = False, tc_EnableSIP = False, tc_EnableRTP = False, tc_EnableAMI = False,
       tc_VerboseLogging = False, tc_LogSIPMessages = False, tc_SimulateBackendDelay = 0\<rparr>\<rparr>"

theorem LoadConfig_well_formed_witness:
  "\<exists>c. LoadConfig (\<lambda>_. Some ''y'') (\<lambda>_. Some sample_yaml) ''config.yaml'' = Ret c \<and> config_ok c \<and> set_defaults c = c"
  using LoadConfig_well_formed [of "\<lambda>_. Some ''y''" "''config.yaml''" "''y''" "\<lambda>_. Some sample_yaml" sample_yaml] by auto

definition sample_main_io :: main_io where
  "sample_main_io = \<lparr>mi_now = 0, mi_diskio = \<lparr>mkdir_ok = True, create_ok = True, encoded = 6, rename_ok = True, open_ok = True\<rparr>, mi_disk = Map.empty, mi_hostname = Some ''h'', mi_addrs = Some [],
     mi_resolves = (\<lambda>_. True), mi_sipgo = True, mi_udp = (\<lambda>_. True), mi_connect = (\<lambda>_. connect_fine 0), mi_expired = (\<lambda>_. False),
     mi_listen = (\<lambda>_. True), mi_version = ''dev''\<rparr>"

theorem gateway_created_iff_witness: "\<exists>g. main_create sample_main_io (set_defaults sample_yaml) = Ret g"
  using gateway_created_iff [of sample_main_io "set_defaults sample_yaml"]
  by (simp add: sample_main_io_def sample_yaml_def default_defs)

lemma sample_gateway:
  obtains g where "main_create sample_main_io (set_defaults sample_yaml) = Ret g"
  using main_create_Ret_iff [of sample_main_io "set_defaults sample_yaml"]
  by (auto simp: sample_main_io_def sample_yaml_def default_defs)

theorem every_gateway_leads_witness:
  "\<exists>g. main_create sample_main_io (set_defaults sample_yaml) = Ret g \<and>
     IsLeader (5 * Second) None (fst (run_ticks [2 * Second] (gw_coordinator g, gw_storage g)))"
proof -
  obtain g where g: "main_create sample_main_io (set_defaults sample_yaml) = Ret g" by (rule sample_gateway)
  have "GetLeaseTimeout (set_defaults sample_yaml) = 7 * Second" "mi_now sample_main_io = 0"
    by (simp_all add: GetLeaseTimeout_def sample_yaml_def default_defs duration_defs sample_main_io_def)
  then show ?thesis using every_gateway_leads [OF g, of "[2 * Second]" "5 * Second"] g by (simp add: duration_defs)
qed

lemma shutdown_result:
  "snd (main_shutdown now done g) = (case gw_amiManager g of None \<Rightarrow> Ret ()
     | Some m \<Rightarrow> (case snd (Manager_Shutdown m) of Panic p \<Rightarrow> Panic p | _ \<Rightarrow> Ret ()))"
  by (simp add: main_shutdown_def split_beta Let_def split: option.split outcome.split)

lemma main_create_ami: "main_create io c = Ret g \<Longrightarrow> create_ami io c (gw_storage g) = Ret (gw_amiManager g, gw_amiProxy g)"
  by (auto simp: main_create_def outcome_Ret Let_def split: prod.splits)

definition sample_ami_start :: ami_call where
  "sample_ami_start = AStart (\<lambda>_. connect_fine (10 * Second)) (\<lambda>_. False)"

lemma sample_ami_runs:
  "case create_ami sample_main_io (set_defaults sample_yaml) st of
     Ret (Some m, proxy) \<Rightarrow> (case fst (run_calls ami_step [sample_ami_start] m) of m' \<Rightarrow>
        map ac_connected (am_clients m') = [True] \<and> snd (Manager_Shutdown m') = Ret ()) | _ \<Rightarrow> False"
  by code_simp


end
