(* ===== verification/Gateway_HTTP.thy ===== *)
theory Gateway_HTTP
  imports Gateway_Safety
begin

text \<open>
  The HTTP side of the gateway: one multiplexer carries the endpoints of \<open>api/status.go\<close> and the
  WebSocket handler that \<open>Start\<close> of \<open>websocket/server.go\<close> adds. Request paths are clean ones (no
  \<open>.\<close>, \<open>..\<close> or empty elements), which \<open>http.ServeMux\<close> does not redirect.
\<close>

section \<open>The multiplexer\<close>

datatype route = RouteStatus | RouteHealth | RouteInternalHealth | RouteWebSocket

type_synonym mux = "(string \<times> route) list"

text \<open>\<open>Handle\<close> of \<open>http.ServeMux\<close> panics when the pattern is there already.\<close>

definition mux_handle :: "string \<Rightarrow> route \<Rightarrow> mux \<Rightarrow> (unit, mux) outcome" where
  "mux_handle pattern r m = (if map_of m pattern = None then Ret (m @ [(pattern, r)]) else Panic AlreadyRegistered)"

text \<open>A pattern without a final slash matches one path; the pattern \<open>/\<close> matches every path.\<close>

definition mux_route :: "string \<Rightarrow> mux \<Rightarrow> route option" where
  "mux_route path m = (case map_of m path of Some r \<Rightarrow> Some r | None \<Rightarrow> map_of m ''/'')"

definition RegisterStatusEndpoints :: "mux \<Rightarrow> (unit, mux) outcome" where
  "RegisterStatusEndpoints m = bind_outcome (mux_handle ''/status'' RouteStatus m) (mux_handle ''/health'' RouteHealth)"

section \<open>Start of the WebSocket server\<close>

text \<open>The fields of \<open>ServerConfig\<close> that only \<open>Start\<close> reads.\<close>

record listen_config =
  ln_BindAddr :: string
  ln_CertFile :: string
  ln_KeyFile :: string
  ln_EnableIPv4Only :: bool
  ln_UseInternalHealthHandler :: bool

text \<open>What \<open>main\<close> passes: \<open>UseInternalHealthHandler\<close> is not set.\<close>

definition main_listen_config :: "Config \<Rightarrow> listen_config" where
  "main_listen_config c = (let w = cf_WebSocket c in
     \<lparr>ln_BindAddr = wy_BindAddr w, ln_CertFile = wy_CertFile w, ln_KeyFile = wy_KeyFile w,
      ln_EnableIPv4Only = wy_EnableIPv4Only w, ln_UseInternalHealthHandler = False\<rparr>)"

datatype listener = Listening (ls_network: string) (ls_addr: string) (ls_tls: bool)

text \<open>Whether an address can be bound on a network, and whether the key pair loads.\<close>

record listen_io =
  li_bind :: "string \<Rightarrow> string \<Rightarrow> bool"
  li_keyPair :: "string \<Rightarrow> string \<Rightarrow> bool"

definition http_listener :: "listen_io \<Rightarrow> listen_config \<Rightarrow> listener option" where
  "http_listener io c =
     (if ln_CertFile c \<noteq> [] \<and> ln_KeyFile c \<noteq> []
      then if ln_EnableIPv4Only c
           then (if \<not> li_bind io ''tcp4'' (ln_BindAddr c) then None
                 else if \<not> li_keyPair io (ln_CertFile c) (ln_KeyFile c) then None
                 else Some (Listening ''tcp4'' (ln_BindAddr c) True))
           else (if li_bind io ''tcp'' (ln_BindAddr c) \<and> li_keyPair io (ln_CertFile c) (ln_KeyFile c)
                 then Some (Listening ''tcp'' (ln_BindAddr c) True) else None)
      else if ln_EnableIPv4Only c
           then (if \<not> li_bind io ''tcp4'' (ln_BindAddr c) then None else Some (Listening ''tcp4'' (ln_BindAddr c) False))
           else (if li_bind io ''tcp'' (ln_BindAddr c) then Some (Listening ''tcp'' (ln_BindAddr c) False) else None))"

record http_server =
  ht_mux :: mux
  ht_goroutines :: "string list"
  ht_listener :: "listener option"

definition start_goroutines :: "Server \<Rightarrow> string list" where
  "start_goroutines s = ''connection-cleaner'' # ''ws-health-monitor'' #
     (if wc_BackendServers (ws_config s) \<noteq> [] then [''backend-health-checker''] else []) @ [''http-server'']"

text \<open>\<open>Start\<close> returns nil also when its goroutine cannot listen: that is only logged.\<close>

definition Server_Start :: "listen_io \<Rightarrow> listen_config \<Rightarrow> Server \<Rightarrow> mux \<Rightarrow> (unit, http_server) outcome" where
  "Server_Start io c s m =
     bind_outcome (mux_handle ''/'' RouteWebSocket m) (\<lambda>m.
     bind_outcome (if ln_UseInternalHealthHandler c then mux_handle ''/health'' RouteInternalHealth m else Ret m) (\<lambda>m.
       Ret \<lparr>ht_mux = m, ht_goroutines = start_goroutines s, ht_listener = http_listener io c\<rparr>))"

text \<open>What \<open>main\<close> does with the multiplexer of the WebSocket server it has created.\<close>

definition main_http :: "listen_io \<Rightarrow> Config \<Rightarrow> Server \<Rightarrow> (unit, http_server) outcome" where
  "main_http io c s = bind_outcome (RegisterStatusEndpoints []) (Server_Start io (main_listen_config c) s)"

section \<open>Requests\<close>

datatype http_answer =
    StatusAnswer status_response
  | HealthAnswer int string
  | InternalHealthAnswer int
  | HandshakeAnswer handshake_result
  | NoHandler

text \<open>
  A request to the gateway: its path, its query, and, for the WebSocket handler, what is known of
  the connection. The status handler holds pointers to the components, so it sees them as they are.
\<close>

definition gateway_request :: "status_env \<Rightarrow> string \<Rightarrow> (string \<times> string) list \<Rightarrow> handshake \<Rightarrow> http_server \<Rightarrow> StatusHandler \<Rightarrow> Server \<Rightarrow>
    Server \<times> (unit, http_answer) outcome" where
  "gateway_request env path query h ht sh s =
     (let sh = sh\<lparr>sh_wsServer := Some s\<rparr>
      in case mux_route path (ht_mux ht) of
        None \<Rightarrow> (s, Ret NoHandler)
      | Some RouteStatus \<Rightarrow> (s, map_outcome id StatusAnswer (ServeHTTP env query sh))
      | Some RouteHealth \<Rightarrow> (s, map_outcome id (\<lambda>(code, body). HealthAnswer code body) (health_endpoint env sh))
      | Some RouteInternalHealth \<Rightarrow> (let (s, r) = handleHealthCheck (se_now env) s in (s, Ret (InternalHealthAnswer (hr_statusCode r))))
      | Some RouteWebSocket \<Rightarrow> (let (s, r) = handleWebSocket h s in (s, Ret (HandshakeAnswer r))))"

section \<open>What the gateway answers\<close>

lemma main_http_routes:
  "main_http io c s = Ret \<lparr>ht_mux = [(''/status'', RouteStatus), (''/health'', RouteHealth), (''/'', RouteWebSocket)],
     ht_goroutines = start_goroutines s, ht_listener = http_listener io (main_listen_config c)\<rparr>"
  by (simp add: main_http_def RegisterStatusEndpoints_def Server_Start_def mux_handle_def main_listen_config_def Let_def)

lemma main_create_status:
  "main_create io c = Ret g \<Longrightarrow> gw_status g = Some sh \<Longrightarrow> sh_healthMonitor sh = None"
  by (auto simp: main_create_def outcome_Ret NewStatusHandler_def Let_def split: prod.splits)

lemma no_monitor_healthy:
  assumes "sh_healthMonitor sh = None"
  shows "\<exists>r. ServeHTTP env query sh = Ret r \<and> sr_code r = 200" "health_endpoint env sh = Ret (200, ''OK'')"
  using assms by (simp_all add: ServeHTTP_def health_endpoint_def getStatus_def component_values_def Let_def)


definition sample_env :: status_env where
  "sample_env = \<lparr>se_now = 5 * Second, se_hostname = ''h'', se_uptime = (\<lambda>_. []), se_rfc3339 = (\<lambda>_. []), se_systemInfo = []\<rparr>"

lemma main_create_ws_status:
  assumes "main_create io c = Ret g" and "service tc_EnableWebSocket c"
  obtains s sh where "gw_wsServer g = Some s" and "gw_status g = Some sh"
  using assms by (auto simp: main_create_def outcome_Ret create_ws_def Let_def split: prod.splits)


end
