(* ===== verification/Spec2Isabelle.thy ===== *)
theory Spec2Isabelle
  imports Goroutines RTP_Failover WebSocket_Goroutines AMI_Events Gateway_Logging Gateway_Metrics Gateway_HTTP
begin

text \<open>
  A verification library for the VoIP gateway under \<open>src/gateway\<close>, a Go program that stands between
  WebRTC clients and a SIP installation: WebSocket clients are paired with backends, SIP requests
  are routed to registered users, media sessions are set up on RTPEngine servers, call control
  goes to Asterisk over its manager interface (AMI), and several gateway instances elect a leader.

  \<^bold>\<open>Parts and theories.\<close> Names under \<open>pkg/\<close> are those of the source; a definition has the name of
  the function it models, with a prefix where two packages use the same name.

  \<^item> \<open>Gateway_Prelude\<close>: instants and durations, decimal notation and text, the outcome of a call
    (a value, an error, a panic, or blocking for ever), stored bytes, \<open>sync.Map\<close> behind the locale
    \<open>sync_map_spec\<close>, runs of calls, and the locales that several components share:
    \<open>functional_refinement\<close> (a run refines an abstract run), \<open>active_pool\<close> and \<open>failover_pool\<close>
    (a pool of members one of which is active), \<open>granted\<close> (what only some calls can bring about),
    \<open>fifo_channel\<close> (a bounded queue between two goroutines).
  \<^item> \<open>Circuit_Breaker\<close> (\<open>common/circuit_breaker.go\<close>): the record \<open>CircuitBreaker\<close> with its 32-bit
    and 64-bit counters and all its methods. Refinement of an abstract breaker with unbounded
    counters for runs of fewer than \<open>2^31\<close> calls; when it opens, how many probes it admits, the
    half-open state that it never leaves without a result, the wrap-around of its counter.
  \<^item> \<open>Goroutines\<close> (\<open>common/goroutine.go\<close>, \<open>common/context.go\<close>): the goroutine registry as a
    transition system over all interleavings; exact counters; what a successful \<open>Shutdown\<close> means.
  \<^item> \<open>Memory_Storage\<close>, \<open>Typed_Stores\<close>, \<open>Storage_Runs\<close>, \<open>Persistence\<close> (\<open>storage/storage.go\<close>,
    \<open>storage/memory.go\<close>): the sharded key-value store, the six typed stores, cleanup, and the
    persistence file with its failures. The sharded store refines one flat map with lazy expiry;
    counters equal table sizes over all runs; cleanup removes exactly the expired entries; a
    persisted storage comes back; \<open>getShard\<close> panics exactly on one hash value.
  \<^item> \<open>Coordinator_Model\<close>, \<open>Coordinator_Safety\<close> (\<open>coordinator/coordination.go\<close>): leases on the
    store and leader election of several instances. At most one leader up to one second when calls
    are atomic, the race when they are not, liveness of a lone instance, component leadership.
  \<^item> \<open>RTP_Engine\<close>, \<open>RTP_Manager\<close>, \<open>RTP_Failover\<close> (\<open>rtpengine/rtpengine.go\<close>,
    \<open>rtpengine/manager.go\<close>): the client of one RTPEngine (cookies, breaker, socket) and the manager
    of several. When a request succeeds; totality of the manager; which engines a failover tries.
  \<^item> \<open>AMI_Client\<close>, \<open>AMI_Events\<close>, \<open>AMI_Manager\<close>, \<open>AMI_Failover\<close> (\<open>ami/ami.go\<close>, \<open>ami/manager.go\<close>):
    messages on the wire, connecting with the channels that end the goroutines, the exchange
    between a sender and the reading goroutine, the queue of events and their handlers, the two
    pools of clients, and the replay of stored actions.
  \<^item> \<open>AMI_Proxy\<close> (\<open>ami/proxy.go\<close>): the AMI proxy server; who is authenticated and why.
  \<^item> \<open>SIP_Proxy\<close> (\<open>sip/proxy.go\<close>): the registry as a location service, the routing loop, and when
    \<open>HandleMessage\<close> forwards a request.
  \<^item> \<open>Domain_Rewrite\<close> (\<open>websocket/domainproxy.go\<close>): the rewriting of domains in SIP messages, over
    a matcher for the regular expressions of the Go library; what is left of the source domain, and
    which steps are redundant.
  \<^item> \<open>WebSocket_Server\<close>, \<open>WebSocket_Safety\<close> (\<open>websocket/server.go\<close>): handshakes, the table of
    connections, both readers of a client, backend failover, health. The table is exact over all
    runs; a failover that undoes itself; clients that leave but stay in the table; panics. The
    locale \<open>untouched\<close> carries the frame of the operations that neither open nor close.
  \<^item> \<open>WebSocket_Goroutines\<close> (\<open>handleClient\<close> and \<open>closeConnection\<close> of \<open>websocket/server.go\<close>): the four
    goroutines of one client as a transition system. They end within 17 steps of a close; the
    failover that a close sets off, and the connection it leaves open.
  \<^item> \<open>Health_Monitor\<close>, \<open>Health_Safety\<close> (\<open>health/health.go\<close>): the status of the components, the probes of
    the OpenSIPS backends and their failover, over the models of the AMI manager and the WebSocket
    server. What a check does on every branch; the failover history over all rounds; a lost
    Asterisk connection that is reported healthy; the status in the shared storage.
  \<^item> \<open>Status_API\<close> (\<open>api/status.go\<close>): the status endpoints, over interface values that keep their
    dynamic type; when they panic and what they answer.
  \<^item> \<open>Gateway_Config\<close> (\<open>config/config.go\<close>): the structs of the configuration, its defaults, durations
    in text, and the conversions for the managers.
  \<^item> \<open>Gateway_Logging\<close> (\<open>setupLogger\<close> of \<open>cmd/gateway/main.go\<close>, \<open>log/logging.go\<close>): where log lines go,
    over a model of the path functions of the Go library; the entries of the high-availability log.
  \<^item> \<open>Gateway_Metrics\<close> (\<open>metrics/metrics.go\<close>, \<open>common/metrics.go\<close>): every metric as the call it makes
    on its collector; each call fits the collector it is for.
  \<^item> \<open>Gateway_Main\<close>, \<open>Gateway_Safety\<close>, \<open>Gateway_HTTP\<close> (\<open>cmd/gateway/main.go\<close>, \<open>Start\<close> of the WebSocket
    server): the program put together from all the components. When it comes up; which storage it
    gets; that every gateway leads; well-formed configurations; what its HTTP server answers; what
    a shutdown leaves behind.

  \<^bold>\<open>How the code is modelled.\<close> A struct is a record, a method a function from the state to the new
  state and an outcome; an error return is \<open>Fail\<close>, a panic \<open>Panic\<close>, a lock that its own goroutine
  holds \<open>Blocked\<close>. The clock is read once per call and is an argument, as is all that the network,
  the file system, the SIP and the bencode libraries answer; no property assumes anything about
  them beyond what its hypotheses say. A loop over a ticker or a socket is its round, and runs are
  arbitrary sequences of such rounds and of calls (\<open>run_calls\<close>); where the interleaving within a
  call matters (the goroutine registry, the leader election race, the AMI exchange, the goroutines
  of a WebSocket client) the steps of the call are separate transitions. There is no fuel: every recursive definition is total, by
  structural recursion or by a measure (the input that a reader consumes, the matches of a regular
  expression), and retry loops carry their own bound.

  \<^bold>\<open>Simplifications.\<close> Calls of one component's methods are atomic unless said otherwise, so data
  races are out of reach. Iteration over a Go map is in the order of a list. Storage calls of other
  components keep the state that the storage returns and do not propagate its one panic (the
  property on \<open>getShard\<close> says when it occurs). Regular expressions and case folding are those of
  ASCII text. Times and durations do not overflow.

  \<^bold>\<open>Not modelled.\<close> The zap and Prometheus libraries: a logger is the list of its outputs, a metric the
  call on its collector. The listener of the SIP library. \<open>sip/sip.go\<close> only renames types of that library.
\<close>

end
